(* ===== verification/Prelude.thy ===== *)
theory Prelude
  imports Main "HOL-Library.Word" "HOL-Library.Char_ord" "HOL-Library.List_Lexorder"
    "HOL-Library.Sublist" "HOL-Library.Monad_Syntax"
begin

text \<open>
  Shared vocabulary of the development: results (an error on the left, a value on the right),
  Rust strings as UTF-8 byte strings with the operations of \<^verbatim>\<open>std\<close> the sources use, decimal
  numerals, and the generic lemmas on lists and results that the components share.

  A Rust \<^verbatim>\<open>str\<close> is modelled by the list of its UTF-8 bytes (type \<^typ>\<open>string\<close>, whose characters
  are bytes): \<^verbatim>\<open>len\<close> is \<^const>\<open>length\<close>, comparison is the byte-wise lexicographic order of
  \<^verbatim>\<open>List_Lexorder\<close>, and the operations that look at characters (\<^verbatim>\<open>chars\<close>, \<^verbatim>\<open>trim\<close>,
  \<^verbatim>\<open>is_whitespace\<close>) go through \<open>utf8_chars\<close>, which groups the bytes into scalars.
\<close>

section \<open>Collections of facts\<close>

named_theorems result_simps \<open>unfolding and inversion rules for results\<close>

section \<open>Results\<close>

definition rbind :: "'e + 'a \<Rightarrow> ('a \<Rightarrow> 'e + 'b) \<Rightarrow> 'e + 'b" where
  "rbind m f = (case m of Inl e \<Rightarrow> Inl e | Inr x \<Rightarrow> f x)"

definition map_err :: "('e \<Rightarrow> 'f) \<Rightarrow> 'e + 'a \<Rightarrow> 'f + 'a" where
  "map_err g m = (case m of Inl e \<Rightarrow> Inl (g e) | Inr x \<Rightarrow> Inr x)"

definition ok_or :: "'e \<Rightarrow> 'a option \<Rightarrow> 'e + 'a" where
  "ok_or e m = (case m of None \<Rightarrow> Inl e | Some x \<Rightarrow> Inr x)"

definition ok_opt :: "'e + 'a \<Rightarrow> 'a option" where
  "ok_opt m = (case m of Inl _ \<Rightarrow> None | Inr x \<Rightarrow> Some x)"

definition is_ok :: "'e + 'a \<Rightarrow> bool" where
  "is_ok m = (case m of Inl _ \<Rightarrow> False | Inr _ \<Rightarrow> True)"

text \<open>\<open>guard c e\<close> is the early return \<^verbatim>\<open>if !c { return Err(e) }\<close>.\<close>

definition guard :: "bool \<Rightarrow> 'e \<Rightarrow> 'e + unit" where
  "guard c e = (if c then Inr () else Inl e)"

text \<open>Collecting an iterator of results stops at the first error, as \<^verbatim>\<open>collect\<close> does.\<close>

fun rmap :: "('a \<Rightarrow> 'e + 'b) \<Rightarrow> 'a list \<Rightarrow> 'e + 'b list" where
  "rmap f [] = Inr []"
| "rmap f (x # xs) = rbind (f x) (\<lambda>y. rbind (rmap f xs) (\<lambda>ys. Inr (y # ys)))"

text \<open>A \<^verbatim>\<open>for\<close> loop whose body may return early with an error.\<close>

fun rall :: "('a \<Rightarrow> 'e + unit) \<Rightarrow> 'a list \<Rightarrow> 'e + unit" where
  "rall f [] = Inr ()"
| "rall f (x # xs) = rbind (f x) (\<lambda>_. rall f xs)"

lemma rbind_simps [simp, result_simps]:
  "rbind (Inl e) f = Inl e" "rbind (Inr x) f = f x"
  by (simp_all add: rbind_def)

lemma map_err_simps [simp, result_simps]:
  "map_err g (Inl e) = Inl (g e)" "map_err g (Inr x) = Inr x"
  by (simp_all add: map_err_def)

lemma ok_or_simps [simp, result_simps]:
  "ok_or e None = Inl e" "ok_or e (Some x) = Inr x"
  by (simp_all add: ok_or_def)

lemma ok_opt_simps [simp, result_simps]:
  "ok_opt (Inl e) = None" "ok_opt (Inr x) = Some x"
  by (simp_all add: ok_opt_def)

lemma is_ok_simps [simp, result_simps]:
  "\<not> is_ok (Inl e)" "is_ok (Inr x)"
  by (simp_all add: is_ok_def)

lemma is_ok_iff: "is_ok m \<longleftrightarrow> (\<exists>x. m = Inr x)"
  by (cases m) simp_all

lemma guard_simps [simp, result_simps]:
  "guard True e = Inr ()" "guard False e = Inl e"
  by (simp_all add: guard_def)

lemma guard_Inr_iff [simp, result_simps]: "guard c e = Inr u \<longleftrightarrow> c"
  by (simp add: guard_def)

lemma guard_Inl_iff [simp, result_simps]: "guard c e = Inl e' \<longleftrightarrow> \<not> c \<and> e' = e"
  by (auto simp: guard_def)

lemma rbind_Inr_iff [result_simps]: "rbind m f = Inr y \<longleftrightarrow> (\<exists>x. m = Inr x \<and> f x = Inr y)"
  by (cases m) simp_all

lemma rbind_Inl_iff [result_simps]:
  "rbind m f = Inl e \<longleftrightarrow> m = Inl e \<or> (\<exists>x. m = Inr x \<and> f x = Inl e)"
  by (cases m) simp_all

lemma map_err_Inr_iff [simp, result_simps]: "map_err g m = Inr y \<longleftrightarrow> m = Inr y"
  by (cases m) simp_all

lemma map_err_Inl_iff [result_simps]: "map_err g m = Inl e \<longleftrightarrow> (\<exists>e'. m = Inl e' \<and> e = g e')"
  by (cases m) auto

lemma ok_or_Inr_iff [simp, result_simps]: "ok_or e m = Inr x \<longleftrightarrow> m = Some x"
  by (cases m) simp_all

lemma ok_or_Inl_iff [simp, result_simps]: "ok_or e m = Inl e' \<longleftrightarrow> m = None \<and> e' = e"
  by (cases m) auto

lemma ok_opt_Some_iff [simp, result_simps]: "ok_opt m = Some x \<longleftrightarrow> m = Inr x"
  by (cases m) simp_all

lemma rbind_assoc: "rbind (rbind m f) g = rbind m (\<lambda>x. rbind (f x) g)"
  by (cases m) simp_all

lemma rmap_Inr_iff: "rmap f xs = Inr ys \<longleftrightarrow> list_all2 (\<lambda>x y. f x = Inr y) xs ys"
  by (induction xs arbitrary: ys) (auto simp: rbind_Inr_iff list_all2_Cons1)

lemma rall_Inr_iff: "rall f xs = Inr u \<longleftrightarrow> (\<forall>x\<in>set xs. f x = Inr ())"
  by (induction xs) (auto simp: rbind_Inr_iff)

lemma rall_InlD: "rall f xs = Inl e \<Longrightarrow> \<exists>x\<in>set xs. f x = Inl e"
  by (induction xs) (auto simp: rbind_Inl_iff)

lemma rmap_length: "rmap f xs = Inr ys \<Longrightarrow> length ys = length xs"
  by (auto simp: rmap_Inr_iff dest: list_all2_lengthD)

section \<open>Bytes and characters\<close>

abbreviation byte :: "char \<Rightarrow> nat" where
  "byte c \<equiv> of_char c"

definition is_ascii_digit :: "char \<Rightarrow> bool" where
  "is_ascii_digit c \<longleftrightarrow> 48 \<le> byte c \<and> byte c \<le> 57"

definition is_ascii_alphanumeric :: "char \<Rightarrow> bool" where
  "is_ascii_alphanumeric c \<longleftrightarrow> is_ascii_digit c \<or> (65 \<le> byte c \<and> byte c \<le> 90)
     \<or> (97 \<le> byte c \<and> byte c \<le> 122)"

definition is_ascii_graphic :: "char \<Rightarrow> bool" where
  "is_ascii_graphic c \<longleftrightarrow> 33 \<le> byte c \<and> byte c \<le> 126"

definition to_ascii_lowercase :: "char \<Rightarrow> char" where
  "to_ascii_lowercase c =
     (if 65 \<le> byte c \<and> byte c \<le> 90 then char_of (byte c + 32) else c)"

definition eq_ignore_ascii_case :: "string \<Rightarrow> string \<Rightarrow> bool" where
  "eq_ignore_ascii_case a b \<longleftrightarrow> map to_ascii_lowercase a = map to_ascii_lowercase b"

lemma eq_ignore_ascii_case_refl [simp]: "eq_ignore_ascii_case a a"
  by (simp add: eq_ignore_ascii_case_def)

lemma eq_ignore_ascii_case_sym: "eq_ignore_ascii_case a b \<longleftrightarrow> eq_ignore_ascii_case b a"
  by (auto simp: eq_ignore_ascii_case_def)

lemma eq_ignore_ascii_case_length: "eq_ignore_ascii_case a b \<Longrightarrow> length a = length b"
  unfolding eq_ignore_ascii_case_def by (metis length_map)

text \<open>UTF-8: a continuation byte never starts a scalar, and \<open>is_char_boundary\<close> is the check
  every byte-indexed slice of a \<^verbatim>\<open>str\<close> performs before it panics.\<close>

definition is_continuation :: "char \<Rightarrow> bool" where
  "is_continuation c \<longleftrightarrow> 128 \<le> byte c \<and> byte c < 192"

definition is_char_boundary :: "string \<Rightarrow> nat \<Rightarrow> bool" where
  "is_char_boundary s i \<longleftrightarrow>
     i = 0 \<or> i = length s \<or> (i < length s \<and> \<not> is_continuation (s ! i))"

definition str_get_to :: "string \<Rightarrow> nat \<Rightarrow> string option" where
  "str_get_to s n = (if n \<le> length s \<and> is_char_boundary s n then Some (take n s) else None)"

text \<open>\<open>str_from s n\<close> is the slicing expression \<^verbatim>\<open>&s[n..]\<close>: \<^const>\<open>None\<close> is the panic.\<close>

definition str_from :: "string \<Rightarrow> nat \<Rightarrow> string option" where
  "str_from s n = (if n \<le> length s \<and> is_char_boundary s n then Some (drop n s) else None)"

function utf8_chars :: "string \<Rightarrow> string list" where
  "utf8_chars [] = []"
| "utf8_chars (c # cs) =
     (c # takeWhile is_continuation cs) # utf8_chars (dropWhile is_continuation cs)"
  by pat_completeness auto
termination
  by (relation "measure length") (auto simp: length_dropWhile_le less_Suc_eq_le)

lemma concat_utf8_chars [simp]: "concat (utf8_chars s) = s"
  by (induction s rule: utf8_chars.induct) simp_all

text \<open>The scalars with the Unicode property \<^verbatim>\<open>White_Space\<close>, as \<^verbatim>\<open>char::is_whitespace\<close> lists them.\<close>

definition whitespace_chars :: "string list" where
  "whitespace_chars =
     map (map char_of)
      ([[9], [10], [11], [12], [13], [32], [194, 133], [194, 160], [225, 154, 128::nat]]
       @ map (\<lambda>n. [226, 128, n]) [128, 129, 130, 131, 132, 133, 134, 135, 136, 137, 138, 168, 169, 175]
       @ [[226, 129, 159], [227, 128, 128]])"

definition is_whitespace :: "string \<Rightarrow> bool" where
  "is_whitespace ch \<longleftrightarrow> ch \<in> set whitespace_chars"

definition trim :: "string \<Rightarrow> string" where
  "trim s = concat (rev (dropWhile is_whitespace (rev (dropWhile is_whitespace (utf8_chars s)))))"

lemma utf8_chars_ascii: "list_all is_ascii_graphic s \<Longrightarrow> utf8_chars s = map (\<lambda>c. [c]) s"
proof (induction s)
  case (Cons c s)
  have t: "takeWhile is_continuation s = [] \<and> dropWhile is_continuation s = s"
    using Cons.prems by (cases s) (auto simp: is_ascii_graphic_def is_continuation_def)
  with Cons show ?case by simp
qed simp

lemma graphic_not_whitespace: "is_ascii_graphic c \<Longrightarrow> \<not> is_whitespace [c]"
  by (auto simp: is_ascii_graphic_def is_whitespace_def whitespace_chars_def)

lemma trim_graphic: assumes "list_all is_ascii_graphic s" shows "trim s = s"
proof -
  have "dropWhile is_whitespace (map (\<lambda>c. [c]) t) = map (\<lambda>c. [c]) t" if "list_all is_ascii_graphic t" for t
    using that graphic_not_whitespace by (cases t) auto
  from this [OF assms] this [of "rev s"] assms show ?thesis
    by (simp add: trim_def utf8_chars_ascii rev_map [symmetric] list_all_rev)
qed

lemma no_whitespace_graphic:
  "list_all is_ascii_graphic s \<Longrightarrow> \<not> list_ex is_whitespace (utf8_chars s)"
  using graphic_not_whitespace by (auto simp: utf8_chars_ascii list_ex_iff list_all_iff)

section \<open>Splitting and stripping\<close>

definition strip_suffix :: "string \<Rightarrow> string \<Rightarrow> string option" where
  "strip_suffix suf s =
     (if suffix suf s then Some (take (length s - length suf) s) else None)"

definition strip_prefix :: "string \<Rightarrow> string \<Rightarrow> string option" where
  "strip_prefix pre s = (if prefix pre s then Some (drop (length pre) s) else None)"

lemma strip_suffix_Some_iff: "strip_suffix suf s = Some r \<longleftrightarrow> s = r @ suf"
  by (auto simp: strip_suffix_def suffix_def)

lemma strip_suffix_append [simp]: "strip_suffix suf (r @ suf) = Some r"
  by (simp add: strip_suffix_Some_iff)

lemma strip_suffix_None_iff: "strip_suffix suf s = None \<longleftrightarrow> \<not> suffix suf s"
  by (simp add: strip_suffix_def)

lemma strip_prefix_Some_iff: "strip_prefix pre s = Some r \<longleftrightarrow> s = pre @ r"
  by (auto simp: strip_prefix_def prefix_def)

text \<open>\<^verbatim>\<open>trim_end_matches\<close> removes the pattern as often as it ends the string.\<close>

function trim_end_matches :: "string \<Rightarrow> string \<Rightarrow> string" where
  "trim_end_matches suf s =
     (if suf \<noteq> [] \<and> suffix suf s
      then trim_end_matches suf (take (length s - length suf) s) else s)"
  by pat_completeness auto
termination
proof (relation "measure (\<lambda>(suf, s). length s)")
  fix suf s :: string
  assume "suf \<noteq> [] \<and> suffix suf s"
  then have "0 < length suf" "length suf \<le> length s"
    by (auto dest: suffix_length_le)
  then have "length s - length suf < length s" by linarith
  then show "((suf, take (length s - length suf) s), suf, s) \<in> measure (\<lambda>(suf, s). length s)"
    by simp
qed simp

declare trim_end_matches.simps [simp del]

definition split_once :: "char \<Rightarrow> string \<Rightarrow> (string \<times> string) option" where
  "split_once c s =
     (case dropWhile (\<lambda>x. x \<noteq> c) s of [] \<Rightarrow> None
      | _ # rest \<Rightarrow> Some (takeWhile (\<lambda>x. x \<noteq> c) s, rest))"

definition rsplit_once :: "char \<Rightarrow> string \<Rightarrow> (string \<times> string) option" where
  "rsplit_once c s =
     map_option (\<lambda>(b, a). (rev a, rev b)) (split_once c (rev s))"

lemma split_once_append: "c \<notin> set a \<Longrightarrow> split_once c (a @ c # b) = Some (a, b)"
  by (induction a) (auto simp: split_once_def split: list.splits)

lemma split_once_SomeD: "split_once c s = Some (a, b) \<Longrightarrow> s = a @ c # b \<and> c \<notin> set a"
proof -
  assume eq: "split_once c s = Some (a, b)"
  then obtain d where d: "dropWhile (\<lambda>x. x \<noteq> c) s = d # b" and a: "a = takeWhile (\<lambda>x. x \<noteq> c) s"
    by (auto simp: split_once_def split: list.splits)
  from d have "d = c" by (metis (mono_tags, lifting) dropWhile_eq_Cons_conv)
  with d a show ?thesis
    by (metis (mono_tags, lifting) set_takeWhileD takeWhile_dropWhile_id)
qed

lemma split_once_None_iff: "split_once c s = None \<longleftrightarrow> c \<notin> set s"
proof (cases "c \<in> set s")
  case True
  then obtain a b where "s = a @ c # b" "c \<notin> set a" by (meson split_list_first)
  then show ?thesis by (auto simp: split_once_append)
next
  case False
  then have d: "dropWhile (\<lambda>x. x \<noteq> c) s = []" by (auto simp: dropWhile_eq_Nil_conv)
  have "split_once c s = None" unfolding split_once_def d by simp
  with False show ?thesis by simp
qed

text \<open>\<^verbatim>\<open>split\<close> on a set of one-byte separators; the result is never empty.\<close>

fun split_on :: "(char \<Rightarrow> bool) \<Rightarrow> string \<Rightarrow> string list" where
  "split_on p [] = [[]]"
| "split_on p (c # cs) =
     (case split_on p cs of
        [] \<Rightarrow> [[c]]
      | seg # segs \<Rightarrow> if p c then [] # seg # segs else (c # seg) # segs)"

lemma split_on_not_Nil [simp]: "split_on p s \<noteq> []"
  by (induction s) (auto split: list.splits if_splits)

lemma split_on_segments: "seg \<in> set (split_on p s) \<Longrightarrow> c \<in> set seg \<Longrightarrow> \<not> p c"
  by (induction s arbitrary: seg) (force split: list.splits if_splits)+

definition contains_char :: "char \<Rightarrow> string \<Rightarrow> bool" where
  "contains_char c s \<longleftrightarrow> c \<in> set s"

text \<open>\<^verbatim>\<open>join\<close> of a slice of strings.\<close>

fun join_with :: "string \<Rightarrow> string list \<Rightarrow> string" where
  "join_with sep [] = []"
| "join_with sep [x] = x"
| "join_with sep (x # y # ys) = x @ sep @ join_with sep (y # ys)"

section \<open>Decimal numerals\<close>

definition digit :: "nat \<Rightarrow> char" where
  "digit d = char_of (48 + d mod 10)"

fun show_nat :: "nat \<Rightarrow> string" where
  "show_nat n = (if n < 10 then [digit n] else show_nat (n div 10) @ [digit n])"

declare show_nat.simps [simp del]

definition pad_left :: "nat \<Rightarrow> nat \<Rightarrow> string" where
  "pad_left w n = replicate (w - length (show_nat n)) (CHR ''0'') @ show_nat n"

definition digits_value :: "string \<Rightarrow> nat" where
  "digits_value s = foldl (\<lambda>a c. 10 * a + (byte c - 48)) 0 s"

lemma digit_byte: "byte (digit d) = 48 + d mod 10"
  by (simp add: digit_def)

lemma is_ascii_digit_digit [simp]: "is_ascii_digit (digit d)"
  using mod_less_divisor [of 10 d] by (simp add: is_ascii_digit_def digit_byte)

lemma show_nat_digits: "c \<in> set (show_nat n) \<Longrightarrow> is_ascii_digit c"
proof (induction n rule: show_nat.induct)
  case (1 n)
  then show ?case
    by (cases "n < 10") (auto simp: show_nat.simps [of n])
qed

lemma show_nat_not_Nil [simp]: "show_nat n \<noteq> []"
  by (subst show_nat.simps) simp

lemma digits_value_snoc: "digits_value (s @ [c]) = 10 * digits_value s + (byte c - 48)"
  by (simp add: digits_value_def)

lemma digits_value_show_nat [simp]: "digits_value (show_nat n) = n"
proof (induction n rule: show_nat.induct)
  case (1 n)
  show ?case
  proof (cases "n < 10")
    case True
    then show ?thesis by (simp add: show_nat.simps [of n] digits_value_def digit_byte)
  next
    case False
    with "1.IH" have "digits_value (show_nat (n div 10)) = n div 10" by simp
    with False show ?thesis
      by (simp add: show_nat.simps [of n] digits_value_snoc digit_byte)
  qed
qed

lemma show_nat_inject [simp]: "show_nat m = show_nat n \<longleftrightarrow> m = n"
  by (metis digits_value_show_nat)

text \<open>\<^verbatim>\<open>str::parse\<close> for the integer types: an optional sign, at least one digit, no overflow.\<close>

definition parse_digits :: "string \<Rightarrow> nat option" where
  "parse_digits s = (if s \<noteq> [] \<and> list_all is_ascii_digit s then Some (digits_value s) else None)"

definition parse_u64 :: "string \<Rightarrow> nat option" where
  "parse_u64 s =
     (case parse_digits (if prefix ''+'' s then drop 1 s else s) of
        None \<Rightarrow> None
      | Some n \<Rightarrow> if n < 2 ^ 64 then Some n else None)"

definition parse_i64 :: "string \<Rightarrow> int option" where
  "parse_i64 s =
     (let neg = prefix ''-'' s;
          body = (if prefix ''+'' s \<or> neg then drop 1 s else s)
      in case parse_digits body of
           None \<Rightarrow> None
         | Some n \<Rightarrow> (let v = (if neg then - int n else int n)
                     in if - (2 ^ 63) \<le> v \<and> v < 2 ^ 63 then Some v else None))"

lemma parse_digits_show_nat [simp]: "parse_digits (show_nat n) = Some n"
  by (auto simp: parse_digits_def list_all_iff dest: show_nat_digits)

lemma digit_not_sign: "is_ascii_digit c \<Longrightarrow> c \<noteq> CHR ''+'' \<and> c \<noteq> CHR ''-''"
  by (auto simp: is_ascii_digit_def)

lemma parse_u64_show_nat [simp]: "n < 2 ^ 64 \<Longrightarrow> parse_u64 (show_nat n) = Some n"
proof -
  assume "n < 2 ^ 64"
  moreover have "\<not> prefix ''+'' (show_nat n)"
    using show_nat_digits [of "hd (show_nat n)" n] digit_not_sign
    by (cases "show_nat n") auto
  ultimately show ?thesis by (simp add: parse_u64_def)
qed

section \<open>State machines\<close>

text \<open>A step relation, a start state and an invariant both of them respect.\<close>

locale machine =
  fixes step :: "'s \<Rightarrow> 's \<Rightarrow> bool"
    and start :: 's
    and inv :: "'s \<Rightarrow> bool"
  assumes inv_start: "inv start"
    and inv_step: "step s s' \<Longrightarrow> inv s \<Longrightarrow> inv s'"
begin

lemma reachable_inv: "step\<^sup>*\<^sup>* start s \<Longrightarrow> inv s"
  by (induction rule: rtranclp_induct) (auto intro: inv_start inv_step)

end

end
