(* ===== verification/Json.thy ===== *)
theory Json
  imports Prelude Complex_Main
begin

text \<open>
  JSON values as \<^verbatim>\<open>serde_json::Value\<close> holds them. An object is a \<^verbatim>\<open>BTreeMap\<close>: the list of its
  entries in strictly increasing key order, which the operations keep. A number is one of the three
  representations of \<^verbatim>\<open>serde_json::Number\<close>; a finite \<^verbatim>\<open>f64\<close> is the rational number it denotes.

  The second half models what \<^verbatim>\<open>#[derive(Deserialize)]\<close> documents for the struct declarations of
  \<^verbatim>\<open>src/models.rs\<close>: a struct is read from an object, or from an array that lists all its fields in
  order; an unknown key is refused under \<^verbatim>\<open>deny_unknown_fields\<close>; an absent or null \<^verbatim>\<open>Option\<close> is
  \<^verbatim>\<open>None\<close>. A struct is described by a specification, one predicate per field, and \<open>conforms\<close>
  states when a value deserialises.
\<close>

datatype number = PosInt "64 word" | NegInt int | Float rat

datatype json =
    Null
  | JBool bool
  | Num number
  | Str string
  | Arr "json list"
  | Obj "(string \<times> json) list"

section \<open>Objects\<close>

type_synonym 'v btree = "(string \<times> 'v) list"

fun obj_insert :: "string \<Rightarrow> 'v \<Rightarrow> 'v btree \<Rightarrow> 'v btree" where
  "obj_insert k v [] = [(k, v)]"
| "obj_insert k v ((k', v') # m) =
     (if k < k' then (k, v) # (k', v') # m
      else if k = k' then (k, v) # m
      else (k', v') # obj_insert k v m)"

definition obj_remove :: "string \<Rightarrow> 'v btree \<Rightarrow> 'v btree" where
  "obj_remove k m = filter (\<lambda>(k', _). k' \<noteq> k) m"

definition obj_keys :: "'v btree \<Rightarrow> string list" where
  "obj_keys m = map fst m"

definition obj_sorted :: "'v btree \<Rightarrow> bool" where
  "obj_sorted m \<longleftrightarrow> sorted_wrt (<) (map fst m)"

lemma map_of_obj_insert [simp]: "map_of (obj_insert k v m) = (map_of m)(k \<mapsto> v)"
  by (induction m) auto

lemma set_fst_obj_insert [simp]: "fst ` set (obj_insert k v m) = insert k (fst ` set m)"
  by (induction k v m rule: obj_insert.induct) (simp_all add: insert_commute)

lemma map_of_obj_remove [simp]: "map_of (obj_remove k m) = (map_of m)(k := None)"
  by (induction m) (auto simp: obj_remove_def)

lemma set_fst_obj_remove [simp]: "fst ` set (obj_remove k m) = fst ` set m - {k}"
  by (force simp: obj_remove_def)

lemma obj_sorted_Nil [simp]: "obj_sorted []"
  by (simp add: obj_sorted_def)

lemma obj_sorted_Cons: "obj_sorted ((k, v) # m) \<longleftrightarrow> (\<forall>k'\<in>fst ` set m. k < k') \<and> obj_sorted m"
  by (auto simp: obj_sorted_def)

lemma obj_sorted_insert: "obj_sorted m \<Longrightarrow> obj_sorted (obj_insert k v m)"
proof (induction m)
  case Nil
  then show ?case by (simp add: obj_sorted_def)
next
  case (Cons p m)
  obtain k' v' where p: "p = (k', v')" by (cases p)
  from Cons show ?case by (auto simp: p obj_sorted_Cons)
qed

lemma obj_sorted_remove: "obj_sorted m \<Longrightarrow> obj_sorted (obj_remove k m)"
  unfolding obj_sorted_def obj_remove_def
  by (induction m) auto

lemma obj_sorted_distinct: "obj_sorted m \<Longrightarrow> distinct (map fst m)"
  unfolding obj_sorted_def by (induction m) auto

lemma map_of_eq_None_notin: "map_of m k = None \<longleftrightarrow> k \<notin> fst ` set m"
  by (rule map_of_eq_None_iff)

text \<open>Sorted objects are determined by their lookups, so \<^verbatim>\<open>BTreeMap\<close> equality is list equality.\<close>

lemma obj_ext:
  assumes "obj_sorted m" "obj_sorted n" "map_of m = map_of n"
  shows "m = n"
  using assms
proof (induction m arbitrary: n)
  case Nil
  then have "map_of n = (\<lambda>_. None)" by simp
  then show ?case by (metis image_is_empty list.set(1) map_of_eq_empty_iff)
next
  case (Cons p m)
  obtain k v where p: "p = (k, v)" by (cases p)
  from Cons.prems(3) have "map_of n k = Some v" by (auto simp: p dest: fun_cong [of _ _ k])
  then obtain k' v' n' where n: "n = (k', v') # n'" by (cases n) auto
  have doms: "insert k (fst ` set m) = insert k' (fst ` set n')"
    using arg_cong [OF Cons.prems(3), of dom] unfolding p n
    by (simp only: dom_map_of_conv_image_fst list.set image_insert fst_conv)
  have lt: "\<forall>x\<in>fst ` set m. k < x" "\<forall>x\<in>fst ` set n'. k' < x"
    using Cons.prems by (auto simp: p n obj_sorted_Cons)
  have "k = k'"
  proof (rule ccontr)
    assume "k \<noteq> k'"
    with doms have "k \<in> fst ` set n'" "k' \<in> fst ` set m" by auto
    with lt show False by fastforce
  qed
  moreover from this \<open>map_of n k = Some v\<close> have "v = v'" by (simp add: n)
  moreover have "map_of m = map_of n'"
  proof
    fix x
    have notin: "map_of m k = None" "map_of n' k = None"
      using lt \<open>k = k'\<close> unfolding map_of_eq_None_iff by auto
    show "map_of m x = map_of n' x"
    proof (cases "x = k")
      case True
      with notin show ?thesis by simp
    next
      case False
      then show ?thesis using fun_cong [OF Cons.prems(3), of x] \<open>k = k'\<close> by (simp add: p n)
    qed
  qed
  ultimately show ?case using Cons by (simp add: p n obj_sorted_Cons)
qed

section \<open>Accessors of a value\<close>

definition get :: "json \<Rightarrow> string \<Rightarrow> json option" where
  "get v k = (case v of Obj m \<Rightarrow> map_of m k | _ \<Rightarrow> None)"

definition as_object :: "json \<Rightarrow> json btree option" where
  "as_object v = (case v of Obj m \<Rightarrow> Some m | _ \<Rightarrow> None)"

definition as_array :: "json \<Rightarrow> json list option" where
  "as_array v = (case v of Arr vs \<Rightarrow> Some vs | _ \<Rightarrow> None)"

definition as_str :: "json \<Rightarrow> string option" where
  "as_str v = (case v of Str s \<Rightarrow> Some s | _ \<Rightarrow> None)"

definition as_u64 :: "json \<Rightarrow> 64 word option" where
  "as_u64 v = (case v of Num (PosInt n) \<Rightarrow> Some n | _ \<Rightarrow> None)"

definition is_null :: "json \<Rightarrow> bool" where
  "is_null v \<longleftrightarrow> v = Null"

definition is_string :: "json \<Rightarrow> bool" where
  "is_string v \<longleftrightarrow> (\<exists>s. v = Str s)"

definition get_str :: "json \<Rightarrow> string \<Rightarrow> string option" where
  "get_str v k = Option.bind (get v k) as_str"

text \<open>\<open>on_object f v\<close> is \<^verbatim>\<open>if let Some(object) = v.as_object_mut()\<close>.\<close>

definition on_object :: "(json btree \<Rightarrow> json btree) \<Rightarrow> json \<Rightarrow> json" where
  "on_object f v = (case v of Obj m \<Rightarrow> Obj (f m) | _ \<Rightarrow> v)"

definition set_field :: "string \<Rightarrow> json \<Rightarrow> json \<Rightarrow> json" where
  "set_field k x v = on_object (obj_insert k x) v"

definition required_string :: "json \<Rightarrow> string \<Rightarrow> string option" where
  "required_string v k =
     (case get_str v k of Some s \<Rightarrow> if s \<noteq> [] then Some s else None | None \<Rightarrow> None)"

lemma get_Obj [simp]: "get (Obj m) k = map_of m k"
  by (simp add: get_def)

lemma as_simps [simp]:
  "as_object (Obj m) = Some m" "as_array (Arr vs) = Some vs" "as_str (Str s) = Some s"
  "as_u64 (Num (PosInt n)) = Some n"
  by (simp_all add: as_object_def as_array_def as_str_def as_u64_def)

lemma as_str_Some_iff [simp]: "as_str v = Some s \<longleftrightarrow> v = Str s"
  by (auto simp: as_str_def split: json.splits)

lemma as_array_Some_iff [simp]: "as_array v = Some vs \<longleftrightarrow> v = Arr vs"
  by (auto simp: as_array_def split: json.splits)

lemma as_object_Some_iff [simp]: "as_object v = Some m \<longleftrightarrow> v = Obj m"
  by (auto simp: as_object_def split: json.splits)

lemma is_string_code [code]: "is_string v = (case v of Str _ \<Rightarrow> True | _ \<Rightarrow> False)"
  by (auto simp: is_string_def split: json.splits)

lemma is_string_simps [simp]:
  "is_string (Str s)" "\<not> is_string Null" "\<not> is_string (Arr vs)" "\<not> is_string (Obj m)"
  "\<not> is_string (Num n)" "\<not> is_string (JBool b)"
  by (simp_all add: is_string_def)

lemma get_on_object: "get (on_object f v) k = (case v of Obj m \<Rightarrow> map_of (f m) k | _ \<Rightarrow> None)"
  by (simp add: get_def on_object_def split: json.splits)

lemma on_object_Obj [simp]: "on_object f (Obj m) = Obj (f m)"
  by (simp add: on_object_def)

lemma set_field_Obj [simp]: "set_field k x (Obj m) = Obj (obj_insert k x m)"
  by (simp add: set_field_def)

lemma get_str_Some_iff: "get_str v k = Some s \<longleftrightarrow> get v k = Some (Str s)"
  by (auto simp: get_str_def Option.bind_eq_Some_conv)

lemma required_string_Some_iff:
  "required_string v k = Some s \<longleftrightarrow> get v k = Some (Str s) \<and> s \<noteq> []"
  by (cases "get_str v k") (auto simp: required_string_def get_str_Some_iff [symmetric])

section \<open>Deserialisation of struct declarations\<close>

text \<open>\<open>struct_view\<close> yields the lookup of a field by name: from an object, or positionally from an
  array.\<close>

definition struct_view :: "bool \<Rightarrow> string list \<Rightarrow> json \<Rightarrow> (string \<Rightarrow> json option) option" where
  "struct_view deny names v = (case v of
       Obj m \<Rightarrow> if deny \<and> \<not> set (obj_keys m) \<subseteq> set names then None else Some (map_of m)
     | Arr vs \<Rightarrow> if length vs = length names then Some (map_of (zip names vs)) else None
     | _ \<Rightarrow> None)"

definition req :: "(json \<Rightarrow> 'a option) \<Rightarrow> json option \<Rightarrow> 'a option" where
  "req dec a = Option.bind a dec"

definition opt :: "(json \<Rightarrow> 'a option) \<Rightarrow> json option \<Rightarrow> 'a option option" where
  "opt dec a = (case a of
       None \<Rightarrow> Some None
     | Some v \<Rightarrow> if v = Null then Some None else map_option Some (dec v))"

definition dec_str :: "json \<Rightarrow> string option" where
  "dec_str v = as_str v"

definition dec_bool :: "json \<Rightarrow> bool option" where
  "dec_bool v = (case v of JBool b \<Rightarrow> Some b | _ \<Rightarrow> None)"

definition dec_u64 :: "json \<Rightarrow> 64 word option" where
  "dec_u64 v = as_u64 v"

text \<open>An integer read as \<^verbatim>\<open>f64\<close> is rounded to 53 significant bits, ties to even.\<close>

fun bit_length :: "nat \<Rightarrow> nat" where
  "bit_length n = (if n = 0 then 0 else Suc (bit_length (n div 2)))"

declare bit_length.simps [simp del]

definition f64_of_nat :: "nat \<Rightarrow> rat" where
  "f64_of_nat m =
     (if m < 2 ^ 53 then of_nat m
      else let e = bit_length m - 53; q = m div 2 ^ e; r = m mod 2 ^ e; half = 2 ^ (e - 1)
           in of_nat ((if half < r \<or> (r = half \<and> odd q) then q + 1 else q) * 2 ^ e))"

definition dec_f64 :: "json \<Rightarrow> rat option" where
  "dec_f64 v = (case v of
       Num (Float x) \<Rightarrow> Some x
     | Num (PosInt n) \<Rightarrow> Some (f64_of_nat (unat n))
     | Num (NegInt i) \<Rightarrow> Some (- f64_of_nat (nat (- i)))
     | _ \<Rightarrow> None)"

definition dec_vec :: "(json \<Rightarrow> 'a option) \<Rightarrow> json \<Rightarrow> 'a list option" where
  "dec_vec dec v = (case v of Arr vs \<Rightarrow> those (map dec vs) | _ \<Rightarrow> None)"

definition dec_map :: "(json \<Rightarrow> 'a option) \<Rightarrow> json \<Rightarrow> 'a btree option" where
  "dec_map dec v = (case v of
       Obj m \<Rightarrow> those (map (\<lambda>(k, x). map_option (Pair k) (dec x)) m)
     | _ \<Rightarrow> None)"

definition enc_map :: "('a \<Rightarrow> json) \<Rightarrow> 'a btree \<Rightarrow> json" where
  "enc_map enc m = Obj (map (map_prod id enc) m)"

text \<open>Serialisation of a struct: the fields present, in key order.\<close>

definition struct_obj :: "(string \<times> json option) list \<Rightarrow> json" where
  "struct_obj fs =
     Obj (foldr (\<lambda>(k, v) m. case v of None \<Rightarrow> m | Some x \<Rightarrow> obj_insert k x m) fs [])"

lemma map_of_struct_obj:
  "distinct (map fst fs) \<Longrightarrow>
   map_of (foldr (\<lambda>(k, v) m. case v of None \<Rightarrow> m | Some x \<Rightarrow> obj_insert k x m) fs []) k =
   (case map_of fs k of None \<Rightarrow> None | Some v \<Rightarrow> v)"
proof (induction fs)
  case (Cons p fs)
  obtain k' v where p: "p = (k', v)" by (cases p)
  have "map_of fs k' = None" using Cons.prems by (simp add: p map_of_eq_None_iff)
  with Cons show ?case by (auto simp: p split: option.splits)
qed simp

lemma keys_struct_obj:
  "fst ` set (foldr (\<lambda>(k, v) m. case v of None \<Rightarrow> m | Some x \<Rightarrow> obj_insert k x m) fs [])
     \<subseteq> fst ` set fs"
proof (induction fs)
  case (Cons p fs)
  obtain k v where p: "p = (k, v)" by (cases p)
  from Cons show ?case by (cases v) (simp_all only: p foldr.simps o_apply prod.case option.case
      set_fst_obj_insert list.set image_insert fst_conv insert_mono subset_insertI2)
qed simp

lemma struct_view_struct_obj:
  assumes "distinct (map fst fs)" "map fst fs = names"
  shows "struct_view deny names (struct_obj fs) =
    Some (\<lambda>k. case map_of fs k of None \<Rightarrow> None | Some v \<Rightarrow> v)"
proof -
  let ?m = "foldr (\<lambda>(k, v) m. case v of None \<Rightarrow> m | Some x \<Rightarrow> obj_insert k x m) fs []"
  have "set (obj_keys ?m) \<subseteq> set names"
    unfolding obj_keys_def set_map assms(2) [symmetric] by (rule keys_struct_obj)
  moreover have "map_of ?m = (\<lambda>k. case map_of fs k of None \<Rightarrow> None | Some v \<Rightarrow> v)"
    by (rule ext) (rule map_of_struct_obj [OF assms(1)])
  ultimately show ?thesis unfolding struct_view_def struct_obj_def json.case
    by (simp only: simp_thms if_False)
qed

lemma struct_obj_sorted: "obj_sorted
    (foldr (\<lambda>(k, v) m. case v of None \<Rightarrow> m | Some x \<Rightarrow> obj_insert k x m) fs [])"
  by (induction fs) (auto intro: obj_sorted_insert split: option.splits)

lemma those_map_Some: "(\<And>x. x \<in> set xs \<Longrightarrow> dec (enc x) = Some x) \<Longrightarrow> those (map (\<lambda>x. dec (enc x)) xs) = Some xs"
  by (induction xs) simp_all

lemma dec_vec_roundtrip:
  "(\<And>x. dec (enc x) = Some x) \<Longrightarrow> dec_vec dec (Arr (map enc xs)) = Some xs"
  using those_map_Some [of xs dec enc] by (simp add: dec_vec_def o_def)

lemma dec_map_roundtrip:
  "(\<And>x. dec (enc x) = Some x) \<Longrightarrow> dec_map dec (enc_map enc m) = Some m"
  by (induction m) (auto simp: dec_map_def enc_map_def)

lemma dec_prim_roundtrip [simp]:
  "dec_str (Str s) = Some s" "dec_bool (JBool b) = Some b" "dec_u64 (Num (PosInt n)) = Some n"
  "dec_f64 (Num (Float x)) = Some x"
  by (simp_all add: dec_str_def dec_bool_def dec_u64_def dec_f64_def)

lemma req_Some [simp]: "req dec (Some v) = dec v"
  by (simp add: req_def)

lemma req_None [simp]: "req dec None = None"
  by (simp add: req_def)

lemma opt_None [simp]: "opt dec None = Some None"
  by (simp add: opt_def)

lemma opt_Null [simp]: "opt dec (Some Null) = Some None"
  by (simp add: opt_def)

lemma opt_map_option:
  "(\<And>x. dec (enc x) = Some x) \<Longrightarrow> (\<And>x. enc x \<noteq> Null) \<Longrightarrow> opt dec (map_option enc a) = Some a"
  by (cases a) (simp_all add: opt_def)

lemma those_Some_iff: "those xs = Some ys \<longleftrightarrow> xs = map Some ys"
  by (induction xs arbitrary: ys) (auto split: option.splits)

section \<open>Specifications of struct declarations\<close>

text \<open>A field accepts an absent or present value; a struct conforms when its view exists and every
  field accepts what the view yields.\<close>

type_synonym field_spec = "string \<times> (json option \<Rightarrow> bool)"

definition conforms :: "bool \<Rightarrow> field_spec list \<Rightarrow> json \<Rightarrow> bool" where
  "conforms deny spec v \<longleftrightarrow>
     (case struct_view deny (map fst spec) v of
        None \<Rightarrow> False
      | Some look \<Rightarrow> list_all (\<lambda>(k, p). p (look k)) spec)"

definition f_req :: "(json \<Rightarrow> 'a option) \<Rightarrow> json option \<Rightarrow> bool" where
  "f_req dec a \<longleftrightarrow> req dec a \<noteq> None"

definition f_opt :: "(json \<Rightarrow> 'a option) \<Rightarrow> json option \<Rightarrow> bool" where
  "f_opt dec a \<longleftrightarrow> opt dec a \<noteq> None"

lemma f_opt_None [simp]: "f_opt dec None" "f_opt dec (Some Null)"
  by (simp_all add: f_opt_def)

lemma f_req_simps: "\<not> f_req dec None" "f_req dec (Some v) \<longleftrightarrow> dec v \<noteq> None"
  by (simp_all add: f_req_def)

lemma conforms_Obj:
  "conforms deny spec (Obj m) \<longleftrightarrow>
     (deny \<longrightarrow> fst ` set m \<subseteq> fst ` set spec) \<and> (\<forall>(k, p) \<in> set spec. p (map_of m k))"
  by (auto simp: conforms_def struct_view_def obj_keys_def list_all_iff)

text \<open>The fields of a conforming object are independent: replacing one by a value its own field
  accepts keeps the object conforming.\<close>

lemma conforms_insert:
  assumes "conforms deny spec (Obj m)" "distinct (map fst spec)" "(k, p) \<in> set spec" "p (Some x)"
  shows "conforms deny spec (Obj (obj_insert k x m))"
proof -
  have "p' = p" if "(k, p') \<in> set spec" for p'
    using that assms(2,3) by (meson eq_key_imp_eq_value)
  moreover have "p' (map_of m k')" if "(k', p') \<in> set spec" for k' p'
    using assms(1) that by (auto simp: conforms_Obj)
  moreover have "k \<in> fst ` set spec" using assms(3) by (rule image_eqI [rotated]) simp
  ultimately show ?thesis
    using assms(1,4) by (simp add: conforms_Obj case_prod_unfold) (metis prod.collapse)
qed

lemma conforms_remove:
  assumes "conforms deny spec (Obj m)" "distinct (map fst spec)" "(k, p) \<in> set spec" "p None"
  shows "conforms deny spec (Obj (obj_remove k m))"
proof -
  have "p' = p" if "(k, p') \<in> set spec" for p'
    using that assms(2,3) by (meson eq_key_imp_eq_value)
  moreover have "p' (map_of m k')" if "(k', p') \<in> set spec" for k' p'
    using assms(1) that by (auto simp: conforms_Obj)
  ultimately show ?thesis
    using assms(1,4) by (simp add: conforms_Obj case_prod_unfold) (metis Diff_subset prod.collapse subset_trans)
qed

lemma conforms_field:
  "conforms deny spec (Obj m) \<Longrightarrow> (k, p) \<in> set spec \<Longrightarrow> p (map_of m k)"
  by (auto simp: conforms_Obj)

end
