(* ===== verification/Models.thy ===== *)
theory Models
  imports Json
begin

text \<open>
  The stored documents of \<^verbatim>\<open>src/models.rs\<close>. Each struct is a record with the fields of the source
  (prefixed, since record selectors share one name space), and three definitions follow what its
  serde attributes say:

    \<^item> \<open>S_spec\<close> lists the JSON keys (\<^verbatim>\<open>rename_all = "camelCase"\<close>) with what each key accepts, a
      required value for a plain field, an optional one for an \<^verbatim>\<open>Option\<close>;
    \<^item> \<open>S_to_value\<close> is \<^verbatim>\<open>Serialize\<close>, which skips an \<^verbatim>\<open>Option\<close> that is \<^verbatim>\<open>None\<close>;
    \<^item> \<open>S_from_value\<close> is \<^verbatim>\<open>Deserialize\<close>, refusing unknown keys where the struct says
      \<^verbatim>\<open>deny_unknown_fields\<close>.

  For each struct the file proves that reading back what was written gives the same record
  (\<open>S_roundtrip\<close>), and that a value deserialises exactly when it conforms to the specification
  (\<open>S_from_value_iff\<close>), which is what the services' document checks are stated with.
\<close>

named_theorems model_simps \<open>round trips of the encoders\<close>
named_theorems decode_simps \<open>when a chain of field decoders succeeds\<close>

definition enc_u64 :: "64 word \<Rightarrow> json" where
  "enc_u64 n = Num (PosInt n)"

definition enc_f64 :: "rat \<Rightarrow> json" where
  "enc_f64 x = Num (Float x)"

definition enc_vec :: "('a \<Rightarrow> json) \<Rightarrow> 'a list \<Rightarrow> json" where
  "enc_vec enc xs = Arr (map enc xs)"

lemma enc_not_Null [simp]:
  "enc_u64 n \<noteq> Null" "enc_f64 x \<noteq> Null" "enc_vec e xs \<noteq> Null" "enc_map e m \<noteq> Null"
  "struct_obj fs \<noteq> Null"
  by (simp_all add: enc_u64_def enc_f64_def enc_vec_def enc_map_def struct_obj_def)

lemma enc_prim_roundtrip [simp]:
  "dec_u64 (enc_u64 n) = Some n" "dec_f64 (enc_f64 x) = Some x"
  by (simp_all add: enc_u64_def enc_f64_def)

lemma enc_vec_roundtrip [model_simps]:
  "(\<And>x. dec (enc x) = Some x) \<Longrightarrow> dec_vec dec (enc_vec enc xs) = Some xs"
  by (simp add: enc_vec_def dec_vec_roundtrip)

lemmas [model_simps] = dec_map_roundtrip opt_map_option

lemma bind_not_None [decode_simps]:
  "(\<exists>y. Option.bind a f = Some y) \<longleftrightarrow> (\<exists>x. a = Some x \<and> (\<exists>y. f x = Some y))"
  by (cases a) simp_all

lemma field_decodes [decode_simps]:
  "f_req dec a \<longleftrightarrow> (\<exists>x. req dec a = Some x)" "f_opt dec a \<longleftrightarrow> (\<exists>x. opt dec a = Some x)"
  by (simp_all add: f_req_def f_opt_def)

section \<open>Stored documents\<close>

subsection \<open>Attachment\<close>

record Attachment =
  att_filename :: "string"
  att_original_name :: "string"
  att_mime_type :: "string"
  att_size :: "rat"
  att_uploaded_at :: "string option"

definition Attachment_spec :: "field_spec list" where
  "Attachment_spec =
    [(''filename'', f_req dec_str),
     (''originalName'', f_req dec_str),
     (''mimeType'', f_req dec_str),
     (''size'', f_req dec_f64),
     (''uploadedAt'', f_opt dec_str)]"

definition Attachment_to_value :: "Attachment \<Rightarrow> json" where
  "Attachment_to_value x = struct_obj
    [(''filename'', Some (Str (att_filename x))),
     (''originalName'', Some (Str (att_original_name x))),
     (''mimeType'', Some (Str (att_mime_type x))),
     (''size'', Some (enc_f64 (att_size x))),
     (''uploadedAt'', map_option Str (att_uploaded_at x))]"

definition Attachment_from_value :: "json \<Rightarrow> Attachment option" where
  "Attachment_from_value v = do {
     look \<leftarrow> struct_view True (map fst Attachment_spec) v;
     x0 \<leftarrow> req dec_str (look ''filename'');
     x1 \<leftarrow> req dec_str (look ''originalName'');
     x2 \<leftarrow> req dec_str (look ''mimeType'');
     x3 \<leftarrow> req dec_f64 (look ''size'');
     x4 \<leftarrow> opt dec_str (look ''uploadedAt'');
     Some \<lparr>att_filename = x0, att_original_name = x1, att_mime_type = x2, att_size = x3, att_uploaded_at = x4\<rparr>
   }"

lemma Attachment_names_distinct [simp]: "distinct (map fst Attachment_spec)"
  by (simp add: Attachment_spec_def)

lemma Attachment_roundtrip [model_simps]: "Attachment_from_value (Attachment_to_value x) = Some x"
  unfolding Attachment_from_value_def Attachment_to_value_def
  by (subst struct_view_struct_obj) (simp_all add: Attachment_spec_def model_simps)

lemma Attachment_from_value_iff: "Attachment_from_value v \<noteq> None \<longleftrightarrow> conforms True Attachment_spec v"
  unfolding Attachment_from_value_def conforms_def Attachment_spec_def
  by (cases "struct_view True (map fst Attachment_spec) v") (auto simp: Attachment_spec_def decode_simps)

subsection \<open>StepAttachment\<close>

record StepAttachment =
  satt_filename :: "string"
  satt_original_name :: "string"
  satt_mime_type :: "string"
  satt_size :: "rat"

definition StepAttachment_spec :: "field_spec list" where
  "StepAttachment_spec =
    [(''filename'', f_req dec_str),
     (''originalName'', f_req dec_str),
     (''mimeType'', f_req dec_str),
     (''size'', f_req dec_f64)]"

definition StepAttachment_to_value :: "StepAttachment \<Rightarrow> json" where
  "StepAttachment_to_value x = struct_obj
    [(''filename'', Some (Str (satt_filename x))),
     (''originalName'', Some (Str (satt_original_name x))),
     (''mimeType'', Some (Str (satt_mime_type x))),
     (''size'', Some (enc_f64 (satt_size x)))]"

definition StepAttachment_from_value :: "json \<Rightarrow> StepAttachment option" where
  "StepAttachment_from_value v = do {
     look \<leftarrow> struct_view True (map fst StepAttachment_spec) v;
     x0 \<leftarrow> req dec_str (look ''filename'');
     x1 \<leftarrow> req dec_str (look ''originalName'');
     x2 \<leftarrow> req dec_str (look ''mimeType'');
     x3 \<leftarrow> req dec_f64 (look ''size'');
     Some \<lparr>satt_filename = x0, satt_original_name = x1, satt_mime_type = x2, satt_size = x3\<rparr>
   }"

lemma StepAttachment_names_distinct [simp]: "distinct (map fst StepAttachment_spec)"
  by (simp add: StepAttachment_spec_def)

lemma StepAttachment_roundtrip [model_simps]: "StepAttachment_from_value (StepAttachment_to_value x) = Some x"
  unfolding StepAttachment_from_value_def StepAttachment_to_value_def
  by (subst struct_view_struct_obj) (simp_all add: StepAttachment_spec_def model_simps)

lemma StepAttachment_from_value_iff: "StepAttachment_from_value v \<noteq> None \<longleftrightarrow> conforms True StepAttachment_spec v"
  unfolding StepAttachment_from_value_def conforms_def StepAttachment_spec_def
  by (cases "struct_view True (map fst StepAttachment_spec) v") (auto simp: StepAttachment_spec_def decode_simps)

subsection \<open>TestStep\<close>

record TestStep =
  step_action :: "string"
  step_expected_result :: "string option"
  step_attachments :: "(StepAttachment list) option"

definition TestStep_spec :: "field_spec list" where
  "TestStep_spec =
    [(''action'', f_req dec_str),
     (''expectedResult'', f_opt dec_str),
     (''attachments'', f_opt (dec_vec StepAttachment_from_value))]"

definition TestStep_to_value :: "TestStep \<Rightarrow> json" where
  "TestStep_to_value x = struct_obj
    [(''action'', Some (Str (step_action x))),
     (''expectedResult'', map_option Str (step_expected_result x)),
     (''attachments'', map_option (enc_vec StepAttachment_to_value) (step_attachments x))]"

definition TestStep_from_value :: "json \<Rightarrow> TestStep option" where
  "TestStep_from_value v = do {
     look \<leftarrow> struct_view True (map fst TestStep_spec) v;
     x0 \<leftarrow> req dec_str (look ''action'');
     x1 \<leftarrow> opt dec_str (look ''expectedResult'');
     x2 \<leftarrow> opt (dec_vec StepAttachment_from_value) (look ''attachments'');
     Some \<lparr>step_action = x0, step_expected_result = x1, step_attachments = x2\<rparr>
   }"

lemma TestStep_names_distinct [simp]: "distinct (map fst TestStep_spec)"
  by (simp add: TestStep_spec_def)

lemma TestStep_roundtrip [model_simps]: "TestStep_from_value (TestStep_to_value x) = Some x"
  unfolding TestStep_from_value_def TestStep_to_value_def
  by (subst struct_view_struct_obj) (simp_all add: TestStep_spec_def model_simps)

lemma TestStep_from_value_iff: "TestStep_from_value v \<noteq> None \<longleftrightarrow> conforms True TestStep_spec v"
  unfolding TestStep_from_value_def conforms_def TestStep_spec_def
  by (cases "struct_view True (map fst TestStep_spec) v") (auto simp: TestStep_spec_def decode_simps)

subsection \<open>TestCaseStep\<close>

text \<open>\<^verbatim>\<open>#[serde(untagged)]\<close>: the first variant that reads wins.\<close>

datatype TestCaseStep = Simple string | Structured TestStep

fun TestCaseStep_to_value :: "TestCaseStep \<Rightarrow> json" where
  "TestCaseStep_to_value (Simple s) = Str s"
| "TestCaseStep_to_value (Structured t) = TestStep_to_value t"

definition TestCaseStep_from_value :: "json \<Rightarrow> TestCaseStep option" where
  "TestCaseStep_from_value v = (case dec_str v of
       Some s \<Rightarrow> Some (Simple s)
     | None \<Rightarrow> map_option Structured (TestStep_from_value v))"

lemma TestCaseStep_roundtrip [model_simps]:
  "TestCaseStep_from_value (TestCaseStep_to_value x) = Some x"
proof (cases x)
  case (Structured t)
  have "dec_str (TestStep_to_value t) = None"
    by (simp add: dec_str_def as_str_def TestStep_to_value_def struct_obj_def)
  with Structured show ?thesis by (simp add: TestCaseStep_from_value_def TestStep_roundtrip)
qed (simp add: TestCaseStep_from_value_def)

subsection \<open>DefectLink\<close>

record DefectLink =
  dl_link_id :: "string"
  dl_defect_id :: "string"
  dl_defect_url :: "string"
  dl_tracker_type :: "string"
  dl_title :: "string option"
  dl_status :: "string option"
  dl_linked_at :: "string"

definition DefectLink_spec :: "field_spec list" where
  "DefectLink_spec =
    [(''linkId'', f_req dec_str),
     (''defectId'', f_req dec_str),
     (''defectUrl'', f_req dec_str),
     (''trackerType'', f_req dec_str),
     (''title'', f_opt dec_str),
     (''status'', f_opt dec_str),
     (''linkedAt'', f_req dec_str)]"

definition DefectLink_to_value :: "DefectLink \<Rightarrow> json" where
  "DefectLink_to_value x = struct_obj
    [(''linkId'', Some (Str (dl_link_id x))),
     (''defectId'', Some (Str (dl_defect_id x))),
     (''defectUrl'', Some (Str (dl_defect_url x))),
     (''trackerType'', Some (Str (dl_tracker_type x))),
     (''title'', map_option Str (dl_title x)),
     (''status'', map_option Str (dl_status x)),
     (''linkedAt'', Some (Str (dl_linked_at x)))]"

definition DefectLink_from_value :: "json \<Rightarrow> DefectLink option" where
  "DefectLink_from_value v = do {
     look \<leftarrow> struct_view True (map fst DefectLink_spec) v;
     x0 \<leftarrow> req dec_str (look ''linkId'');
     x1 \<leftarrow> req dec_str (look ''defectId'');
     x2 \<leftarrow> req dec_str (look ''defectUrl'');
     x3 \<leftarrow> req dec_str (look ''trackerType'');
     x4 \<leftarrow> opt dec_str (look ''title'');
     x5 \<leftarrow> opt dec_str (look ''status'');
     x6 \<leftarrow> req dec_str (look ''linkedAt'');
     Some \<lparr>dl_link_id = x0, dl_defect_id = x1, dl_defect_url = x2, dl_tracker_type = x3, dl_title = x4, dl_status = x5, dl_linked_at = x6\<rparr>
   }"

lemma DefectLink_names_distinct [simp]: "distinct (map fst DefectLink_spec)"
  by (simp add: DefectLink_spec_def)

lemma DefectLink_roundtrip [model_simps]: "DefectLink_from_value (DefectLink_to_value x) = Some x"
  unfolding DefectLink_from_value_def DefectLink_to_value_def
  by (subst struct_view_struct_obj) (simp_all add: DefectLink_spec_def model_simps)

lemma DefectLink_from_value_iff: "DefectLink_from_value v \<noteq> None \<longleftrightarrow> conforms True DefectLink_spec v"
  unfolding DefectLink_from_value_def conforms_def DefectLink_spec_def
  by (cases "struct_view True (map fst DefectLink_spec) v") (auto simp: DefectLink_spec_def decode_simps)

subsection \<open>TestCase\<close>

record TestCase =
  tc_test_case_id :: "string"
  tc_title :: "string"
  tc_description :: "string option"
  tc_preconditions :: "string option"
  tc_steps :: "(TestCaseStep list) option"
  tc_expected_result :: "string"
  tc_priority :: "string option"
  tc_severity :: "string option"
  tc_test_type :: "string option"
  tc_exploratory :: "bool option"
  tc_attachments :: "(Attachment list) option"
  tc_tags :: "(string list) option"
  tc_version :: "(64 word) option"
  tc_last_modified :: "string option"
  tc_defect_links :: "(DefectLink list) option"

definition TestCase_spec :: "field_spec list" where
  "TestCase_spec =
    [(''testCaseId'', f_req dec_str),
     (''title'', f_req dec_str),
     (''description'', f_opt dec_str),
     (''preconditions'', f_opt dec_str),
     (''steps'', f_opt (dec_vec TestCaseStep_from_value)),
     (''expectedResult'', f_req dec_str),
     (''priority'', f_opt dec_str),
     (''severity'', f_opt dec_str),
     (''testType'', f_opt dec_str),
     (''exploratory'', f_opt dec_bool),
     (''attachments'', f_opt (dec_vec Attachment_from_value)),
     (''tags'', f_opt (dec_vec dec_str)),
     (''version'', f_opt dec_u64),
     (''lastModified'', f_opt dec_str),
     (''defectLinks'', f_opt (dec_vec DefectLink_from_value))]"

definition TestCase_to_value :: "TestCase \<Rightarrow> json" where
  "TestCase_to_value x = struct_obj
    [(''testCaseId'', Some (Str (tc_test_case_id x))),
     (''title'', Some (Str (tc_title x))),
     (''description'', map_option Str (tc_description x)),
     (''preconditions'', map_option Str (tc_preconditions x)),
     (''steps'', map_option (enc_vec TestCaseStep_to_value) (tc_steps x)),
     (''expectedResult'', Some (Str (tc_expected_result x))),
     (''priority'', map_option Str (tc_priority x)),
     (''severity'', map_option Str (tc_severity x)),
     (''testType'', map_option Str (tc_test_type x)),
     (''exploratory'', map_option JBool (tc_exploratory x)),
     (''attachments'', map_option (enc_vec Attachment_to_value) (tc_attachments x)),
     (''tags'', map_option (enc_vec Str) (tc_tags x)),
     (''version'', map_option enc_u64 (tc_version x)),
     (''lastModified'', map_option Str (tc_last_modified x)),
     (''defectLinks'', map_option (enc_vec DefectLink_to_value) (tc_defect_links x))]"

definition TestCase_from_value :: "json \<Rightarrow> TestCase option" where
  "TestCase_from_value v = do {
     look \<leftarrow> struct_view True (map fst TestCase_spec) v;
     x0 \<leftarrow> req dec_str (look ''testCaseId'');
     x1 \<leftarrow> req dec_str (look ''title'');
     x2 \<leftarrow> opt dec_str (look ''description'');
     x3 \<leftarrow> opt dec_str (look ''preconditions'');
     x4 \<leftarrow> opt (dec_vec TestCaseStep_from_value) (look ''steps'');
     x5 \<leftarrow> req dec_str (look ''expectedResult'');
     x6 \<leftarrow> opt dec_str (look ''priority'');
     x7 \<leftarrow> opt dec_str (look ''severity'');
     x8 \<leftarrow> opt dec_str (look ''testType'');
     x9 \<leftarrow> opt dec_bool (look ''exploratory'');
     x10 \<leftarrow> opt (dec_vec Attachment_from_value) (look ''attachments'');
     x11 \<leftarrow> opt (dec_vec dec_str) (look ''tags'');
     x12 \<leftarrow> opt dec_u64 (look ''version'');
     x13 \<leftarrow> opt dec_str (look ''lastModified'');
     x14 \<leftarrow> opt (dec_vec DefectLink_from_value) (look ''defectLinks'');
     Some \<lparr>tc_test_case_id = x0, tc_title = x1, tc_description = x2, tc_preconditions = x3, tc_steps = x4, tc_expected_result = x5, tc_priority = x6, tc_severity = x7, tc_test_type = x8, tc_exploratory = x9, tc_attachments = x10, tc_tags = x11, tc_version = x12, tc_last_modified = x13, tc_defect_links = x14\<rparr>
   }"

lemma TestCase_names_distinct [simp]: "distinct (map fst TestCase_spec)"
  by (simp add: TestCase_spec_def)

lemma TestCase_roundtrip [model_simps]: "TestCase_from_value (TestCase_to_value x) = Some x"
  unfolding TestCase_from_value_def TestCase_to_value_def
  by (subst struct_view_struct_obj) (simp_all add: TestCase_spec_def model_simps)

lemma TestCase_from_value_iff: "TestCase_from_value v \<noteq> None \<longleftrightarrow> conforms True TestCase_spec v"
  unfolding TestCase_from_value_def conforms_def TestCase_spec_def
  by (cases "struct_view True (map fst TestCase_spec) v") (auto simp: TestCase_spec_def decode_simps)

subsection \<open>TestSuite\<close>

record TestSuite =
  ts_suite_id :: "string"
  ts_name :: "string"
  ts_description :: "string option"
  ts_test_cases :: "TestCase list"
  ts_tags :: "(string list) option"

definition TestSuite_spec :: "field_spec list" where
  "TestSuite_spec =
    [(''suiteId'', f_req dec_str),
     (''name'', f_req dec_str),
     (''description'', f_opt dec_str),
     (''testCases'', f_req (dec_vec TestCase_from_value)),
     (''tags'', f_opt (dec_vec dec_str))]"

definition TestSuite_to_value :: "TestSuite \<Rightarrow> json" where
  "TestSuite_to_value x = struct_obj
    [(''suiteId'', Some (Str (ts_suite_id x))),
     (''name'', Some (Str (ts_name x))),
     (''description'', map_option Str (ts_description x)),
     (''testCases'', Some (enc_vec TestCase_to_value (ts_test_cases x))),
     (''tags'', map_option (enc_vec Str) (ts_tags x))]"

definition TestSuite_from_value :: "json \<Rightarrow> TestSuite option" where
  "TestSuite_from_value v = do {
     look \<leftarrow> struct_view True (map fst TestSuite_spec) v;
     x0 \<leftarrow> req dec_str (look ''suiteId'');
     x1 \<leftarrow> req dec_str (look ''name'');
     x2 \<leftarrow> opt dec_str (look ''description'');
     x3 \<leftarrow> req (dec_vec TestCase_from_value) (look ''testCases'');
     x4 \<leftarrow> opt (dec_vec dec_str) (look ''tags'');
     Some \<lparr>ts_suite_id = x0, ts_name = x1, ts_description = x2, ts_test_cases = x3, ts_tags = x4\<rparr>
   }"

lemma TestSuite_names_distinct [simp]: "distinct (map fst TestSuite_spec)"
  by (simp add: TestSuite_spec_def)

lemma TestSuite_roundtrip [model_simps]: "TestSuite_from_value (TestSuite_to_value x) = Some x"
  unfolding TestSuite_from_value_def TestSuite_to_value_def
  by (subst struct_view_struct_obj) (simp_all add: TestSuite_spec_def model_simps)

lemma TestSuite_from_value_iff: "TestSuite_from_value v \<noteq> None \<longleftrightarrow> conforms True TestSuite_spec v"
  unfolding TestSuite_from_value_def conforms_def TestSuite_spec_def
  by (cases "struct_view True (map fst TestSuite_spec) v") (auto simp: TestSuite_spec_def decode_simps)

subsection \<open>Project\<close>

record Project =
  pr_project_id :: "string"
  pr_name :: "string"
  pr_description :: "string option"
  pr_test_suites :: "TestSuite list"
  pr_tags :: "(string list) option"

definition Project_spec :: "field_spec list" where
  "Project_spec =
    [(''projectId'', f_req dec_str),
     (''name'', f_req dec_str),
     (''description'', f_opt dec_str),
     (''testSuites'', f_req (dec_vec TestSuite_from_value)),
     (''tags'', f_opt (dec_vec dec_str))]"

definition Project_to_value :: "Project \<Rightarrow> json" where
  "Project_to_value x = struct_obj
    [(''projectId'', Some (Str (pr_project_id x))),
     (''name'', Some (Str (pr_name x))),
     (''description'', map_option Str (pr_description x)),
     (''testSuites'', Some (enc_vec TestSuite_to_value (pr_test_suites x))),
     (''tags'', map_option (enc_vec Str) (pr_tags x))]"

definition Project_from_value :: "json \<Rightarrow> Project option" where
  "Project_from_value v = do {
     look \<leftarrow> struct_view True (map fst Project_spec) v;
     x0 \<leftarrow> req dec_str (look ''projectId'');
     x1 \<leftarrow> req dec_str (look ''name'');
     x2 \<leftarrow> opt dec_str (look ''description'');
     x3 \<leftarrow> req (dec_vec TestSuite_from_value) (look ''testSuites'');
     x4 \<leftarrow> opt (dec_vec dec_str) (look ''tags'');
     Some \<lparr>pr_project_id = x0, pr_name = x1, pr_description = x2, pr_test_suites = x3, pr_tags = x4\<rparr>
   }"

lemma Project_names_distinct [simp]: "distinct (map fst Project_spec)"
  by (simp add: Project_spec_def)

lemma Project_roundtrip [model_simps]: "Project_from_value (Project_to_value x) = Some x"
  unfolding Project_from_value_def Project_to_value_def
  by (subst struct_view_struct_obj) (simp_all add: Project_spec_def model_simps)

lemma Project_from_value_iff: "Project_from_value v \<noteq> None \<longleftrightarrow> conforms True Project_spec v"
  unfolding Project_from_value_def conforms_def Project_spec_def
  by (cases "struct_view True (map fst Project_spec) v") (auto simp: Project_spec_def decode_simps)

subsection \<open>DefectLinkRequest\<close>

record DefectLinkRequest =
  dlr_defect_id :: "string"
  dlr_defect_url :: "string"
  dlr_tracker_type :: "string"
  dlr_title :: "string option"
  dlr_status :: "string option"

definition DefectLinkRequest_spec :: "field_spec list" where
  "DefectLinkRequest_spec =
    [(''defectId'', f_req dec_str),
     (''defectUrl'', f_req dec_str),
     (''trackerType'', f_req dec_str),
     (''title'', f_opt dec_str),
     (''status'', f_opt dec_str)]"

definition DefectLinkRequest_to_value :: "DefectLinkRequest \<Rightarrow> json" where
  "DefectLinkRequest_to_value x = struct_obj
    [(''defectId'', Some (Str (dlr_defect_id x))),
     (''defectUrl'', Some (Str (dlr_defect_url x))),
     (''trackerType'', Some (Str (dlr_tracker_type x))),
     (''title'', map_option Str (dlr_title x)),
     (''status'', map_option Str (dlr_status x))]"

definition DefectLinkRequest_from_value :: "json \<Rightarrow> DefectLinkRequest option" where
  "DefectLinkRequest_from_value v = do {
     look \<leftarrow> struct_view True (map fst DefectLinkRequest_spec) v;
     x0 \<leftarrow> req dec_str (look ''defectId'');
     x1 \<leftarrow> req dec_str (look ''defectUrl'');
     x2 \<leftarrow> req dec_str (look ''trackerType'');
     x3 \<leftarrow> opt dec_str (look ''title'');
     x4 \<leftarrow> opt dec_str (look ''status'');
     Some \<lparr>dlr_defect_id = x0, dlr_defect_url = x1, dlr_tracker_type = x2, dlr_title = x3, dlr_status = x4\<rparr>
   }"

lemma DefectLinkRequest_names_distinct [simp]: "distinct (map fst DefectLinkRequest_spec)"
  by (simp add: DefectLinkRequest_spec_def)

lemma DefectLinkRequest_roundtrip [model_simps]: "DefectLinkRequest_from_value (DefectLinkRequest_to_value x) = Some x"
  unfolding DefectLinkRequest_from_value_def DefectLinkRequest_to_value_def
  by (subst struct_view_struct_obj) (simp_all add: DefectLinkRequest_spec_def model_simps)

lemma DefectLinkRequest_from_value_iff: "DefectLinkRequest_from_value v \<noteq> None \<longleftrightarrow> conforms True DefectLinkRequest_spec v"
  unfolding DefectLinkRequest_from_value_def conforms_def DefectLinkRequest_spec_def
  by (cases "struct_view True (map fst DefectLinkRequest_spec) v") (auto simp: DefectLinkRequest_spec_def decode_simps)

subsection \<open>TestCaseResult\<close>

record TestCaseResult =
  tcr_test_case_id :: "string"
  tcr_status :: "string"
  tcr_timestamp :: "string"
  tcr_notes :: "string option"
  tcr_duration_ms :: "(64 word) option"
  tcr_attachments :: "(Attachment list) option"
  tcr_defect_links :: "(DefectLink list) option"

definition TestCaseResult_spec :: "field_spec list" where
  "TestCaseResult_spec =
    [(''testCaseId'', f_req dec_str),
     (''status'', f_req dec_str),
     (''timestamp'', f_req dec_str),
     (''notes'', f_opt dec_str),
     (''durationMs'', f_opt dec_u64),
     (''attachments'', f_opt (dec_vec Attachment_from_value)),
     (''defectLinks'', f_opt (dec_vec DefectLink_from_value))]"

definition TestCaseResult_to_value :: "TestCaseResult \<Rightarrow> json" where
  "TestCaseResult_to_value x = struct_obj
    [(''testCaseId'', Some (Str (tcr_test_case_id x))),
     (''status'', Some (Str (tcr_status x))),
     (''timestamp'', Some (Str (tcr_timestamp x))),
     (''notes'', map_option Str (tcr_notes x)),
     (''durationMs'', map_option enc_u64 (tcr_duration_ms x)),
     (''attachments'', map_option (enc_vec Attachment_to_value) (tcr_attachments x)),
     (''defectLinks'', map_option (enc_vec DefectLink_to_value) (tcr_defect_links x))]"

definition TestCaseResult_from_value :: "json \<Rightarrow> TestCaseResult option" where
  "TestCaseResult_from_value v = do {
     look \<leftarrow> struct_view True (map fst TestCaseResult_spec) v;
     x0 \<leftarrow> req dec_str (look ''testCaseId'');
     x1 \<leftarrow> req dec_str (look ''status'');
     x2 \<leftarrow> req dec_str (look ''timestamp'');
     x3 \<leftarrow> opt dec_str (look ''notes'');
     x4 \<leftarrow> opt dec_u64 (look ''durationMs'');
     x5 \<leftarrow> opt (dec_vec Attachment_from_value) (look ''attachments'');
     x6 \<leftarrow> opt (dec_vec DefectLink_from_value) (look ''defectLinks'');
     Some \<lparr>tcr_test_case_id = x0, tcr_status = x1, tcr_timestamp = x2, tcr_notes = x3, tcr_duration_ms = x4, tcr_attachments = x5, tcr_defect_links = x6\<rparr>
   }"

lemma TestCaseResult_names_distinct [simp]: "distinct (map fst TestCaseResult_spec)"
  by (simp add: TestCaseResult_spec_def)

lemma TestCaseResult_roundtrip [model_simps]: "TestCaseResult_from_value (TestCaseResult_to_value x) = Some x"
  unfolding TestCaseResult_from_value_def TestCaseResult_to_value_def
  by (subst struct_view_struct_obj) (simp_all add: TestCaseResult_spec_def model_simps)

lemma TestCaseResult_from_value_iff: "TestCaseResult_from_value v \<noteq> None \<longleftrightarrow> conforms True TestCaseResult_spec v"
  unfolding TestCaseResult_from_value_def conforms_def TestCaseResult_spec_def
  by (cases "struct_view True (map fst TestCaseResult_spec) v") (auto simp: TestCaseResult_spec_def decode_simps)

subsection \<open>TestConfiguration\<close>

record TestConfiguration =
  cfg_config_id :: "string"
  cfg_name :: "string"
  cfg_browser :: "string option"
  cfg_os :: "string option"
  cfg_device :: "string option"
  cfg_resolution :: "string option"

definition TestConfiguration_spec :: "field_spec list" where
  "TestConfiguration_spec =
    [(''configId'', f_req dec_str),
     (''name'', f_req dec_str),
     (''browser'', f_opt dec_str),
     (''os'', f_opt dec_str),
     (''device'', f_opt dec_str),
     (''resolution'', f_opt dec_str)]"

definition TestConfiguration_to_value :: "TestConfiguration \<Rightarrow> json" where
  "TestConfiguration_to_value x = struct_obj
    [(''configId'', Some (Str (cfg_config_id x))),
     (''name'', Some (Str (cfg_name x))),
     (''browser'', map_option Str (cfg_browser x)),
     (''os'', map_option Str (cfg_os x)),
     (''device'', map_option Str (cfg_device x)),
     (''resolution'', map_option Str (cfg_resolution x))]"

definition TestConfiguration_from_value :: "json \<Rightarrow> TestConfiguration option" where
  "TestConfiguration_from_value v = do {
     look \<leftarrow> struct_view True (map fst TestConfiguration_spec) v;
     x0 \<leftarrow> req dec_str (look ''configId'');
     x1 \<leftarrow> req dec_str (look ''name'');
     x2 \<leftarrow> opt dec_str (look ''browser'');
     x3 \<leftarrow> opt dec_str (look ''os'');
     x4 \<leftarrow> opt dec_str (look ''device'');
     x5 \<leftarrow> opt dec_str (look ''resolution'');
     Some \<lparr>cfg_config_id = x0, cfg_name = x1, cfg_browser = x2, cfg_os = x3, cfg_device = x4, cfg_resolution = x5\<rparr>
   }"

lemma TestConfiguration_names_distinct [simp]: "distinct (map fst TestConfiguration_spec)"
  by (simp add: TestConfiguration_spec_def)

lemma TestConfiguration_roundtrip [model_simps]: "TestConfiguration_from_value (TestConfiguration_to_value x) = Some x"
  unfolding TestConfiguration_from_value_def TestConfiguration_to_value_def
  by (subst struct_view_struct_obj) (simp_all add: TestConfiguration_spec_def model_simps)

lemma TestConfiguration_from_value_iff: "TestConfiguration_from_value v \<noteq> None \<longleftrightarrow> conforms True TestConfiguration_spec v"
  unfolding TestConfiguration_from_value_def conforms_def TestConfiguration_spec_def
  by (cases "struct_view True (map fst TestConfiguration_spec) v") (auto simp: TestConfiguration_spec_def decode_simps)

subsection \<open>TestRun\<close>

record TestRun =
  run_test_run_id :: "string"
  run_timestamp :: "string"
  run_name :: "string option"
  run_projects :: "(Project list) option"
  run_test_suites :: "(TestSuite list) option"
  run_test_cases :: "(TestCase list) option"
  run_results :: "(TestCaseResult list) option"
  run_tags :: "(string list) option"
  run_configurations :: "(TestConfiguration list) option"
  run_case_versions :: "((64 word) btree) option"
  run_source_workflow_id :: "string option"

definition TestRun_spec :: "field_spec list" where
  "TestRun_spec =
    [(''testRunId'', f_req dec_str),
     (''timestamp'', f_req dec_str),
     (''name'', f_opt dec_str),
     (''projects'', f_opt (dec_vec Project_from_value)),
     (''testSuites'', f_opt (dec_vec TestSuite_from_value)),
     (''testCases'', f_opt (dec_vec TestCase_from_value)),
     (''results'', f_opt (dec_vec TestCaseResult_from_value)),
     (''tags'', f_opt (dec_vec dec_str)),
     (''configurations'', f_opt (dec_vec TestConfiguration_from_value)),
     (''caseVersions'', f_opt (dec_map dec_u64)),
     (''sourceWorkflowId'', f_opt dec_str)]"

definition TestRun_to_value :: "TestRun \<Rightarrow> json" where
  "TestRun_to_value x = struct_obj
    [(''testRunId'', Some (Str (run_test_run_id x))),
     (''timestamp'', Some (Str (run_timestamp x))),
     (''name'', map_option Str (run_name x)),
     (''projects'', map_option (enc_vec Project_to_value) (run_projects x)),
     (''testSuites'', map_option (enc_vec TestSuite_to_value) (run_test_suites x)),
     (''testCases'', map_option (enc_vec TestCase_to_value) (run_test_cases x)),
     (''results'', map_option (enc_vec TestCaseResult_to_value) (run_results x)),
     (''tags'', map_option (enc_vec Str) (run_tags x)),
     (''configurations'', map_option (enc_vec TestConfiguration_to_value) (run_configurations x)),
     (''caseVersions'', map_option (enc_map enc_u64) (run_case_versions x)),
     (''sourceWorkflowId'', map_option Str (run_source_workflow_id x))]"

definition TestRun_from_value :: "json \<Rightarrow> TestRun option" where
  "TestRun_from_value v = do {
     look \<leftarrow> struct_view True (map fst TestRun_spec) v;
     x0 \<leftarrow> req dec_str (look ''testRunId'');
     x1 \<leftarrow> req dec_str (look ''timestamp'');
     x2 \<leftarrow> opt dec_str (look ''name'');
     x3 \<leftarrow> opt (dec_vec Project_from_value) (look ''projects'');
     x4 \<leftarrow> opt (dec_vec TestSuite_from_value) (look ''testSuites'');
     x5 \<leftarrow> opt (dec_vec TestCase_from_value) (look ''testCases'');
     x6 \<leftarrow> opt (dec_vec TestCaseResult_from_value) (look ''results'');
     x7 \<leftarrow> opt (dec_vec dec_str) (look ''tags'');
     x8 \<leftarrow> opt (dec_vec TestConfiguration_from_value) (look ''configurations'');
     x9 \<leftarrow> opt (dec_map dec_u64) (look ''caseVersions'');
     x10 \<leftarrow> opt dec_str (look ''sourceWorkflowId'');
     Some \<lparr>run_test_run_id = x0, run_timestamp = x1, run_name = x2, run_projects = x3, run_test_suites = x4, run_test_cases = x5, run_results = x6, run_tags = x7, run_configurations = x8, run_case_versions = x9, run_source_workflow_id = x10\<rparr>
   }"

lemma TestRun_names_distinct [simp]: "distinct (map fst TestRun_spec)"
  by (simp add: TestRun_spec_def)

lemma TestRun_roundtrip [model_simps]: "TestRun_from_value (TestRun_to_value x) = Some x"
  unfolding TestRun_from_value_def TestRun_to_value_def
  by (subst struct_view_struct_obj) (simp_all add: TestRun_spec_def model_simps)

lemma TestRun_from_value_iff: "TestRun_from_value v \<noteq> None \<longleftrightarrow> conforms True TestRun_spec v"
  unfolding TestRun_from_value_def conforms_def TestRun_spec_def
  by (cases "struct_view True (map fst TestRun_spec) v") (auto simp: TestRun_spec_def decode_simps)

subsection \<open>Milestone\<close>

record Milestone =
  ms_milestone_id :: "string"
  ms_name :: "string"
  ms_description :: "string option"
  ms_start_date :: "string option"
  ms_target_date :: "string option"
  ms_status :: "string option"
  ms_test_suite_ids :: "(string list) option"
  ms_test_run_ids :: "(string list) option"

definition Milestone_spec :: "field_spec list" where
  "Milestone_spec =
    [(''milestoneId'', f_req dec_str),
     (''name'', f_req dec_str),
     (''description'', f_opt dec_str),
     (''startDate'', f_opt dec_str),
     (''targetDate'', f_opt dec_str),
     (''status'', f_opt dec_str),
     (''testSuiteIds'', f_opt (dec_vec dec_str)),
     (''testRunIds'', f_opt (dec_vec dec_str))]"

definition Milestone_to_value :: "Milestone \<Rightarrow> json" where
  "Milestone_to_value x = struct_obj
    [(''milestoneId'', Some (Str (ms_milestone_id x))),
     (''name'', Some (Str (ms_name x))),
     (''description'', map_option Str (ms_description x)),
     (''startDate'', map_option Str (ms_start_date x)),
     (''targetDate'', map_option Str (ms_target_date x)),
     (''status'', map_option Str (ms_status x)),
     (''testSuiteIds'', map_option (enc_vec Str) (ms_test_suite_ids x)),
     (''testRunIds'', map_option (enc_vec Str) (ms_test_run_ids x))]"

definition Milestone_from_value :: "json \<Rightarrow> Milestone option" where
  "Milestone_from_value v = do {
     look \<leftarrow> struct_view True (map fst Milestone_spec) v;
     x0 \<leftarrow> req dec_str (look ''milestoneId'');
     x1 \<leftarrow> req dec_str (look ''name'');
     x2 \<leftarrow> opt dec_str (look ''description'');
     x3 \<leftarrow> opt dec_str (look ''startDate'');
     x4 \<leftarrow> opt dec_str (look ''targetDate'');
     x5 \<leftarrow> opt dec_str (look ''status'');
     x6 \<leftarrow> opt (dec_vec dec_str) (look ''testSuiteIds'');
     x7 \<leftarrow> opt (dec_vec dec_str) (look ''testRunIds'');
     Some \<lparr>ms_milestone_id = x0, ms_name = x1, ms_description = x2, ms_start_date = x3, ms_target_date = x4, ms_status = x5, ms_test_suite_ids = x6, ms_test_run_ids = x7\<rparr>
   }"

lemma Milestone_names_distinct [simp]: "distinct (map fst Milestone_spec)"
  by (simp add: Milestone_spec_def)

lemma Milestone_roundtrip [model_simps]: "Milestone_from_value (Milestone_to_value x) = Some x"
  unfolding Milestone_from_value_def Milestone_to_value_def
  by (subst struct_view_struct_obj) (simp_all add: Milestone_spec_def model_simps)

lemma Milestone_from_value_iff: "Milestone_from_value v \<noteq> None \<longleftrightarrow> conforms True Milestone_spec v"
  unfolding Milestone_from_value_def conforms_def Milestone_spec_def
  by (cases "struct_view True (map fst Milestone_spec) v") (auto simp: Milestone_spec_def decode_simps)

subsection \<open>WorkflowStep\<close>

record WorkflowStep =
  wfs_test_case_id :: "string option"
  wfs_suite_id :: "string option"

definition WorkflowStep_spec :: "field_spec list" where
  "WorkflowStep_spec =
    [(''testCaseId'', f_opt dec_str),
     (''suiteId'', f_opt dec_str)]"

definition WorkflowStep_to_value :: "WorkflowStep \<Rightarrow> json" where
  "WorkflowStep_to_value x = struct_obj
    [(''testCaseId'', map_option Str (wfs_test_case_id x)),
     (''suiteId'', map_option Str (wfs_suite_id x))]"

definition WorkflowStep_from_value :: "json \<Rightarrow> WorkflowStep option" where
  "WorkflowStep_from_value v = do {
     look \<leftarrow> struct_view False (map fst WorkflowStep_spec) v;
     x0 \<leftarrow> opt dec_str (look ''testCaseId'');
     x1 \<leftarrow> opt dec_str (look ''suiteId'');
     Some \<lparr>wfs_test_case_id = x0, wfs_suite_id = x1\<rparr>
   }"

lemma WorkflowStep_names_distinct [simp]: "distinct (map fst WorkflowStep_spec)"
  by (simp add: WorkflowStep_spec_def)

lemma WorkflowStep_roundtrip [model_simps]: "WorkflowStep_from_value (WorkflowStep_to_value x) = Some x"
  unfolding WorkflowStep_from_value_def WorkflowStep_to_value_def
  by (subst struct_view_struct_obj) (simp_all add: WorkflowStep_spec_def model_simps)

lemma WorkflowStep_from_value_iff: "WorkflowStep_from_value v \<noteq> None \<longleftrightarrow> conforms False WorkflowStep_spec v"
  unfolding WorkflowStep_from_value_def conforms_def WorkflowStep_spec_def
  by (cases "struct_view False (map fst WorkflowStep_spec) v") (auto simp: WorkflowStep_spec_def decode_simps)

subsection \<open>Workflow\<close>

record Workflow =
  wf_workflow_id :: "string"
  wf_name :: "string"
  wf_description :: "string option"
  wf_steps :: "WorkflowStep list"
  wf_tags :: "(string list) option"

definition Workflow_spec :: "field_spec list" where
  "Workflow_spec =
    [(''workflowId'', f_req dec_str),
     (''name'', f_req dec_str),
     (''description'', f_opt dec_str),
     (''steps'', f_req (dec_vec WorkflowStep_from_value)),
     (''tags'', f_opt (dec_vec dec_str))]"

definition Workflow_to_value :: "Workflow \<Rightarrow> json" where
  "Workflow_to_value x = struct_obj
    [(''workflowId'', Some (Str (wf_workflow_id x))),
     (''name'', Some (Str (wf_name x))),
     (''description'', map_option Str (wf_description x)),
     (''steps'', Some (enc_vec WorkflowStep_to_value (wf_steps x))),
     (''tags'', map_option (enc_vec Str) (wf_tags x))]"

definition Workflow_from_value :: "json \<Rightarrow> Workflow option" where
  "Workflow_from_value v = do {
     look \<leftarrow> struct_view False (map fst Workflow_spec) v;
     x0 \<leftarrow> req dec_str (look ''workflowId'');
     x1 \<leftarrow> req dec_str (look ''name'');
     x2 \<leftarrow> opt dec_str (look ''description'');
     x3 \<leftarrow> req (dec_vec WorkflowStep_from_value) (look ''steps'');
     x4 \<leftarrow> opt (dec_vec dec_str) (look ''tags'');
     Some \<lparr>wf_workflow_id = x0, wf_name = x1, wf_description = x2, wf_steps = x3, wf_tags = x4\<rparr>
   }"

lemma Workflow_names_distinct [simp]: "distinct (map fst Workflow_spec)"
  by (simp add: Workflow_spec_def)

lemma Workflow_roundtrip [model_simps]: "Workflow_from_value (Workflow_to_value x) = Some x"
  unfolding Workflow_from_value_def Workflow_to_value_def
  by (subst struct_view_struct_obj) (simp_all add: Workflow_spec_def model_simps)

lemma Workflow_from_value_iff: "Workflow_from_value v \<noteq> None \<longleftrightarrow> conforms False Workflow_spec v"
  unfolding Workflow_from_value_def conforms_def Workflow_spec_def
  by (cases "struct_view False (map fst Workflow_spec) v") (auto simp: Workflow_spec_def decode_simps)

section \<open>Answers the service derives\<close>

text \<open>These documents are written to clients and never read back.\<close>

record ImportCounts =
  ic_passed :: "nat"
  ic_failed :: "nat"
  ic_blocked :: "nat"

record ImportSummary =
  is_imported :: "nat"
  is_skipped :: "nat"
  is_errors :: "nat"
  is_duplicates :: "nat"
  is_summary :: "ImportCounts"

record MilestoneProgress =
  mp_milestone_id :: "string"
  mp_total_cases :: "nat"
  mp_passed :: "nat"
  mp_failed :: "nat"
  mp_blocked :: "nat"
  mp_untested :: "nat"
  mp_retest :: "nat"
  mp_pass_percentage :: "rat"

record CaseHistoryEntry =
  che_version :: "64 word"
  che_last_modified :: "string option"
  che_changed_fields :: "string list"

record SuiteCoverage =
  sc_suite_id :: "string"
  sc_name :: "string"
  sc_case_count :: "nat"

record CoverageReport =
  cov_project_id :: "string option"
  cov_total_cases :: "nat"
  cov_suites :: "SuiteCoverage list"

record SummaryReport =
  sr_total :: "nat"
  sr_passed :: "nat"
  sr_failed :: "nat"
  sr_blocked :: "nat"
  sr_untested :: "nat"
  sr_pass_percentage :: "rat"
  sr_total_duration_ms :: "64 word"

record LastCaseResult =
  lcr_test_case_id :: "string"
  lcr_status :: "string"
  lcr_run_id :: "string"
  lcr_timestamp :: "string"

record LastResultsReport =
  lrr_project_id :: "string option"
  lrr_cases :: "LastCaseResult list"

end
