(* ===== verification/Errors.thy ===== *)
theory Errors
  imports Prelude
begin

text \<open>
  The errors of the service (\<^verbatim>\<open>src/domain/error.rs\<close>): storage reports an \<^verbatim>\<open>io::Error\<close>, the domain
  layer translates it into a \<^verbatim>\<open>DomainError\<close> by one classifier per calling context, and the HTTP
  layer renders the stable code. An \<^verbatim>\<open>io::Error\<close> is its kind, its message, and the digest of an
  \<^verbatim>\<open>EtagMismatch\<close> payload when it carries one.
\<close>

datatype io_kind =
    KNotFound | KInvalidInput | KInvalidData | KAlreadyExists | KWouldBlock
  | KPermissionDenied | KIsADirectory | KNotADirectory | KOther

datatype io_error = IoError (io_kind: io_kind) (io_message: string) (io_etag: "string option")

abbreviation io_err :: "io_kind \<Rightarrow> string \<Rightarrow> io_error" where
  "io_err k m \<equiv> IoError k m None"

fun kind_debug :: "io_kind \<Rightarrow> string" where
  "kind_debug KNotFound = ''NotFound''"
| "kind_debug KInvalidInput = ''InvalidInput''"
| "kind_debug KInvalidData = ''InvalidData''"
| "kind_debug KAlreadyExists = ''AlreadyExists''"
| "kind_debug KWouldBlock = ''WouldBlock''"
| "kind_debug KPermissionDenied = ''PermissionDenied''"
| "kind_debug KIsADirectory = ''IsADirectory''"
| "kind_debug KNotADirectory = ''NotADirectory''"
| "kind_debug KOther = ''Other''"

datatype DomainError =
    NotFound string
  | InvalidRequest (err_code: string) (err_message: string)
  | Conflict string
  | PreconditionFailed string
  | PayloadTooLarge nat
  | Internal string
  | Storage
  | StorageWithCause string
  | LockTimeout
  | Unauthenticated string string
  | Forbidden string

type_synonym 'a result = "DomainError + 'a"
type_synonym 'a io_result = "io_error + 'a"

definition invalid_id :: DomainError where
  "invalid_id = InvalidRequest ''invalid_id'' ''Invalid resource ID''"

definition invalid_request :: "string \<Rightarrow> DomainError" where
  "invalid_request message = InvalidRequest ''invalid_request'' message"

definition invalid_status :: DomainError where
  "invalid_status = InvalidRequest ''invalid_status''
     ''Status must be Passed, Failed, Blocked, Untested, or Retest''"

definition invalid_import_status :: DomainError where
  "invalid_import_status = InvalidRequest ''invalid_status''
     ''Imported status must be Passed, Failed, or Blocked''"

definition missing_token :: DomainError where
  "missing_token = Unauthenticated ''missing_token'' ''Authentication required''"

definition invalid_token :: DomainError where
  "invalid_token = Unauthenticated ''invalid_token'' ''Invalid access token''"

definition token_expired :: DomainError where
  "token_expired = Unauthenticated ''token_expired'' ''Access token has expired''"

definition invalid_credentials :: DomainError where
  "invalid_credentials = Unauthenticated ''invalid_credentials'' ''Invalid username or password''"

definition invalid_refresh_token :: DomainError where
  "invalid_refresh_token = Unauthenticated ''invalid_refresh_token'' ''Invalid refresh token''"

definition forbidden :: "string \<Rightarrow> DomainError" where
  "forbidden message = Forbidden message"

fun code :: "DomainError \<Rightarrow> string" where
  "code (NotFound _) = ''not_found''"
| "code (InvalidRequest c _) = c"
| "code (Conflict _) = ''conflict''"
| "code (PreconditionFailed _) = ''conflict''"
| "code (PayloadTooLarge _) = ''payload_too_large''"
| "code (Internal _) = ''storage_error''"
| "code Storage = ''storage_error''"
| "code (StorageWithCause _) = ''storage_error''"
| "code LockTimeout = ''lock_timeout''"
| "code (Unauthenticated c _) = c"
| "code (Forbidden _) = ''forbidden''"

text \<open>The text of an error, which is what \<^verbatim>\<open>to_string\<close> yields where the sources wrap a domain
  error back into an \<^verbatim>\<open>io::Error\<close>.\<close>

fun display :: "DomainError \<Rightarrow> string" where
  "display (NotFound m) = ''not found: '' @ m"
| "display (InvalidRequest c m) = c @ '': '' @ m"
| "display (Conflict m) = ''conflict: '' @ m"
| "display (PreconditionFailed e) = ''precondition failed: ETag is now '' @ e"
| "display (PayloadTooLarge n) = ''payload too large (limit '' @ show_nat n @ '' bytes)''"
| "display (Internal m) = ''internal error: '' @ m"
| "display Storage = ''storage operation failed''"
| "display (StorageWithCause _) = ''storage operation failed''"
| "display LockTimeout = ''lock acquisition timed out''"
| "display (Unauthenticated c m) = c @ '': '' @ m"
| "display (Forbidden m) = ''forbidden: '' @ m"

section \<open>Classifiers\<close>

definition from_io :: "io_error \<Rightarrow> DomainError" where
  "from_io e = (case io_kind e of
       KNotFound \<Rightarrow> NotFound ''Resource not found''
     | KInvalidInput \<Rightarrow> invalid_request ''Invalid request''
     | KAlreadyExists \<Rightarrow> Conflict ''Resource already exists''
     | KWouldBlock \<Rightarrow> LockTimeout
     | k \<Rightarrow> StorageWithCause (kind_debug k @ '': '' @ io_message e))"

definition read_error :: "io_error \<Rightarrow> DomainError" where
  "read_error e = (case io_kind e of
       KInvalidInput \<Rightarrow> invalid_id
     | KNotFound \<Rightarrow> NotFound ''Resource not found''
     | KInvalidData \<Rightarrow> Internal ''Stored JSON is invalid''
     | _ \<Rightarrow> from_io e)"

definition delete_error :: "io_error \<Rightarrow> DomainError" where
  "delete_error e = (case io_kind e of
       KNotFound \<Rightarrow> NotFound ''Resource not found''
     | KInvalidInput \<Rightarrow> invalid_id
     | _ \<Rightarrow> from_io e)"

definition document_error :: "string \<Rightarrow> io_error \<Rightarrow> DomainError" where
  "document_error missing e = (case io_kind e of
       KNotFound \<Rightarrow> NotFound missing
     | KInvalidInput \<Rightarrow> invalid_id
     | _ \<Rightarrow> from_io e)"

definition load_error :: "string \<Rightarrow> io_error \<Rightarrow> DomainError" where
  "load_error missing e = (case io_kind e of
       KNotFound \<Rightarrow> NotFound missing
     | _ \<Rightarrow> from_io e)"

definition milestone_error :: "io_error \<Rightarrow> DomainError" where
  "milestone_error e = (case io_kind e of
       KNotFound \<Rightarrow> NotFound ''Milestone not found''
     | KInvalidInput \<Rightarrow> invalid_id
     | _ \<Rightarrow> from_io e)"

definition attachment_error :: "io_error \<Rightarrow> DomainError" where
  "attachment_error e = (case io_kind e of
       KNotFound \<Rightarrow> NotFound ''File not found''
     | KInvalidInput \<Rightarrow> NotFound ''File not found''
     | KIsADirectory \<Rightarrow> NotFound ''File not found''
     | _ \<Rightarrow> from_io e)"

lemmas classifier_defs =
  from_io_def read_error_def delete_error_def document_error_def load_error_def
  milestone_error_def attachment_error_def

text \<open>\<^verbatim>\<open>map_mutation_error\<close> of \<^verbatim>\<open>service/mod.rs\<close>: a \<^verbatim>\<open>WouldBlock\<close> is a precondition failure exactly
  when it carries the digest, and a lock timeout otherwise.\<close>

definition map_mutation_error :: "string \<Rightarrow> io_error \<Rightarrow> DomainError" where
  "map_mutation_error missing e = (case io_kind e of
       KWouldBlock \<Rightarrow> (case io_etag e of
           Some current \<Rightarrow> PreconditionFailed current
         | None \<Rightarrow> LockTimeout)
     | KNotFound \<Rightarrow> NotFound missing
     | KInvalidInput \<Rightarrow> invalid_id
     | _ \<Rightarrow> from_io e)"

definition placement_error :: "io_error \<Rightarrow> DomainError" where
  "placement_error e = (case io_kind e of
       KAlreadyExists \<Rightarrow> Conflict ''The target parent already holds a child with this identifier''
     | KNotFound \<Rightarrow> NotFound ''Resource not found''
     | KInvalidInput \<Rightarrow> invalid_id
     | _ \<Rightarrow> from_io e)"

definition attachment_write_error :: "io_error \<Rightarrow> DomainError" where
  "attachment_write_error e = (case io_kind e of
       KAlreadyExists \<Rightarrow> Conflict ''File already exists''
     | _ \<Rightarrow> attachment_error e)"

lemmas service_classifier_defs =
  map_mutation_error_def placement_error_def attachment_write_error_def

section \<open>What the classifiers promise\<close>

text \<open>
  A storage error never leaves a classifier as an authentication failure, and the opaque storage
  code is answered for exactly the kinds that no client can act on.
\<close>

lemma from_io_code:
  "code (from_io e) \<in> {''not_found'', ''invalid_request'', ''conflict'', ''lock_timeout'', ''storage_error''}"
  by (cases "io_kind e") (simp_all add: from_io_def invalid_request_def)

lemma map_mutation_error_precondition:
  "map_mutation_error m e = PreconditionFailed c \<longleftrightarrow> io_kind e = KWouldBlock \<and> io_etag e = Some c"
  by (cases "io_kind e")
     (auto simp: map_mutation_error_def from_io_def invalid_id_def invalid_request_def
           split: option.splits)

lemma map_mutation_error_lock_timeout:
  "map_mutation_error m e = LockTimeout \<longleftrightarrow> io_kind e = KWouldBlock \<and> io_etag e = None"
  by (cases "io_kind e")
     (auto simp: map_mutation_error_def from_io_def invalid_id_def invalid_request_def
           split: option.splits)

end
