(* ===== verification/Layout.thy ===== *)
theory Layout
  imports Errors
begin

text \<open>
  The on-disk layout (\<^verbatim>\<open>src/storage/layout.rs\<close>): the resources, the parents that own them, and the
  path builders with their guards. A path is the list of its components below the filesystem root,
  and \<open>root\<close> is the data directory.

  \<open>ensure_within\<close> is modelled for a data root that exists and holds no symbolic link, where
  canonicalising a path is the identity and the check is the lexical one. The builders are otherwise
  those of the source. The lemmas show that every path built is below the root, that all its
  components are plain names, and that a path determines what was addressed.
\<close>

section \<open>Resources and parents\<close>

datatype Resource = Projects | Cases | Suites | Runs | Milestones | Configurations | Workflows

datatype Parent = ProjectParent string | SuiteParent string string

datatype Placement = Copy | Move

type_synonym path = "string list"

definition RESERVED_PROJECT_CHILDREN :: "string list" where
  "RESERVED_PROJECT_CHILDREN = [''test_runs'', ''milestones'', ''configurations'', ''workflows'']"

definition MAX_COMPONENT_BYTES :: nat where
  "MAX_COMPONENT_BYTES = 255"

fun dir_name :: "Resource \<Rightarrow> string option" where
  "dir_name Projects = Some ''projects''"
| "dir_name _ = None"

fun project_dir_name :: "Resource \<Rightarrow> string option" where
  "project_dir_name Runs = Some ''test_runs''"
| "project_dir_name Milestones = Some ''milestones''"
| "project_dir_name Configurations = Some ''configurations''"
| "project_dir_name Workflows = Some ''workflows''"
| "project_dir_name _ = None"

fun marker_name :: "Resource \<Rightarrow> string option" where
  "marker_name Projects = Some ''project.json''"
| "marker_name Suites = Some ''suite.json''"
| "marker_name Cases = Some ''test-case.json''"
| "marker_name _ = None"

fun is_hierarchical :: "Resource \<Rightarrow> bool" where
  "is_hierarchical r \<longleftrightarrow> r = Projects \<or> r = Suites \<or> r = Cases"

definition is_project_scoped :: "Resource \<Rightarrow> bool" where
  "is_project_scoped r \<longleftrightarrow> project_dir_name r \<noteq> None"

definition is_flat :: "Resource \<Rightarrow> bool" where
  "is_flat r \<longleftrightarrow> is_project_scoped r"

definition id_requires_json_suffix :: "Resource \<Rightarrow> bool" where
  "id_requires_json_suffix r \<longleftrightarrow> r \<noteq> Cases"

fun parent_project :: "Parent \<Rightarrow> string" where
  "parent_project (ProjectParent p) = p"
| "parent_project (SuiteParent p s) = p"

fun parent_marker_name :: "Parent \<Rightarrow> string" where
  "parent_marker_name (ProjectParent _) = ''project.json''"
| "parent_marker_name (SuiteParent _ _) = ''suite.json''"

section \<open>Identifiers and components\<close>

definition folder_name :: "string \<Rightarrow> string" where
  "folder_name rid = (case strip_suffix ''.json'' rid of Some f \<Rightarrow> f | None \<Rightarrow> rid)"

definition folder_wire_id :: "string \<Rightarrow> string" where
  "folder_wire_id folder = folder @ ''.json''"

definition validate_component :: "string \<Rightarrow> unit io_result" where
  "validate_component c =
     (if c = [] \<or> c = ''.'' \<or> c = ''..'' \<or> contains_char (CHR ''/'') c
         \<or> contains_char (CHR 0x5C) c \<or> contains_char (CHR 0x00) c
      then Inl (io_err KInvalidInput ''invalid path component'')
      else if length c > MAX_COMPONENT_BYTES
      then Inl (io_err KInvalidInput ''path component is too long'')
      else Inr ())"

definition node_folder :: "Resource \<Rightarrow> string \<Rightarrow> string io_result" where
  "node_folder r rid =
     rbind (case r of
         Cases \<Rightarrow> Inr rid
       | Projects \<Rightarrow> ok_or (io_err KInvalidInput ''resource id must end in .json'') (strip_suffix ''.json'' rid)
       | Suites \<Rightarrow> ok_or (io_err KInvalidInput ''resource id must end in .json'') (strip_suffix ''.json'' rid)
       | _ \<Rightarrow> Inl (io_err KInvalidInput ''resource is not stored in the project tree''))
     (\<lambda>folder. rbind (validate_component folder) (\<lambda>_. Inr folder))"

definition validate_document_id :: "Resource \<Rightarrow> string \<Rightarrow> unit io_result" where
  "validate_document_id r rid =
     rbind (validate_component rid) (\<lambda>_.
       if id_requires_json_suffix r \<and> \<not> suffix ''.json'' rid
       then Inl (io_err KInvalidInput ''resource id must end in .json'')
       else Inr ())"

section \<open>Path builders\<close>

definition ensure_within :: "path \<Rightarrow> path \<Rightarrow> unit io_result" where
  "ensure_within root candidate =
     guard (2 \<le> length candidate \<and> prefix root candidate)
       (io_err KPermissionDenied ''path escapes data root'')"

text \<open>The step most builders share: join a component, then check the result.\<close>

definition join_within :: "path \<Rightarrow> path \<Rightarrow> string \<Rightarrow> path io_result" where
  "join_within root dir c = rbind (ensure_within root (dir @ [c])) (\<lambda>_. Inr (dir @ [c]))"

definition root_dir :: "path \<Rightarrow> Resource \<Rightarrow> path io_result" where
  "root_dir root r =
     rbind (ok_or (io_err KInvalidInput ''resource is not stored below the data root'') (dir_name r))
       (\<lambda>name. join_within root root name)"

definition project_dir :: "path \<Rightarrow> string \<Rightarrow> path io_result" where
  "project_dir root project_id =
     rbind (root_dir root Projects) (\<lambda>d.
     rbind (node_folder Projects project_id) (\<lambda>f. join_within root d f))"

definition project_marker :: "path \<Rightarrow> string \<Rightarrow> path io_result" where
  "project_marker root project_id =
     rbind (project_dir root project_id) (\<lambda>d. Inr (d @ [''project.json'']))"

definition project_collection_dir :: "path \<Rightarrow> string \<Rightarrow> Resource \<Rightarrow> path io_result" where
  "project_collection_dir root project_id r =
     rbind (ok_or (io_err KInvalidInput ''resource is not stored inside a project folder'')
              (project_dir_name r)) (\<lambda>name.
     rbind (project_dir root project_id) (\<lambda>d. join_within root d name))"

definition project_document_path :: "path \<Rightarrow> string \<Rightarrow> Resource \<Rightarrow> string \<Rightarrow> path io_result" where
  "project_document_path root project_id r rid =
     rbind (validate_document_id r rid) (\<lambda>_.
     rbind (project_collection_dir root project_id r) (\<lambda>d. join_within root d rid))"

definition suite_dir :: "path \<Rightarrow> string \<Rightarrow> string \<Rightarrow> path io_result" where
  "suite_dir root project_id suite_id =
     rbind (project_dir root project_id) (\<lambda>d.
     rbind (node_folder Suites suite_id) (\<lambda>f. join_within root d f))"

definition suite_marker :: "path \<Rightarrow> string \<Rightarrow> string \<Rightarrow> path io_result" where
  "suite_marker root project_id suite_id =
     rbind (suite_dir root project_id suite_id) (\<lambda>d. Inr (d @ [''suite.json'']))"

fun parent_dir :: "path \<Rightarrow> Parent \<Rightarrow> path io_result" where
  "parent_dir root (ProjectParent p) = project_dir root p"
| "parent_dir root (SuiteParent p s) = suite_dir root p s"

fun parent_marker :: "path \<Rightarrow> Parent \<Rightarrow> path io_result" where
  "parent_marker root (ProjectParent p) = project_marker root p"
| "parent_marker root (SuiteParent p s) = suite_marker root p s"

definition case_dir :: "path \<Rightarrow> Parent \<Rightarrow> string \<Rightarrow> path io_result" where
  "case_dir root parent case_id =
     rbind (parent_dir root parent) (\<lambda>d.
     rbind (node_folder Cases case_id) (\<lambda>f. join_within root d f))"

definition case_marker :: "path \<Rightarrow> Parent \<Rightarrow> string \<Rightarrow> path io_result" where
  "case_marker root parent case_id =
     rbind (case_dir root parent case_id) (\<lambda>d. Inr (d @ [''test-case.json'']))"

definition revision_dir :: "path \<Rightarrow> Parent \<Rightarrow> string \<Rightarrow> path io_result" where
  "revision_dir root parent case_id =
     rbind (case_dir root parent case_id) (\<lambda>d. join_within root d ''revisions'')"

definition revision_name :: "64 word \<Rightarrow> string" where
  "revision_name version = ''v'' @ show_nat (unat version) @ ''.json''"

definition revision_marker :: "path \<Rightarrow> Parent \<Rightarrow> string \<Rightarrow> 64 word \<Rightarrow> path io_result" where
  "revision_marker root parent case_id version =
     rbind (revision_dir root parent case_id) (\<lambda>d. join_within root d (revision_name version))"

definition attachment_path :: "path \<Rightarrow> Parent \<Rightarrow> string \<Rightarrow> string \<Rightarrow> path io_result" where
  "attachment_path root parent case_id filename =
     rbind (validate_component filename) (\<lambda>_.
     rbind (case_dir root parent case_id) (\<lambda>d. join_within root d filename))"

definition step_dir :: "path \<Rightarrow> Parent \<Rightarrow> string \<Rightarrow> nat \<Rightarrow> path io_result" where
  "step_dir root parent case_id step_index =
     rbind (case_dir root parent case_id)
       (\<lambda>d. join_within root (d @ [''steps'']) (show_nat step_index))"

definition step_attachment_path ::
  "path \<Rightarrow> Parent \<Rightarrow> string \<Rightarrow> nat \<Rightarrow> string \<Rightarrow> path io_result" where
  "step_attachment_path root parent case_id step_index filename =
     rbind (validate_component filename) (\<lambda>_.
     rbind (step_dir root parent case_id step_index) (\<lambda>d. join_within root d filename))"

lemmas builder_defs =
  root_dir_def project_dir_def project_marker_def project_collection_dir_def
  project_document_path_def suite_dir_def suite_marker_def case_dir_def case_marker_def
  revision_dir_def revision_marker_def attachment_path_def step_dir_def step_attachment_path_def

section \<open>Plain components\<close>

text \<open>A plain component is a name the filesystem resolves inside its directory.\<close>

definition plain :: "string \<Rightarrow> bool" where
  "plain c \<longleftrightarrow> c \<noteq> [] \<and> c \<noteq> ''.'' \<and> c \<noteq> ''..'' \<and> CHR ''/'' \<notin> set c \<and> CHR 0x5C \<notin> set c
     \<and> CHR 0x00 \<notin> set c \<and> length c \<le> 255"

lemma validate_component_ok: "validate_component c = Inr u \<longleftrightarrow> plain c"
  by (auto simp: validate_component_def plain_def contains_char_def MAX_COMPONENT_BYTES_def)

lemma validate_component_err: "validate_component c = Inl e \<Longrightarrow> io_kind e = KInvalidInput"
  by (auto simp: validate_component_def split: if_splits)

lemma validate_document_id_ok:
  "validate_document_id r rid = Inr u \<longleftrightarrow> plain rid \<and> (r \<noteq> Cases \<longrightarrow> suffix ''.json'' rid)"
  by (auto simp: validate_document_id_def rbind_Inr_iff validate_component_ok
      id_requires_json_suffix_def)

lemma node_folder_ok:
  "node_folder r rid = Inr f \<longleftrightarrow>
     plain f \<and> (r = Cases \<and> f = rid \<or> (r = Projects \<or> r = Suites) \<and> rid = f @ ''.json'')"
  by (cases r) (auto simp: node_folder_def rbind_Inr_iff validate_component_ok strip_suffix_Some_iff)

lemma plain_fixed [simp]:
  "plain ''projects''" "plain ''test_runs''" "plain ''milestones''" "plain ''configurations''"
  "plain ''workflows''" "plain ''project.json''" "plain ''suite.json''" "plain ''test-case.json''"
  "plain ''revisions''" "plain ''steps''"
  by (simp_all add: plain_def)

lemma project_dir_name_plain: "project_dir_name r = Some n \<Longrightarrow> plain n"
  by (cases r) auto

lemma project_dir_name_reserved: "project_dir_name r = Some n \<Longrightarrow> n \<in> set RESERVED_PROJECT_CHILDREN"
  by (cases r) (auto simp: RESERVED_PROJECT_CHILDREN_def)

lemma project_dir_name_inj: "project_dir_name r = Some n \<Longrightarrow> project_dir_name r' = Some n \<Longrightarrow> r = r'"
  by (cases r; cases r') auto

lemma folder_round_trip:
  "folder_name (folder_wire_id f) = f"
  by (simp add: folder_name_def folder_wire_id_def)

section \<open>What the builders return\<close>

lemma join_within_ok:
  "join_within root d c = Inr p \<longleftrightarrow> p = d @ [c] \<and> d \<noteq> [] \<and> prefix root (d @ [c])"
  by (cases d rule: rev_cases) (auto simp: join_within_def rbind_Inr_iff ensure_within_def)

lemma root_dir_ok: "root_dir root r = Inr p \<longleftrightarrow> r = Projects \<and> root \<noteq> [] \<and> p = root @ [''projects'']"
  by (cases r) (auto simp: root_dir_def join_within_ok)

lemma project_dir_ok:
  "project_dir root pid = Inr p \<longleftrightarrow>
     (\<exists>f. root \<noteq> [] \<and> plain f \<and> pid = f @ ''.json'' \<and> p = root @ [''projects'', f])"
  by (auto simp: project_dir_def rbind_Inr_iff root_dir_ok node_folder_ok join_within_ok)

lemma project_collection_dir_ok:
  "project_collection_dir root pid r = Inr p \<longleftrightarrow>
     (\<exists>d n. project_dir root pid = Inr d \<and> project_dir_name r = Some n \<and> p = d @ [n])"
  by (auto simp: project_collection_dir_def rbind_Inr_iff join_within_ok project_dir_ok)

lemma project_document_path_ok:
  "project_document_path root pid r rid = Inr p \<longleftrightarrow>
     (\<exists>d n. project_dir root pid = Inr d \<and> project_dir_name r = Some n \<and> plain rid
        \<and> (r \<noteq> Cases \<longrightarrow> suffix ''.json'' rid) \<and> p = d @ [n, rid])"
  by (auto simp: project_document_path_def rbind_Inr_iff validate_document_id_ok
      project_collection_dir_ok join_within_ok project_dir_ok)

lemma suite_dir_ok:
  "suite_dir root pid sid = Inr p \<longleftrightarrow>
     (\<exists>d f. project_dir root pid = Inr d \<and> plain f \<and> sid = f @ ''.json'' \<and> p = d @ [f])"
  by (auto simp: suite_dir_def rbind_Inr_iff node_folder_ok join_within_ok project_dir_ok)

lemma parent_dir_shape:
  "parent_dir root parent = Inr p \<Longrightarrow>
     \<exists>rest. p = root @ ''projects'' # rest \<and> list_all plain rest \<and> rest \<noteq> [] \<and> root \<noteq> []"
  by (cases parent) (auto simp: project_dir_ok suite_dir_ok)

lemma parent_dir_within:
  "parent_dir root parent = Inr d \<Longrightarrow> prefix root d"
  "parent_dir root parent \<noteq> Inr []"
  by (auto dest!: parent_dir_shape)

lemma case_dir_ok:
  "case_dir root parent cid = Inr p \<longleftrightarrow>
     (\<exists>d. parent_dir root parent = Inr d \<and> plain cid \<and> p = d @ [cid])"
  by (auto simp: case_dir_def rbind_Inr_iff node_folder_ok join_within_ok parent_dir_within)

lemma attachment_path_ok:
  "attachment_path root parent cid n = Inr p \<longleftrightarrow>
     (\<exists>d. case_dir root parent cid = Inr d \<and> plain n \<and> p = d @ [n])"
  by (auto simp: attachment_path_def rbind_Inr_iff validate_component_ok join_within_ok case_dir_ok parent_dir_within)

lemma revision_dir_ok:
  "revision_dir root parent cid = Inr p \<longleftrightarrow>
     (\<exists>d. case_dir root parent cid = Inr d \<and> p = d @ [''revisions''])"
  by (auto simp: revision_dir_def rbind_Inr_iff join_within_ok case_dir_ok parent_dir_within)

lemma revision_marker_ok:
  "revision_marker root parent cid v = Inr p \<longleftrightarrow>
     (\<exists>d. case_dir root parent cid = Inr d \<and> p = d @ [''revisions'', revision_name v])"
  by (auto simp: revision_marker_def rbind_Inr_iff join_within_ok revision_dir_ok case_dir_ok parent_dir_within)

lemma step_dir_ok:
  "step_dir root parent cid i = Inr p \<longleftrightarrow>
     (\<exists>d. case_dir root parent cid = Inr d \<and> p = d @ [''steps'', show_nat i])"
  by (auto simp: step_dir_def rbind_Inr_iff join_within_ok case_dir_ok parent_dir_within)

lemma step_attachment_path_ok:
  "step_attachment_path root parent cid i n = Inr p \<longleftrightarrow>
     (\<exists>d. step_dir root parent cid i = Inr d \<and> plain n \<and> p = d @ [n])"
  by (auto simp: step_attachment_path_def rbind_Inr_iff validate_component_ok join_within_ok
      step_dir_ok case_dir_ok parent_dir_within)

lemmas builder_ok =
  root_dir_ok project_dir_ok project_collection_dir_ok project_document_path_ok suite_dir_ok
  case_dir_ok attachment_path_ok revision_dir_ok revision_marker_ok step_dir_ok
  step_attachment_path_ok

end
