(* ===== verification/Validation.thy ===== *)
theory Validation
  imports Models Layout
begin

text \<open>
  Payload validation (\<^verbatim>\<open>src/domain/validation.rs\<close>) and identifier derivation
  (\<^verbatim>\<open>src/domain/resources.rs\<close>).

  \<open>validate_payload\<close> type-checks each supplied field by inserting it into a serialised default
  document and deserialising the result. The file proves what that amounts to: a body passes exactly
  when it is an object whose keys are known, whose reference arrays are within the limit, and each
  of whose non-null fields is accepted by the declaration of its own field
  (\<open>validate_payload_iff\<close>).
\<close>

section \<open>Known fields\<close>

fun known_fields :: "Resource \<Rightarrow> string list" where
  "known_fields Projects = [''projectId'', ''name'', ''description'', ''testSuites'', ''tags'']"
| "known_fields Suites = [''suiteId'', ''name'', ''description'', ''testCases'', ''tags'']"
| "known_fields Cases =
     [''testCaseId'', ''title'', ''description'', ''preconditions'', ''steps'', ''expectedResult'',
      ''priority'', ''severity'', ''testType'', ''exploratory'', ''attachments'', ''tags'',
      ''version'', ''lastModified'', ''defectLinks'']"
| "known_fields Runs =
     [''testRunId'', ''timestamp'', ''name'', ''projects'', ''testSuites'', ''testCases'',
      ''results'', ''tags'', ''configurations'', ''caseVersions'', ''sourceWorkflowId'']"
| "known_fields Milestones =
     [''milestoneId'', ''name'', ''description'', ''startDate'', ''targetDate'', ''status'',
      ''testSuiteIds'', ''testRunIds'']"
| "known_fields Configurations =
     [''configId'', ''name'', ''browser'', ''os'', ''device'', ''resolution'']"
| "known_fields Workflows = [''workflowId'', ''name'', ''description'', ''steps'', ''tags'']"

definition MAX_REFERENCED_ITEMS :: nat where
  "MAX_REFERENCED_ITEMS = 512"

fun reference_fields :: "Resource \<Rightarrow> string list" where
  "reference_fields Runs = [''projects'', ''testSuites'', ''testCases'']"
| "reference_fields Milestones = [''testSuiteIds'', ''testRunIds'']"
| "reference_fields _ = []"

definition references_within_limit :: "Resource \<Rightarrow> json btree \<Rightarrow> unit result" where
  "references_within_limit r m = rall (\<lambda>field.
       case map_of m field of
         Some (Arr items) \<Rightarrow>
           if length items > MAX_REFERENCED_ITEMS
           then Inl (invalid_request (''Field `'' @ field @ ''` carries '' @ show_nat (length items)
                  @ '' references, above the limit of '' @ show_nat MAX_REFERENCED_ITEMS))
           else Inr ()
       | _ \<Rightarrow> Inr ()) (reference_fields r)"

section \<open>Checking a field against the model\<close>

text \<open>\<^verbatim>\<open>T::default()\<close> of the seven stored models.\<close>

definition Project_default :: Project where
  "Project_default = \<lparr>pr_project_id = [], pr_name = [], pr_description = None, pr_test_suites = [],
     pr_tags = None\<rparr>"

definition TestSuite_default :: TestSuite where
  "TestSuite_default = \<lparr>ts_suite_id = [], ts_name = [], ts_description = None, ts_test_cases = [],
     ts_tags = None\<rparr>"

definition TestCase_default :: TestCase where
  "TestCase_default = \<lparr>tc_test_case_id = [], tc_title = [], tc_description = None,
     tc_preconditions = None, tc_steps = None, tc_expected_result = [], tc_priority = None,
     tc_severity = None, tc_test_type = None, tc_exploratory = None, tc_attachments = None,
     tc_tags = None, tc_version = None, tc_last_modified = None, tc_defect_links = None\<rparr>"

definition TestRun_default :: TestRun where
  "TestRun_default = \<lparr>run_test_run_id = [], run_timestamp = [], run_name = None,
     run_projects = None, run_test_suites = None, run_test_cases = None, run_results = None,
     run_tags = None, run_configurations = None, run_case_versions = None,
     run_source_workflow_id = None\<rparr>"

definition Milestone_default :: Milestone where
  "Milestone_default = \<lparr>ms_milestone_id = [], ms_name = [], ms_description = None,
     ms_start_date = None, ms_target_date = None, ms_status = None, ms_test_suite_ids = None,
     ms_test_run_ids = None\<rparr>"

definition TestConfiguration_default :: TestConfiguration where
  "TestConfiguration_default = \<lparr>cfg_config_id = [], cfg_name = [], cfg_browser = None,
     cfg_os = None, cfg_device = None, cfg_resolution = None\<rparr>"

definition Workflow_default :: Workflow where
  "Workflow_default = \<lparr>wf_workflow_id = [], wf_name = [], wf_description = None, wf_steps = [],
     wf_tags = None\<rparr>"

fun deserialises :: "Resource \<Rightarrow> json \<Rightarrow> bool" where
  "deserialises Projects v \<longleftrightarrow> \<not> Option.is_none (Project_from_value v)"
| "deserialises Suites v \<longleftrightarrow> \<not> Option.is_none (TestSuite_from_value v)"
| "deserialises Cases v \<longleftrightarrow> \<not> Option.is_none (TestCase_from_value v)"
| "deserialises Runs v \<longleftrightarrow> \<not> Option.is_none (TestRun_from_value v)"
| "deserialises Milestones v \<longleftrightarrow> \<not> Option.is_none (Milestone_from_value v)"
| "deserialises Configurations v \<longleftrightarrow> \<not> Option.is_none (TestConfiguration_from_value v)"
| "deserialises Workflows v \<longleftrightarrow> \<not> Option.is_none (Workflow_from_value v)"

fun template :: "Resource \<Rightarrow> json" where
  "template Projects = Project_to_value Project_default"
| "template Suites = TestSuite_to_value TestSuite_default"
| "template Cases = TestCase_to_value TestCase_default"
| "template Runs = TestRun_to_value TestRun_default"
| "template Milestones = Milestone_to_value Milestone_default"
| "template Configurations = TestConfiguration_to_value TestConfiguration_default"
| "template Workflows = Workflow_to_value Workflow_default"

definition check_against_model :: "Resource \<Rightarrow> json btree \<Rightarrow> unit result" where
  "check_against_model r m = rall (\<lambda>(field, supplied).
       if is_null supplied then Inr ()
       else if deserialises r (set_field field supplied (template r)) then Inr ()
       else Inl (invalid_request (''Field `'' @ field @ ''` is invalid''))) m"

definition validate_payload :: "Resource \<Rightarrow> json \<Rightarrow> unit result" where
  "validate_payload r v = (case as_object v of
       None \<Rightarrow> Inl (invalid_request ''Request body must be a JSON object'')
     | Some m \<Rightarrow>
         if r = Cases \<and> ''defectLinks'' \<in> set (obj_keys m)
         then Inl (invalid_request ''Field `defectLinks` is maintained by the defect routes'')
         else rbind (rall (\<lambda>key. guard (key \<in> set (known_fields r))
                       (invalid_request (''Unknown field `'' @ key @ ''`''))) (obj_keys m)) (\<lambda>_.
              rbind (references_within_limit r m) (\<lambda>_.
              check_against_model r m)))"

definition document_matches_model :: "Resource \<Rightarrow> json \<Rightarrow> bool" where
  "document_matches_model r v \<longleftrightarrow> deserialises r v"

section \<open>Identifiers of new documents\<close>

definition derive_create_id :: "Resource \<Rightarrow> json \<Rightarrow> string result" where
  "derive_create_id r v =
     (let missing = invalid_request ''Required fields are missing'' in
      case r of
        Cases \<Rightarrow>
          (case (required_string v ''testCaseId'', required_string v ''title'',
                 required_string v ''expectedResult'') of
             (Some rid, Some _, Some _) \<Rightarrow> Inr rid
           | _ \<Rightarrow> Inl missing)
      | Milestones \<Rightarrow>
          rbind (ok_or missing (required_string v ''name'')) (\<lambda>name.
            let candidate = (case required_string v ''milestoneId'' of Some c \<Rightarrow> c | None \<Rightarrow> name)
            in Inr (if suffix ''.json'' candidate then candidate else candidate @ ''.json''))
      | Projects \<Rightarrow>
          rbind (ok_or missing (required_string v ''name'')) (\<lambda>name.
            case get_str v ''projectId'' of
              Some supplied \<Rightarrow>
                rbind (map_err (\<lambda>_. invalid_request
                    ''Field `projectId` must be a single path segment ending in `.json`'')
                  (validate_document_id Projects supplied)) (\<lambda>_. Inr supplied)
            | None \<Rightarrow> Inr (name @ ''.json''))
      | _ \<Rightarrow>
          rbind (ok_or missing (required_string v ''name'')) (\<lambda>name. Inr (name @ ''.json'')))"

section \<open>The models as specifications\<close>

fun model_deny :: "Resource \<Rightarrow> bool" where
  "model_deny Workflows = False"
| "model_deny _ = True"

fun model_spec :: "Resource \<Rightarrow> field_spec list" where
  "model_spec Projects = Project_spec"
| "model_spec Suites = TestSuite_spec"
| "model_spec Cases = TestCase_spec"
| "model_spec Runs = TestRun_spec"
| "model_spec Milestones = Milestone_spec"
| "model_spec Configurations = TestConfiguration_spec"
| "model_spec Workflows = Workflow_spec"

lemmas spec_defs =
  Project_spec_def TestSuite_spec_def TestCase_spec_def TestRun_spec_def Milestone_spec_def
  TestConfiguration_spec_def Workflow_spec_def

lemma deserialises_iff: "deserialises r v \<longleftrightarrow> conforms (model_deny r) (model_spec r) v"
  by (cases r) (simp_all only: deserialises.simps model_deny.simps model_spec.simps
      Option.is_none_def Project_from_value_iff TestSuite_from_value_iff TestCase_from_value_iff
      TestRun_from_value_iff Milestone_from_value_iff TestConfiguration_from_value_iff
      Workflow_from_value_iff)

lemma model_spec_distinct [simp]: "distinct (map fst (model_spec r))"
  by (cases r) simp_all

lemma known_fields_spec: "known_fields r = map fst (model_spec r)"
  by (cases r) (simp_all add: spec_defs)

lemma template_deserialises: "deserialises r (template r)"
  by (cases r) (simp_all add: Project_roundtrip TestSuite_roundtrip TestCase_roundtrip
      TestRun_roundtrip Milestone_roundtrip TestConfiguration_roundtrip Workflow_roundtrip)

lemma template_object: "\<exists>m. template r = Obj m"
  by (cases r) (simp_all add: Project_to_value_def TestSuite_to_value_def TestCase_to_value_def
      TestRun_to_value_def Milestone_to_value_def TestConfiguration_to_value_def
      Workflow_to_value_def struct_obj_def)

text \<open>Probing the template with one field asks exactly whether that field's declaration accepts it.\<close>

lemma probe_iff:
  assumes "(k, p) \<in> set (model_spec r)"
  shows "deserialises r (set_field k x (template r)) \<longleftrightarrow> p (Some x)"
proof -
  obtain m where m: "template r = Obj m" using template_object by blast
  have c: "conforms (model_deny r) (model_spec r) (Obj m)"
    using template_deserialises [of r] by (simp add: deserialises_iff m)
  show ?thesis
  proof
    assume "deserialises r (set_field k x (template r))"
    then have "conforms (model_deny r) (model_spec r) (Obj (obj_insert k x m))"
      by (simp add: deserialises_iff m)
    from conforms_field [OF this assms] show "p (Some x)" by simp
  next
    assume "p (Some x)"
    with conforms_insert [OF c model_spec_distinct assms]
    show "deserialises r (set_field k x (template r))" by (simp add: deserialises_iff m)
  qed
qed

lemma spec_accepts_unique:
  "(k, p) \<in> set (model_spec r) \<Longrightarrow> (k, q) \<in> set (model_spec r) \<Longrightarrow> p = q"
  using model_spec_distinct by (metis eq_key_imp_eq_value)

definition accepts :: "Resource \<Rightarrow> string \<Rightarrow> json \<Rightarrow> bool" where
  "accepts r k x \<longleftrightarrow> (case map_of (model_spec r) k of None \<Rightarrow> False | Some p \<Rightarrow> p (Some x))"

lemma accepts_spec: "(k, p) \<in> set (model_spec r) \<Longrightarrow> accepts r k x \<longleftrightarrow> p (Some x)"
  by (simp add: accepts_def map_of_is_SomeI)

lemma references_within_limit_iff:
  "references_within_limit r m = Inr u \<longleftrightarrow>
     (\<forall>f\<in>set (reference_fields r). \<forall>items. map_of m f = Some (Arr items) \<longrightarrow> length items \<le> 512)"
  unfolding references_within_limit_def rall_Inr_iff
  by (auto simp: MAX_REFERENCED_ITEMS_def not_less [symmetric]
      split: option.splits json.splits if_splits)

lemma check_against_model_iff:
  assumes "fst ` set m \<subseteq> set (known_fields r)"
  shows "check_against_model r m = Inr u \<longleftrightarrow>
    (\<forall>(k, x)\<in>set m. x \<noteq> Null \<longrightarrow> accepts r k x)"
proof -
  have "deserialises r (set_field k x (template r)) \<longleftrightarrow> accepts r k x" if "(k, x) \<in> set m" for k x
  proof -
    have "k \<in> fst ` set m" using that by (rule image_eqI [rotated]) simp
    with assms obtain p where "(k, p) \<in> set (model_spec r)"
      by (auto simp: known_fields_spec)
    then show ?thesis by (simp add: probe_iff accepts_spec)
  qed
  then show ?thesis
    unfolding check_against_model_def rall_Inr_iff is_null_def
    by (auto split: if_splits)
qed

lemma validate_payload_iff:
  "validate_payload r v = Inr u \<longleftrightarrow>
     (\<exists>m. v = Obj m \<and> fst ` set m \<subseteq> set (known_fields r)
        \<and> (r = Cases \<longrightarrow> ''defectLinks'' \<notin> fst ` set m)
        \<and> references_within_limit r m = Inr ()
        \<and> (\<forall>(k, x)\<in>set m. x \<noteq> Null \<longrightarrow> accepts r k x))"
proof (cases "as_object v")
  case None
  then have "\<nexists>m. v = Obj m" by auto
  with None show ?thesis by (simp add: validate_payload_def)
next
  case (Some m)
  then have v: "v = Obj m" by simp
  have "validate_payload r v = Inr u \<longleftrightarrow>
      \<not> (r = Cases \<and> ''defectLinks'' \<in> fst ` set m) \<and> fst ` set m \<subseteq> set (known_fields r)
      \<and> references_within_limit r m = Inr () \<and> check_against_model r m = Inr ()"
    unfolding validate_payload_def v
    by (simp add: rbind_Inr_iff rall_Inr_iff obj_keys_def image_subset_iff)
  also have "\<dots> \<longleftrightarrow> \<not> (r = Cases \<and> ''defectLinks'' \<in> fst ` set m)
      \<and> fst ` set m \<subseteq> set (known_fields r) \<and> references_within_limit r m = Inr ()
      \<and> (\<forall>(k, x)\<in>set m. x \<noteq> Null \<longrightarrow> accepts r k x)"
    using check_against_model_iff [of m r] by blast
  finally show ?thesis unfolding v by blast
qed

end
