(* ===== verification/Documents.thy ===== *)
theory Documents
  imports Validation
begin

text \<open>
  What the service does to a document between a request and the store: the pure functions of
  \<^verbatim>\<open>src/domain/service/mod.rs\<close>. The clock is an argument: \<open>stamp\<close> is the text
  \<^verbatim>\<open>current_iso8601_timestamp\<close> returns and \<open>secs\<close> the text \<^verbatim>\<open>current_timestamp_string\<close> returns.

  The results of the file are about reading back: every document a create stores, and every document
  an update stores over a well-formed one, deserialises into its model, so the read path never
  refuses it. The exception, a workflow created without \<^verbatim>\<open>steps\<close>, is proved to be one.
\<close>

section \<open>Versions of a test case\<close>

definition QUALIFYING_CASE_FIELDS :: "string list" where
  "QUALIFYING_CASE_FIELDS = [''title'', ''steps'', ''preconditions'', ''expectedResult'']"

definition case_content_changed :: "json \<Rightarrow> json \<Rightarrow> bool" where
  "case_content_changed stored merged \<longleftrightarrow>
     list_ex (\<lambda>field. get stored field \<noteq> get merged field) QUALIFYING_CASE_FIELDS"

definition stamp_case_creation :: "string \<Rightarrow> json \<Rightarrow> json" where
  "stamp_case_creation stamp document =
     on_object (\<lambda>m. obj_insert ''lastModified'' (Str stamp)
                     (obj_insert ''version'' (Num (PosInt 1)) m)) document"

definition stored_version :: "json \<Rightarrow> 64 word" where
  "stored_version stored =
     (case Option.bind (get stored ''version'') as_u64 of Some n \<Rightarrow> n | None \<Rightarrow> 1)"

text \<open>The changes \<^verbatim>\<open>revise_case\<close> makes to the merged object; the snapshot it saves first is the
  stored document, under \<open>stored_version\<close>.\<close>

definition revise_fields :: "string \<Rightarrow> json \<Rightarrow> bool \<Rightarrow> json btree \<Rightarrow> json btree" where
  "revise_fields stamp stored changed m =
     (if changed
      then obj_insert ''lastModified'' (Str stamp)
             (obj_insert ''version'' (Num (PosInt (stored_version stored + 1))) m)
      else let m1 = (case get stored ''lastModified'' of
                       Some value \<Rightarrow> obj_insert ''lastModified'' value m
                     | None \<Rightarrow> obj_remove ''lastModified'' m)
           in if get stored ''version'' \<noteq> None
              then obj_insert ''version'' (Num (PosInt (stored_version stored))) m1
              else obj_remove ''version'' m1)"

section \<open>Normalisation and merging\<close>

fun marker_fields :: "Resource \<Rightarrow> (string option \<times> string) option" where
  "marker_fields Projects = Some (Some ''testSuites'', ''projectId'')"
| "marker_fields Suites = Some (Some ''testCases'', ''suiteId'')"
| "marker_fields Runs = Some (None, ''testRunId'')"
| "marker_fields Milestones = Some (None, ''milestoneId'')"
| "marker_fields Configurations = Some (None, ''configId'')"
| "marker_fields Workflows = Some (None, ''workflowId'')"
| "marker_fields Cases = None"

definition holds_string :: "json btree \<Rightarrow> string \<Rightarrow> bool" where
  "holds_string m k \<longleftrightarrow> (case map_of m k of Some v \<Rightarrow> is_string v | None \<Rightarrow> False)"

definition normalise_fields ::
  "Resource \<Rightarrow> string \<Rightarrow> string \<Rightarrow> string option \<Rightarrow> string \<Rightarrow> json btree \<Rightarrow> json btree" where
  "normalise_fields r secs rid collection identity m =
     (let m1 = (case collection of Some c \<Rightarrow> obj_insert c (Arr []) m | None \<Rightarrow> m);
          authoritative = (r \<noteq> Configurations \<and> holds_string m1 identity);
          m2 = (if authoritative then m1 else obj_insert identity (Str rid) m1)
      in if r = Runs \<and> \<not> holds_string m2 ''timestamp''
         then obj_insert ''timestamp'' (Str secs) m2 else m2)"

definition normalise_marker :: "Resource \<Rightarrow> string \<Rightarrow> string \<Rightarrow> json \<Rightarrow> json" where
  "normalise_marker r secs rid document = (case marker_fields r of
       None \<Rightarrow> document
     | Some (collection, identity) \<Rightarrow>
         on_object (normalise_fields r secs rid collection identity) document)"

definition merged_fields :: "json btree \<Rightarrow> json btree \<Rightarrow> json btree" where
  "merged_fields stored flds =
     foldl (\<lambda>m (k, v). if \<not> is_null v then obj_insert k v m else m) stored flds"

definition merged_document :: "json \<Rightarrow> json \<Rightarrow> json result" where
  "merged_document stored body = (case stored of
       Obj s \<Rightarrow> Inr (Obj (case as_object body of
                           Some flds \<Rightarrow> merged_fields s flds
                         | None \<Rightarrow> s))
     | _ \<Rightarrow> Inl (Internal ''Stored JSON is invalid''))"

text \<open>The document \<^verbatim>\<open>create_marker\<close> hands to storage.\<close>

definition created_document :: "Resource \<Rightarrow> string \<Rightarrow> string \<Rightarrow> string \<Rightarrow> json \<Rightarrow> json" where
  "created_document r stamp secs rid v =
     normalise_marker r secs rid (if r = Cases then stamp_case_creation stamp v else v)"

text \<open>The document the closure of \<^verbatim>\<open>write_document\<close> hands back to storage: merge, revise a case,
  normalise.\<close>

definition updated_document ::
  "Resource \<Rightarrow> string \<Rightarrow> string \<Rightarrow> string \<Rightarrow> json \<Rightarrow> json \<Rightarrow> json result" where
  "updated_document r stamp secs rid stored body =
     rbind (merged_document stored body) (\<lambda>merged.
       let revised = (if r = Cases
             then on_object (revise_fields stamp stored (case_content_changed stored merged)) merged
             else merged)
       in Inr (normalise_marker r secs rid revised))"

section \<open>Placement requests\<close>

definition creates :: "Resource \<Rightarrow> json \<Rightarrow> bool result" where
  "creates r body =
     (let mode = get body ''mode'' in
      if (case mode of
            Some m \<Rightarrow> \<not> (as_str m = Some ''copy'' \<or> as_str m = Some ''move'') | None \<Rightarrow> False)
      then Inl (invalid_request ''Field `mode` must be `copy` or `move`'')
      else let creation = (case r of
                 Suites \<Rightarrow> required_string body ''name'' \<noteq> None
               | Cases \<Rightarrow> required_string body ''title'' \<noteq> None
               | _ \<Rightarrow> True)
           in if creation \<and> mode \<noteq> None
              then Inl (invalid_request
                ''A placement request cannot carry the fields that create a new resource'')
              else Inr creation)"

definition placement_mode :: "json \<Rightarrow> Placement" where
  "placement_mode body = (if get_str body ''mode'' = Some ''move'' then Move else Copy)"

section \<open>Messages\<close>

fun describe_parent :: "Parent \<Rightarrow> string" where
  "describe_parent (ProjectParent p) = ''project '' @ p"
| "describe_parent (SuiteParent p s) = ''suite '' @ s @ '' in project '' @ p"

fun parent_missing_message :: "Parent \<Rightarrow> string" where
  "parent_missing_message (ProjectParent _) = ''Project not found''"
| "parent_missing_message (SuiteParent _ _) = ''Test suite not found''"

fun entity_missing_message :: "Resource \<Rightarrow> string" where
  "entity_missing_message Projects = ''Project not found''"
| "entity_missing_message Suites = ''Test suite not found''"
| "entity_missing_message Cases = ''Test case not found''"
| "entity_missing_message _ = ''Resource not found''"

fun ambiguous_endpoints :: "Resource \<Rightarrow> string" where
  "ambiguous_endpoints Cases = ''POST /projects/{id}/test_cases, POST /test_suites/{id}/test_cases, the matching /{case_id} delete, or the parent-scoped attachment routes /projects/{id}/test_cases/{case_id}/attachments and /test_suites/{id}/test_cases/{case_id}/attachments''"
| "ambiguous_endpoints Runs = ''POST /projects/{id}/test_runs, or the matching /{run_id} delete''"
| "ambiguous_endpoints Milestones = ''POST /projects/{id}/milestones, or the matching /{milestone_id} delete''"
| "ambiguous_endpoints Configurations = ''POST /projects/{id}/configurations, or the matching /{config_id} delete''"
| "ambiguous_endpoints _ = ''POST /projects/{id}/test_suites, or the matching /{suite_id} delete''"

definition ambiguous :: "Resource \<Rightarrow> Parent list \<Rightarrow> DomainError" where
  "ambiguous r homes = Conflict (''This identifier is used by '' @ show_nat (length homes)
     @ '' parents ('' @ join_with '', '' (sort (map describe_parent homes))
     @ ''); address the intended one through '' @ ambiguous_endpoints r)"

section \<open>Lookups in the results\<close>

lemma holds_string_iff: "holds_string m k \<longleftrightarrow> (\<exists>s. map_of m k = Some (Str s))"
  by (auto simp: holds_string_def is_string_def split: option.splits)

lemma map_of_merged_fields:
  "obj_sorted flds \<Longrightarrow>
   map_of (merged_fields stored flds) k =
     (case map_of flds k of
        Some v \<Rightarrow> if v = Null then map_of stored k else Some v
      | None \<Rightarrow> map_of stored k)"
proof (induction flds arbitrary: stored)
  case (Cons p flds)
  obtain k' v where p: "p = (k', v)" by (cases p)
  from Cons.prems have "map_of flds k' = None"
    by (auto simp: p obj_sorted_Cons map_of_eq_None_iff)
  with Cons show ?case
    by (auto simp: p merged_fields_def is_null_def obj_sorted_Cons split: option.splits)
qed (simp add: merged_fields_def)

lemma keys_merged_fields:
  "fst ` set (merged_fields stored flds) \<subseteq> fst ` set stored \<union> fst ` set flds"
proof (induction flds arbitrary: stored)
  case (Cons p flds)
  obtain k v where p: "p = (k, v)" by (cases p)
  have "fst ` set (merged_fields stored (p # flds)) \<subseteq>
      fst ` set (if is_null v then stored else obj_insert k v stored) \<union> fst ` set flds"
    using Cons.IH [of "if is_null v then stored else obj_insert k v stored"]
    by (simp add: merged_fields_def p split: if_splits)
  moreover have "fst ` set (if is_null v then stored else obj_insert k v stored)
      \<subseteq> insert k (fst ` set stored)"
    by (simp add: set_fst_obj_insert subset_insertI)
  ultimately show ?case by (simp add: p) blast
qed (simp add: merged_fields_def)

lemma obj_sorted_merged_fields: "obj_sorted stored \<Longrightarrow> obj_sorted (merged_fields stored flds)"
  unfolding merged_fields_def
  by (induction flds arbitrary: stored) (auto simp: obj_sorted_insert)

section \<open>When a stored object reads back\<close>

fun required_fields :: "Resource \<Rightarrow> string list" where
  "required_fields Projects = [''projectId'', ''name'', ''testSuites'']"
| "required_fields Suites = [''suiteId'', ''name'', ''testCases'']"
| "required_fields Cases = [''testCaseId'', ''title'', ''expectedResult'']"
| "required_fields Runs = [''testRunId'', ''timestamp'']"
| "required_fields Milestones = [''milestoneId'', ''name'']"
| "required_fields Configurations = [''configId'', ''name'']"
| "required_fields Workflows = [''workflowId'', ''name'', ''steps'']"

definition fields_ok :: "Resource \<Rightarrow> json btree \<Rightarrow> bool" where
  "fields_ok r m \<longleftrightarrow> (\<forall>k x. map_of m k = Some x \<longrightarrow> k \<in> set (known_fields r) \<longrightarrow> x \<noteq> Null \<longrightarrow> accepts r k x)"

definition present :: "Resource \<Rightarrow> json btree \<Rightarrow> bool" where
  "present r m \<longleftrightarrow> (\<forall>k\<in>set (required_fields r). \<exists>x. map_of m k = Some x \<and> x \<noteq> Null)"

lemma spec_kinds:
  "list_all (\<lambda>(k, p). if k \<in> set (required_fields r) then \<not> p None \<and> \<not> p (Some Null)
                     else p None \<and> p (Some Null)) (model_spec r)"
  by (cases r) (simp_all add: spec_defs f_req_simps dec_str_def dec_vec_def as_str_def)

lemma spec_optional:
  "(k, p) \<in> set (model_spec r) \<Longrightarrow> k \<notin> set (required_fields r) \<Longrightarrow> p None \<and> p (Some Null)"
  and spec_required:
  "(k, p) \<in> set (model_spec r) \<Longrightarrow> k \<in> set (required_fields r) \<Longrightarrow> \<not> p None \<and> \<not> p (Some Null)"
  using spec_kinds [of r] by (auto simp: list_all_iff split: if_splits)

lemma required_known: "k \<in> set (required_fields r) \<Longrightarrow> k \<in> set (known_fields r)"
  by (cases r) auto

lemma deserialises_Obj_iff:
  "deserialises r (Obj m) \<longleftrightarrow>
     (model_deny r \<longrightarrow> fst ` set m \<subseteq> set (known_fields r)) \<and> fields_ok r m \<and> present r m"
proof -
  have field: "p (map_of m k) \<longleftrightarrow>
      (\<forall>x. map_of m k = Some x \<longrightarrow> x \<noteq> Null \<longrightarrow> accepts r k x)
      \<and> (k \<in> set (required_fields r) \<longrightarrow> (\<exists>x. map_of m k = Some x \<and> x \<noteq> Null))"
    if "(k, p) \<in> set (model_spec r)" for k p
    using spec_optional [OF that] spec_required [OF that] accepts_spec [OF that]
    by (cases "map_of m k") auto
  have known: "k \<in> set (known_fields r) \<longleftrightarrow> (\<exists>p. (k, p) \<in> set (model_spec r))" for k
    by (force simp: known_fields_spec)
  have "(\<forall>(k, p)\<in>set (model_spec r). p (map_of m k)) \<longleftrightarrow>
      (\<forall>k\<in>set (known_fields r). (\<forall>x. map_of m k = Some x \<longrightarrow> x \<noteq> Null \<longrightarrow> accepts r k x)
      \<and> (k \<in> set (required_fields r) \<longrightarrow> (\<exists>x. map_of m k = Some x \<and> x \<noteq> Null)))"
    using field known by fast
  also have "\<dots> \<longleftrightarrow> fields_ok r m \<and> present r m"
    unfolding fields_ok_def present_def using required_known by blast
  finally show ?thesis
    unfolding deserialises_iff conforms_Obj by (simp add: known_fields_spec)
qed

lemma fields_ok_insert: "fields_ok r m \<Longrightarrow> accepts r k x \<Longrightarrow> fields_ok r (obj_insert k x m)"
  by (auto simp: fields_ok_def)

lemma fields_ok_remove: "fields_ok r m \<Longrightarrow> fields_ok r (obj_remove k m)"
  by (auto simp: fields_ok_def)

lemma present_insert: "present r m \<Longrightarrow> x \<noteq> Null \<Longrightarrow> present r (obj_insert k x m)"
  by (auto simp: present_def)

lemma present_remove: "present r m \<Longrightarrow> k \<notin> set (required_fields r) \<Longrightarrow> present r (obj_remove k m)"
  by (auto simp: present_def)

lemma accepts_known: "accepts r k x \<Longrightarrow> k \<in> set (known_fields r)"
  by (auto simp: accepts_def known_fields_spec split: option.splits dest!: map_of_SomeD
      intro: rev_image_eqI)

lemma accepts_marker:
  "case marker_fields r of
     None \<Rightarrow> True
   | Some (c, i) \<Rightarrow> accepts r i (Str s) \<and> (case c of None \<Rightarrow> True | Some d \<Rightarrow> accepts r d (Arr []))"
  by (cases r) (simp_all add: accepts_def spec_defs f_req_simps dec_vec_def)

lemma accepts_identity:
  "marker_fields r = Some (c, i) \<Longrightarrow> accepts r i (Str s)"
  "marker_fields r = Some (Some d, i) \<Longrightarrow> accepts r d (Arr [])"
  using accepts_marker [of r s] by (simp_all split: option.splits)

lemma accepts_managed:
  "accepts Cases ''version'' (Num (PosInt n))" "accepts Cases ''lastModified'' (Str s)"
  "accepts Runs ''timestamp'' (Str s)"
  by (simp_all add: accepts_def spec_defs f_req_simps f_opt_def opt_def)

lemma validated_fields_ok:
  assumes "validate_payload r (Obj m) = Inr u"
  shows "fields_ok r m" "fst ` set m \<subseteq> set (known_fields r)"
  using assms by (auto simp: validate_payload_iff fields_ok_def dest!: map_of_SomeD)

section \<open>Created and updated documents read back\<close>

lemma fields_ok_insert_null:
  "fields_ok r m \<Longrightarrow> (x \<noteq> Null \<Longrightarrow> accepts r k x) \<Longrightarrow> fields_ok r (obj_insert k x m)"
  by (auto simp: fields_ok_def)

lemma fields_ok_normalise:
  assumes "marker_fields r = Some (c, i)" "fields_ok r m"
  shows "fields_ok r (normalise_fields r secs rid c i m)"
  using assms accepts_identity [of r] accepts_managed(3)
  by (cases c) (auto simp: normalise_fields_def Let_def intro!: fields_ok_insert)

lemma keys_normalise:
  assumes "marker_fields r = Some (c, i)" "fst ` set m \<subseteq> set (known_fields r)"
  shows "fst ` set (normalise_fields r secs rid c i m) \<subseteq> set (known_fields r)"
proof -
  have "i \<in> set (known_fields r)" "\<And>d. c = Some d \<Longrightarrow> d \<in> set (known_fields r)"
    "r = Runs \<Longrightarrow> ''timestamp'' \<in> set (known_fields r)"
    using assms(1) accepts_identity accepts_known by fastforce+
  with assms(2) show ?thesis
    by (cases c) (auto simp: normalise_fields_def Let_def set_fst_obj_insert
        simp del: known_fields.simps)
qed

lemma present_normalise:
  assumes "marker_fields r = Some (c, i)"
    "\<And>k. k \<in> set (required_fields r) \<Longrightarrow> k \<noteq> i \<Longrightarrow> c \<noteq> Some k \<Longrightarrow> k \<noteq> ''timestamp'' \<Longrightarrow>
       \<exists>x. map_of m k = Some x \<and> x \<noteq> Null"
  shows "present r (normalise_fields r secs rid c i m)"
  unfolding present_def
proof
  fix k
  assume k: "k \<in> set (required_fields r)"
  have ts: "k = ''timestamp'' \<Longrightarrow> r = Runs" using k by (cases r) auto
  show "\<exists>x. map_of (normalise_fields r secs rid c i m) k = Some x \<and> x \<noteq> Null"
    using assms(2) [OF k] ts
    by (cases c) (auto simp: normalise_fields_def Let_def holds_string_iff)
qed

text \<open>Normalising keeps a well-formed document well-formed.\<close>

lemma normalise_keeps_model:
  assumes "deserialises r (Obj m)"
  shows "deserialises r (normalise_marker r secs rid (Obj m))"
proof (cases "marker_fields r")
  case None
  with assms show ?thesis by (simp add: normalise_marker_def)
next
  case (Some ci)
  obtain c i where ci: "ci = (c, i)" by (cases ci)
  have "present r (normalise_fields r secs rid c i m)"
    using assms Some by (intro present_normalise) (auto simp: ci deserialises_Obj_iff present_def)
  with assms Some show ?thesis
    by (simp add: ci normalise_marker_def deserialises_Obj_iff fields_ok_normalise keys_normalise)
qed

lemma fields_ok_merged:
  "fields_ok r m \<Longrightarrow> (\<forall>(k, x)\<in>set b. x \<noteq> Null \<longrightarrow> accepts r k x) \<Longrightarrow> fields_ok r (merged_fields m b)"
  unfolding merged_fields_def
  by (induction b arbitrary: m) (auto simp: is_null_def fields_ok_insert)

lemma present_merged: "present r m \<Longrightarrow> present r (merged_fields m b)"
  unfolding merged_fields_def
  by (induction b arbitrary: m) (auto simp: is_null_def present_insert)

lemma merged_keeps_model:
  assumes "deserialises r (Obj m)" "validate_payload r (Obj b) = Inr ()"
  shows "deserialises r (Obj (merged_fields m b))"
proof -
  have b: "fst ` set b \<subseteq> set (known_fields r)" "\<forall>(k, x)\<in>set b. x \<noteq> Null \<longrightarrow> accepts r k x"
    using assms(2) unfolding validate_payload_iff by blast+
  have "fields_ok r m" "present r m" using assms(1) unfolding deserialises_Obj_iff by simp_all
  then have "fields_ok r (merged_fields m b)" "present r (merged_fields m b)"
    using fields_ok_merged [OF _ b(2)] present_merged by blast+
  moreover have "model_deny r \<longrightarrow> fst ` set m \<subseteq> set (known_fields r)"
    using assms(1) unfolding deserialises_Obj_iff by simp
  then have "model_deny r \<longrightarrow> fst ` set (merged_fields m b) \<subseteq> set (known_fields r)"
    using order_trans [OF keys_merged_fields Un_least [OF _ b(1)]] by simp
  ultimately show ?thesis by (simp add: deserialises_Obj_iff)
qed

text \<open>One field at a time: inserting an accepted value, or dropping an optional one.\<close>

lemma deserialises_insert:
  assumes "deserialises r (Obj m)" "k \<in> set (known_fields r)" "x \<noteq> Null \<longrightarrow> accepts r k x"
    "x = Null \<longrightarrow> k \<notin> set (required_fields r)"
  shows "deserialises r (Obj (obj_insert k x m))"
  using assms unfolding deserialises_Obj_iff
  by (auto simp: set_fst_obj_insert fields_ok_insert_null present_def simp del: known_fields.simps)

lemma deserialises_remove:
  assumes "deserialises r (Obj m)" "k \<notin> set (required_fields r)"
  shows "deserialises r (Obj (obj_remove k m))"
  using assms unfolding deserialises_Obj_iff
  by (auto simp: set_fst_obj_remove fields_ok_remove present_remove simp del: known_fields.simps)

lemma revise_keeps_model:
  assumes "deserialises Cases (Obj s)" "deserialises Cases (Obj m)"
  shows "deserialises Cases (Obj (revise_fields stamp (Obj s) changed m))"
proof -
  have v: "deserialises Cases (Obj (obj_insert ''version'' (Num (PosInt n)) m'))"
    if "deserialises Cases (Obj m')" for n m'
    using that by (rule deserialises_insert) (simp_all add: accepts_managed)
  have l: "deserialises Cases (Obj (obj_insert ''lastModified'' (Str t) m'))"
    if "deserialises Cases (Obj m')" for t m'
    using that by (rule deserialises_insert) (simp_all add: accepts_managed)
  have "x \<noteq> Null \<longrightarrow> accepts Cases ''lastModified'' x" if "map_of s ''lastModified'' = Some x" for x
    using assms(1) that by (auto simp: deserialises_Obj_iff fields_ok_def)
  with assms(2) have "deserialises Cases (Obj (case map_of s ''lastModified'' of
      Some value \<Rightarrow> obj_insert ''lastModified'' value m | None \<Rightarrow> obj_remove ''lastModified'' m))"
    by (auto simp del: deserialises.simps intro: deserialises_remove deserialises_insert
        split: option.splits)
  then show ?thesis
    using assms(2) by (simp add: revise_fields_def Let_def v l deserialises_remove
        del: deserialises.simps)
qed

lemma normalise_object: "\<exists>m'. normalise_marker r secs rid (Obj m) = Obj m'"
  by (cases r) (simp_all add: normalise_marker_def)

text \<open>A document that a create request stores reads back as its typed model: for a body that
  passes validation and yields an identifier, the stored document deserialises, with one exception,
  a workflow whose body leaves \<^verbatim>\<open>steps\<close> out (or null), which is stored and then refused by every
  read.\<close>

lemma created_document_model:
  assumes "validate_payload r v = Inr ()" "derive_create_id r v = Inr rid"
  shows "document_matches_model r (created_document r stamp secs rid v) \<longleftrightarrow>
    (r = Workflows \<longrightarrow> get v ''steps'' \<notin> {None, Some Null})"
proof -
  obtain m where v: "v = Obj m" using assms(1) by (auto simp: validate_payload_iff)
  note ok = validated_fields_ok [OF assms(1) [unfolded v]]
  show ?thesis
  proof (cases "r = Cases")
    case True
    from assms(2) have "present Cases m"
      by (auto simp: True v derive_create_id_def Let_def required_string_Some_iff present_def
          split: option.splits)
    with ok have "deserialises Cases (Obj m)" by (simp add: True deserialises_Obj_iff)
    then have "deserialises Cases (Obj (obj_insert ''lastModified'' (Str stamp)
        (obj_insert ''version'' (Num (PosInt 1)) m)))"
      by (intro deserialises_insert) (simp_all add: accepts_managed)
    then show ?thesis
      by (simp add: True document_matches_model_def created_document_def stamp_case_creation_def
          normalise_marker_def v del: deserialises.simps)
  next
    case False
    obtain c i where ci: "marker_fields r = Some (c, i)" using False by (cases r) auto
    let ?n = "normalise_fields r secs rid c i m"
    have name: "\<exists>s. map_of m ''name'' = Some (Str s)"
      using assms(2) False by (cases r) (auto simp: v derive_create_id_def Let_def rbind_Inr_iff
          required_string_Some_iff)
    have steps: "map_of ?n ''steps'' = map_of m ''steps''" if "r = Workflows"
      using ci that by (auto simp: normalise_fields_def Let_def)
    have "present r ?n \<longleftrightarrow> (r = Workflows \<longrightarrow> map_of m ''steps'' \<notin> {None, Some Null})"
    proof
      assume "present r ?n"
      then show "r = Workflows \<longrightarrow> map_of m ''steps'' \<notin> {None, Some Null}"
        using steps by (auto simp: present_def)
    next
      assume st: "r = Workflows \<longrightarrow> map_of m ''steps'' \<notin> {None, Some Null}"
      show "present r ?n"
      proof (rule present_normalise [OF ci])
        fix k
        assume "k \<in> set (required_fields r)" "k \<noteq> i" "c \<noteq> Some k" "k \<noteq> ''timestamp''"
        then have "k = ''name'' \<or> r = Workflows \<and> k = ''steps''" using ci False by (cases r) auto
        then show "\<exists>x. map_of m k = Some x \<and> x \<noteq> Null" using name st by auto
      qed
    qed
    with ok ci False show ?thesis
      by (simp add: document_matches_model_def created_document_def normalise_marker_def v
          deserialises_Obj_iff fields_ok_normalise keys_normalise
          del: deserialises.simps known_fields.simps)
  qed
qed

text \<open>An update keeps a stored document readable: over a stored object that deserialises into
  its model, every validated body produces a document, and that document deserialises again.\<close>

lemma updated_document_model:
  assumes "document_matches_model r (Obj s)" "validate_payload r body = Inr ()"
  shows "\<exists>d. updated_document r stamp secs rid (Obj s) body = Inr d \<and> document_matches_model r d"
proof -
  obtain b where b: "body = Obj b" using assms(2) by (auto simp: validate_payload_iff)
  have m: "deserialises r (Obj (merged_fields s b))"
    using assms by (intro merged_keeps_model) (simp_all add: document_matches_model_def b)
  let ?f = "if r = Cases then revise_fields stamp (Obj s)
      (case_content_changed (Obj s) (Obj (merged_fields s b))) (merged_fields s b)
    else merged_fields s b"
  have "deserialises r (Obj ?f)"
    using m assms(1) revise_keeps_model [of s "merged_fields s b"]
    by (auto simp: document_matches_model_def simp del: deserialises.simps)
  then have "deserialises r (normalise_marker r secs rid (Obj ?f))"
    by (rule normalise_keeps_model)
  then show ?thesis
    by (simp add: updated_document_def merged_document_def b document_matches_model_def
        del: deserialises.simps split: if_splits)
qed

lemma merged_changed_iff:
  assumes "obj_sorted b"
  shows "case_content_changed (Obj s) (Obj (merged_fields s b)) \<longleftrightarrow>
    (\<exists>k\<in>set QUALIFYING_CASE_FIELDS. \<exists>x. map_of b k = Some x \<and> x \<noteq> Null \<and> map_of s k \<noteq> Some x)"
  unfolding case_content_changed_def list_ex_iff get_Obj map_of_merged_fields [OF assms]
  by (rule bex_cong [OF refl]) (auto split: option.splits)

text \<open>A partial update overlays exactly the fields the body carries: a field the body gives a
  non-null value has that value afterwards, and every field it leaves out or sends as null keeps its
  stored value, apart from the identity, collection, timestamp and version fields the service
  manages.\<close>

theorem updated_document_overlay:
  assumes "updated_document r stamp secs rid (Obj s) (Obj b) = Inr d" "obj_sorted b"
    "k \<notin> {''testSuites'', ''testCases'', ''timestamp'', ''version'', ''lastModified'', ''projectId'',
       ''suiteId'', ''testRunId'', ''milestoneId'', ''configId'', ''workflowId''}"
  shows "get d k = (case map_of b k of
      Some x \<Rightarrow> if x = Null then map_of s k else Some x
    | None \<Rightarrow> map_of s k)"
proof -
  have norm: "get (normalise_marker r secs rid (Obj m)) k = map_of m k" for m
    using assms(3) by (cases r) (simp_all add: normalise_marker_def normalise_fields_def Let_def)
  have rev: "map_of (revise_fields stamp (Obj s) c m) k = map_of m k" for c m
    using assms(3) by (auto simp: revise_fields_def Let_def split: option.splits)
  obtain m where "d = normalise_marker r secs rid (Obj m)" "map_of m k = map_of (merged_fields s b) k"
    using assms(1) rev by (cases "r = Cases") (auto simp: updated_document_def merged_document_def Let_def)
  with map_of_merged_fields [OF assms(2), of s k] norm show ?thesis by simp
qed

text \<open>The version rule of a test case: an update that changes a qualifying field (title, steps,
  preconditions, expected result) stores the version after the stored one and a fresh timestamp;
  any other update keeps both bookkeeping fields, whatever values the body sends for them.\<close>

theorem updated_case_version:
  assumes "updated_document Cases stamp secs rid (Obj s) (Obj b) = Inr d" "obj_sorted b"
  shows "if \<exists>k\<in>set QUALIFYING_CASE_FIELDS. \<exists>x. map_of b k = Some x \<and> x \<noteq> Null \<and> map_of s k \<noteq> Some x
    then get d ''version'' = Some (Num (PosInt (stored_version (Obj s) + 1)))
       \<and> get d ''lastModified'' = Some (Str stamp)
    else get d ''version'' =
           map_option (\<lambda>_. Num (PosInt (stored_version (Obj s)))) (map_of s ''version'')
       \<and> get d ''lastModified'' = map_of s ''lastModified''"
proof -
  have d: "d = Obj (revise_fields stamp (Obj s)
      (case_content_changed (Obj s) (Obj (merged_fields s b))) (merged_fields s b))"
    using assms(1) by (simp add: updated_document_def merged_document_def normalise_marker_def Let_def)
  show ?thesis
    unfolding d merged_changed_iff [OF assms(2), of s, symmetric]
    by (auto simp: revise_fields_def Let_def split: option.splits)
qed

section \<open>Witnesses\<close>

lemma workflow_without_steps_unreadable:
  "validate_payload Workflows (Obj [(''name'', Str ''w'')]) = Inr ()
   \<and> derive_create_id Workflows (Obj [(''name'', Str ''w'')]) = Inr ''w.json''
   \<and> \<not> document_matches_model Workflows
        (created_document Workflows ''t'' ''0'' ''w.json'' (Obj [(''name'', Str ''w'')]))"
proof -
  have a: "validate_payload Workflows (Obj [(''name'', Str ''w'')]) = Inr ()"
    by (simp add: validate_payload_iff references_within_limit_def accepts_def Workflow_spec_def
        f_req_simps)
  have b: "derive_create_id Workflows (Obj [(''name'', Str ''w'')]) = Inr ''w.json''"
    by (simp add: derive_create_id_def required_string_def get_str_def)
  from created_document_model [OF a b, of "''t''" "''0''"] a b show ?thesis by simp
qed

definition stored_case :: "json btree" where
  "stored_case = [(''expectedResult'', Str ''e''), (''testCaseId'', Str ''c''), (''title'', Str ''t''),
     (''version'', Num (PosInt 3))]"

theorem updated_document_overlay_witness:
  "get (Obj (obj_insert ''lastModified'' (Str ''now'') (obj_insert ''version'' (Num (PosInt 4))
      (obj_insert ''title'' (Str ''u'') stored_case)))) ''expectedResult'' = Some (Str ''e'')"
  by (subst updated_document_overlay [where r = Cases and stamp = "''now''" and secs = "''0''"
        and rid = "''c''" and s = stored_case and b = "[(''title'', Str ''u'')]"]) code_simp+

theorem updated_case_version_witness:
  "get (Obj (obj_insert ''lastModified'' (Str ''now'') (obj_insert ''version'' (Num (PosInt 4))
      (obj_insert ''title'' (Str ''u'') stored_case)))) ''version'' = Some (Num (PosInt 4))"
proof -
  have "updated_document Cases ''now'' ''0'' ''c'' (Obj stored_case) (Obj [(''title'', Str ''u'')]) =
      Inr (Obj (obj_insert ''lastModified'' (Str ''now'') (obj_insert ''version'' (Num (PosInt 4))
        (obj_insert ''title'' (Str ''u'') stored_case))))" by code_simp
  moreover have "obj_sorted [(''title'', Str ''u'')]" by code_simp
  moreover have "stored_version (Obj stored_case) + 1 = 4" by code_simp
  ultimately show ?thesis
    using updated_case_version [of "''now''" "''0''" "''c''" stored_case "[(''title'', Str ''u'')]"]
    by (auto simp: QUALIFYING_CASE_FIELDS_def stored_case_def)
qed

end
