(* ===== verification/FileSystem.thy ===== *)
theory FileSystem
  imports Layout "HOL-Library.AList"
begin

text \<open>
  The part of the operating system's file interface the storage layer calls: a file system is an
  association list from paths to nodes, a node is a directory or a file with its bytes. The
  operations fail the way the calls of \<^verbatim>\<open>std::fs\<close> fail for the shape of the tree (a missing name,
  a file where a directory is needed, a directory where a file is needed); failures of the device
  (no space, permission bits, I/O errors) and links are not modelled. A directory has a link count
  above one, as it does on the usual Linux file systems, which is what \<^verbatim>\<open>read_confined\<close> sees of it.

  \<open>'a op\<close> is an operation on the file system that may fail and may have changed the tree even when
  it fails.
\<close>

datatype node = Dir | File string

type_synonym fs = "(path \<times> node) list"

definition lookup :: "fs \<Rightarrow> path \<Rightarrow> node option" where
  "lookup fs p = (if p = [] then Some Dir else map_of fs p)"

definition fs_put :: "path \<Rightarrow> node \<Rightarrow> fs \<Rightarrow> fs" where
  "fs_put p n fs = AList.update p n fs"

definition fs_remove :: "path \<Rightarrow> fs \<Rightarrow> fs" where
  "fs_remove p fs = filter (\<lambda>(q, _). \<not> prefix p q) fs"

definition is_file :: "fs \<Rightarrow> path \<Rightarrow> bool" where
  "is_file fs p \<longleftrightarrow> (case lookup fs p of Some (File _) \<Rightarrow> True | _ \<Rightarrow> False)"

definition is_dir :: "fs \<Rightarrow> path \<Rightarrow> bool" where
  "is_dir fs p \<longleftrightarrow> (case lookup fs p of Some Dir \<Rightarrow> True | _ \<Rightarrow> False)"

definition path_exists :: "fs \<Rightarrow> path \<Rightarrow> bool" where
  "path_exists fs p \<longleftrightarrow> lookup fs p \<noteq> None"

text \<open>Why a path does not resolve: a component of it is a file, or it is just absent.\<close>

definition missing_error :: "fs \<Rightarrow> path \<Rightarrow> io_error" where
  "missing_error fs p =
     (if list_ex (is_file fs) (butlast (prefixes p)) then io_err KNotADirectory ''Not a directory''
      else io_err KNotFound ''No such file or directory'')"

section \<open>Operations\<close>

type_synonym 'a op = "fs \<Rightarrow> 'a io_result \<times> fs"

definition obind :: "'a op \<Rightarrow> ('a \<Rightarrow> 'b op) \<Rightarrow> 'b op" where
  "obind m f fs = (case m fs of (Inl e, fs') \<Rightarrow> (Inl e, fs') | (Inr x, fs') \<Rightarrow> f x fs')"

definition olift :: "'a io_result \<Rightarrow> 'a op" where
  "olift r fs = (r, fs)"

definition oread :: "(fs \<Rightarrow> 'a io_result) \<Rightarrow> 'a op" where
  "oread g fs = (g fs, fs)"

definition create_private_dir_all :: "path \<Rightarrow> unit op" where
  "create_private_dir_all p fs =
     (if list_ex (is_file fs) (butlast (prefixes p))
      then (Inl (io_err KNotADirectory ''Not a directory''), fs)
      else if is_file fs p then (Inl (io_err KAlreadyExists ''File exists''), fs)
      else (Inr (), foldl (\<lambda>f q. if path_exists f q then f else fs_put q Dir f) fs (prefixes p)))"

definition read_confined :: "path \<Rightarrow> path \<Rightarrow> fs \<Rightarrow> string io_result" where
  "read_confined root p fs =
     (if \<not> prefix root p \<or> p = root
      then Inl (io_err KPermissionDenied ''path escapes data root'')
      else case lookup fs p of
             None \<Rightarrow> Inl (missing_error fs p)
           | Some Dir \<Rightarrow> Inl (io_err KPermissionDenied ''file is linked from outside the data root'')
           | Some (File b) \<Rightarrow> Inr b)"

definition remove_file :: "path \<Rightarrow> unit op" where
  "remove_file p fs = (case lookup fs p of
       None \<Rightarrow> (Inl (missing_error fs p), fs)
     | Some Dir \<Rightarrow> (Inl (io_err KIsADirectory ''Is a directory''), fs)
     | Some (File _) \<Rightarrow> (Inr (), fs_remove p fs))"

definition remove_dir_all :: "path \<Rightarrow> unit op" where
  "remove_dir_all p fs = (case lookup fs p of
       None \<Rightarrow> (Inl (missing_error fs p), fs)
     | Some (File _) \<Rightarrow> (Inl (io_err KNotADirectory ''Not a directory''), fs)
     | Some Dir \<Rightarrow> (Inr (), fs_remove p fs))"

text \<open>\<^verbatim>\<open>create_new\<close> refuses a name that is taken, whatever it names.\<close>

definition create_new_file :: "path \<Rightarrow> string \<Rightarrow> unit op" where
  "create_new_file p contents fs =
     (if path_exists fs p then (Inl (io_err KAlreadyExists ''File exists''), fs)
      else if is_dir fs (butlast p) then (Inr (), fs_put p (File contents) fs)
      else (Inl (missing_error fs p), fs))"

definition replace_file :: "path \<Rightarrow> string \<Rightarrow> unit op" where
  "replace_file p contents fs =
     (if is_dir fs p then (Inl (io_err KIsADirectory ''Is a directory''), fs)
      else (Inr (), fs_put p (File contents) fs))"

text \<open>The names a directory holds, sorted.\<close>

definition child_names :: "fs \<Rightarrow> path \<Rightarrow> string list" where
  "child_names fs d =
     sort (remdups (concat (map (\<lambda>(q, _). if q \<noteq> [] \<and> butlast q = d then [last q] else []) fs)))"

definition read_dir :: "fs \<Rightarrow> path \<Rightarrow> string list io_result" where
  "read_dir fs d = (case lookup fs d of
       None \<Rightarrow> Inl (missing_error fs d)
     | Some (File _) \<Rightarrow> Inl (io_err KNotADirectory ''Not a directory'')
     | Some Dir \<Rightarrow> Inr (child_names fs d))"

text \<open>Duplicate the subtree at \<open>from\<close> under \<open>to\<close>, and the move that leaves nothing behind.\<close>

definition subtree :: "path \<Rightarrow> path \<Rightarrow> fs \<Rightarrow> fs" where
  "subtree from to fs =
     map (\<lambda>(q, n). (to @ drop (length from) q, n)) (filter (\<lambda>(q, _). prefix from q) fs)"

section \<open>Laws\<close>

lemma lookup_put [simp]:
  "p \<noteq> [] \<Longrightarrow> lookup (fs_put p n fs) q = (if q = p then Some n else lookup fs q)"
  by (simp add: lookup_def fs_put_def update_conv')

lemma lookup_Nil [simp]: "lookup fs [] = Some Dir"
  by (simp add: lookup_def)

lemma map_of_filter_key: "map_of (filter (\<lambda>(q, _). P q) fs) p = (if P p then map_of fs p else None)"
  by (induction fs) auto

lemma lookup_remove [simp]:
  "lookup (fs_remove p fs) q = (if q \<noteq> [] \<and> prefix p q then None else lookup fs q)"
  by (simp add: lookup_def fs_remove_def map_of_filter_key)

lemma is_file_iff: "is_file fs p \<longleftrightarrow> (\<exists>b. lookup fs p = Some (File b))"
  by (auto simp: is_file_def split: option.splits node.splits)

lemma is_dir_iff: "is_dir fs p \<longleftrightarrow> lookup fs p = Some Dir"
  by (auto simp: is_dir_def split: option.splits node.splits)

lemma set_child_names:
  "c \<in> set (child_names fs d) \<longleftrightarrow> lookup fs (d @ [c]) \<noteq> None"
proof -
  have "c \<in> set (child_names fs d) \<longleftrightarrow> (\<exists>n. (d @ [c], n) \<in> set fs)"
    unfolding child_names_def by (force split: if_splits)
  also have "\<dots> \<longleftrightarrow> lookup fs (d @ [c]) \<noteq> None"
    unfolding lookup_def by (simp add: map_of_eq_None_iff image_iff del: not_None_eq) force
  finally show ?thesis .
qed

lemma child_names_sorted [simp]: "sorted (child_names fs d)" "distinct (child_names fs d)"
  by (simp_all add: child_names_def)

lemma obind_simps [simp]:
  "obind (olift (Inl e)) f fs = (Inl e, fs)" "obind (olift (Inr x)) f fs = f x fs"
  by (simp_all add: obind_def olift_def)

lemma obind_Inr_iff:
  "obind m f fs = (Inr y, fs'') \<longleftrightarrow> (\<exists>x fs'. m fs = (Inr x, fs') \<and> f x fs' = (Inr y, fs''))"
  by (auto simp: obind_def split: prod.splits sum.splits)

lemma obind_oread: "obind (oread g) f fs = (case g fs of Inl e \<Rightarrow> (Inl e, fs) | Inr x \<Rightarrow> f x fs)"
  by (simp add: obind_def oread_def split: sum.splits)

lemma obind_olift: "obind (olift r) f fs = (case r of Inl e \<Rightarrow> (Inl e, fs) | Inr x \<Rightarrow> f x fs)"
  by (simp add: obind_def olift_def split: sum.splits)

lemma foldl_mkdirs_lookup:
  "[] \<notin> set ps \<Longrightarrow>
   lookup (foldl (\<lambda>f q. if path_exists f q then f else fs_put q Dir f) fs ps) q =
     (if lookup fs q = None \<and> q \<in> set ps then Some Dir else lookup fs q)"
  by (induction ps arbitrary: fs) (auto simp: path_exists_def split: if_splits)

lemma mkdirs_lookup:
  assumes "create_private_dir_all p fs = (Inr u, fs')"
  shows "lookup fs' q = (if lookup fs q = None \<and> prefix q p then Some Dir else lookup fs q)"
proof -
  have "fs' = foldl (\<lambda>f q. if path_exists f q then f else fs_put q Dir f) fs (prefixes p)"
    using assms by (auto simp: create_private_dir_all_def split: if_splits)
  moreover obtain ps where ps: "prefixes p = [] # ps" and "[] \<notin> set ps" by (cases p) auto
  ultimately have "lookup fs' q =
      (if lookup fs q = None \<and> q \<in> set ps then Some Dir else lookup fs q)"
    using foldl_mkdirs_lookup [of ps fs q] by (simp add: path_exists_def)
  moreover have "lookup fs q = None \<Longrightarrow> q \<in> set ps \<longleftrightarrow> prefix q p"
    using ps in_set_prefixes [of q p] by (cases q) auto
  ultimately show ?thesis by auto
qed

lemma mkdirs_error_unchanged: "create_private_dir_all p fs = (Inl e, fs') \<Longrightarrow> fs' = fs"
  by (auto simp: create_private_dir_all_def split: if_splits)

section \<open>Well-formed trees\<close>

text \<open>Every node of a well-formed tree sits in a directory.\<close>

definition tree_ok :: "fs \<Rightarrow> bool" where
  "tree_ok fs \<longleftrightarrow> list_all (\<lambda>(q, _). q \<noteq> [] \<and> is_dir fs (butlast q)) fs \<and> distinct (map fst fs)"

end
