(* ===== verification/Repository.thy ===== *)
theory Repository
  imports FileSystem Json
begin

text \<open>
  The file repository (\<^verbatim>\<open>src/storage/fs\<close>): every operation of the \<^verbatim>\<open>Repository\<close> trait as the
  filesystem implementation performs it. A \<open>FileRepository\<close> is the data root, whether another
  process keeps the writer lock past the deadline, and the code the sources only call: the JSON
  writer and reader of \<^verbatim>\<open>serde_json\<close> (\<open>encode\<close> includes the final newline, \<open>decode\<close> is the error
  text or the value) and the digest \<^verbatim>\<open>compute_etag\<close> takes of the stored bytes.

  A write goes through a temporary file that is renamed over the destination; the model is the
  replacement itself. A placement whose target lies inside its source, which no tree the
  operations build holds, is answered with an error instead of the runaway copy.
\<close>

record FileRepository =
  root :: path
  lock_busy :: bool
  encode :: "json \<Rightarrow> string"
  decode :: "string \<Rightarrow> string + json"
  compute_etag :: "string \<Rightarrow> string"

definition acquire_lock :: "FileRepository \<Rightarrow> unit io_result" where
  "acquire_lock R = guard (\<not> lock_busy R) (io_err KWouldBlock ''lock acquisition timed out'')"

text \<open>Run an operation under the writer lock.\<close>

definition locked :: "FileRepository \<Rightarrow> 'a op \<Rightarrow> 'a op" where
  "locked R m = obind (olift (acquire_lock R)) (\<lambda>_. m)"

section \<open>Addressing\<close>

definition reject_parent :: "Parent option \<Rightarrow> unit io_result" where
  "reject_parent parent =
     guard (parent = None) (io_err KInvalidInput ''resource is not stored inside a parent'')"

definition project_parent :: "Parent option \<Rightarrow> string io_result" where
  "project_parent parent = (case parent of
       Some (ProjectParent p) \<Rightarrow> Inr p
     | _ \<Rightarrow> Inl (io_err KInvalidInput ''resource requires a project parent''))"

definition required_parent :: "Parent option \<Rightarrow> Parent io_result" where
  "required_parent parent = ok_or (io_err KInvalidInput ''resource requires a parent'') parent"

definition document :: "FileRepository \<Rightarrow> Resource \<Rightarrow> Parent option \<Rightarrow> string \<Rightarrow> path io_result" where
  "document R r parent rid = (case r of
       Projects \<Rightarrow> rbind (reject_parent parent) (\<lambda>_. project_marker (root R) rid)
     | Suites \<Rightarrow> rbind (project_parent parent) (\<lambda>p. suite_marker (root R) p rid)
     | Cases \<Rightarrow> rbind (required_parent parent) (\<lambda>p. case_marker (root R) p rid)
     | _ \<Rightarrow> rbind (project_parent parent) (\<lambda>p. project_document_path (root R) p r rid))"

definition folder :: "FileRepository \<Rightarrow> Resource \<Rightarrow> Parent option \<Rightarrow> string \<Rightarrow> path io_result" where
  "folder R r parent rid = (case r of
       Projects \<Rightarrow> rbind (reject_parent parent) (\<lambda>_. project_dir (root R) rid)
     | Suites \<Rightarrow> rbind (project_parent parent) (\<lambda>p. suite_dir (root R) p rid)
     | Cases \<Rightarrow> rbind (required_parent parent) (\<lambda>p. case_dir (root R) p rid)
     | _ \<Rightarrow> Inl (io_err KInvalidInput ''resource is not stored in the project tree''))"

fun not_a_project_home :: "Resource \<Rightarrow> io_error" where
  "not_a_project_home Runs = io_err KInvalidInput ''runs live inside a project''"
| "not_a_project_home Milestones = io_err KInvalidInput ''milestones live inside a project''"
| "not_a_project_home Configurations = io_err KInvalidInput ''configurations live inside a project''"
| "not_a_project_home Workflows = io_err KInvalidInput ''workflows live inside a project''"
| "not_a_project_home _ = io_err KInvalidInput ''these resources live inside a project''"

section \<open>Walking the tree\<close>

definition entries_or_empty :: "fs \<Rightarrow> path \<Rightarrow> string list io_result" where
  "entries_or_empty fs d = (case read_dir fs d of
       Inl e \<Rightarrow> if io_kind e = KNotFound then Inr [] else Inl e
     | Inr names \<Rightarrow> Inr names)"

definition child_folders :: "fs \<Rightarrow> path \<Rightarrow> string \<Rightarrow> string list io_result" where
  "child_folders fs d marker =
     rbind (entries_or_empty fs d) (\<lambda>names.
       Inr (filter (\<lambda>c. is_dir fs (d @ [c]) \<and> is_file fs (d @ [c, marker])) names))"

definition project_folders :: "FileRepository \<Rightarrow> fs \<Rightarrow> string list io_result" where
  "project_folders R fs =
     rbind (root_dir (root R) Projects) (\<lambda>d. child_folders fs d ''project.json'')"

definition collection_documents :: "fs \<Rightarrow> path \<Rightarrow> string list io_result" where
  "collection_documents fs d =
     rbind (entries_or_empty fs d) (\<lambda>names.
       Inr (filter (\<lambda>c. is_file fs (d @ [c]) \<and> suffix ''.json'' c) names))"

text \<open>\<open>for_each xs f\<close> collects what a \<^verbatim>\<open>for\<close> loop with \<^verbatim>\<open>?\<close> in its body pushes.\<close>

definition for_each :: "'a list \<Rightarrow> ('a \<Rightarrow> 'b list io_result) \<Rightarrow> 'b list io_result" where
  "for_each xs f = rbind (rmap f xs) (\<lambda>ys. Inr (concat ys))"

definition list_with_homes ::
  "FileRepository \<Rightarrow> Resource \<Rightarrow> fs \<Rightarrow> (string \<times> Parent option) list io_result" where
  "list_with_homes R r fs =
     rbind (project_folders R fs) (\<lambda>projects. case r of
       Projects \<Rightarrow> Inr (map (\<lambda>f. (folder_wire_id f, None)) projects)
     | Suites \<Rightarrow> for_each projects (\<lambda>project.
         rbind (project_dir (root R) (folder_wire_id project)) (\<lambda>d.
         rbind (child_folders fs d ''suite.json'') (\<lambda>suites.
           Inr (map (\<lambda>f. (folder_wire_id f, Some (ProjectParent (folder_wire_id project)))) suites))))
     | Cases \<Rightarrow> for_each projects (\<lambda>project.
         rbind (project_dir (root R) (folder_wire_id project)) (\<lambda>d.
         rbind (child_folders fs d ''test-case.json'') (\<lambda>own.
         rbind (child_folders fs d ''suite.json'') (\<lambda>suites.
         rbind (for_each suites (\<lambda>suite.
             rbind (child_folders fs (d @ [suite]) ''test-case.json'') (\<lambda>cs.
               Inr (map (\<lambda>f. (f, Some (SuiteParent (folder_wire_id project) (folder_wire_id suite)))) cs))))
           (\<lambda>nested.
             Inr (map (\<lambda>f. (f, Some (ProjectParent (folder_wire_id project)))) own @ nested))))))
     | _ \<Rightarrow> rbind (rmap (\<lambda>project. rbind (project_collection_dir (root R) (folder_wire_id project) r)
             (\<lambda>d. Inr (project, d))) projects) (\<lambda>dirs.
         for_each dirs (\<lambda>(project, d).
         rbind (collection_documents fs d) (\<lambda>ids.
           Inr (map (\<lambda>i. (i, Some (ProjectParent (folder_wire_id project)))) ids)))))"

definition list_ids :: "FileRepository \<Rightarrow> Resource \<Rightarrow> fs \<Rightarrow> string list io_result" where
  "list_ids R r fs = rbind (list_with_homes R r fs) (\<lambda>rows. Inr (remdups_adj (sort (map fst rows))))"

definition locate :: "FileRepository \<Rightarrow> Resource \<Rightarrow> string \<Rightarrow> fs \<Rightarrow> Parent list io_result" where
  "locate R r rid fs =
     (if is_project_scoped r
      then rbind (validate_document_id r rid) (\<lambda>_.
           rbind (project_folders R fs) (\<lambda>projects.
           for_each projects (\<lambda>project.
             rbind (project_document_path (root R) (folder_wire_id project) r rid) (\<lambda>p.
               Inr (if is_file fs p then [ProjectParent (folder_wire_id project)] else [])))))
      else rbind (node_folder r rid) (\<lambda>f. case r of
          Suites \<Rightarrow> rbind (project_folders R fs) (\<lambda>projects.
            for_each projects (\<lambda>project.
              rbind (suite_dir (root R) (folder_wire_id project) rid) (\<lambda>d.
                Inr (if is_file fs (d @ [''suite.json'']) then [ProjectParent (folder_wire_id project)]
                     else []))))
        | Cases \<Rightarrow> rbind (project_folders R fs) (\<lambda>projects.
            for_each projects (\<lambda>project.
              rbind (project_dir (root R) (folder_wire_id project)) (\<lambda>d.
              rbind (child_folders fs d ''suite.json'') (\<lambda>suites.
                Inr ((if is_file fs (d @ [f, ''test-case.json''])
                      then [ProjectParent (folder_wire_id project)] else [])
                   @ map (\<lambda>suite. SuiteParent (folder_wire_id project) (folder_wire_id suite))
                       (filter (\<lambda>suite. is_file fs (d @ [suite, f, ''test-case.json''])) suites))))))
        | _ \<Rightarrow> Inl (io_err KInvalidInput ''resource is not stored in the project tree'')))"

definition list_children :: "FileRepository \<Rightarrow> Parent \<Rightarrow> Resource \<Rightarrow> fs \<Rightarrow> string list io_result" where
  "list_children R parent child fs =
     (if is_project_scoped child
      then (case parent of
              ProjectParent project \<Rightarrow>
                rbind (project_collection_dir (root R) project child) (\<lambda>d. collection_documents fs d)
            | _ \<Rightarrow> Inl (not_a_project_home child))
      else rbind (parent_dir (root R) parent) (\<lambda>d. case child of
          Suites \<Rightarrow> (case parent of
              ProjectParent _ \<Rightarrow> rbind (child_folders fs d ''suite.json'') (\<lambda>fds. Inr (map folder_wire_id fds))
            | _ \<Rightarrow> Inl (io_err KInvalidInput ''suites live inside a project''))
        | Cases \<Rightarrow> child_folders fs d ''test-case.json''
        | _ \<Rightarrow> Inl (io_err KInvalidInput ''resource is not stored in the project tree'')))"

section \<open>Reading and writing documents\<close>

definition exists_at :: "FileRepository \<Rightarrow> Resource \<Rightarrow> Parent option \<Rightarrow> string \<Rightarrow> fs \<Rightarrow> bool io_result" where
  "exists_at R r parent rid fs = rbind (document R r parent rid) (\<lambda>p. Inr (is_file fs p))"

definition read_json :: "FileRepository \<Rightarrow> path \<Rightarrow> fs \<Rightarrow> json io_result" where
  "read_json R p fs =
     rbind (read_confined (root R) p fs) (\<lambda>raw.
       map_err (\<lambda>text. io_err KInvalidData text) (decode R raw))"

definition read_at :: "FileRepository \<Rightarrow> Resource \<Rightarrow> Parent option \<Rightarrow> string \<Rightarrow> fs \<Rightarrow> json io_result" where
  "read_at R r parent rid fs = rbind (document R r parent rid) (\<lambda>p. read_json R p fs)"

definition read_raw_at ::
  "FileRepository \<Rightarrow> Resource \<Rightarrow> Parent option \<Rightarrow> string \<Rightarrow> fs \<Rightarrow> string io_result" where
  "read_raw_at R r parent rid fs = rbind (document R r parent rid) (\<lambda>p. read_confined (root R) p fs)"

definition write_json :: "FileRepository \<Rightarrow> path \<Rightarrow> json \<Rightarrow> unit op" where
  "write_json R destination v =
     (if destination = [] then olift (Inl (io_err KInvalidInput ''destination has no parent''))
      else obind (create_private_dir_all (butlast destination)) (\<lambda>_.
           replace_file destination (encode R v)))"

definition ensure_name_not_reserved :: "Resource \<Rightarrow> Parent option \<Rightarrow> string \<Rightarrow> unit io_result" where
  "ensure_name_not_reserved r parent rid =
     (if \<not> (case parent of Some (ProjectParent _) \<Rightarrow> True | _ \<Rightarrow> False) \<or> \<not> (r = Suites \<or> r = Cases)
      then Inr ()
      else rbind (node_folder r rid) (\<lambda>f.
        if f \<in> set RESERVED_PROJECT_CHILDREN
        then Inl (io_err KAlreadyExists ''child name is already taken by another kind of resource'')
        else Inr ()))"

definition ensure_kind_available ::
  "FileRepository \<Rightarrow> Resource \<Rightarrow> Parent option \<Rightarrow> string \<Rightarrow> fs \<Rightarrow> unit io_result" where
  "ensure_kind_available R r parent rid fs =
     rbind (ensure_name_not_reserved r parent rid) (\<lambda>_.
     rbind (folder R r parent rid) (\<lambda>f.
       if \<not> path_exists fs f then Inr ()
       else rall (\<lambda>other. case marker_name other of
              None \<Rightarrow> Inr ()
            | Some name \<Rightarrow>
                if marker_name r \<noteq> Some name \<and> is_file fs (f @ [name])
                then Inl (io_err KAlreadyExists ''child name is already taken by another kind of resource'')
                else Inr ())
            [Projects, Suites, Cases]))"

text \<open>The guards of \<^verbatim>\<open>write_at_locked\<close> and \<^verbatim>\<open>transform_at\<close> on the folder a child occupies.\<close>

definition child_guards ::
  "FileRepository \<Rightarrow> Resource \<Rightarrow> Parent option \<Rightarrow> string \<Rightarrow> fs \<Rightarrow> unit io_result" where
  "child_guards R r parent rid fs = (case parent of
       Some q \<Rightarrow>
         if r = Suites \<or> r = Cases
         then rbind (folder R r parent rid) (\<lambda>f.
                if f \<noteq> [] \<and> last f = parent_marker_name q
                then Inl (io_err KAlreadyExists ''child name shadows the parent marker'')
                else ensure_kind_available R r parent rid fs)
         else Inr ()
     | None \<Rightarrow> Inr ())"

definition write_at_locked ::
  "FileRepository \<Rightarrow> Resource \<Rightarrow> Parent option \<Rightarrow> string \<Rightarrow> json \<Rightarrow> unit op" where
  "write_at_locked R r parent rid v =
     obind (oread (child_guards R r parent rid)) (\<lambda>_.
     obind (olift (document R r parent rid)) (\<lambda>p. write_json R p v))"

definition write_at :: "FileRepository \<Rightarrow> Resource \<Rightarrow> Parent option \<Rightarrow> string \<Rightarrow> json \<Rightarrow> unit op" where
  "write_at R r parent rid v = locked R (write_at_locked R r parent rid v)"

definition create_at :: "FileRepository \<Rightarrow> Resource \<Rightarrow> Parent option \<Rightarrow> string \<Rightarrow> json \<Rightarrow> unit op" where
  "create_at R r parent rid v = locked R (
     obind (oread (exists_at R r parent rid)) (\<lambda>present.
       if present then olift (Inl (io_err KAlreadyExists ''Resource already exists''))
       else write_at_locked R r parent rid v))"

text \<open>The closure a caller passes to \<^verbatim>\<open>transform_at\<close> may itself write (a revision snapshot), so it is
  an operation.\<close>

definition transform_at ::
  "FileRepository \<Rightarrow> Resource \<Rightarrow> Parent option \<Rightarrow> string \<Rightarrow> string option \<Rightarrow> (json \<Rightarrow> json op) \<Rightarrow> json op" where
  "transform_at R r parent rid expected_etag transform = locked R (
     obind (olift (document R r parent rid)) (\<lambda>p.
     obind (oread (\<lambda>fs. guard (is_file fs p) (io_err KNotFound ''Resource not found''))) (\<lambda>_.
     obind (oread (read_confined (root R) p)) (\<lambda>raw.
     obind (olift (case expected_etag of
         None \<Rightarrow> Inr ()
       | Some expected \<Rightarrow>
           if compute_etag R raw \<noteq> expected
           then Inl (IoError KWouldBlock ''the If-Match digest does not describe the stored document''
                  (Some (compute_etag R raw)))
           else Inr ())) (\<lambda>_.
     obind (olift (map_err (\<lambda>text. io_err KInvalidData text) (decode R raw))) (\<lambda>stored.
     obind (transform stored) (\<lambda>new_value.
     obind (oread (child_guards R r parent rid)) (\<lambda>_.
     obind (write_json R p new_value) (\<lambda>_.
     olift (Inr new_value))))))))))"

definition delete_at :: "FileRepository \<Rightarrow> Resource \<Rightarrow> Parent option \<Rightarrow> string \<Rightarrow> unit op" where
  "delete_at R r parent rid = locked R (
     if is_hierarchical r
     then obind (olift (folder R r parent rid)) remove_dir_all
     else obind (olift (document R r parent rid)) remove_file)"

section \<open>Placement\<close>

definition place_locked ::
  "FileRepository \<Rightarrow> Resource \<Rightarrow> Parent \<Rightarrow> string \<Rightarrow> Parent \<Rightarrow> Placement \<Rightarrow> unit op" where
  "place_locked R r source rid target mode =
     obind (olift (folder R r (Some source) rid)) (\<lambda>from.
     obind (olift (folder R r (Some target) rid)) (\<lambda>to.
       if from = to
       then (case mode of
               Move \<Rightarrow> olift (Inr ())
             | Copy \<Rightarrow> olift (Inl (io_err KAlreadyExists ''source and target are the same parent'')))
       else
         obind (oread (\<lambda>fs. guard (is_dir fs from) (io_err KNotFound ''source does not exist''))) (\<lambda>_.
         obind (olift (ensure_name_not_reserved r (Some target) rid)) (\<lambda>_.
         obind (oread (\<lambda>fs. guard (\<not> path_exists fs to)
             (io_err KAlreadyExists ''target already has a child with this identifier''))) (\<lambda>_.
         obind (create_private_dir_all (butlast to)) (\<lambda>_ fs.
           if prefix from to then (Inl (io_err KOther ''target lies inside the source''), fs)
           else (case mode of
                   Copy \<Rightarrow> (Inr (), fs @ subtree from to fs)
                 | Move \<Rightarrow> (Inr (), fs_remove from fs @ subtree from to fs))))))))"

definition place ::
  "FileRepository \<Rightarrow> Resource \<Rightarrow> Parent \<Rightarrow> string \<Rightarrow> Parent \<Rightarrow> Placement \<Rightarrow> unit op" where
  "place R r source rid target mode =
     (if \<not> (r = Suites \<or> r = Cases)
      then olift (Inl (io_err KInvalidInput ''only suites and cases can be placed''))
      else if r = Suites \<and> (case target of ProjectParent _ \<Rightarrow> False | _ \<Rightarrow> True)
      then olift (Inl (io_err KInvalidInput ''a suite can only be placed into a project''))
      else locked R (place_locked R r source rid target mode))"

section \<open>Revisions\<close>

definition save_revision_inner ::
  "FileRepository \<Rightarrow> Parent \<Rightarrow> string \<Rightarrow> 64 word \<Rightarrow> json \<Rightarrow> unit op" where
  "save_revision_inner R parent cid version v =
     obind (olift (case_marker (root R) parent cid)) (\<lambda>marker.
     obind (oread (\<lambda>fs. guard (is_file fs marker) (io_err KNotFound ''test case does not exist''))) (\<lambda>_.
     obind (olift (revision_marker (root R) parent cid version)) (\<lambda>revision fs.
       if path_exists fs revision then (Inr (), fs)
       else write_json R revision v fs)))"

definition save_revision_locked ::
  "FileRepository \<Rightarrow> Parent \<Rightarrow> string \<Rightarrow> 64 word \<Rightarrow> json \<Rightarrow> unit op" where
  "save_revision_locked R parent cid version v = save_revision_inner R parent cid version v"

definition save_revision ::
  "FileRepository \<Rightarrow> Parent \<Rightarrow> string \<Rightarrow> 64 word \<Rightarrow> json \<Rightarrow> unit op" where
  "save_revision R parent cid version v = locked R (save_revision_inner R parent cid version v)"

definition revision_number :: "string \<Rightarrow> nat option" where
  "revision_number name =
     Option.bind (strip_prefix ''v'' name) (\<lambda>rest.
     Option.bind (strip_suffix ''.json'' rest) parse_u64)"

definition list_revisions :: "FileRepository \<Rightarrow> Parent \<Rightarrow> string \<Rightarrow> fs \<Rightarrow> nat list io_result" where
  "list_revisions R parent cid fs =
     rbind (revision_dir (root R) parent cid) (\<lambda>d.
     rbind (entries_or_empty fs d) (\<lambda>names.
       Inr (sort (List.map_filter (\<lambda>c. if is_file fs (d @ [c]) then revision_number c else None) names))))"

definition read_revision :: "FileRepository \<Rightarrow> Parent \<Rightarrow> string \<Rightarrow> 64 word \<Rightarrow> fs \<Rightarrow> json io_result" where
  "read_revision R parent cid version fs =
     rbind (revision_marker (root R) parent cid version) (\<lambda>p. read_json R p fs)"

section \<open>Attachments\<close>

definition push_attachment :: "json \<Rightarrow> json btree \<Rightarrow> json btree io_result" where
  "push_attachment entry m =
     (case (case map_of m ''attachments'' of Some v \<Rightarrow> v | None \<Rightarrow> Arr []) of
        Arr items \<Rightarrow> Inr (obj_insert ''attachments'' (Arr (items @ [entry])) m)
      | _ \<Rightarrow> Inl (io_err KInvalidData ''attachments is not an array''))"

definition record_attachment :: "FileRepository \<Rightarrow> path \<Rightarrow> json \<Rightarrow> unit op" where
  "record_attachment R marker entry =
     obind (oread (read_json R marker)) (\<lambda>doc.
     obind (olift (ok_or (io_err KInvalidData ''stored test case is not an object'') (as_object doc))) (\<lambda>m.
     obind (olift (push_attachment entry m)) (\<lambda>m'. write_json R marker (Obj m'))))"

definition drop_attachment :: "string \<Rightarrow> json btree \<Rightarrow> json btree" where
  "drop_attachment filename m = (case map_of m ''attachments'' of
       Some (Arr items) \<Rightarrow>
         (let kept = filter (\<lambda>entry. get_str entry ''filename'' \<noteq> Some filename) items
          in if kept = [] then obj_remove ''attachments'' m else obj_insert ''attachments'' (Arr kept) m)
     | _ \<Rightarrow> m)"

definition forget_attachment :: "FileRepository \<Rightarrow> path \<Rightarrow> string \<Rightarrow> unit op" where
  "forget_attachment R marker filename =
     obind (oread (read_json R marker)) (\<lambda>doc.
       write_json R marker (on_object (drop_attachment filename) doc))"

text \<open>\<open>structured_step i v\<close> is the object of the step at index \<open>i\<close>, when the document has one.\<close>

definition structured_step_at :: "nat \<Rightarrow> json \<Rightarrow> json btree option" where
  "structured_step_at i doc = (case get doc ''steps'' of
       Some (Arr steps) \<Rightarrow> if i < length steps then as_object (steps ! i) else None
     | _ \<Rightarrow> None)"

definition put_step :: "nat \<Rightarrow> json btree \<Rightarrow> json \<Rightarrow> json" where
  "put_step i s doc = (case get doc ''steps'' of
       Some (Arr steps) \<Rightarrow> set_field ''steps'' (Arr (steps[i := Obj s])) doc
     | _ \<Rightarrow> doc)"

definition record_step_attachment :: "FileRepository \<Rightarrow> path \<Rightarrow> nat \<Rightarrow> json \<Rightarrow> unit op" where
  "record_step_attachment R marker i entry =
     obind (oread (read_json R marker)) (\<lambda>doc.
     obind (olift (ok_or (io_err KInvalidData ''stored test case has no structured step at this index'')
         (structured_step_at i doc))) (\<lambda>s.
     obind (olift (push_attachment entry s)) (\<lambda>s'. write_json R marker (put_step i s' doc))))"

definition forget_step_attachment :: "FileRepository \<Rightarrow> path \<Rightarrow> nat \<Rightarrow> string \<Rightarrow> unit op" where
  "forget_step_attachment R marker i filename =
     obind (oread (read_json R marker)) (\<lambda>doc. case structured_step_at i doc of
         None \<Rightarrow> olift (Inr ())
       | Some s \<Rightarrow> write_json R marker (put_step i (drop_attachment filename s) doc))"

text \<open>A file whose metadata could not be recorded is removed again.\<close>

definition undo_on_error :: "path \<Rightarrow> unit op \<Rightarrow> unit op" where
  "undo_on_error p m fs = (case m fs of
       (Inr u, fs') \<Rightarrow> (Inr u, fs')
     | (Inl e, fs') \<Rightarrow> (Inl e, snd (remove_file p fs')))"

definition save_attachment ::
  "FileRepository \<Rightarrow> Parent \<Rightarrow> string \<Rightarrow> string \<Rightarrow> json \<Rightarrow> string \<Rightarrow> unit op" where
  "save_attachment R parent cid filename entry contents = locked R (
     obind (olift (case_marker (root R) parent cid)) (\<lambda>marker.
     obind (oread (\<lambda>fs. guard (is_file fs marker) (io_err KNotFound ''test case does not exist''))) (\<lambda>_.
     obind (olift (attachment_path (root R) parent cid filename)) (\<lambda>p.
     obind (create_new_file p contents) (\<lambda>_.
     undo_on_error p (record_attachment R marker entry))))))"

definition read_attachment :: "FileRepository \<Rightarrow> Parent \<Rightarrow> string \<Rightarrow> string \<Rightarrow> fs \<Rightarrow> string io_result" where
  "read_attachment R parent cid filename fs =
     rbind (attachment_path (root R) parent cid filename) (\<lambda>p. read_confined (root R) p fs)"

definition delete_attachment :: "FileRepository \<Rightarrow> Parent \<Rightarrow> string \<Rightarrow> string \<Rightarrow> unit op" where
  "delete_attachment R parent cid filename = locked R (
     obind (olift (attachment_path (root R) parent cid filename)) (\<lambda>p.
     obind (remove_file p) (\<lambda>_.
     obind (olift (case_marker (root R) parent cid)) (\<lambda>marker.
     forget_attachment R marker filename))))"

definition save_step_attachment ::
  "FileRepository \<Rightarrow> Parent \<Rightarrow> string \<Rightarrow> nat \<Rightarrow> string \<Rightarrow> json \<Rightarrow> string \<Rightarrow> unit op" where
  "save_step_attachment R parent cid i filename entry contents = locked R (
     obind (olift (case_marker (root R) parent cid)) (\<lambda>marker.
     obind (oread (\<lambda>fs. guard (is_file fs marker) (io_err KNotFound ''test case does not exist''))) (\<lambda>_.
     obind (olift (step_attachment_path (root R) parent cid i filename)) (\<lambda>p.
     obind (create_private_dir_all (butlast p)) (\<lambda>_.
     obind (create_new_file p contents) (\<lambda>_.
     undo_on_error p (record_step_attachment R marker i entry)))))))"

definition read_step_attachment ::
  "FileRepository \<Rightarrow> Parent \<Rightarrow> string \<Rightarrow> nat \<Rightarrow> string \<Rightarrow> fs \<Rightarrow> string io_result" where
  "read_step_attachment R parent cid i filename fs =
     rbind (step_attachment_path (root R) parent cid i filename) (\<lambda>p. read_confined (root R) p fs)"

definition delete_step_attachment :: "FileRepository \<Rightarrow> Parent \<Rightarrow> string \<Rightarrow> nat \<Rightarrow> string \<Rightarrow> unit op" where
  "delete_step_attachment R parent cid i filename = locked R (
     obind (olift (step_attachment_path (root R) parent cid i filename)) (\<lambda>p.
     obind (remove_file p) (\<lambda>_.
     obind (olift (case_marker (root R) parent cid)) (\<lambda>marker.
     forget_step_attachment R marker i filename))))"

section \<open>Opening a store\<close>

definition legacy_documents :: "fs \<Rightarrow> path \<Rightarrow> nat io_result" where
  "legacy_documents fs d =
     rbind (entries_or_empty fs d) (\<lambda>names.
       Inr (length (filter (\<lambda>c. is_file fs (d @ [c]) \<and> suffix ''.json'' c \<and> \<not> prefix ''.'' c) names)))"

text \<open>The refusal quotes an em dash, three bytes in UTF-8.\<close>

definition refuse_legacy_layout :: "path \<Rightarrow> fs \<Rightarrow> unit io_result" where
  "refuse_legacy_layout rt fs =
     rbind (rmap (\<lambda>c. rbind (legacy_documents fs (rt @ [c])) (\<lambda>n. Inr (c, n))) RESERVED_PROJECT_CHILDREN)
       (\<lambda>counts.
         let offenders = filter (\<lambda>(_, n). n > 0) counts;
             held = join_with '', ''
               (map (\<lambda>(c, n). c @ ''/ holds '' @ show_nat n @ '' document(s)'') offenders)
         in if offenders = [] then Inr ()
            else Inl (io_err KInvalidData (''legacy flat storage layout detected: '' @ held
              @ ''; layout v3 stores runs, milestones and configurations inside their project folder ''
              @ [CHR 0xE2, CHR 0x80, CHR 0x94]
              @ '' move each document into projects/<project>/<collection>/ and restart (docs/deployment/deployment-guide.md)'')))"

definition new_repository :: "FileRepository \<Rightarrow> unit op" where
  "new_repository R =
     obind (create_private_dir_all (root R @ [''projects''])) (\<lambda>_.
     oread (refuse_legacy_layout (root R)))"

end
