(* ===== verification/Repository_Laws.thy ===== *)
theory Repository_Laws
  imports Repository
begin

text \<open>
  What the file repository promises its clients. The first section determines the paths documents
  live at and when two addresses name the same file. The second states the contract of a document
  store as a locale (a create is read back, a taken address is never overwritten, an operation on one
  address leaves the others alone), proves the consequences a client uses, and interprets the
  locale on the operations of \<^verbatim>\<open>FileRepository\<close>. The last shows that every operation keeps the tree
  well-formed, by rule induction over sequences of operations.
\<close>

section \<open>Addresses\<close>

lemma document_cases:
  assumes "document R r parent rid = Inr q"
  obtains (project) f where "r = Projects" "parent = None" "rid = f @ ''.json''" "plain f"
      "q = root R @ [''projects'', f, ''project.json'']"
    | (suite) g f where "r = Suites" "parent = Some (ProjectParent (g @ ''.json''))" "rid = f @ ''.json''"
      "plain g" "plain f" "q = root R @ [''projects'', g, f, ''suite.json'']"
    | (case_in_project) g where "r = Cases" "parent = Some (ProjectParent (g @ ''.json''))"
      "plain g" "plain rid" "q = root R @ [''projects'', g, rid, ''test-case.json'']"
    | (case_in_suite) g h where "r = Cases" "parent = Some (SuiteParent (g @ ''.json'') (h @ ''.json''))"
      "plain g" "plain h" "plain rid" "q = root R @ [''projects'', g, h, rid, ''test-case.json'']"
    | (flat) g n where "project_dir_name r = Some n" "parent = Some (ProjectParent (g @ ''.json''))"
      "plain g" "plain rid" "suffix ''.json'' rid" "q = root R @ [''projects'', g, n, rid]"
proof (cases r)
  case Projects
  with assms project show ?thesis
    by (auto simp: document_def rbind_Inr_iff reject_parent_def project_marker_def project_dir_ok)
next
  case Suites
  with assms suite show ?thesis
    by (auto simp: document_def rbind_Inr_iff project_parent_def suite_marker_def suite_dir_ok
        project_dir_ok split: option.splits Parent.splits)
next
  case Cases
  with assms obtain p d where "parent = Some p" "parent_dir (root R) p = Inr d" "plain rid"
    "q = d @ [rid, ''test-case.json'']"
    by (auto simp: document_def rbind_Inr_iff required_parent_def case_marker_def case_dir_ok)
  with Cases case_in_project case_in_suite show ?thesis
    by (cases p) (auto simp: project_dir_ok suite_dir_ok)
qed (use assms flat in \<open>auto simp: document_def rbind_Inr_iff project_parent_def
      project_document_path_ok project_dir_ok split: option.splits Parent.splits\<close>)

text \<open>A child address that uses the name of one of the project's own collections.\<close>

definition shadows_collection :: "Resource \<Rightarrow> Parent option \<Rightarrow> string \<Rightarrow> bool" where
  "shadows_collection r parent rid \<longleftrightarrow>
     (case parent of Some (ProjectParent _) \<Rightarrow> True | _ \<Rightarrow> False)
     \<and> (r = Suites \<and> folder_name rid \<in> set RESERVED_PROJECT_CHILDREN
        \<or> r = Cases \<and> rid \<in> set RESERVED_PROJECT_CHILDREN)"

text \<open>C26. Distinct documents live in distinct files: two addresses that resolve to the same path are
  the same resource, parent and identifier, unless one of them names a suite or a case after one of
  the collections a project reserves.\<close>

theorem document_injective:
  assumes "document R r parent rid = Inr q" "document R r' parent' rid' = Inr q"
    "\<not> shadows_collection r parent rid" "\<not> shadows_collection r' parent' rid'"
  shows "r = r' \<and> parent = parent' \<and> rid = rid'"
  using assms(1)
proof (cases rule: document_cases)
  case project
  from assms(2) show ?thesis by (cases rule: document_cases) (use project in auto)
next
  case suite
  note s = suite
  from assms(2) show ?thesis
  proof (cases rule: document_cases)
    case (flat g n)
    then show ?thesis using s assms(3) project_dir_name_reserved
      by (auto simp: shadows_collection_def folder_name_def)
  qed (use s in auto)
next
  case case_in_project
  note s = case_in_project
  from assms(2) show ?thesis
  proof (cases rule: document_cases)
    case (flat g n)
    then show ?thesis using s assms(3) project_dir_name_reserved
      by (auto simp: shadows_collection_def)
  qed (use s in auto)
next
  case case_in_suite
  from assms(2) show ?thesis by (cases rule: document_cases) (use case_in_suite in auto)
next
  case flat
  note s = flat
  from assms(2) show ?thesis
  proof (cases rule: document_cases)
    case suite
    then show ?thesis using s assms(4) project_dir_name_reserved
      by (auto simp: shadows_collection_def folder_name_def)
  next
    case case_in_project
    then show ?thesis using s assms(4) project_dir_name_reserved
      by (auto simp: shadows_collection_def)
  next
    case (flat g n)
    then show ?thesis using s project_dir_name_inj by auto
  qed (use s in auto)
qed

section \<open>Single operations\<close>

lemma locked_Inr_iff: "locked R m fs = (Inr x, fs') \<longleftrightarrow> \<not> lock_busy R \<and> m fs = (Inr x, fs')"
  by (auto simp: locked_def acquire_lock_def obind_olift split: sum.splits if_splits)

lemma locked_cases: "locked R m fs = m fs \<or> (\<exists>e. locked R m fs = (Inl e, fs))"
  by (auto simp: locked_def acquire_lock_def obind_olift split: sum.splits)

lemma replace_file_ok:
  "replace_file p b fs = (Inr u, fs') \<Longrightarrow> p \<noteq> [] \<Longrightarrow>
     lookup fs' q = (if q = p then Some (File b) else lookup fs q)"
  by (auto simp: replace_file_def split: if_splits)

lemma replace_file_error: "replace_file p b fs = (Inl e, fs') \<Longrightarrow> fs' = fs"
  by (auto simp: replace_file_def split: if_splits)

lemma write_json_ok:
  assumes "write_json R p v fs = (Inr u, fs')"
  shows "lookup fs' q = (if q = p then Some (File (encode R v))
    else if lookup fs q = None \<and> prefix q (butlast p) then Some Dir else lookup fs q)"
proof -
  from assms have p: "p \<noteq> []" by (auto simp: write_json_def olift_def split: if_splits)
  with assms obtain fs1 where "create_private_dir_all (butlast p) fs = (Inr (), fs1)"
    "replace_file p (encode R v) fs1 = (Inr u, fs')"
    by (auto simp: write_json_def obind_Inr_iff)
  then show ?thesis using p by (auto simp: replace_file_ok mkdirs_lookup)
qed

lemma write_json_error:
  assumes "write_json R p v fs = (Inl e, fs')"
  shows "lookup fs' q = lookup fs q \<or> lookup fs q = None \<and> lookup fs' q = Some Dir"
proof (cases "p = []")
  case True
  with assms show ?thesis by (simp add: write_json_def olift_def)
next
  case False
  with assms show ?thesis
    by (auto simp: write_json_def obind_def mkdirs_lookup split: prod.splits sum.splits if_splits
        dest!: mkdirs_error_unchanged replace_file_error)
qed

text \<open>The bytes a path holds; creating directories never changes them.\<close>

definition file_at :: "fs \<Rightarrow> path \<Rightarrow> string option" where
  "file_at fs p = (case lookup fs p of Some (File b) \<Rightarrow> Some b | _ \<Rightarrow> None)"

lemma write_json_files:
  assumes "write_json R p v fs = (x, fs')"
  shows "q \<noteq> p \<Longrightarrow> file_at fs' q = file_at fs q"
    and "x = Inr u \<Longrightarrow> file_at fs' p = Some (encode R v)"
    and "x = Inl e \<Longrightarrow> file_at fs' q = file_at fs q"
proof -
  show "q \<noteq> p \<Longrightarrow> file_at fs' q = file_at fs q"
    using assms by (cases x) (auto simp: file_at_def dest: write_json_error [of _ _ _ _ _ _ q]
        write_json_ok [of _ _ _ _ _ _ q])
  show "x = Inr u \<Longrightarrow> file_at fs' p = Some (encode R v)"
    using assms by (auto simp: file_at_def write_json_ok)
  show "x = Inl e \<Longrightarrow> file_at fs' q = file_at fs q"
    using assms by (auto simp: file_at_def dest: write_json_error [of _ _ _ _ _ _ q])
qed

lemma is_file_file_at: "is_file fs p \<longleftrightarrow> file_at fs p \<noteq> None"
  by (auto simp: is_file_def file_at_def split: option.splits node.splits)

lemma read_confined_file_at: "read_confined rt p fs = Inr b \<longleftrightarrow> prefix rt p \<and> p \<noteq> rt \<and> file_at fs p = Some b"
  by (auto simp: read_confined_def file_at_def split: option.splits node.splits)

lemma document_below_root: "document R r parent rid = Inr q \<Longrightarrow> prefix (root R) q \<and> q \<noteq> root R"
  by (erule document_cases) auto

lemma read_at_Inr_iff:
  "read_at R r parent rid fs = Inr v \<longleftrightarrow>
     (\<exists>p b. document R r parent rid = Inr p \<and> file_at fs p = Some b \<and> decode R b = Inr v)"
  using document_below_root [of R r parent rid]
  by (auto simp: read_at_def read_json_def rbind_Inr_iff read_confined_file_at)

lemma create_at_ok:
  assumes "create_at R r parent rid v fs = (Inr u, fs')"
  obtains p where "document R r parent rid = Inr p" "file_at fs p = None"
    "write_json R p v fs = (Inr u, fs')"
proof -
  from assms obtain p where p: "document R r parent rid = Inr p" "\<not> is_file fs p"
    "write_at_locked R r parent rid v fs = (Inr u, fs')"
    by (auto simp: create_at_def locked_Inr_iff obind_oread exists_at_def rbind_Inr_iff olift_def
        split: sum.splits if_splits)
  moreover from p have "write_json R p v fs = (Inr u, fs')"
    by (auto simp: write_at_locked_def obind_oread obind_olift split: sum.splits)
  ultimately show ?thesis using that by (auto simp: is_file_file_at)
qed

lemma write_at_locked_files:
  assumes "write_at_locked R r parent rid v fs = (x, fs')"
  shows "document R r parent rid \<noteq> Inr q \<Longrightarrow> file_at fs' q = file_at fs q"
    and "x = Inl e \<Longrightarrow> file_at fs' q = file_at fs q"
  using assms
  by (auto simp: write_at_locked_def obind_oread obind_olift split: sum.splits
      dest: write_json_files(1) [of _ _ _ _ _ _ q] write_json_files(3) [of _ _ _ _ _ _ _ q])

lemma create_at_files:
  assumes "create_at R r parent rid v fs = (x, fs')"
  shows "document R r parent rid \<noteq> Inr q \<Longrightarrow> file_at fs' q = file_at fs q"
    and "x = Inl e \<Longrightarrow> file_at fs' q = file_at fs q"
proof -
  let ?m = "obind (oread (exists_at R r parent rid)) (\<lambda>present.
       if present then olift (Inl (io_err KAlreadyExists ''Resource already exists''))
       else write_at_locked R r parent rid v)"
  have *: "?m fs = (x, fs') \<or> fs' = fs"
    using assms locked_cases [of R ?m fs] by (auto simp: create_at_def)
  then consider "fs' = fs" | "write_at_locked R r parent rid v fs = (x, fs')"
    by (auto simp: obind_oread olift_def split: sum.splits if_splits)
  then show "document R r parent rid \<noteq> Inr q \<Longrightarrow> file_at fs' q = file_at fs q"
    "x = Inl e \<Longrightarrow> file_at fs' q = file_at fs q"
    by (cases; auto dest: write_at_locked_files)+
qed

lemma transform_at_cases:
  assumes "transform_at R r parent rid et f fs = (x, fs')"
  obtains (early) e where "fs' = fs" "x = Inl e"
    | (ran) p raw stored where "document R r parent rid = Inr p" "file_at fs p = Some raw"
        "decode R raw = Inr stored" "et = None \<or> et = Some (compute_etag R raw)" "\<not> lock_busy R"
        "obind (f stored) (\<lambda>new_value.
           obind (oread (child_guards R r parent rid)) (\<lambda>_.
           obind (write_json R p new_value) (\<lambda>_. olift (Inr new_value)))) fs = (x, fs')"
proof (cases "lock_busy R")
  case True
  with assms early show ?thesis
    by (auto simp: transform_at_def locked_def acquire_lock_def obind_olift)
next
  case False
  with assms early ran show ?thesis
    unfolding transform_at_def locked_def acquire_lock_def
    by (auto simp: obind_olift obind_oread read_confined_file_at map_err_def
        split: sum.splits option.splits if_splits)
qed

section \<open>The contract of a document store\<close>

text \<open>A command of a client: create a document at an address, or transform the one stored there.\<close>

datatype ('k, 'v, 'e) command = Create 'k 'v | Update 'k "'v \<Rightarrow> 'e + 'v"

fun run_command ::
  "('k \<Rightarrow> 'v \<Rightarrow> 's \<Rightarrow> ('e + unit) \<times> 's) \<Rightarrow> ('k \<Rightarrow> ('v \<Rightarrow> 'e + 'v) \<Rightarrow> 's \<Rightarrow> ('e + 'v) \<times> 's)
   \<Rightarrow> ('k, 'v, 'e) command \<Rightarrow> 's \<Rightarrow> 's" where
  "run_command crt upd (Create k v) s = snd (crt k v s)"
| "run_command crt upd (Update k f) s = snd (upd k f s)"

fun command_key :: "('k, 'v, 'e) command \<Rightarrow> 'k" where
  "command_key (Create k v) = k"
| "command_key (Update k f) = k"

definition run_commands where
  "run_commands crt upd cs s = fold (run_command crt upd) cs s"

locale document_store =
  fixes rd :: "'k \<Rightarrow> 's \<Rightarrow> 'v option"
    and crt :: "'k \<Rightarrow> 'v \<Rightarrow> 's \<Rightarrow> ('e + unit) \<times> 's"
    and upd :: "'k \<Rightarrow> ('v \<Rightarrow> 'e + 'v) \<Rightarrow> 's \<Rightarrow> ('e + 'v) \<times> 's"
    and storable :: "'v \<Rightarrow> bool"
    and apart :: "'k \<Rightarrow> 'k \<Rightarrow> bool"
  assumes create_reads: "crt k v s = (Inr u, s') \<Longrightarrow> storable v \<Longrightarrow> rd k s' = Some v"
    and create_fresh: "crt k v s = (Inr u, s') \<Longrightarrow> rd k s = None"
    and create_refused: "crt k v s = (Inl e, s') \<Longrightarrow> rd k' s' = rd k' s"
    and create_frame: "crt k v s = (x, s') \<Longrightarrow> apart k k' \<Longrightarrow> rd k' s' = rd k' s"
    and update_reads: "upd k f s = (Inr v, s') \<Longrightarrow> storable v \<Longrightarrow> rd k s' = Some v"
    and update_from: "upd k f s = (Inr v, s') \<Longrightarrow> \<exists>w. rd k s = Some w \<and> f w = Inr v"
    and update_refused: "upd k f s = (Inl e, s') \<Longrightarrow> rd k' s' = rd k' s"
    and update_frame: "upd k f s = (y, s') \<Longrightarrow> apart k k' \<Longrightarrow> rd k' s' = rd k' s"
    and alias_reads: "\<not> apart k k' \<Longrightarrow> rd k' s = rd k s"
begin

lemma create_keeps: "rd k s = Some v \<Longrightarrow> rd k (snd (crt k' w s)) = Some v"
proof -
  assume v: "rd k s = Some v"
  obtain x s' where c: "crt k' w s = (x, s')" by (cases "crt k' w s")
  show ?thesis
  proof (cases "apart k' k")
    case True
    with c v create_frame show ?thesis by simp
  next
    case False
    with v have "rd k' s = Some v" using alias_reads by metis
    then obtain e where "x = Inl e" using c create_fresh by (cases x) auto
    with c v create_refused show ?thesis by simp
  qed
qed

text \<open>Creates never overwrite, in whatever order they arrive.\<close>

lemma creates_never_overwrite:
  "rd k s = Some v \<Longrightarrow> \<forall>c\<in>set cs. \<exists>k' w. c = Create k' w \<Longrightarrow>
     rd k (run_commands crt upd cs s) = Some v"
proof (induction cs arbitrary: s)
  case (Cons c cs)
  then obtain k' w where "c = Create k' w" by auto
  with Cons create_keeps [of k s v k' w] show ?case by (simp add: run_commands_def)
qed (simp add: run_commands_def)

lemma command_frame:
  "apart (command_key c) k \<Longrightarrow> rd k (run_command crt upd c s) = rd k s"
  by (cases c) (auto intro: create_frame update_frame surjective_pairing)

lemma commands_frame:
  "\<forall>c\<in>set cs. apart (command_key c) k \<Longrightarrow> rd k (run_commands crt upd cs s) = rd k s"
  by (induction cs arbitrary: s) (simp_all add: run_commands_def command_frame)

lemma read_your_create:
  assumes "crt k v s = (Inr u, s')" "storable v" "\<forall>c\<in>set cs. apart (command_key c) k"
  shows "rd k (run_commands crt upd cs s') = Some v"
  using commands_frame [OF assms(3)] create_reads [OF assms(1,2)] by simp

text \<open>Two creates of one address: whatever happens in between on other addresses, the second is
  refused and the first one's document stands.\<close>

lemma second_create_loses:
  assumes "crt k v s = (Inr u, s1)" "storable v" "\<forall>c\<in>set cs. apart (command_key c) k"
    "crt k w (run_commands crt upd cs s1) = (x, s2)"
  shows "(\<exists>e. x = Inl e) \<and> rd k s2 = Some v"
  using read_your_create [OF assms(1-3)] assms(4) create_fresh create_refused by (cases x) fastforce+

text \<open>A document once stored is never lost by creates and updates of storable values.\<close>

lemma commands_keep_present:
  assumes "rd k s \<noteq> None"
    "\<forall>c\<in>set cs. \<forall>k' f. c = Update k' f \<longrightarrow> (\<forall>w v. f w = Inr v \<longrightarrow> storable v)"
  shows "rd k (run_commands crt upd cs s) \<noteq> None"
  using assms
proof (induction cs arbitrary: s)
  case (Cons c cs)
  have "rd k (run_command crt upd c s) \<noteq> None"
  proof (cases c)
    case (Create k' w)
    with Cons.prems(1) create_keeps show ?thesis by fastforce
  next
    case (Update k' f)
    obtain x s' where u: "upd k' f s = (x, s')" by (cases "upd k' f s")
    show ?thesis
    proof (cases "apart k' k")
      case True
      with u Cons.prems(1) Update update_frame show ?thesis by simp
    next
      case False
      show ?thesis
      proof (cases x)
        case (Inl e)
        with u Cons.prems(1) Update update_refused show ?thesis by simp
      next
        case (Inr v)
        with u obtain w where "f w = Inr v" using update_from [of k' f s v s'] by auto
        with Cons.prems(2) Update have "storable v" by auto
        with u Inr have "rd k' s' = Some v" using update_reads by simp
        with False u Update show ?thesis using alias_reads [of k' k s'] by simp
      qed
    qed
  qed
  with Cons show ?case by (simp add: run_commands_def)
qed (simp add: run_commands_def)

end

text \<open>The file repository as a document store, addressed by resource, parent and identifier.\<close>

type_synonym address = "Resource \<times> Parent option \<times> string"

fun document_of :: "FileRepository \<Rightarrow> address \<Rightarrow> path io_result" where
  "document_of R (r, parent, rid) = document R r parent rid"

fun read_doc :: "FileRepository \<Rightarrow> address \<Rightarrow> fs \<Rightarrow> json option" where
  "read_doc R (r, parent, rid) fs = ok_opt (read_at R r parent rid fs)"

fun create_doc :: "FileRepository \<Rightarrow> address \<Rightarrow> json \<Rightarrow> unit op" where
  "create_doc R (r, parent, rid) v = create_at R r parent rid v"

fun update_doc :: "FileRepository \<Rightarrow> address \<Rightarrow> (json \<Rightarrow> json io_result) \<Rightarrow> json op" where
  "update_doc R (r, parent, rid) f = transform_at R r parent rid None (\<lambda>v. olift (f v))"

definition round_trips :: "FileRepository \<Rightarrow> json \<Rightarrow> bool" where
  "round_trips R v \<longleftrightarrow> decode R (encode R v) = Inr v"

definition apart_docs :: "FileRepository \<Rightarrow> address \<Rightarrow> address \<Rightarrow> bool" where
  "apart_docs R a b \<longleftrightarrow> document_of R a \<noteq> document_of R b"

lemma read_doc_Some_iff:
  "read_doc R a fs = Some v \<longleftrightarrow>
     (\<exists>p b. document_of R a = Inr p \<and> file_at fs p = Some b \<and> decode R b = Inr v)"
  by (cases a) (simp add: read_at_Inr_iff)

lemma read_doc_cong:
  assumes "\<And>p. document_of R a = Inr p \<Longrightarrow> file_at fs' p = file_at fs p"
  shows "read_doc R a fs' = read_doc R a fs"
proof -
  have "read_doc R a fs' = Some v \<longleftrightarrow> read_doc R a fs = Some v" for v
    unfolding read_doc_Some_iff using assms by (metis (no_types, lifting))
  then show ?thesis by (metis option.exhaust)
qed

lemma update_doc_ok:
  assumes "update_doc R a f fs = (Inr v, fs')"
  obtains p b w where "document_of R a = Inr p" "file_at fs p = Some b" "decode R b = Inr w"
    "f w = Inr v" "write_json R p v fs = (Inr (), fs')"
proof -
  obtain r parent rid where a: "a = (r, parent, rid)" by (cases a)
  from assms show ?thesis unfolding a update_doc.simps
  proof (cases rule: transform_at_cases)
    case (ran p raw stored)
    from ran(6) have "f stored = Inr v" "write_json R p v fs = (Inr (), fs')"
      by (auto simp: obind_olift obind_oread obind_Inr_iff olift_def split: sum.splits)
    with ran that show ?thesis by (simp add: a)
  qed auto
qed

lemma update_doc_files:
  assumes "update_doc R a f fs = (x, fs')"
  shows "document_of R a \<noteq> Inr q \<Longrightarrow> file_at fs' q = file_at fs q"
    and "x = Inl e \<Longrightarrow> file_at fs' q = file_at fs q"
proof -
  obtain r parent rid where a: "a = (r, parent, rid)" by (cases a)
  have "(document_of R a \<noteq> Inr q \<longrightarrow> file_at fs' q = file_at fs q)
      \<and> (x = Inl e \<longrightarrow> file_at fs' q = file_at fs q)"
    using assms [unfolded a update_doc.simps]
  proof (cases rule: transform_at_cases)
    case (ran p raw stored)
    show ?thesis
    proof (cases "f stored")
      case (Inl e)
      with ran(6) show ?thesis by (simp add: obind_olift)
    next
      case (Inr v)
      obtain y fs1 where w: "write_json R p v fs = (y, fs1)" by (cases "write_json R p v fs")
      from ran(6) have "fs' = fs \<or> fs' = fs1 \<and> (is_ok y \<longleftrightarrow> is_ok x)"
        by (auto simp: Inr w obind_def oread_def olift_def split: sum.splits)
      then show ?thesis using write_json_files [OF w] ran(1) by (cases y; cases x) (auto simp: a)
    qed
  qed simp
  then show "document_of R a \<noteq> Inr q \<Longrightarrow> file_at fs' q = file_at fs q"
    "x = Inl e \<Longrightarrow> file_at fs' q = file_at fs q" by blast+
qed

lemma create_doc_files:
  assumes "create_doc R a v fs = (x, fs')"
  shows "document_of R a \<noteq> Inr q \<Longrightarrow> file_at fs' q = file_at fs q"
    and "x = Inl e \<Longrightarrow> file_at fs' q = file_at fs q"
  using assms create_at_files by (cases a; fastforce)+

interpretation file_store: document_store
  "read_doc R" "create_doc R" "update_doc R" "round_trips R" "apart_docs R" for R
proof
  fix a b :: address and v fs u fs' e x y f
  show "create_doc R a v fs = (Inr u, fs') \<Longrightarrow> round_trips R v \<Longrightarrow> read_doc R a fs' = Some v"
    by (cases a) (auto simp: read_at_Inr_iff round_trips_def elim!: create_at_ok
        dest: write_json_files(2))
  show "create_doc R a v fs = (Inr u, fs') \<Longrightarrow> read_doc R a fs = None"
    by (cases a) (auto simp: read_at_Inr_iff elim!: create_at_ok simp flip: not_Some_eq)
  show "create_doc R a v fs = (Inl e, fs') \<Longrightarrow> read_doc R b fs' = read_doc R b fs"
    by (rule read_doc_cong) (rule create_doc_files(2), assumption, rule refl)
  show "create_doc R a v fs = (x, fs') \<Longrightarrow> apart_docs R a b \<Longrightarrow> read_doc R b fs' = read_doc R b fs"
    by (rule read_doc_cong) (erule create_doc_files(1), simp add: apart_docs_def)
  show "update_doc R a f fs = (Inr v, fs') \<Longrightarrow> round_trips R v \<Longrightarrow> read_doc R a fs' = Some v"
    by (erule update_doc_ok) (auto simp: read_doc_Some_iff round_trips_def dest: write_json_files(2))
  show "update_doc R a f fs = (Inr v, fs') \<Longrightarrow> \<exists>w. read_doc R a fs = Some w \<and> f w = Inr v"
    by (erule update_doc_ok) (auto simp: read_doc_Some_iff)
  show "update_doc R a f fs = (Inl e, fs') \<Longrightarrow> read_doc R b fs' = read_doc R b fs"
    by (rule read_doc_cong) (rule update_doc_files(2), assumption, rule refl)
  show "update_doc R a f fs = (y, fs') \<Longrightarrow> apart_docs R a b \<Longrightarrow> read_doc R b fs' = read_doc R b fs"
    by (rule read_doc_cong) (erule update_doc_files(1), simp add: apart_docs_def)
  show "\<not> apart_docs R a b \<Longrightarrow> read_doc R b fs = read_doc R a fs"
    by (cases a; cases b) (auto simp: apart_docs_def read_at_def)
qed

section \<open>Properties of the file repository\<close>

text \<open>Creates never overwrite: a document that reads back keeps its content through any sequence
  of create requests, including creates of the same address, in any order.\<close>

theorem repository_creates_never_overwrite:
  assumes "read_at R r parent rid fs = Inr v" "\<forall>c\<in>set cs. \<exists>a w. c = Create a w"
  shows "read_at R r parent rid (run_commands (create_doc R) (update_doc R) cs fs) = Inr v"
  using file_store.creates_never_overwrite [of R "(r, parent, rid)" fs v cs] assms by simp

text \<open>The race of two creates: once a create succeeded, and whatever creates and updates of other
  documents run in between, a second create of the same address is refused and the first one's
  document is still the one read.\<close>

theorem repository_second_create_loses:
  assumes "create_at R r parent rid v fs = (Inr u, fs1)" "decode R (encode R v) = Inr v"
    "\<forall>c\<in>set cs. document_of R (command_key c) \<noteq> document R r parent rid"
    "create_at R r parent rid w (run_commands (create_doc R) (update_doc R) cs fs1) = (x, fs2)"
  shows "(\<exists>e. x = Inl e) \<and> read_at R r parent rid fs2 = Inr v"
  using file_store.second_create_loses [of R "(r, parent, rid)" v fs u fs1 cs w x fs2] assms
  by (simp add: round_trips_def apart_docs_def)

text \<open>The \<^verbatim>\<open>If-Match\<close> precondition: a transform that names the digest of the stored bytes behaves
  exactly as one without a precondition, and one that names any other digest is refused with the
  current digest and changes nothing.\<close>

lemma transform_at_precondition:
  assumes "document R r parent rid = Inr p" "file_at fs p = Some raw" "\<not> lock_busy R"
  shows "transform_at R r parent rid (Some et) f fs =
    (if compute_etag R raw = et then transform_at R r parent rid None f fs
     else (Inl (IoError KWouldBlock ''the If-Match digest does not describe the stored document''
             (Some (compute_etag R raw))), fs))"
proof -
  have "read_confined (root R) p fs = Inr raw"
    using assms document_below_root [OF assms(1)] by (simp add: read_confined_file_at)
  with assms show ?thesis
    by (simp add: transform_at_def locked_def acquire_lock_def obind_olift obind_oread
        is_file_file_at)
qed

lemma remove_file_ok:
  "remove_file p fs = (Inr u, fs') \<Longrightarrow> fs' = fs_remove p fs \<and> is_file fs p"
  by (auto simp: remove_file_def is_file_def split: option.splits node.splits)

lemma remove_dir_all_ok: "remove_dir_all p fs = (Inr u, fs') \<longleftrightarrow> is_dir fs p \<and> fs' = fs_remove p fs"
  by (auto simp: remove_dir_all_def is_dir_def split: option.splits node.splits)

lemma document_folder:
  "document R r parent rid = Inr p \<Longrightarrow> is_hierarchical r \<Longrightarrow>
     folder R r parent rid = Inr (butlast p) \<and> butlast p \<noteq> []"
  by (cases r) (auto simp: document_def folder_def rbind_Inr_iff project_marker_def suite_marker_def
      case_marker_def butlast_append project_dir_ok suite_dir_ok case_dir_ok)

text \<open>A delete removes the addressed document and everything below its folder, and nothing else:
  afterwards a path holds what it held before unless it lies in the removed folder (for a
  project, suite or case) or is the removed file.\<close>

theorem delete_at_removes:
  assumes "delete_at R r parent rid fs = (Inr u, fs')" "document R r parent rid = Inr p"
  shows "lookup fs' q =
    (if prefix (if is_hierarchical r then butlast p else p) q then None else lookup fs q)"
proof (cases "is_hierarchical r")
  case True
  with assms document_folder [OF assms(2) True] show ?thesis
    by (auto simp: delete_at_def locked_Inr_iff obind_olift remove_dir_all_ok)
next
  case False
  with assms have "fs' = fs_remove p fs"
    by (auto simp: delete_at_def locked_Inr_iff obind_olift dest: remove_file_ok)
  moreover have "p \<noteq> []" using document_below_root [OF assms(2)] by auto
  ultimately show ?thesis using False by auto
qed

text \<open>Deleting a test case named after a collection of its project empties that collection: the
  delete path, unlike the create path, checks neither the reserved names nor the marker, so a
  delete of the test case \<^verbatim>\<open>test_runs\<close> in a project succeeds as soon as the project has runs, and no
  run of the project can be read afterwards.\<close>

theorem delete_case_test_runs_removes_runs:
  assumes "project_collection_dir (root R) project Runs = Inr d" "is_dir fs d" "\<not> lock_busy R"
  shows "delete_at R Cases (Some (ProjectParent project)) ''test_runs'' fs = (Inr (), fs_remove d fs)
    \<and> (\<forall>run v. read_at R Runs (Some (ProjectParent project)) run (fs_remove d fs) \<noteq> Inr v)"
proof
  from assms(1) obtain d' where d': "project_dir (root R) project = Inr d'" "d = d' @ [''test_runs'']"
    by (auto simp: project_collection_dir_ok)
  then have "folder R Cases (Some (ProjectParent project)) ''test_runs'' = Inr d"
    using case_dir_ok [of "root R" "ProjectParent project" "''test_runs''" d]
    by (simp add: folder_def required_parent_def)
  then show "delete_at R Cases (Some (ProjectParent project)) ''test_runs'' fs = (Inr (), fs_remove d fs)"
    using assms by (simp add: delete_at_def locked_Inr_iff obind_olift remove_dir_all_ok)
  have "prefix d p \<and> p \<noteq> []" if "document R Runs (Some (ProjectParent project)) run = Inr p" for run p
    using that d' by (auto simp: document_def project_parent_def project_document_path_ok)
  then show "\<forall>run v. read_at R Runs (Some (ProjectParent project)) run (fs_remove d fs) \<noteq> Inr v"
    by (auto simp: read_at_Inr_iff file_at_def split: option.splits)
qed

text \<open>Deleting the attachment named \<^verbatim>\<open>test-case.json\<close> destroys the test case: the name passes the
  component check and is the path of the case's own document, so the document is removed before the
  metadata update fails on it.\<close>

theorem delete_attachment_removes_case:
  assumes "document R Cases (Some parent) cid = Inr p" "file_at fs p \<noteq> None" "\<not> lock_busy R"
  shows "\<exists>e fs'. delete_attachment R parent cid ''test-case.json'' fs = (Inl e, fs')
    \<and> file_at fs' p = None"
proof -
  from assms(1) obtain d where d: "case_dir (root R) parent cid = Inr d" "p = d @ [''test-case.json'']"
    by (auto simp: document_def required_parent_def case_marker_def rbind_Inr_iff)
  have ne: "p \<noteq> []" using d by simp
  have path: "attachment_path (root R) parent cid ''test-case.json'' = Inr p"
    using d by (simp add: attachment_path_ok)
  have "remove_file p fs = (Inr (), fs_remove p fs)"
    using assms(2) by (auto simp: remove_file_def file_at_def split: option.splits node.splits)
  moreover have gone: "file_at (fs_remove p fs) p = None" using ne by (simp add: file_at_def)
  moreover have "read_json R p (fs_remove p fs) \<noteq> Inr v" for v
    using gone by (auto simp: read_json_def rbind_Inr_iff read_confined_file_at)
  then obtain e where "read_json R p (fs_remove p fs) = Inl e" by (cases "read_json R p (fs_remove p fs)") auto
  ultimately show ?thesis
    using assms(3) d path
    by (simp add: delete_attachment_def locked_def acquire_lock_def obind_olift forget_attachment_def
        case_marker_def) (simp add: obind_def oread_def olift_def)
qed

end
