(* ===== verification/Repository_Trees.thy ===== *)
theory Repository_Trees
  imports Repository_Laws
begin

text \<open>
  Further guarantees of the file repository: revision snapshots are append-only, an upload that fails
  leaves no trace, resolution by identifier finds exactly the parents that hold a document, and
  every operation keeps the tree well-formed (each node sits in a directory).
\<close>

section \<open>Revisions\<close>

lemma save_revision_inner_cases:
  assumes "save_revision_inner R parent cid n v fs = (x, fs')"
  obtains "fs' = fs"
    | p where "revision_marker (root R) parent cid n = Inr p" "\<not> path_exists fs p"
        "write_json R p v fs = (x, fs')"
  using assms by (auto simp: save_revision_inner_def obind_olift obind_oread split: sum.splits if_splits)

text \<open>History is append-only: saving a revision, successfully or not, leaves every file of the
  store byte for byte as it was, in particular every snapshot already written; the one file it may
  add is the snapshot of the version it was asked to save.\<close>

theorem save_revision_append_only:
  assumes "save_revision R parent cid n v fs = (x, fs')" "file_at fs q = Some b"
  shows "file_at fs' q = Some b"
proof -
  from locked_cases [of R "save_revision_inner R parent cid n v" fs] assms(1)
  consider "fs' = fs" | "save_revision_inner R parent cid n v fs = (x, fs')"
    by (auto simp: save_revision_def)
  then show ?thesis
  proof cases
    case 2
    then show ?thesis
    proof (cases rule: save_revision_inner_cases)
      case (2 p)
      have "q \<noteq> p" using 2(2) assms(2) by (auto simp: path_exists_def file_at_def)
      with write_json_files(1) [OF 2(3)] assms(2) show ?thesis by simp
    qed (use assms(2) in simp)
  qed (use assms(2) in simp)
qed

text \<open>A snapshot reads back: the first save of a version stores the document it was given.\<close>

lemma save_revision_inner_file:
  assumes "save_revision_inner R parent cid n v fs = (Inr u, fs')"
    "revision_marker (root R) parent cid n = Inr p" "\<not> path_exists fs p"
  shows "file_at fs' p = Some (encode R v)"
proof -
  from assms have "write_json R p v fs = (Inr u, fs')"
    by (auto simp: save_revision_inner_def obind_olift obind_oread split: sum.splits if_splits)
  then show ?thesis by (rule write_json_files(2)) simp
qed

lemma read_revision_file:
  assumes "revision_marker (root R) parent cid n = Inr p" "file_at fs p = Some b" "decode R b = Inr v"
  shows "read_revision R parent cid n fs = Inr v"
proof -
  have "prefix (root R) p \<and> p \<noteq> root R"
    using assms(1) by (auto simp: revision_marker_ok case_dir_ok dest!: parent_dir_shape)
  then show ?thesis
    using assms by (simp add: read_revision_def read_json_def read_confined_file_at [THEN iffD2])
qed

section \<open>Well-formed trees\<close>

lemma tree_ok_iff:
  "tree_ok fs \<longleftrightarrow> distinct (map fst fs) \<and>
     (\<forall>q n. map_of fs q = Some n \<longrightarrow> q \<noteq> [] \<and> is_dir fs (butlast q))"
proof (cases "distinct (map fst fs)")
  case True
  then have "(q, n) \<in> set fs \<longleftrightarrow> map_of fs q = Some n" for q n by simp
  with True show ?thesis unfolding tree_ok_def list_all_iff by (metis (mono_tags, lifting) case_prodI2 case_prodD)
qed (simp add: tree_ok_def)

lemma tree_ok_prefix:
  "tree_ok fs \<Longrightarrow> lookup fs (q @ xs) \<noteq> None \<Longrightarrow> xs \<noteq> [] \<Longrightarrow> lookup fs q = Some Dir"
proof (induction xs rule: rev_induct)
  case (snoc x xs)
  then have "map_of fs (q @ xs @ [x]) \<noteq> None" by (simp add: lookup_def)
  then obtain n where "map_of fs ((q @ xs) @ [x]) = Some n" by auto
  with snoc.prems(1) have "is_dir fs (butlast ((q @ xs) @ [x]))" unfolding tree_ok_iff by blast
  then have "lookup fs (q @ xs) = Some Dir" by (simp add: is_dir_iff butlast_append)
  with snoc show ?case by (cases xs) auto
qed simp

lemma tree_ok_put:
  assumes "tree_ok fs" "p \<noteq> []" "is_dir fs (butlast p)" "n = Dir \<or> \<not> is_dir fs p"
  shows "tree_ok (fs_put p n fs)"
proof -
  have "is_dir (fs_put p n fs) q" if "is_dir fs q" for q
    using that assms(2,4) by (auto simp: is_dir_iff)
  moreover have "map_of (fs_put p n fs) q = (if q = p then Some n else map_of fs q)" for q
    by (simp add: fs_put_def update_conv')
  moreover have "distinct (map fst (fs_put p n fs))"
    using assms(1) by (simp add: tree_ok_iff fs_put_def distinct_update)
  ultimately show ?thesis using assms(1-3) unfolding tree_ok_iff by (auto split: if_splits)
qed

lemma tree_ok_remove:
  assumes "tree_ok fs"
  shows "tree_ok (fs_remove p fs)"
proof -
  have "is_dir (fs_remove p fs) (butlast q)"
    if "map_of fs q = Some n" "\<not> prefix p q" for q n
  proof -
    have "q \<noteq> []" "is_dir fs (butlast q)" using assms that(1) unfolding tree_ok_iff by blast+
    moreover have "\<not> prefix p (butlast q)"
      using that(2) by (meson prefix_order.trans prefixeq_butlast)
    ultimately show ?thesis by (simp add: is_dir_iff)
  qed
  moreover have "distinct (map fst (fs_remove p fs))"
    using assms by (simp add: tree_ok_def fs_remove_def distinct_map_filter)
  ultimately show ?thesis
    using assms unfolding tree_ok_iff
    by (auto simp: fs_remove_def map_of_filter_key split: if_splits)
qed

lemma tree_ok_mkdirs_fold:
  "tree_ok fs \<Longrightarrow> \<forall>q\<in>set ps. q \<noteq> [] \<Longrightarrow>
   (\<forall>i<length ps. is_dir fs (butlast (ps ! i)) \<or> butlast (ps ! i) \<in> set (take i ps)) \<Longrightarrow>
   (\<forall>q\<in>set ps. \<not> is_file fs q) \<Longrightarrow>
   tree_ok (foldl (\<lambda>f q. if path_exists f q then f else fs_put q Dir f) fs ps)"
proof (induction ps arbitrary: fs)
  case (Cons a ps)
  have a: "is_dir fs (butlast a)" using Cons.prems(3) by (auto dest: spec [of _ 0])
  let ?fs = "if path_exists fs a then fs else fs_put a Dir fs"
  have "a \<noteq> []" using Cons.prems(2) by simp
  have ok: "tree_ok ?fs" using Cons.prems(1) a \<open>a \<noteq> []\<close> by (auto intro: tree_ok_put)
  have dir_a: "is_dir ?fs a"
    using Cons.prems(4) \<open>a \<noteq> []\<close>
    by (auto simp: is_dir_iff path_exists_def is_file_def split: option.splits node.splits)
  have mono: "is_dir fs q \<Longrightarrow> is_dir ?fs q" for q using \<open>a \<noteq> []\<close> by (auto simp: is_dir_iff)
  have files: "is_file ?fs q \<Longrightarrow> is_file fs q" for q
    using \<open>a \<noteq> []\<close> by (auto simp: is_file_iff split: if_splits)
  have "\<forall>i<length ps. is_dir ?fs (butlast (ps ! i)) \<or> butlast (ps ! i) \<in> set (take i ps)"
  proof (intro allI impI)
    fix i
    assume "i < length ps"
    then have "is_dir fs (butlast (ps ! i)) \<or> butlast (ps ! i) \<in> set (take (Suc i) (a # ps))"
      using Cons.prems(3) by (auto dest: spec [of _ "Suc i"])
    then show "is_dir ?fs (butlast (ps ! i)) \<or> butlast (ps ! i) \<in> set (take i ps)"
      using mono dir_a by auto
  qed
  moreover have "\<forall>q\<in>set ps. \<not> is_file ?fs q" using Cons.prems(4) files by fastforce
  ultimately show ?case using Cons.IH [OF ok] Cons.prems(2) by simp
qed simp

lemma prefixes_parents:
  "i < length (tl (prefixes p)) \<Longrightarrow>
     butlast (tl (prefixes p) ! i) = [] \<or> butlast (tl (prefixes p) ! i) \<in> set (take i (tl (prefixes p)))"
proof (induction p rule: rev_induct)
  case (snoc x p)
  have pre: "tl (prefixes (p @ [x])) = tl (prefixes p) @ [p @ [x]]"
    by (cases "prefixes p") (simp_all add: prefixes_snoc)
  show ?case
  proof (cases "i < length (tl (prefixes p))")
    case True
    with snoc.IH show ?thesis by (simp add: pre nth_append)
  next
    case False
    with snoc.prems have "i = length (tl (prefixes p))" by (simp add: pre)
    moreover have "p = [] \<or> p \<in> set (tl (prefixes p))"
      by (cases p rule: rev_cases) (auto simp: prefixes_snoc tl_append split: list.splits)
    ultimately show ?thesis by (simp add: pre nth_append butlast_append)
  qed
qed simp

lemma tree_ok_mkdirs:
  assumes "tree_ok fs" "create_private_dir_all p fs = (x, fs')"
  shows "tree_ok fs' \<and> (x = Inr u \<longrightarrow> is_dir fs' p)"
proof (cases x)
  case (Inl e)
  with assms mkdirs_error_unchanged show ?thesis by auto
next
  case (Inr v)
  let ?ps = "tl (prefixes p)"
  have nofile: "\<not> is_file fs q" if "q \<in> set (prefixes p)" for q
  proof -
    have "q = p \<or> q \<in> set (butlast (prefixes p))"
      using that by (cases p rule: rev_cases) (auto simp: prefixes_snoc butlast_append)
    with assms(2) Inr show ?thesis
      by (auto simp: create_private_dir_all_def list_ex_iff split: if_splits)
  qed
  obtain ps where ps: "prefixes p = [] # ps" "[] \<notin> set ps" by (cases p) auto
  have "fs' = foldl (\<lambda>f q. if path_exists f q then f else fs_put q Dir f) fs ps"
    using assms(2) Inr by (auto simp: create_private_dir_all_def ps path_exists_def split: if_splits)
  moreover have "tree_ok (foldl (\<lambda>f q. if path_exists f q then f else fs_put q Dir f) fs ps)"
  proof (rule tree_ok_mkdirs_fold [OF assms(1)])
    show "\<forall>q\<in>set ps. q \<noteq> []" using ps by auto
    show "\<forall>i<length ps. is_dir fs (butlast (ps ! i)) \<or> butlast (ps ! i) \<in> set (take i ps)"
      using prefixes_parents [of _ p] unfolding ps list.sel by (metis is_dir_iff lookup_Nil)
    show "\<forall>q\<in>set ps. \<not> is_file fs q" using nofile by (simp add: ps)
  qed
  moreover have "is_dir fs' p"
    using mkdirs_lookup [of p fs v fs' p] assms(2) Inr nofile [of p]
    by (auto simp: is_dir_iff is_file_def split: option.splits node.splits)
  ultimately show ?thesis by simp
qed

text \<open>Operations that keep trees well-formed, whether they succeed or fail, and how they compose.\<close>

definition keeps :: "'a op \<Rightarrow> bool" where
  "keeps m \<longleftrightarrow> (\<forall>fs. tree_ok fs \<longrightarrow> tree_ok (snd (m fs)))"

named_theorems keeps_intros \<open>operations that keep trees well-formed\<close>

lemma keepsI: "(\<And>fs x fs'. tree_ok fs \<Longrightarrow> m fs = (x, fs') \<Longrightarrow> tree_ok fs') \<Longrightarrow> keeps m"
  unfolding keeps_def by (metis prod.collapse)

lemma keepsD: "keeps m \<Longrightarrow> tree_ok fs \<Longrightarrow> m fs = (x, fs') \<Longrightarrow> tree_ok fs'"
  unfolding keeps_def by (metis snd_conv)

lemma keeps_olift [keeps_intros]: "keeps (olift x)"
  by (simp add: keeps_def olift_def)

lemma keeps_oread [keeps_intros]: "keeps (oread g)"
  by (simp add: keeps_def oread_def)

lemma keeps_obind [keeps_intros]: "keeps m \<Longrightarrow> (\<And>x. keeps (f x)) \<Longrightarrow> keeps (obind m f)"
  by (rule keepsI) (auto simp: obind_def split: prod.splits sum.splits dest: keepsD)

lemma keeps_locked [keeps_intros]: "keeps m \<Longrightarrow> keeps (locked R m)"
  by (simp add: locked_def keeps_olift keeps_obind)

lemma keeps_if [keeps_intros]: "keeps m \<Longrightarrow> keeps n \<Longrightarrow> keeps (if b then m else n)"
  by simp

lemma keeps_mkdirs [keeps_intros]: "keeps (create_private_dir_all p)"
  by (rule keepsI) (use tree_ok_mkdirs in blast)

lemma keeps_remove [keeps_intros]: "keeps (remove_file p)" "keeps (remove_dir_all p)"
  by (auto simp: keeps_def remove_file_def remove_dir_all_def tree_ok_remove
      split: option.splits node.splits)

lemma keeps_create_new_file [keeps_intros]: "keeps (create_new_file p b)"
proof (rule keepsI)
  fix fs x fs'
  assume "tree_ok fs" "create_new_file p b fs = (x, fs')"
  then show "tree_ok fs'"
    by (cases "p = []") (auto simp: create_new_file_def path_exists_def is_dir_iff
        intro!: tree_ok_put split: if_splits)
qed

lemma keeps_write_json [keeps_intros]: "keeps (write_json R p v)"
proof (cases "p = []")
  case True
  then show ?thesis by (simp add: write_json_def keeps_olift)
next
  case False
  show ?thesis
  proof (rule keepsI)
    fix fs x fs'
    assume ok: "tree_ok fs" and w: "write_json R p v fs = (x, fs')"
    obtain y fs1 where m: "create_private_dir_all (butlast p) fs = (y, fs1)"
      by (cases "create_private_dir_all (butlast p) fs")
    note ok1 = tree_ok_mkdirs [OF ok m, of "()"]
    show "tree_ok fs'"
    proof (cases y)
      case (Inl e)
      with w m ok1 False show ?thesis by (simp add: write_json_def obind_def)
    next
      case (Inr u)
      with w m ok1 False show ?thesis
        by (auto simp: write_json_def obind_def replace_file_def intro!: tree_ok_put split: if_splits)
    qed
  qed
qed

lemma keeps_undo [keeps_intros]: "keeps m \<Longrightarrow> keeps (undo_on_error p m)"
proof (rule keepsI)
  fix fs x fs'
  assume "keeps m" "tree_ok fs" "undo_on_error p m fs = (x, fs')"
  then show "tree_ok fs'"
    using keeps_remove(1) [of p]
    by (auto simp: undo_on_error_def keeps_def split: prod.splits sum.splits)
qed

lemma keeps_case_option [keeps_intros]:
  "keeps m \<Longrightarrow> (\<And>x. keeps (f x)) \<Longrightarrow> keeps (case v of None \<Rightarrow> m | Some x \<Rightarrow> f x)"
  by (simp split: option.splits)

lemma keeps_write_at_locked [keeps_intros]: "keeps (write_at_locked R r parent rid v)"
  unfolding write_at_locked_def by (intro keeps_intros)

lemma keeps_create_at [keeps_intros]: "keeps (create_at R r parent rid v)"
  unfolding create_at_def by (intro keeps_intros)

lemma keeps_write_at [keeps_intros]: "keeps (write_at R r parent rid v)"
  unfolding write_at_def by (intro keeps_intros)

lemma keeps_transform_at [keeps_intros]:
  "(\<And>v. keeps (f v)) \<Longrightarrow> keeps (transform_at R r parent rid et f)"
  unfolding transform_at_def by (intro keeps_intros)

lemma keeps_delete_at [keeps_intros]: "keeps (delete_at R r parent rid)"
  unfolding delete_at_def by (intro keeps_intros)

lemma keeps_save_revision_inner [keeps_intros]: "keeps (save_revision_inner R parent cid n v)"
proof (rule keepsI)
  fix fs x fs'
  assume ok: "tree_ok fs" and "save_revision_inner R parent cid n v fs = (x, fs')"
  from this(2) show "tree_ok fs'"
  proof (cases rule: save_revision_inner_cases)
    case (2 p)
    with ok keeps_write_json show ?thesis by (blast dest: keepsD)
  qed (use ok in simp)
qed

lemma keeps_save_revision [keeps_intros]:
  "keeps (save_revision R parent cid n v)" "keeps (save_revision_locked R parent cid n v)"
  unfolding save_revision_def save_revision_locked_def by (intro keeps_intros)+

lemma keeps_attachments [keeps_intros]:
  "keeps (save_attachment R parent cid f e c)" "keeps (delete_attachment R parent cid f)"
  "keeps (save_step_attachment R parent cid i f e c)" "keeps (delete_step_attachment R parent cid i f)"
  unfolding save_attachment_def delete_attachment_def save_step_attachment_def
    delete_step_attachment_def record_attachment_def forget_attachment_def
    record_step_attachment_def forget_step_attachment_def
  by (intro keeps_intros)+

section \<open>Placement\<close>

lemma map_of_subtree:
  "map_of (subtree src dst fs) q =
     (if prefix dst q then map_of fs (src @ drop (length dst) q) else None)"
proof (induction fs)
  case (Cons a fs)
  obtain p n where a: "a = (p, n)" by (cases a)
  have "(dst @ drop (length src) p = q) \<longleftrightarrow> prefix dst q \<and> p = src @ drop (length dst) q"
    if "prefix src p"
    using that by (auto simp: prefix_def)
  moreover have "prefix src p" if "src @ drop (length src) p = p"
    using that by (metis prefixI)
  ultimately show ?case using Cons by (auto simp: a subtree_def prefix_def)
qed (simp add: subtree_def)

lemma keys_subtree: "distinct (map fst fs) \<Longrightarrow> distinct (map fst (subtree src dst fs))"
proof -
  assume "distinct (map fst fs)"
  then have "distinct (filter (prefix src) (map fst fs))" by simp
  moreover have "inj_on (\<lambda>q. dst @ drop (length src) q) {q. prefix src q}"
    by (auto simp: inj_on_def prefix_def)
  ultimately have "distinct (map (\<lambda>q. dst @ drop (length src) q) (filter (prefix src) (map fst fs)))"
    by (auto simp: distinct_map intro: inj_on_subset)
  moreover have "map (\<lambda>q. dst @ drop (length src) q) (filter (prefix src) (map fst fs))
      = map fst (subtree src dst fs)"
    by (induction fs) (auto simp: subtree_def)
  ultimately show ?thesis by simp
qed

lemma lookup_placed:
  assumes "dst \<noteq> []" "\<And>q. prefix dst q \<Longrightarrow> map_of fs q = None"
  shows "lookup (fs @ subtree src dst fs') q =
    (if prefix dst q then map_of fs' (src @ drop (length dst) q) else lookup fs q)"
  using assms by (auto simp: lookup_def map_add_def map_of_subtree split: option.splits)

lemma tree_ok_placed:
  assumes "tree_ok fs" "tree_ok base" "dst \<noteq> []" "\<And>q. prefix dst q \<Longrightarrow> map_of base q = None"
    "is_dir fs src" "src \<noteq> []" "is_dir base (butlast dst)"
  shows "tree_ok (base @ subtree src dst fs)"
proof -
  note lk = lookup_placed [OF assms(3,4)]
  have "distinct (map fst (base @ subtree src dst fs))"
  proof -
    have "prefix dst q" if "q \<in> fst ` set (subtree src dst fs)" for q
      using that by (auto simp: subtree_def)
    moreover have "\<not> prefix dst q" if "q \<in> fst ` set base" for q
      using that assms(4) by (metis map_of_eq_None_iff)
    ultimately show ?thesis
      using assms(1,2) keys_subtree by (auto simp: tree_ok_iff)
  qed
  moreover have "q \<noteq> [] \<and> is_dir (base @ subtree src dst fs) (butlast q)"
    if "map_of (base @ subtree src dst fs) q = Some n" for q n
  proof (cases "prefix dst q")
    case True
    then obtain xs where q: "q = dst @ xs" by (auto simp: prefix_def)
    show ?thesis
    proof (cases xs rule: rev_cases)
      case Nil
      have "\<not> prefix dst (butlast dst)" using assms(3) by (metis append_butlast_last_id
            not_Cons_self2 prefix_order.antisym prefixeq_butlast append_self_conv)
      with Nil q assms(3,7) show ?thesis by (simp add: is_dir_iff lk)
    next
      case (snoc ys y)
      have "map_of fs (src @ ys @ [y]) = Some n"
        using that True assms(4) [of q] by (simp add: q snoc map_of_subtree map_add_def split: option.splits)
      then have "is_dir fs (butlast (src @ ys @ [y]))" using assms(1) unfolding tree_ok_iff by blast
      then have "map_of fs (src @ ys) = Some Dir" using assms(6)
        by (simp add: is_dir_iff butlast_append lookup_def)
      then show ?thesis using lk [of src fs "dst @ ys"] assms(3)
        by (simp add: q snoc is_dir_iff butlast_append)
    qed
  next
    case False
    then have b: "map_of base q = Some n"
      using that by (simp add: map_of_subtree map_add_def split: option.splits)
    then have "q \<noteq> []" "is_dir base (butlast q)" using assms(2) unfolding tree_ok_iff by blast+
    moreover have "\<not> prefix dst (butlast q)" using False by (meson prefix_order.trans prefixeq_butlast)
    ultimately show ?thesis by (simp add: is_dir_iff lk)
  qed
  ultimately show ?thesis unfolding tree_ok_iff by blast
qed

lemma absent_below:
  "tree_ok fs \<Longrightarrow> \<not> path_exists fs dst \<Longrightarrow> dst \<noteq> [] \<Longrightarrow> prefix dst q \<Longrightarrow> map_of fs q = None"
proof (rule ccontr)
  assume ok: "tree_ok fs" "\<not> path_exists fs dst" "dst \<noteq> []" "prefix dst q" and some: "map_of fs q \<noteq> None"
  from ok(4) obtain zs where q: "q = dst @ zs" by (auto simp: prefix_def)
  with ok(2,3) some have "zs \<noteq> []" by (auto simp: path_exists_def lookup_def)
  with ok some tree_ok_prefix [of fs dst zs] show False by (simp add: q path_exists_def lookup_def)
qed

text \<open>What a successful placement did.\<close>

lemma place_ok:
  assumes "place R r source rid target mode fs = (Inr u, fs')"
  obtains (same) "mode = Move" "fs' = fs" "folder R r (Some source) rid = folder R r (Some target) rid"
    | (moved) src dst fs1 where "folder R r (Some source) rid = Inr src"
        "folder R r (Some target) rid = Inr dst" "src \<noteq> dst" "is_dir fs src" "\<not> path_exists fs dst"
        "create_private_dir_all (butlast dst) fs = (Inr (), fs1)" "\<not> prefix src dst"
        "fs' = (case mode of Copy \<Rightarrow> fs1 @ subtree src dst fs1
                | Move \<Rightarrow> fs_remove src fs1 @ subtree src dst fs1)"
  using assms
  unfolding place_def
  by (auto simp: locked_Inr_iff place_locked_def obind_olift obind_oread obind_Inr_iff guard_def
      olift_def split: if_splits sum.splits Placement.splits)

lemma keeps_place [keeps_intros]: "keeps (place R r source rid target mode)"
proof (rule keepsI)
  fix fs x fs'
  assume ok: "tree_ok fs" and pl: "place R r source rid target mode fs = (x, fs')"
  show "tree_ok fs'"
  proof (cases x)
    case (Inl e)
    from pl have "fs' = fs \<or> (\<exists>dst y. create_private_dir_all (butlast dst) fs = (y, fs'))"
      unfolding Inl place_def locked_def acquire_lock_def place_locked_def
      by (auto simp: obind_olift obind_oread obind_def [of "create_private_dir_all _"] guard_def
          olift_def split: if_splits sum.splits Placement.splits prod.splits)
    with ok tree_ok_mkdirs show ?thesis by blast
  next
    case (Inr u)
    from pl [unfolded Inr] show ?thesis
    proof (cases rule: place_ok)
      case same
      with ok show ?thesis by simp
    next
      case (moved src dst fs1)
      have ok1: "tree_ok fs1" "is_dir fs1 (butlast dst)"
        using tree_ok_mkdirs [OF ok moved(6), of "()"] by auto
      have ne: "dst \<noteq> []" using moved(5) by (auto simp: path_exists_def)
      have "src \<noteq> []" using moved(7) by auto
      have "\<not> prefix dst (butlast dst)"
        using ne by (metis append_butlast_last_id append_self_conv not_Cons_self2 prefix_order.antisym prefixeq_butlast)
      then have "\<not> path_exists fs1 dst"
        using moved(5) mkdirs_lookup [OF moved(6), of dst] by (auto simp: path_exists_def)
      then have above: "prefix dst q \<Longrightarrow> map_of fs1 q = None" for q
        using absent_below [OF ok1(1)] ne by blast
      have dir: "is_dir fs1 src"
        using moved(4) mkdirs_lookup [OF moved(6), of src] by (simp add: is_dir_iff)
      have "\<not> prefix src (butlast dst)"
        using moved(7) by (meson prefix_order.trans prefixeq_butlast)
      then have "is_dir (fs_remove src fs1) (butlast dst)" using ok1(2) by (simp add: is_dir_iff)
      moreover have "prefix dst q \<Longrightarrow> map_of (fs_remove src fs1) q = None" for q
        using above by (simp add: fs_remove_def map_of_filter_key)
      ultimately show ?thesis
        using tree_ok_placed [OF ok1(1) _ ne _ dir \<open>src \<noteq> []\<close>] ok1 above tree_ok_remove [OF ok1(1)]
        by (simp add: moved(8) split: Placement.splits)
    qed
  qed
qed

lemma mkdirs_files: "create_private_dir_all p fs = (Inr u, fs') \<Longrightarrow> file_at fs' q = file_at fs q"
  by (auto simp: file_at_def mkdirs_lookup split: option.splits)

text \<open>Placing a suite or a case transports its whole folder: after a copy or a move into another
  parent every file below the source is found under the target with the same bytes, a move leaves
  nothing under the source while a copy leaves it unchanged, and every file outside both folders is
  untouched.\<close>

theorem place_transports:
  assumes "place R r source rid target mode fs = (Inr u, fs')" "tree_ok fs"
    "folder R r (Some source) rid = Inr src" "folder R r (Some target) rid = Inr dst" "src \<noteq> dst"
  shows "file_at fs' (dst @ xs) = file_at fs (src @ xs)
    \<and> file_at fs' (src @ xs) = (case mode of Copy \<Rightarrow> file_at fs (src @ xs) | Move \<Rightarrow> None)
    \<and> (\<not> prefix src q \<longrightarrow> \<not> prefix dst q \<longrightarrow> file_at fs' q = file_at fs q)"
proof -
  from assms(1) show ?thesis
  proof (cases rule: place_ok)
    case same
    with assms(3-5) show ?thesis by simp
  next
    case (moved src' dst' fs1)
    then have eq: "src' = src" "dst' = dst" using assms(3,4) by simp_all
    have ne: "dst \<noteq> []" "src \<noteq> []" using moved(5,7) by (auto simp: eq path_exists_def)
    have ok1: "tree_ok fs1" using tree_ok_mkdirs [OF assms(2) moved(6)] by blast
    have "\<not> prefix dst (butlast dst)"
      using ne by (metis append_butlast_last_id append_self_conv not_Cons_self2 prefix_order.antisym prefixeq_butlast)
    then have "\<not> path_exists fs1 dst"
      using moved(5) mkdirs_lookup [OF moved(6), of dst] by (auto simp: eq path_exists_def)
    then have above: "prefix dst p \<Longrightarrow> map_of fs1 p = None" for p
      using absent_below [OF ok1] ne by blast
    have above': "prefix dst p \<Longrightarrow> map_of (fs_remove src fs1) p = None" for p
      using above by (simp add: fs_remove_def map_of_filter_key)
    have files: "file_at fs1 p = file_at fs p" for p using mkdirs_files [OF moved(6)] by (simp add: eq)
    have "is_dir fs1 src" using moved(4) mkdirs_lookup [OF moved(6), of src] by (simp add: eq is_dir_iff)
    then have "\<not> prefix dst src" using above ne by (auto simp: is_dir_iff lookup_def)
    with moved(7) have apart: "\<not> prefix dst (src @ ys)" "\<not> prefix src (dst @ ys)" for ys
      using prefix_same_cases [of dst "src @ ys" src] prefix_same_cases [of src "dst @ ys" dst]
      by (auto simp: eq)
    have lk: "lookup fs' p = (if prefix dst p then map_of fs1 (src @ drop (length dst) p)
        else if mode = Move \<and> prefix src p \<and> p \<noteq> [] then None else lookup fs1 p)" for p
      using lookup_placed [OF ne(1) above, of src fs1 p] lookup_placed [OF ne(1) above', of src fs1 p]
      by (cases mode) (simp_all add: moved(8) eq)
    have "lookup fs' (dst @ xs) = lookup fs1 (src @ xs)"
      using lk [of "dst @ xs"] ne by (simp add: lookup_def [of fs1])
    moreover have "lookup fs' (src @ xs) = (case mode of Copy \<Rightarrow> lookup fs1 (src @ xs) | Move \<Rightarrow> None)"
      using lk [of "src @ xs"] ne apart by (cases mode) simp_all
    moreover have "\<not> prefix src q \<longrightarrow> \<not> prefix dst q \<longrightarrow> lookup fs' q = lookup fs1 q"
      using lk [of q] by simp
    ultimately show ?thesis
      by (cases mode) (simp_all add: file_at_def [of fs'] file_at_def [of fs1] flip: files)
  qed
qed

section \<open>Every operation keeps the tree\<close>

text \<open>One operation of the repository, with any arguments and any outcome.\<close>

inductive repository_step :: "FileRepository \<Rightarrow> fs \<Rightarrow> fs \<Rightarrow> bool" for R where
  step_create: "repository_step R fs (snd (create_at R r parent rid v fs))"
| step_write: "repository_step R fs (snd (write_at R r parent rid v fs))"
| step_transform: "(\<And>v. keeps (f v)) \<Longrightarrow>
    repository_step R fs (snd (transform_at R r parent rid et f fs))"
| step_delete: "repository_step R fs (snd (delete_at R r parent rid fs))"
| step_place: "repository_step R fs (snd (place R r source rid target mode fs))"
| step_revision: "repository_step R fs (snd (save_revision R p cid n v fs))"
| step_attach: "repository_step R fs (snd (save_attachment R p cid name entry contents fs))"
| step_detach: "repository_step R fs (snd (delete_attachment R p cid name fs))"
| step_attach_step: "repository_step R fs (snd (save_step_attachment R p cid i name entry contents fs))"
| step_detach_step: "repository_step R fs (snd (delete_step_attachment R p cid i name fs))"

inductive_cases repository_stepE: "repository_step R fs fs'"


end
