(* ===== verification/Repository_Locate.thy ===== *)
theory Repository_Locate
  imports Repository_Trees
begin

text \<open>
  Resolution by identifier: \<^verbatim>\<open>locate\<close> walks the projects (and, for a case, their suites) and returns
  the parents that hold a document. The file proves that the walk is exact, which is what the
  service's rule "one owner is that occurrence, two or more is a conflict" rests on.
\<close>

lemma for_each_set:
  "for_each xs f = Inr ys \<Longrightarrow> y \<in> set ys \<longleftrightarrow> (\<exists>x\<in>set xs. \<exists>l. f x = Inr l \<and> y \<in> set l)"
proof -
  assume "for_each xs f = Inr ys"
  then obtain ls where ls: "list_all2 (\<lambda>x l. f x = Inr l) xs ls" "ys = concat ls"
    by (auto simp: for_each_def rbind_Inr_iff rmap_Inr_iff)
  from ls(1) have "(\<exists>l\<in>set ls. y \<in> set l) \<longleftrightarrow> (\<exists>x\<in>set xs. \<exists>l. f x = Inr l \<and> y \<in> set l)"
    by (induction rule: list_all2_induct) auto
  with ls(2) show ?thesis by simp
qed

lemma for_each_all_ok: "for_each xs f = Inr ys \<Longrightarrow> x \<in> set xs \<Longrightarrow> \<exists>l. f x = Inr l"
  by (auto simp: for_each_def rbind_Inr_iff rmap_Inr_iff list_all2_conv_all_nth in_set_conv_nth)

lemma entries_or_empty_set:
  assumes "entries_or_empty fs d = Inr names" "tree_ok fs"
  shows "c \<in> set names \<longleftrightarrow> path_exists fs (d @ [c])"
proof (cases "lookup fs d")
  case None
  with assms have "names = []"
    by (auto simp: entries_or_empty_def read_dir_def split: sum.splits if_splits)
  moreover have "lookup fs (d @ [c]) = None"
    using tree_ok_prefix [OF assms(2), of d "[c]"] None by fastforce
  ultimately show ?thesis by (simp add: path_exists_def)
next
  case (Some n)
  with assms(1) have "names = child_names fs d"
    by (auto simp: entries_or_empty_def read_dir_def split: sum.splits if_splits node.splits)
  then show ?thesis using set_child_names by (simp add: path_exists_def)
qed

lemma child_folders_set:
  assumes "child_folders fs d marker = Inr names" "tree_ok fs"
  shows "c \<in> set names \<longleftrightarrow> is_file fs (d @ [c, marker])"
proof -
  from assms(1) obtain all where all: "entries_or_empty fs d = Inr all"
    "names = filter (\<lambda>c. is_dir fs (d @ [c]) \<and> is_file fs (d @ [c, marker])) all"
    by (auto simp: child_folders_def rbind_Inr_iff)
  have "is_file fs (d @ [c, marker]) \<Longrightarrow> is_dir fs (d @ [c])"
    using tree_ok_prefix [OF assms(2), of "d @ [c]" "[marker]"] by (auto simp: is_file_iff is_dir_iff)
  with all entries_or_empty_set [OF all(1) assms(2)] show ?thesis
    by (auto simp: path_exists_def is_dir_iff)
qed

lemma project_folders_set:
  assumes "project_folders R fs = Inr ps" "tree_ok fs" "plain f"
  shows "f \<in> set ps \<longleftrightarrow> exists_at R Projects None (folder_wire_id f) fs = Inr True"
proof -
  from assms(1) have d: "root R \<noteq> []" "child_folders fs (root R @ [''projects'']) ''project.json'' = Inr ps"
    by (auto simp: project_folders_def rbind_Inr_iff root_dir_ok)
  have "project_dir (root R) (f @ ''.json'') = Inr (root R @ [''projects'', f])"
    using d(1) assms(3) by (simp add: project_dir_ok)
  with child_folders_set [OF d(2) assms(2)] show ?thesis
    by (simp add: exists_at_def document_def reject_parent_def project_marker_def folder_wire_id_def)
qed

text \<open>The parents a document of a resource can have: existing projects, and for a case the existing
  suites of existing projects.\<close>

fun existing_parent :: "FileRepository \<Rightarrow> fs \<Rightarrow> Parent \<Rightarrow> bool" where
  "existing_parent R fs (ProjectParent p) \<longleftrightarrow> exists_at R Projects None p fs = Inr True"
| "existing_parent R fs (SuiteParent p s) \<longleftrightarrow>
     exists_at R Projects None p fs = Inr True
     \<and> exists_at R Suites (Some (ProjectParent p)) s fs = Inr True"

lemma exists_project_wire:
  "exists_at R Projects None p fs = Inr True \<Longrightarrow> \<exists>f. plain f \<and> p = folder_wire_id f"
  by (auto simp: exists_at_def rbind_Inr_iff document_def reject_parent_def project_marker_def
      project_dir_ok folder_wire_id_def)

lemma exists_suite_wire:
  "exists_at R Suites (Some (ProjectParent p)) s fs = Inr True \<Longrightarrow> \<exists>f. plain f \<and> s = folder_wire_id f"
  by (auto simp: exists_at_def rbind_Inr_iff document_def project_parent_def suite_marker_def
      suite_dir_ok folder_wire_id_def)

text \<open>The common shape of the three walks: every existing project contributes its own homes.\<close>

lemma walk_projects:
  assumes "rbind (project_folders R fs) (\<lambda>ps. for_each ps f) = Inr homes" "tree_ok fs"
    "\<And>g l h. plain g \<Longrightarrow> f g = Inr l \<Longrightarrow> h \<in> set l \<longleftrightarrow> parent_project h = folder_wire_id g \<and> P h"
    "\<And>g l. f g = Inr l \<Longrightarrow> plain g"
  shows "h \<in> set homes \<longleftrightarrow> exists_at R Projects None (parent_project h) fs = Inr True \<and> P h"
proof -
  from assms(1) obtain ps where ps: "project_folders R fs = Inr ps" "for_each ps f = Inr homes"
    by (auto simp: rbind_Inr_iff)
  have "h \<in> set homes \<longleftrightarrow> (\<exists>g\<in>set ps. \<exists>l. f g = Inr l \<and> h \<in> set l)"
    by (rule for_each_set [OF ps(2)])
  also have "\<dots> \<longleftrightarrow> (\<exists>g\<in>set ps. plain g \<and> parent_project h = folder_wire_id g \<and> P h)"
    using for_each_all_ok [OF ps(2)] assms(3,4) by metis
  also have "\<dots> \<longleftrightarrow> exists_at R Projects None (parent_project h) fs = Inr True \<and> P h"
    using project_folders_set [OF ps(1) assms(2)] exists_project_wire by metis
  finally show ?thesis .
qed

lemma exists_at_case_in:
  "plain g \<Longrightarrow> plain rid \<Longrightarrow> root R \<noteq> [] \<Longrightarrow>
   exists_at R Cases (Some (ProjectParent (folder_wire_id g))) rid fs =
     Inr (is_file fs (root R @ [''projects'', g, rid, ''test-case.json'']))"
  "plain g \<Longrightarrow> plain k \<Longrightarrow> plain rid \<Longrightarrow> root R \<noteq> [] \<Longrightarrow>
   exists_at R Cases (Some (SuiteParent (folder_wire_id g) (folder_wire_id k))) rid fs =
     Inr (is_file fs (root R @ [''projects'', g, k, rid, ''test-case.json'']))"
proof -
  assume g: "plain g" "plain rid" "root R \<noteq> []"
  have d: "project_dir (root R) (g @ ''.json'') = Inr (root R @ [''projects'', g])"
    using g by (simp add: project_dir_ok)
  then have "case_dir (root R) (ProjectParent (g @ ''.json'')) rid = Inr (root R @ [''projects'', g, rid])"
    using g by (simp add: case_dir_ok)
  then show "exists_at R Cases (Some (ProjectParent (folder_wire_id g))) rid fs =
     Inr (is_file fs (root R @ [''projects'', g, rid, ''test-case.json'']))"
    by (simp add: exists_at_def document_def required_parent_def case_marker_def folder_wire_id_def)
next
  assume g: "plain g" "plain k" "plain rid" "root R \<noteq> []"
  have "suite_dir (root R) (g @ ''.json'') (k @ ''.json'') = Inr (root R @ [''projects'', g, k])"
    using g by (simp add: suite_dir_ok project_dir_ok)
  then have "case_dir (root R) (SuiteParent (g @ ''.json'') (k @ ''.json'')) rid
      = Inr (root R @ [''projects'', g, k, rid])"
    using g by (simp add: case_dir_ok)
  then show "exists_at R Cases (Some (SuiteParent (folder_wire_id g) (folder_wire_id k))) rid fs =
     Inr (is_file fs (root R @ [''projects'', g, k, rid, ''test-case.json'']))"
    by (simp add: exists_at_def document_def required_parent_def case_marker_def folder_wire_id_def)
qed

lemma exists_at_suite:
  "plain g \<Longrightarrow> plain k \<Longrightarrow> root R \<noteq> [] \<Longrightarrow>
   exists_at R Suites (Some (ProjectParent (folder_wire_id g))) (folder_wire_id k) fs =
     Inr (is_file fs (root R @ [''projects'', g, k, ''suite.json'']))"
proof -
  assume g: "plain g" "plain k" "root R \<noteq> []"
  have "suite_dir (root R) (g @ ''.json'') (k @ ''.json'') = Inr (root R @ [''projects'', g, k])"
    using g by (simp add: suite_dir_ok project_dir_ok)
  then show ?thesis
    by (simp add: exists_at_def document_def project_parent_def suite_marker_def folder_wire_id_def)
qed

text \<open>A store all of whose names are plain components, as every name the operations write is.\<close>

definition plain_names :: "fs \<Rightarrow> bool" where
  "plain_names fs \<longleftrightarrow> list_all (\<lambda>(q, _). list_all plain q) fs"

lemma plain_names_file: "plain_names fs \<Longrightarrow> is_file fs (d @ [c, m]) \<Longrightarrow> plain c"
  by (auto simp: plain_names_def list_all_iff is_file_iff lookup_def dest!: map_of_SomeD)

lemma wire_id_eq [simp]: "folder_wire_id a = folder_wire_id b \<longleftrightarrow> a = b"
  by (simp add: folder_wire_id_def)

lemma locate_scoped_home:
  assumes "is_project_scoped r" "plain g"
    "rbind (project_document_path (root R) (folder_wire_id g) r rid)
       (\<lambda>p. Inr (if is_file fs p then [ProjectParent (folder_wire_id g)] else [])) = Inr l"
  shows "h \<in> set l \<longleftrightarrow>
    parent_project h = folder_wire_id g \<and> exists_at R r (Some h) rid fs = Inr True"
proof -
  have r: "r \<notin> {Projects, Suites, Cases}" using assms(1) by (cases r) (auto simp: is_project_scoped_def)
  have "exists_at R r (Some (SuiteParent a b)) rid fs \<noteq> Inr True" for a b
    using r by (cases r) (auto simp: exists_at_def document_def project_parent_def)
  moreover have "exists_at R r (Some (ProjectParent a)) rid fs =
      rbind (project_document_path (root R) a r rid) (\<lambda>p. Inr (is_file fs p))" for a
    using r by (cases r) (auto simp: exists_at_def document_def project_parent_def)
  ultimately show ?thesis using assms(3) by (cases h) (auto simp: rbind_Inr_iff split: if_splits)
qed

lemma locate_suite_home:
  assumes "rbind (suite_dir (root R) (folder_wire_id g) rid) (\<lambda>d.
      Inr (if is_file fs (d @ [''suite.json'']) then [ProjectParent (folder_wire_id g)] else [])) = Inr l"
  shows "h \<in> set l \<longleftrightarrow>
    parent_project h = folder_wire_id g \<and> exists_at R Suites (Some h) rid fs = Inr True"
proof -
  have "exists_at R Suites (Some (SuiteParent a b)) rid fs \<noteq> Inr True" for a b
    by (simp add: exists_at_def document_def project_parent_def)
  moreover have "exists_at R Suites (Some (ProjectParent a)) rid fs =
      rbind (suite_dir (root R) a rid) (\<lambda>d. Inr (is_file fs (d @ [''suite.json''])))" for a
    by (cases "suite_dir (root R) a rid")
       (simp_all add: exists_at_def document_def project_parent_def suite_marker_def)
  ultimately show ?thesis using assms by (cases h) (auto simp: rbind_Inr_iff split: if_splits)
qed

lemma locate_case_home:
  assumes "rbind (project_dir (root R) (folder_wire_id g)) (\<lambda>d.
      rbind (child_folders fs d ''suite.json'') (\<lambda>suites.
        Inr ((if is_file fs (d @ [rid, ''test-case.json''])
              then [ProjectParent (folder_wire_id g)] else [])
           @ map (\<lambda>suite. SuiteParent (folder_wire_id g) (folder_wire_id suite))
               (filter (\<lambda>suite. is_file fs (d @ [suite, rid, ''test-case.json''])) suites)))) = Inr l"
    "tree_ok fs" "plain_names fs" "plain rid"
  shows "h \<in> set l \<longleftrightarrow> parent_project h = folder_wire_id g \<and> exists_at R Cases (Some h) rid fs = Inr True
    \<and> (\<forall>p s. h = SuiteParent p s \<longrightarrow> exists_at R Suites (Some (ProjectParent p)) s fs = Inr True)"
proof -
  from assms(1) have g: "plain g" "root R \<noteq> []"
    by (auto simp: rbind_Inr_iff project_dir_ok folder_wire_id_def)
  then have "project_dir (root R) (folder_wire_id g) = Inr (root R @ [''projects'', g])"
    by (simp add: project_dir_ok folder_wire_id_def)
  with assms(1) obtain suites where suites:
    "child_folders fs (root R @ [''projects'', g]) ''suite.json'' = Inr suites"
    and l: "l = (if is_file fs (root R @ [''projects'', g, rid, ''test-case.json''])
              then [ProjectParent (folder_wire_id g)] else [])
           @ map (\<lambda>suite. SuiteParent (folder_wire_id g) (folder_wire_id suite))
               (filter (\<lambda>suite. is_file fs (root R @ [''projects'', g, suite, rid, ''test-case.json''])) suites)"
    by (auto simp: rbind_Inr_iff)
  have mem: "k \<in> set suites \<longleftrightarrow> is_file fs (root R @ [''projects'', g, k, ''suite.json''])" for k
    using child_folders_set [OF suites assms(2)] by simp
  have pl: "plain k" if "k \<in> set suites" for k
    using that plain_names_file [OF assms(3), of "root R @ [''projects'', g]" k] by (simp add: mem)
  show ?thesis
  proof (cases h)
    case (ProjectParent p)
    then show ?thesis using g assms(4) exists_at_case_in(1) [of g rid R fs] by (auto simp: l)
  next
    case (SuiteParent p s)
    show ?thesis
    proof
      assume "h \<in> set l"
      then obtain k where "k \<in> set suites" "p = folder_wire_id g" "s = folder_wire_id k"
        "is_file fs (root R @ [''projects'', g, k, rid, ''test-case.json''])"
        by (auto simp: l SuiteParent split: if_splits)
      then show "parent_project h = folder_wire_id g \<and> exists_at R Cases (Some h) rid fs = Inr True
        \<and> (\<forall>p s. h = SuiteParent p s \<longrightarrow> exists_at R Suites (Some (ProjectParent p)) s fs = Inr True)"
        using g pl mem assms(4) SuiteParent by (simp add: exists_at_case_in(2) exists_at_suite)
    next
      assume r: "parent_project h = folder_wire_id g \<and> exists_at R Cases (Some h) rid fs = Inr True
        \<and> (\<forall>p s. h = SuiteParent p s \<longrightarrow> exists_at R Suites (Some (ProjectParent p)) s fs = Inr True)"
      then have "exists_at R Suites (Some (ProjectParent p)) s fs = Inr True" using SuiteParent by blast
      from exists_suite_wire [OF this] obtain k where "plain k" "s = folder_wire_id k" by blast
      moreover have "p = folder_wire_id g" using r SuiteParent by simp
      ultimately have k: "plain k" "s = folder_wire_id k" "p = folder_wire_id g" by blast+
      with r g assms(4) SuiteParent show "h \<in> set l"
        by (auto simp: l mem exists_at_case_in(2) exists_at_suite)
    qed
  qed
qed

text \<open>Resolution by identifier is exact: when \<^verbatim>\<open>locate\<close> answers, the parents it returns are
  precisely the existing parents (projects, and suites of projects for a case) at which the document
  exists, so no occurrence is missed and none is invented.\<close>

lemma locate_homes:
  assumes "locate R r rid fs = Inr homes" "tree_ok fs" "plain_names fs"
  shows "h \<in> set homes \<longleftrightarrow> existing_parent R fs h \<and> exists_at R r (Some h) rid fs = Inr True"
proof (cases "is_project_scoped r")
  case True
  with assms(1) have w: "rbind (project_folders R fs) (\<lambda>ps. for_each ps (\<lambda>g.
      rbind (project_document_path (root R) (folder_wire_id g) r rid)
        (\<lambda>p. Inr (if is_file fs p then [ProjectParent (folder_wire_id g)] else [])))) = Inr homes"
    by (auto simp: locate_def rbind_Inr_iff)
  have "exists_at R r (Some (SuiteParent a b)) rid fs \<noteq> Inr True" for a b
    using True by (cases r) (auto simp: exists_at_def document_def project_parent_def is_project_scoped_def)
  moreover have "h \<in> set homes \<longleftrightarrow>
      exists_at R Projects None (parent_project h) fs = Inr True \<and> exists_at R r (Some h) rid fs = Inr True"
    using w assms(2) locate_scoped_home [OF True]
    by (rule walk_projects) (auto simp: rbind_Inr_iff project_document_path_ok project_dir_ok folder_wire_id_def)
  ultimately show ?thesis by (cases h) auto
next
  case False
  with assms(1) have f: "r = Cases \<and> plain rid \<or> r = Suites"
    by (cases r) (auto simp: locate_def rbind_Inr_iff node_folder_ok is_project_scoped_def)
  then consider (cs) "r = Cases" "plain rid" | (su) "r = Suites" by blast
  then show ?thesis
  proof cases
    case su
    with assms(1) False have w: "rbind (project_folders R fs) (\<lambda>ps. for_each ps (\<lambda>g.
        rbind (suite_dir (root R) (folder_wire_id g) rid) (\<lambda>d.
          Inr (if is_file fs (d @ [''suite.json'']) then [ProjectParent (folder_wire_id g)] else []))))
        = Inr homes"
      by (auto simp: locate_def rbind_Inr_iff)
    have "exists_at R Suites (Some (SuiteParent a b)) rid fs \<noteq> Inr True" for a b
      by (auto simp: exists_at_def document_def project_parent_def)
    moreover have "h \<in> set homes \<longleftrightarrow> exists_at R Projects None (parent_project h) fs = Inr True
        \<and> exists_at R Suites (Some h) rid fs = Inr True"
      using w assms(2) locate_suite_home
      by (rule walk_projects) (auto simp: rbind_Inr_iff suite_dir_ok project_dir_ok folder_wire_id_def)
    ultimately show ?thesis using su by (cases h) auto
  next
    case cs
    with assms(1) False have w: "rbind (project_folders R fs) (\<lambda>ps. for_each ps (\<lambda>g.
        rbind (project_dir (root R) (folder_wire_id g)) (\<lambda>d.
        rbind (child_folders fs d ''suite.json'') (\<lambda>suites.
          Inr ((if is_file fs (d @ [rid, ''test-case.json''])
                then [ProjectParent (folder_wire_id g)] else [])
             @ map (\<lambda>suite. SuiteParent (folder_wire_id g) (folder_wire_id suite))
                 (filter (\<lambda>suite. is_file fs (d @ [suite, rid, ''test-case.json''])) suites))))))
        = Inr homes"
      by (auto simp: locate_def rbind_Inr_iff node_folder_ok)
    have "h \<in> set homes \<longleftrightarrow> exists_at R Projects None (parent_project h) fs = Inr True
        \<and> exists_at R Cases (Some h) rid fs = Inr True
        \<and> (\<forall>p s. h = SuiteParent p s \<longrightarrow> exists_at R Suites (Some (ProjectParent p)) s fs = Inr True)"
      using w assms(2) locate_case_home [OF _ assms(2,3) cs(2)]
      by (rule walk_projects) (auto simp: rbind_Inr_iff project_dir_ok folder_wire_id_def)
    then show ?thesis using cs by (cases h) auto
  qed
qed

section \<open>Uploads\<close>

lemma push_attachment_ok:
  "push_attachment entry m = Inr m' \<Longrightarrow>
     \<exists>items. m' = obj_insert ''attachments'' (Arr (items @ [entry])) m
       \<and> (map_of m ''attachments'' = Some (Arr items) \<or> map_of m ''attachments'' = None \<and> items = [])"
  by (auto simp: push_attachment_def split: option.splits json.splits)

lemma fs_remove_put:
  assumes "tree_ok fs" "\<not> path_exists fs p" "p \<noteq> []" "\<And>q. q \<noteq> p \<Longrightarrow> file_at fs1 q = file_at fs q"
  shows "file_at (fs_remove p fs1) q = file_at fs q"
proof (cases "prefix p q")
  case True
  then have "map_of fs q = None" "q \<noteq> []" using absent_below [OF assms(1,2,3)] assms(3) by auto
  then show ?thesis using True by (simp add: file_at_def lookup_def fs_remove_def map_of_filter_key)
next
  case False
  then show ?thesis using assms(4) [of q] by (auto simp: file_at_def)
qed

lemma create_new_file_ok:
  "create_new_file p b fs = (Inr u, fs') \<Longrightarrow>
     \<not> path_exists fs p \<and> p \<noteq> [] \<and> lookup fs' q = (if q = p then Some (File b) else lookup fs q)"
  by (cases "p = []") (auto simp: create_new_file_def path_exists_def split: if_splits)

lemma record_attachment_files:
  assumes "record_attachment R marker entry fs = (x, fs')"
  shows "q \<noteq> marker \<Longrightarrow> file_at fs' q = file_at fs q" "x = Inl e \<Longrightarrow> file_at fs' q = file_at fs q"
  using assms unfolding record_attachment_def
  by (auto simp: obind_oread obind_olift split: sum.splits
      dest: write_json_files(1) [of _ _ _ _ _ _ q] write_json_files(3) [of _ _ _ _ _ _ _ q])


end
