(* ===== verification/Repository_Examples.thy ===== *)
theory Repository_Examples
  imports Repository_Locate
begin

text \<open>
  A small concrete store, on which the theorems about the repository are applied: a project \<^verbatim>\<open>p\<close> with a
  test case \<^verbatim>\<open>c\<close>, a suite \<^verbatim>\<open>s\<close> and a run \<^verbatim>\<open>r.json\<close>. The JSON writer and reader are instantiated by a
  pair that round-trips the empty object, the digest by the identity.
\<close>

definition sample_repo :: FileRepository where
  "sample_repo = \<lparr>root = [''data''], lock_busy = False, encode = (\<lambda>_. ''{}''),
     decode = (\<lambda>_. Inr (Obj [])), compute_etag = (\<lambda>b. b)\<rparr>"

definition sample_fs :: fs where
  "sample_fs =
     [([''data''], Dir), ([''data'', ''projects''], Dir), ([''data'', ''projects'', ''p''], Dir),
      ([''data'', ''projects'', ''p'', ''project.json''], File ''{}''),
      ([''data'', ''projects'', ''p'', ''c''], Dir),
      ([''data'', ''projects'', ''p'', ''c'', ''test-case.json''], File ''{}''),
      ([''data'', ''projects'', ''p'', ''s''], Dir),
      ([''data'', ''projects'', ''p'', ''s'', ''suite.json''], File ''{}''),
      ([''data'', ''projects'', ''p'', ''test_runs''], Dir),
      ([''data'', ''projects'', ''p'', ''test_runs'', ''r.json''], File ''{}'')]"

abbreviation in_p :: "Parent option" where
  "in_p \<equiv> Some (ProjectParent ''p.json'')"

lemma sample_tree: "tree_ok sample_fs" "plain_names sample_fs"
  by code_simp+

theorem document_injective_witness:
  "document sample_repo Cases in_p ''c'' = Inr [''data'', ''projects'', ''p'', ''c'', ''test-case.json'']
   \<and> \<not> shadows_collection Cases in_p ''c'' \<and> Cases = Cases \<and> in_p = in_p \<and> ''c'' = ''c''"
proof -
  have a: "document sample_repo Cases in_p ''c'' =
      Inr [''data'', ''projects'', ''p'', ''c'', ''test-case.json'']" by code_simp
  have b: "\<not> shadows_collection Cases in_p ''c''" by code_simp
  from document_injective [OF a a b b] a b show ?thesis by blast
qed

theorem repository_creates_never_overwrite_witness:
  "read_at sample_repo Cases in_p ''c''
     (run_commands (create_doc sample_repo) (update_doc sample_repo)
        [Create (Cases, in_p, ''c'') Null, Create (Runs, in_p, ''q.json'') Null] sample_fs) = Inr (Obj [])"
proof -
  have "read_at sample_repo Cases in_p ''c'' sample_fs = Inr (Obj [])" by code_simp
  from repository_creates_never_overwrite [OF this] show ?thesis by simp
qed

theorem repository_second_create_loses_witness:
  "\<exists>e. fst (create_at sample_repo Runs in_p ''q.json'' Null
     (snd (create_at sample_repo Runs in_p ''q.json'' (Obj []) sample_fs))) = Inl e"
proof -
  have a: "create_at sample_repo Runs in_p ''q.json'' (Obj []) sample_fs =
      (Inr (), snd (create_at sample_repo Runs in_p ''q.json'' (Obj []) sample_fs))" by code_simp
  have b: "decode sample_repo (encode sample_repo (Obj [])) = Inr (Obj [])" by code_simp
  from repository_second_create_loses [OF a b, of "[]", OF _ surjective_pairing] show ?thesis
    by (simp add: run_commands_def)
qed

theorem delete_at_removes_witness:
  "lookup (snd (delete_at sample_repo Cases in_p ''c'' sample_fs))
     [''data'', ''projects'', ''p'', ''c'', ''test-case.json''] = None"
proof -
  have a: "document sample_repo Cases in_p ''c'' =
      Inr [''data'', ''projects'', ''p'', ''c'', ''test-case.json'']" by code_simp
  have b: "delete_at sample_repo Cases in_p ''c'' sample_fs =
      (Inr (), snd (delete_at sample_repo Cases in_p ''c'' sample_fs))" by code_simp
  from delete_at_removes [OF b a] show ?thesis by simp
qed

theorem delete_case_test_runs_removes_runs_witness:
  "fst (delete_at sample_repo Cases in_p ''test_runs'' sample_fs) = Inr ()
   \<and> is_ok (read_at sample_repo Runs in_p ''r.json'' sample_fs)
   \<and> \<not> is_ok (read_at sample_repo Runs in_p ''r.json''
        (fs_remove [''data'', ''projects'', ''p'', ''test_runs''] sample_fs))"
proof -
  have a: "project_collection_dir (root sample_repo) ''p.json'' Runs =
      Inr [''data'', ''projects'', ''p'', ''test_runs'']" by code_simp
  have b: "is_dir sample_fs [''data'', ''projects'', ''p'', ''test_runs'']" "\<not> lock_busy sample_repo"
    "is_ok (read_at sample_repo Runs in_p ''r.json'' sample_fs)" by code_simp+
  from delete_case_test_runs_removes_runs [OF a b(1,2)] b(3) show ?thesis by (simp add: is_ok_iff)
qed

theorem delete_attachment_removes_case_witness:
  "is_file sample_fs [''data'', ''projects'', ''p'', ''c'', ''test-case.json'']
   \<and> file_at (snd (delete_attachment sample_repo (ProjectParent ''p.json'') ''c'' ''test-case.json'' sample_fs))
       [''data'', ''projects'', ''p'', ''c'', ''test-case.json''] = None"
proof -
  have a: "document sample_repo Cases in_p ''c'' =
      Inr [''data'', ''projects'', ''p'', ''c'', ''test-case.json'']" by code_simp
  have b: "file_at sample_fs [''data'', ''projects'', ''p'', ''c'', ''test-case.json''] \<noteq> None"
    "\<not> lock_busy sample_repo" "is_file sample_fs [''data'', ''projects'', ''p'', ''c'', ''test-case.json'']"
    by code_simp+
  from delete_attachment_removes_case [OF a b(1,2)] b(3) show ?thesis by auto
qed

theorem save_revision_append_only_witness:
  "file_at (snd (save_revision sample_repo (ProjectParent ''p.json'') ''c'' 1 Null sample_fs))
     [''data'', ''projects'', ''p'', ''c'', ''test-case.json''] = Some ''{}''"
proof -
  have "file_at sample_fs [''data'', ''projects'', ''p'', ''c'', ''test-case.json''] = Some ''{}''"
    by code_simp
  from save_revision_append_only [OF surjective_pairing this] show ?thesis .
qed

theorem place_transports_witness:
  "file_at (snd (place sample_repo Cases (ProjectParent ''p.json'') ''c''
       (SuiteParent ''p.json'' ''s.json'') Move sample_fs))
     [''data'', ''projects'', ''p'', ''s'', ''c'', ''test-case.json''] = Some ''{}''"
proof -
  have a: "place sample_repo Cases (ProjectParent ''p.json'') ''c'' (SuiteParent ''p.json'' ''s.json'') Move sample_fs =
    (Inr (), snd (place sample_repo Cases (ProjectParent ''p.json'') ''c''
       (SuiteParent ''p.json'' ''s.json'') Move sample_fs))" by code_simp
  have b: "folder sample_repo Cases in_p ''c'' = Inr [''data'', ''projects'', ''p'', ''c'']"
    "folder sample_repo Cases (Some (SuiteParent ''p.json'' ''s.json'')) ''c'' =
       Inr [''data'', ''projects'', ''p'', ''s'', ''c'']"
    "[''data'', ''projects'', ''p'', ''c''] \<noteq> [''data'', ''projects'', ''p'', ''s'', ''c'']"
    "file_at sample_fs [''data'', ''projects'', ''p'', ''c'', ''test-case.json''] = Some ''{}''"
    by code_simp+
  from place_transports [OF a sample_tree(1) b(1,2,3), of "[''test-case.json'']"] b(4) show ?thesis by simp
qed


lemma sample_locate:
  "locate sample_repo Cases ''c'' sample_fs = Inr [ProjectParent ''p.json'']
   \<and> existing_parent sample_repo sample_fs (ProjectParent ''p.json'')
   \<and> exists_at sample_repo Cases in_p ''c'' sample_fs = Inr True"
proof -
  have a: "locate sample_repo Cases ''c'' sample_fs = Inr [ProjectParent ''p.json'']" by code_simp
  from locate_homes [OF a sample_tree, of "ProjectParent ''p.json''"] a show ?thesis by simp
qed


end
