(* ===== verification/Calendar.thy ===== *)
theory Calendar
  imports Prelude
begin

text \<open>
  Timestamps (\<^verbatim>\<open>src/domain/mod.rs\<close>): the conversion of Unix seconds to an ISO-8601 date and time.
  All intermediate values fit a \<^verbatim>\<open>u64\<close> (the largest is below the input plus 719468), so they are
  natural numbers here. The file proves the conversion against the Gregorian calendar written
  down year by year and month by month.
\<close>

section \<open>The code\<close>

text \<open>\<^verbatim>\<open>civil_from_days\<close> as \<^verbatim>\<open>format_iso8601\<close> inlines it: year, month and day of a day number.\<close>

definition civil_from_days :: "nat \<Rightarrow> nat \<times> nat \<times> nat" where
  "civil_from_days days =
     (let z = days + 719468;
          era = z div 146097;
          doe = z - era * 146097;
          yoe = (doe - doe div 1460 + doe div 36524 - doe div 146096) div 365;
          year = yoe + era * 400;
          doy = doe - (365 * yoe + yoe div 4 - yoe div 100);
          mp = (5 * doy + 2) div 153;
          day = doy - (153 * mp + 2) div 5 + 1;
          month = (if mp < 10 then mp + 3 else mp - 9);
          year' = (if month \<le> 2 then year + 1 else year)
      in (year', month, day))"

definition format_iso8601 :: "nat \<Rightarrow> string" where
  "format_iso8601 seconds =
     (let days = seconds div 86400;
          rem = seconds mod 86400;
          hour = rem div 3600;
          minute = (rem mod 3600) div 60;
          second = rem mod 60;
          (year, month, day) = civil_from_days days
      in pad_left 4 year @ ''-'' @ pad_left 2 month @ ''-'' @ pad_left 2 day @ ''T''
         @ pad_left 2 hour @ '':'' @ pad_left 2 minute @ '':'' @ pad_left 2 second @ ''Z'')"

definition iso8601_date :: "nat \<Rightarrow> string" where
  "iso8601_date seconds = take 10 (format_iso8601 seconds)"

definition current_timestamp_string :: "nat \<Rightarrow> string" where
  "current_timestamp_string now = show_nat now"

definition current_iso8601_timestamp :: "nat \<Rightarrow> string" where
  "current_iso8601_timestamp now = format_iso8601 now"

section \<open>The Gregorian calendar\<close>

definition leap :: "nat \<Rightarrow> bool" where
  "leap y \<longleftrightarrow> 4 dvd y \<and> (\<not> 100 dvd y \<or> 400 dvd y)"

fun days_in_month :: "nat \<Rightarrow> nat \<Rightarrow> nat" where
  "days_in_month y m =
     (if m = 2 then (if leap y then 29 else 28) else if m \<in> {4, 6, 9, 11} then 30 else 31)"

fun days_before_year :: "nat \<Rightarrow> nat" where
  "days_before_year 0 = 0"
| "days_before_year (Suc y) = days_before_year y + (if leap y then 366 else 365)"

fun days_before_month :: "nat \<Rightarrow> nat \<Rightarrow> nat" where
  "days_before_month y 0 = 0"
| "days_before_month y (Suc m) = days_before_month y m + (if m = 0 then 0 else days_in_month y m)"

text \<open>Days since 1 January of year 0; 1 January 1970 is day 719528.\<close>

definition day_number :: "nat \<Rightarrow> nat \<Rightarrow> nat \<Rightarrow> nat" where
  "day_number y m d = days_before_year y + days_before_month y m + (d - 1)"

section \<open>Correctness\<close>

lemma days_before_year_closed:
  "days_before_year y + (if leap y then 1 else 0) + y div 100 = 365 * y + y div 4 + y div 400 + 1"
proof (induction y)
  case 0
  show ?case by (simp add: leap_def)
next
  case (Suc y)
  have "Suc y div 4 = y div 4 + (if 4 dvd Suc y then 1 else 0)"
    "Suc y div 100 = y div 100 + (if 100 dvd Suc y then 1 else 0)"
    "Suc y div 400 = y div 400 + (if 400 dvd Suc y then 1 else 0)"
    by (auto simp: div_Suc dvd_eq_mod_eq_0)
  moreover have "(100::nat) dvd Suc y \<Longrightarrow> 4 dvd Suc y" "(400::nat) dvd Suc y \<Longrightarrow> 100 dvd Suc y"
    by (auto intro: dvd_trans [rotated])
  ultimately show ?case using Suc.IH by (auto simp: leap_def [of "Suc y"] split: if_splits)
qed

text \<open>The year of the era: a day of the era lies in the year the formula computes.\<close>

lemma year_of_era:
  fixes doe :: nat
  assumes "doe < 146097"
  defines "yoe \<equiv> (doe - doe div 1460 + doe div 36524 - doe div 146096) div 365"
  shows "yoe < 400" "365 * yoe + yoe div 4 - yoe div 100 \<le> doe"
    "doe - (365 * yoe + yoe div 4 - yoe div 100) \<le> 365"
    "doe - (365 * yoe + yoe div 4 - yoe div 100) = 365 \<Longrightarrow> leap (yoe + 1)"
proof -
  define c where "c = (if doe = 146096 then 3 else doe div 36524)"
  define n where "n = doe - 36524 * c"
  define q where "q = n div 1461"
  define m where "m = n mod 1461"
  define r where "r = (if m = 1460 then 3 else m div 365)"
  have doe: "doe = 36524 * c + n" and c: "c \<le> 3" and n: "n \<le> 36524"
    and bc: "doe div 36524 - doe div 146096 = c" "doe div 146096 \<le> doe div 36524"
    and last: "n = 36524 \<Longrightarrow> c = 3"
  proof -
    show "doe = 36524 * c + n" "c \<le> 3" "n \<le> 36524" "n = 36524 \<Longrightarrow> c = 3"
      using assms(1) div_mult_mod_eq [of doe 36524] mod_less_divisor [of 36524 doe]
      by (auto simp: c_def n_def split: if_splits)
    show "doe div 36524 - doe div 146096 = c" "doe div 146096 \<le> doe div 36524"
      using assms(1) by (auto simp: c_def div_le_mono2)
  qed
  have nq: "n = 1461 * q + m" "m \<le> 1460"
    using mod_less_divisor [of 1461 n] by (simp_all add: q_def m_def)
  with n have q: "q \<le> 24" by linarith
  have q24: "q = 24 \<Longrightarrow> m = 1460 \<Longrightarrow> c = 3" using nq n last by simp
  define e where "e = (24 * c + q + m) div 1460"
  have A: "doe div 1460 = 25 * c + q + e"
  proof -
    have "doe = (24 * c + q + m) + (25 * c + q) * 1460" using doe nq by simp
    then show ?thesis unfolding e_def by (metis add.commute div_mult_self1 zero_neq_numeral)
  qed
  have "24 * c + q + m < 2 * 1460" using c q nq(2) by linarith
  then have "e < 2" unfolding e_def by (rule less_mult_imp_div_less)
  moreover have "e = 0 \<longleftrightarrow> 24 * c + q + m < 1460" by (simp add: e_def div_eq_0_iff)
  ultimately have e: "e = (if 24 * c + q + m < 1460 then 0 else 1)" by auto
  have em: "e \<le> m" and r: "(m - e) div 365 = r"
  proof -
    show "e \<le> m" using c q nq(2) by (auto simp: e)
    have "(m - 1) div 365 = 3 \<and> m div 365 = 3" if "m \<noteq> 1460" "1460 \<le> 24 * c + q + m"
      using that c q nq(2) by (auto intro!: div_nat_eqI)
    then show "(m - e) div 365 = r" using nq(2) by (auto simp: e r_def)
  qed
  have "doe - doe div 1460 + doe div 36524 - doe div 146096 = doe - doe div 1460 + c"
    using bc by linarith
  also have "\<dots> = 365 * (100 * c + 4 * q) + (m - e)"
    unfolding A using doe nq em by simp
  finally have yoe: "yoe = 100 * c + 4 * q + r" unfolding yoe_def r [symmetric] by simp
  have r3: "r \<le> 3" "365 * r \<le> m" "m - 365 * r \<le> 365" "m - 365 * r = 365 \<Longrightarrow> m = 1460"
    using nq(2) by (auto simp: r_def split: if_splits)
  have "yoe div 4 = 25 * c + q" using r3(1) yoe by simp
  moreover have "yoe div 100 = c"
  proof -
    have "yoe = (4 * q + r) + c * 100" "4 * q + r < 100" using q r3(1) yoe by simp_all
    then show ?thesis by simp
  qed
  ultimately have start: "365 * yoe + yoe div 4 - yoe div 100 = 36524 * c + 1461 * q + 365 * r"
    using yoe by simp
  show "yoe < 400" using yoe c q r3(1) by linarith
  show "365 * yoe + yoe div 4 - yoe div 100 \<le> doe"
    "doe - (365 * yoe + yoe div 4 - yoe div 100) \<le> 365"
    using start doe nq r3 by simp_all
  assume "doe - (365 * yoe + yoe div 4 - yoe div 100) = 365"
  then have "m = 1460" using start doe nq r3 by simp
  then have "r = 3" by (simp add: r_def)
  then have y: "yoe + 1 = 4 * (25 * c + (q + 1))" using yoe by simp
  moreover have "400 dvd yoe + 1" if "100 dvd yoe + 1"
  proof -
    have "yoe + 1 = 100 * c + (4 * q + 4)" using y by simp
    with that have "100 dvd 4 * q + 4" by (metis dvd_add_right_iff dvd_triv_left)
    then obtain k where "4 * q + 4 = 100 * k" by (auto elim!: dvdE)
    then have "q = 24" using q by (cases k) auto
    with q24 \<open>m = 1460\<close> have "c = 3" by simp
    with \<open>q = 24\<close> y show ?thesis by simp
  qed
  ultimately show "leap (yoe + 1)" by (auto simp: leap_def)
qed

lemma leap_shift: "leap (y + 400 * k) \<longleftrightarrow> leap y"
proof -
  have "(4::nat) dvd 400 * k" "(100::nat) dvd 400 * k" "(400::nat) dvd 400 * k"
    by (simp_all add: dvd_mult2)
  then show ?thesis unfolding leap_def by (metis dvd_add_left_iff)
qed

text \<open>The month table: counted from March, the month of a day of the year and the day in it.\<close>

lemma month_of_day:
  fixes doy :: nat
  assumes "doy \<le> 365"
  defines "mp \<equiv> (5 * doy + 2) div 153"
  shows "mp \<le> 11" "(153 * mp + 2) div 5 \<le> doy" "doy < (153 * (mp + 1) + 2) div 5"
proof -
  have b: "153 * mp \<le> 5 * doy + 2" "5 * doy + 2 < 153 * (mp + 1)"
    using div_times_less_eq_dividend [of "5 * doy + 2" 153] dividend_less_div_times [of 153 "5 * doy + 2"]
    unfolding mp_def by simp_all
  with assms(1) show "mp \<le> 11" by linarith
  show "(153 * mp + 2) div 5 \<le> doy" using b(1) by linarith
  show "doy < (153 * (mp + 1) + 2) div 5" using b(2) by linarith
qed

lemma days_before_month_step:
  "0 < m \<Longrightarrow> days_before_month y (m + 1) = days_before_month y m + days_in_month y m"
  by (cases m) (simp_all del: days_in_month.simps)

lemma days_before_month_2: "days_before_month y 2 = 31"
  by (simp add: numeral_2_eq_2)

lemma days_before_month_table:
  "days_before_month y 1 = 0" "days_before_month y 2 = 31"
  "days_before_month y 3 = 59 + (if leap y then 1 else 0)"
  "days_before_month y 4 = 90 + (if leap y then 1 else 0)"
  "days_before_month y 5 = 120 + (if leap y then 1 else 0)"
  "days_before_month y 6 = 151 + (if leap y then 1 else 0)"
  "days_before_month y 7 = 181 + (if leap y then 1 else 0)"
  "days_before_month y 8 = 212 + (if leap y then 1 else 0)"
  "days_before_month y 9 = 243 + (if leap y then 1 else 0)"
  "days_before_month y 10 = 273 + (if leap y then 1 else 0)"
  "days_before_month y 11 = 304 + (if leap y then 1 else 0)"
  "days_before_month y 12 = 334 + (if leap y then 1 else 0)"
  using days_before_month_2 [of y] days_before_month_step [of 2 y]
    days_before_month_step [of 3 y] days_before_month_step [of 4 y] days_before_month_step [of 5 y]
    days_before_month_step [of 6 y] days_before_month_step [of 7 y] days_before_month_step [of 8 y]
    days_before_month_step [of 9 y] days_before_month_step [of 10 y] days_before_month_step [of 11 y]
  by simp_all

lemma days_before_month_march:
  "mp \<le> 9 \<Longrightarrow> days_before_month y (mp + 3) = 59 + (if leap y then 1 else 0) + (153 * mp + 2) div 5"
  "mp \<in> {10, 11} \<Longrightarrow> days_before_month y (mp - 9) + 306 = (153 * mp + 2) div 5"
proof -
  assume "mp \<le> 9"
  then have "mp \<in> {0, 1, 2, 3, 4, 5, 6, 7, 8, 9}" by auto
  then show "days_before_month y (mp + 3) = 59 + (if leap y then 1 else 0) + (153 * mp + 2) div 5"
    by (elim insertE emptyE) (simp_all add: days_before_month_table)
next
  assume "mp \<in> {10, 11}"
  then show "days_before_month y (mp - 9) + 306 = (153 * mp + 2) div 5"
    by (elim insertE emptyE) (simp_all add: days_before_month_table)
qed

lemma era_days:
  "(z::nat) = 146097 * era + doe \<Longrightarrow> 365 * y + a - b \<le> doe \<Longrightarrow> b \<le> 365 * y + a \<Longrightarrow>
     z + (b + 4 * era) = 365 * (y + 400 * era) + (a + 100 * era) + era + (doe - (365 * y + a - b))"
proof -
  assume z: "z = 146097 * era + doe" "365 * y + a - b \<le> doe" "b \<le> 365 * y + a"
  then obtain K where K: "365 * y + a = b + K" using le_Suc_ex by blast
  with z(2) have "K \<le> doe" by simp
  with z(1) K show ?thesis by simp
qed

lemma march_sums:
  "(a::nat) + l + doy = z + 1 \<Longrightarrow> b = 59 + l + st \<Longrightarrow> st \<le> doy \<Longrightarrow> a + b + (doy - st + 1 - 1) = z + 60"
  "(a::nat) + l + doy = z + 1 \<Longrightarrow> b + 306 = st \<Longrightarrow> st \<le> doy \<Longrightarrow>
     (a + (365 + l)) + b + (doy - st + 1 - 1) = z + 60"
  by linarith+

text \<open>C40. The date conversion is the Gregorian calendar: for every day number counted from 1 January
  1970 the code computes a month from 1 to 12 and a day that month has in that year, and the date's
  own day number, counted by years and months, is the one it was given.\<close>

theorem civil_from_days_correct:
  "case civil_from_days n of (y, m, d) \<Rightarrow>
     1 \<le> m \<and> m \<le> 12 \<and> 1 \<le> d \<and> d \<le> days_in_month y m \<and> day_number y m d = n + 719528"
proof -
  define z where "z = n + 719468"
  define era where "era = z div 146097"
  define doe where "doe = z - era * 146097"
  define yoe where "yoe = (doe - doe div 1460 + doe div 36524 - doe div 146096) div 365"
  define doy where "doy = doe - (365 * yoe + yoe div 4 - yoe div 100)"
  define mp where "mp = (5 * doy + 2) div 153"
  define Y where "Y = yoe + era * 400"
  have z: "z = 146097 * era + doe" "doe < 146097"
    using div_mult_mod_eq [of z 146097] mod_less_divisor [of 146097 z]
    by (simp_all add: era_def doe_def minus_div_mult_eq_mod)
  note year = year_of_era [OF z(2), folded yoe_def]
  have doy: "doy \<le> 365" "doy = 365 \<Longrightarrow> leap (Y + 1)"
    using year(3,4) leap_shift [of "yoe + 1" era] by (simp_all add: doy_def Y_def mult.commute)
  note month = month_of_day [OF doy(1), folded mp_def]
  have "Y div 4 = yoe div 4 + 100 * era" "Y div 100 = yoe div 100 + 4 * era"
    "Y div 400 = era" using year(1) by (simp_all add: Y_def)
  moreover have "yoe div 100 \<le> 365 * yoe + yoe div 4" using div_le_dividend [of yoe 100] by linarith
  ultimately have zY: "z + Y div 100 = 365 * Y + Y div 4 + Y div 400 + doy"
    using era_days [OF z(1) year(2)] by (simp add: Y_def doy_def mult.commute)
  have closed: "days_before_year Y + (if leap Y then 1 else 0) + doy = z + 1"
    using days_before_year_closed [of Y] zY by linarith
  have civ: "civil_from_days n =
      (let month = (if mp < 10 then mp + 3 else mp - 9) in
       (if month \<le> 2 then Y + 1 else Y, month, doy - (153 * mp + 2) div 5 + 1))"
    unfolding civil_from_days_def Let_def
    unfolding z_def [symmetric] unfolding era_def [symmetric] unfolding doe_def [symmetric]
    unfolding yoe_def [symmetric] unfolding doy_def [symmetric] unfolding mp_def [symmetric]
    unfolding Y_def [symmetric] by (rule refl)
  show ?thesis
  proof (cases "mp < 10")
    case True
    then have "day_number Y (mp + 3) (doy - (153 * mp + 2) div 5 + 1) = n + 719528"
      unfolding day_number_def
      using march_sums(1) [OF closed days_before_month_march(1) month(2)] by (simp add: z_def)
    moreover have "doy - (153 * mp + 2) div 5 + 1 \<le> days_in_month Y (mp + 3)"
    proof -
      have "mp \<in> {0, 1, 2, 3, 4, 5, 6, 7, 8, 9}" using True by auto
      then show ?thesis using month(3) by (elim insertE emptyE) simp_all
    qed
    ultimately show ?thesis using True by (simp add: civ del: days_in_month.simps)
  next
    case False
    then have mp: "mp \<in> {10, 11}" using month(1) by auto
    then have "day_number (Y + 1) (mp - 9) (doy - (153 * mp + 2) div 5 + 1) = n + 719528"
      unfolding day_number_def
      using march_sums(2) [OF closed days_before_month_march(2) [OF mp, of "Y + 1"] month(2)]
      by (auto simp: z_def split: if_splits)
    moreover have "doy - (153 * mp + 2) div 5 + 1 \<le> days_in_month (Y + 1) (mp - 9)"
      using mp
    proof (elim insertE emptyE)
      assume "mp = 11"
      moreover have "doy = 365 \<or> doy \<le> 364" using doy(1) by linarith
      ultimately show ?thesis using doy(2) by auto
    qed (use month(3) in simp)
    moreover have "mp - 9 \<le> 2" "1 \<le> mp - 9" using mp by auto
    ultimately show ?thesis using False by (simp add: civ del: days_in_month.simps)
  qed
qed

end
