(* ===== verification/Names.thy ===== *)
theory Names
  imports Layout "HOL-Library.Multiset"
begin

text \<open>
  Names of uploaded files (\<^verbatim>\<open>src/domain/mod.rs\<close>, \<^verbatim>\<open>src/domain/service/attachments.rs\<close>): the media type
  recorded for a name, the stored name and the original it carries, and the
  \<^verbatim>\<open>Content-Disposition\<close> header of a download. The header lemmas show that nothing an uploader puts
  into a name escapes the quoted string it is printed in.
\<close>

section \<open>The code\<close>

definition MAX_ATTACHMENT_BYTES :: nat where
  "MAX_ATTACHMENT_BYTES = 50 * 1024 * 1024"

definition after_last_dot :: "string \<Rightarrow> string" where
  "after_last_dot s = rev (takeWhile (\<lambda>c. c \<noteq> CHR ''.'') (rev s))"

definition mime_type :: "string \<Rightarrow> string" where
  "mime_type filename =
     (let ext = map to_ascii_lowercase (after_last_dot filename)
      in if ext = ''png'' then ''image/png''
         else if ext = ''jpg'' \<or> ext = ''jpeg'' then ''image/jpeg''
         else if ext = ''gif'' then ''image/gif''
         else if ext = ''pdf'' then ''application/pdf''
         else if ext = ''txt'' then ''text/plain''
         else if ext = ''json'' then ''application/json''
         else ''application/octet-stream'')"

definition original_name :: "string \<Rightarrow> string" where
  "original_name filename = (case split_once (CHR ''-'') filename of
       Some (suf, rest) \<Rightarrow> if suf \<noteq> [] \<and> list_all is_ascii_digit suf then rest else filename
     | None \<Rightarrow> filename)"

definition stored_attachment_name :: "nat \<Rightarrow> string \<Rightarrow> string result" where
  "stored_attachment_name unique_suffix name =
     (let filename = show_nat unique_suffix @ ''-'' @ name
      in if length filename > MAX_COMPONENT_BYTES
         then Inl (invalid_request ''Attachment name is too long'')
         else Inr filename)"

definition hex_digit :: "nat \<Rightarrow> char" where
  "hex_digit n = char_of (if n < 10 then 48 + n else 55 + n)"

definition attr_char :: "char \<Rightarrow> bool" where
  "attr_char c \<longleftrightarrow> is_ascii_alphanumeric c \<or> c \<in> set ''!#$&+-.^_`|~''"

definition percent_encode :: "string \<Rightarrow> string" where
  "percent_encode name = concat (map (\<lambda>c.
       if attr_char c then [c] else [CHR ''%'', hex_digit (byte c div 16), hex_digit (byte c mod 16)]) name)"

text \<open>One character of the plain form: a character outside printable ASCII, whatever its encoded
  length, becomes one underscore.\<close>

definition plain_char :: "string \<Rightarrow> char" where
  "plain_char ch = (case ch of
       [c] \<Rightarrow> if is_ascii_graphic c \<and> c \<noteq> CHR 0x22 \<and> c \<noteq> CHR 0x5C then c else CHR ''_''
     | _ \<Rightarrow> CHR ''_'')"

definition content_disposition :: "string \<Rightarrow> string" where
  "content_disposition filename =
     (let name = original_name filename;
          plain_form = map plain_char (utf8_chars name);
          encoded = percent_encode name
      in if plain_form = encoded
         then ''attachment; filename='' @ [CHR 0x22] @ plain_form @ [CHR 0x22]
         else ''attachment; filename='' @ [CHR 0x22] @ plain_form @ [CHR 0x22]
              @ ''; filename*=UTF-8'' @ [CHR 0x27, CHR 0x27] @ encoded)"

section \<open>Stored names\<close>

lemma digit_not_hyphen: "is_ascii_digit c \<Longrightarrow> c \<noteq> CHR ''-''"
  by (auto simp: is_ascii_digit_def)

text \<open>The stored name of an upload gives its original name back, whatever the uploader called the
  file, and it is a single plain path component exactly when the name is free of separators and
  NUL bytes.\<close>

theorem stored_name_round_trip:
  assumes "stored_attachment_name n name = Inr filename"
  shows "original_name filename = name
    \<and> (validate_component filename = Inr () \<longleftrightarrow>
         CHR ''/'' \<notin> set name \<and> CHR 0x5C \<notin> set name \<and> CHR 0x00 \<notin> set name)"
proof -
  have f: "filename = show_nat n @ CHR ''-'' # name" "length filename \<le> 255"
    using assms by (auto simp: stored_attachment_name_def Let_def MAX_COMPONENT_BYTES_def split: if_splits)
  have digits: "list_all is_ascii_digit (show_nat n)" by (auto simp: list_all_iff dest: show_nat_digits)
  then have no: "CHR ''-'' \<notin> set (show_nat n)" "CHR ''/'' \<notin> set (show_nat n)"
    "CHR 0x5C \<notin> set (show_nat n)" "CHR 0x00 \<notin> set (show_nat n)"
    by (auto simp: list_all_iff is_ascii_digit_def)
  have "original_name filename = name"
    using digits split_once_append [OF no(1)] by (simp add: original_name_def f(1))
  moreover obtain c cs where s: "show_nat n = c # cs" by (cases "show_nat n") auto
  then have "c \<noteq> CHR ''.''" using digits by (auto simp: is_ascii_digit_def)
  ultimately show ?thesis
    using no f s by (auto simp: validate_component_ok [symmetric] validate_component_ok plain_def)
qed

section \<open>Headers\<close>

definition printable :: "char \<Rightarrow> bool" where
  "printable c \<longleftrightarrow> 32 \<le> byte c \<and> byte c \<le> 126"

lemma plain_char_safe: "printable (plain_char ch) \<and> plain_char ch \<noteq> CHR 0x22 \<and> plain_char ch \<noteq> CHR 0x5C"
  by (auto simp: plain_char_def printable_def is_ascii_graphic_def split: list.splits)

lemma hex_digit_safe: "n < 16 \<Longrightarrow> printable (hex_digit n) \<and> hex_digit n \<noteq> CHR 0x22 \<and> hex_digit n \<noteq> CHR ''%''"
proof -
  assume n: "n < 16"
  then have "byte (hex_digit n) = (if n < 10 then 48 + n else 55 + n)" by (simp add: hex_digit_def)
  then show ?thesis using n by (auto simp: printable_def split: if_splits)
qed

lemma attr_char_safe: "attr_char c \<Longrightarrow> printable c \<and> c \<noteq> CHR 0x22 \<and> c \<noteq> CHR ''%''"
  by (auto simp: attr_char_def printable_def is_ascii_alphanumeric_def is_ascii_digit_def)

lemma percent_encode_safe: "c \<in> set (percent_encode s) \<Longrightarrow> printable c \<and> c \<noteq> CHR 0x22"
proof -
  assume "c \<in> set (percent_encode s)"
  then obtain x where x: "c \<in> set (if attr_char x then [x]
      else [CHR ''%'', hex_digit (byte x div 16), hex_digit (byte x mod 16)])"
    unfolding percent_encode_def set_concat set_map by blast
  have "byte x div 16 < 16" using nat_of_char_less_256 [of x] by (simp add: less_mult_imp_div_less)
  then show ?thesis
    using x attr_char_safe [of x] hex_digit_safe [of "byte x div 16"] hex_digit_safe [of "byte x mod 16"]
    by (auto simp: printable_def split: if_splits)
qed

text \<open>A download header cannot be broken out of: whatever bytes the uploaded name holds, the
  header value consists of printable ASCII only (no line break can split the response) and contains
  exactly two quotation marks, the pair that delimits the plain form of the name.\<close>

theorem content_disposition_safe:
  "list_all printable (content_disposition filename)
   \<and> count (mset (content_disposition filename)) (CHR 0x22) = 2"
proof -
  let ?p = "map plain_char (utf8_chars (original_name filename))"
  let ?e = "percent_encode (original_name filename)"
  have p: "list_all printable ?p" "CHR 0x22 \<notin> set ?p"
    using plain_char_safe by (auto simp: list_all_iff) metis
  have e: "list_all printable ?e" "CHR 0x22 \<notin> set ?e"
    using percent_encode_safe by (auto simp: list_all_iff)
  have fixed: "list_all printable ''attachment; filename=''" "list_all printable ''; filename*=UTF-8''"
    "printable (CHR 0x22)" "printable (CHR 0x27)"
    by (simp_all add: printable_def)
  have "count (mset ?p) (CHR 0x22) = 0" "count (mset ?e) (CHR 0x22) = 0"
    using p(2) e(2) by (simp_all add: count_eq_zero_iff)
  with p(1) e(1) fixed show ?thesis
    by (simp add: content_disposition_def Let_def)
qed

text \<open>The reader a client applies to the encoded form (RFC 5987).\<close>

definition hex_value :: "char \<Rightarrow> nat" where
  "hex_value c = (if is_ascii_digit c then byte c - 48 else byte c - 55)"

fun percent_decode :: "string \<Rightarrow> string" where
  "percent_decode (c # h # l # s) =
     (if c = CHR ''%'' then char_of (16 * hex_value h + hex_value l) # percent_decode s
      else c # percent_decode (h # l # s))"
| "percent_decode s = s"

lemma hex_value_digit: "n < 16 \<Longrightarrow> hex_value (hex_digit n) = n"
  by (auto simp: hex_value_def hex_digit_def is_ascii_digit_def)

lemma percent_decode_Cons: "c \<noteq> CHR ''%'' \<Longrightarrow> percent_decode (c # s) = c # percent_decode s"
  by (cases s; cases "tl s") auto

text \<open>The encoded form of a name loses nothing: decoding the percent-encoding of any byte
  string gives the string back.\<close>

theorem percent_encode_round_trip: "percent_decode (percent_encode s) = s"
proof (induction s)
  case (Cons c s)
  have lt: "byte c div 16 < 16" using nat_of_char_less_256 [of c] by (simp add: less_mult_imp_div_less)
  have "char_of (16 * (byte c div 16) + byte c mod 16) = c" by (simp add: mult_div_mod_eq)
  with Cons show ?case
    using attr_char_safe [of c] hex_value_digit [OF lt] hex_value_digit [of "byte c mod 16"]
    by (auto simp: percent_encode_def percent_decode_Cons)
qed (simp add: percent_encode_def)

theorem stored_name_round_trip_witness:
  "original_name ''17-a-b.png'' = ''a-b.png'' \<and> validate_component ''17-a-b.png'' = Inr ()"
proof -
  have "stored_attachment_name 17 ''a-b.png'' = Inr ''17-a-b.png''" by code_simp
  from stored_name_round_trip [OF this] show ?thesis by simp
qed

end
