(* ===== verification/Composition.thy ===== *)
theory Composition
  imports Models Errors
begin

text \<open>
  Composition and execution rules (\<^verbatim>\<open>src/domain/composition.rs\<close>): how cases, suites and configurations
  join a run or a suite, and how results are recorded. The functions of the source mutate a document
  and may refuse; here they return the changed document or the error, and a refused document is
  discarded, as every caller does.

  The attach and detach operations share one contract, stated as the locale \<open>membership\<close> and
  interpreted for cases in a suite, suites in a run, cases in a run and configurations in a run.
\<close>

section \<open>Membership\<close>

definition UNVERSIONED_CASE :: "64 word" where
  "UNVERSIONED_CASE = 1"

definition or_empty :: "'a list option \<Rightarrow> 'a list" where
  "or_empty xs = (case xs of Some l \<Rightarrow> l | None \<Rightarrow> [])"

definition attach_case_to_suite :: "TestSuite \<Rightarrow> TestCase \<Rightarrow> string \<Rightarrow> TestSuite result" where
  "attach_case_to_suite suite test_case target_case_id =
     (if list_ex (\<lambda>existing. tc_test_case_id existing = tc_test_case_id test_case
            \<or> tc_test_case_id existing = target_case_id) (ts_test_cases suite)
      then Inl (Conflict ''Test case is already in suite'')
      else Inr (suite\<lparr>ts_test_cases := ts_test_cases suite @ [test_case]\<rparr>))"

definition detach_case_from_suite :: "TestSuite \<Rightarrow> string \<Rightarrow> TestSuite result" where
  "detach_case_from_suite suite case_id =
     (let kept = filter (\<lambda>existing. tc_test_case_id existing \<noteq> case_id) (ts_test_cases suite)
      in if length kept = length (ts_test_cases suite)
         then Inl (NotFound ''Test case not in suite'')
         else Inr (suite\<lparr>ts_test_cases := kept\<rparr>))"

definition attach_suite_to_run :: "TestRun \<Rightarrow> TestSuite \<Rightarrow> string \<Rightarrow> TestRun result" where
  "attach_suite_to_run run suite target_suite_id =
     (let suites = or_empty (run_test_suites run) in
      if list_ex (\<lambda>existing. ts_suite_id existing = ts_suite_id suite
            \<or> ts_suite_id existing = target_suite_id) suites
      then Inl (Conflict ''Test suite is already in test run'')
      else Inr (run\<lparr>run_test_suites := Some (suites @ [suite])\<rparr>))"

definition attach_case_to_run :: "TestRun \<Rightarrow> TestCase \<Rightarrow> string \<Rightarrow> TestRun result" where
  "attach_case_to_run run test_case target_case_id =
     (let cases = or_empty (run_test_cases run) in
      if list_ex (\<lambda>existing. tc_test_case_id existing = tc_test_case_id test_case
            \<or> tc_test_case_id existing = target_case_id) cases
      then Inl (Conflict ''Test case is already in test run'')
      else Inr (run\<lparr>run_test_cases := Some (cases @ [test_case])\<rparr>))"

definition capture_case_version :: "TestRun \<Rightarrow> string \<Rightarrow> 64 word option \<Rightarrow> TestRun" where
  "capture_case_version run case_id version =
     (let versions = or_empty (run_case_versions run)
      in run\<lparr>run_case_versions := Some (case map_of versions case_id of
            Some _ \<Rightarrow> versions
          | None \<Rightarrow> obj_insert case_id
              (case version of Some n \<Rightarrow> n | None \<Rightarrow> UNVERSIONED_CASE) versions)\<rparr>)"

definition attach_configuration_to_run :: "TestRun \<Rightarrow> TestConfiguration \<Rightarrow> string \<Rightarrow> TestRun result" where
  "attach_configuration_to_run run configuration target_config_id =
     (let configurations = or_empty (run_configurations run) in
      if list_ex (\<lambda>existing. cfg_config_id existing = cfg_config_id configuration
            \<or> cfg_config_id existing = target_config_id) configurations
      then Inl (Conflict ''Test configuration is already linked to test run'')
      else Inr (run\<lparr>run_configurations := Some (configurations @
             [\<lparr>cfg_config_id = target_config_id, cfg_name = cfg_name configuration,
               cfg_browser = None, cfg_os = None, cfg_device = None, cfg_resolution = None\<rparr>])\<rparr>))"

definition detach_configuration_from_run :: "TestRun \<Rightarrow> string \<Rightarrow> TestRun result" where
  "detach_configuration_from_run run config_id =
     (let configurations = or_empty (run_configurations run);
          kept = filter (\<lambda>existing. cfg_config_id existing \<noteq> config_id) configurations
      in if length kept = length configurations
         then Inl (NotFound ''Test configuration not linked to test run'')
         else Inr (run\<lparr>run_configurations := Some kept\<rparr>))"

section \<open>Results\<close>

datatype 'a Patch = Keep | Clear | Set 'a

fun into_stored :: "'a Patch \<Rightarrow> 'a option" where
  "into_stored (Set v) = Some v"
| "into_stored _ = None"

fun apply_patch :: "'a option \<Rightarrow> 'a Patch \<Rightarrow> 'a option" where
  "apply_patch stored Keep = stored"
| "apply_patch stored Clear = None"
| "apply_patch stored (Set v) = Some v"

record ResultUpdate =
  ru_test_case_id :: string
  ru_status :: string
  ru_timestamp :: string
  ru_notes :: "string Patch"
  ru_duration_ms :: "64 word Patch"

definition apply_update :: "ResultUpdate \<Rightarrow> TestCaseResult \<Rightarrow> TestCaseResult" where
  "apply_update u existing = existing\<lparr>tcr_status := ru_status u, tcr_timestamp := ru_timestamp u,
     tcr_notes := apply_patch (tcr_notes existing) (ru_notes u),
     tcr_duration_ms := apply_patch (tcr_duration_ms existing) (ru_duration_ms u)\<rparr>"

definition new_result :: "ResultUpdate \<Rightarrow> TestCaseResult" where
  "new_result u = \<lparr>tcr_test_case_id = ru_test_case_id u, tcr_status = ru_status u,
     tcr_timestamp = ru_timestamp u, tcr_notes = into_stored (ru_notes u),
     tcr_duration_ms = into_stored (ru_duration_ms u), tcr_attachments = None,
     tcr_defect_links = None\<rparr>"

text \<open>Change the first result of a case in place, as \<^verbatim>\<open>iter_mut().find\<close> does.\<close>

fun update_first :: "string \<Rightarrow> (TestCaseResult \<Rightarrow> TestCaseResult) \<Rightarrow> TestCaseResult list \<Rightarrow> TestCaseResult list option" where
  "update_first cid f [] = None"
| "update_first cid f (x # xs) =
     (if tcr_test_case_id x = cid then Some (f x # xs) else map_option ((#) x) (update_first cid f xs))"

definition upsert_result :: "TestRun \<Rightarrow> ResultUpdate \<Rightarrow> TestRun" where
  "upsert_result run u =
     (let results = or_empty (run_results run)
      in run\<lparr>run_results := Some (case update_first (ru_test_case_id u) (apply_update u) results of
            Some changed \<Rightarrow> changed
          | None \<Rightarrow> results @ [new_result u])\<rparr>)"

definition replace_result :: "TestRun \<Rightarrow> ResultUpdate \<Rightarrow> TestRun result" where
  "replace_result run u =
     (case Option.bind (run_results run) (update_first (ru_test_case_id u) (apply_update u)) of
        Some changed \<Rightarrow> Inr (run\<lparr>run_results := Some changed\<rparr>)
      | None \<Rightarrow> Inl (NotFound ''Test result not found in test run''))"

definition remove_result :: "TestRun \<Rightarrow> string \<Rightarrow> TestRun result" where
  "remove_result run case_id = (case run_results run of
       None \<Rightarrow> Inl (NotFound ''Test result not found in test run'')
     | Some results \<Rightarrow>
         (let kept = filter (\<lambda>existing. tcr_test_case_id existing \<noteq> case_id) results
          in if length kept = length results then Inl (NotFound ''Test result not found in test run'')
             else Inr (run\<lparr>run_results := Some kept\<rparr>)))"

definition holds_case :: "TestRun \<Rightarrow> string \<Rightarrow> bool" where
  "holds_case run case_id \<longleftrightarrow>
     list_ex (\<lambda>c. tc_test_case_id c = case_id) (or_empty (run_test_cases run))
     \<or> list_ex (\<lambda>s. list_ex (\<lambda>c. tc_test_case_id c = case_id) (ts_test_cases s))
         (or_empty (run_test_suites run))
     \<or> list_ex (\<lambda>r. tcr_test_case_id r = case_id) (or_empty (run_results run))"

section \<open>Defect links of a case\<close>

definition attach_defect_to_case :: "TestCase \<Rightarrow> DefectLink \<Rightarrow> TestCase result" where
  "attach_defect_to_case c link =
     (let links = or_empty (tc_defect_links c) in
      if list_ex (\<lambda>existing. dl_defect_id existing = dl_defect_id link) links
      then Inl (Conflict ''Defect is already linked to test result'')
      else Inr (c\<lparr>tc_defect_links := Some (links @ [link])\<rparr>))"

definition detach_defect_from_case :: "TestCase \<Rightarrow> string \<Rightarrow> TestCase result" where
  "detach_defect_from_case c link_id =
     (let links = or_empty (tc_defect_links c);
          kept = filter (\<lambda>existing. dl_link_id existing \<noteq> link_id) links
      in if length kept = length links then Inl (NotFound ''Defect link not found in test result'')
         else Inr (c\<lparr>tc_defect_links := Some kept\<rparr>))"

section \<open>The contract of membership\<close>

text \<open>A container lists the identifiers of its members. Attaching names a member by its own
  identifier and by the identifier the caller used; \<open>stored\<close> says under which of them it is kept.\<close>

locale membership =
  fixes ids :: "'s \<Rightarrow> string list"
    and own :: "'m \<Rightarrow> string"
    and stored :: "'m \<Rightarrow> string \<Rightarrow> string"
    and attach :: "'s \<Rightarrow> 'm \<Rightarrow> string \<Rightarrow> 's result"
  assumes attach_iff: "attach s m t = Inr s' \<Longrightarrow> own m \<notin> set (ids s) \<and> t \<notin> set (ids s)"
    and attach_ids: "attach s m t = Inr s' \<Longrightarrow> ids s' = ids s @ [stored m t]"
    and attach_total: "own m \<notin> set (ids s) \<Longrightarrow> t \<notin> set (ids s) \<Longrightarrow> \<exists>s'. attach s m t = Inr s'"
    and stored_cases: "stored m t = own m \<or> stored m t = t"
begin

lemma attach_distinct: "attach s m t = Inr s' \<Longrightarrow> distinct (ids s) \<Longrightarrow> distinct (ids s')"
  using attach_iff [of s m t s'] attach_ids [of s m t s'] stored_cases [of m t] by auto

lemma attach_twice: "attach s m t = Inr s' \<Longrightarrow> \<exists>e. attach s' m t = Inl e"
  using attach_iff [of s' m t] attach_ids [of s m t s'] stored_cases [of m t]
  by (cases "attach s' m t") auto

lemma attach_ok_iff: "(\<exists>s'. attach s m t = Inr s') \<longleftrightarrow> own m \<notin> set (ids s) \<and> t \<notin> set (ids s)"
  using attach_iff attach_total by blast

end

locale detachable = membership +
  fixes detach :: "'a \<Rightarrow> string \<Rightarrow> 'a result"
  assumes detach_ok: "detach s k = Inr s' \<Longrightarrow> k \<in> set (ids s) \<and> ids s' = filter (\<lambda>i. i \<noteq> k) (ids s)"
    and detach_total: "k \<in> set (ids s) \<Longrightarrow> \<exists>s'. detach s k = Inr s'"
begin

lemma detach_distinct: "detach s k = Inr s' \<Longrightarrow> distinct (ids s) \<Longrightarrow> distinct (ids s')"
  using detach_ok by fastforce

lemma detach_ok_iff: "(\<exists>s'. detach s k = Inr s') \<longleftrightarrow> k \<in> set (ids s)"
  using detach_ok detach_total by blast

text \<open>Detaching what was just attached restores the members, in their order.\<close>

lemma attach_detach:
  assumes "attach s m t = Inr s1" "detach s1 (stored m t) = Inr s2"
  shows "ids s2 = ids s"
proof -
  have "stored m t \<notin> set (ids s)" using attach_iff [OF assms(1)] stored_cases [of m t] by auto
  then show ?thesis
    using attach_ids [OF assms(1)] detach_ok [OF assms(2)] by (auto simp: filter_id_conv)
qed

text \<open>A detached identifier can be attached again.\<close>

lemma detach_attach:
  assumes "detach s k = Inr s1" "own m = k"
  shows "\<exists>s2. attach s1 m k = Inr s2"
  using attach_total detach_ok [OF assms(1)] assms(2) by auto

end

lemma length_filter_same: "length (filter P xs) = length xs \<longleftrightarrow> (\<forall>x\<in>set xs. P x)"
  by (metis filter_True length_filter_less less_irrefl)

lemma duplicate_iff:
  "list_ex (\<lambda>x. f x = a \<or> f x = b) xs \<longleftrightarrow> a \<in> set (map f xs) \<or> b \<in> set (map f xs)"
  by (induction xs) auto

lemma or_empty_simps [simp]: "or_empty None = []" "or_empty (Some l) = l"
  by (simp_all add: or_empty_def)

lemmas membership_defs =
  attach_case_to_suite_def detach_case_from_suite_def attach_suite_to_run_def attach_case_to_run_def
  attach_configuration_to_run_def detach_configuration_from_run_def

interpretation suite_cases: detachable
  "\<lambda>s. map tc_test_case_id (ts_test_cases s)" tc_test_case_id "\<lambda>c _. tc_test_case_id c"
  attach_case_to_suite detach_case_from_suite
  by unfold_locales
     (auto simp: membership_defs Let_def duplicate_iff length_filter_same filter_map o_def split: if_splits)

interpretation run_suites: membership
  "\<lambda>r. map ts_suite_id (or_empty (run_test_suites r))" ts_suite_id "\<lambda>s _. ts_suite_id s"
  attach_suite_to_run
  by unfold_locales (auto simp: membership_defs Let_def duplicate_iff split: if_splits)

interpretation run_cases: membership
  "\<lambda>r. map tc_test_case_id (or_empty (run_test_cases r))" tc_test_case_id "\<lambda>c _. tc_test_case_id c"
  attach_case_to_run
  by unfold_locales (auto simp: membership_defs Let_def duplicate_iff split: if_splits)

interpretation run_configurations: detachable
  "\<lambda>r. map cfg_config_id (or_empty (run_configurations r))" cfg_config_id "\<lambda>_ t. t"
  attach_configuration_to_run detach_configuration_from_run
  by unfold_locales
     (auto simp: membership_defs Let_def duplicate_iff length_filter_same filter_map o_def
      split: if_splits)

section \<open>Recorded results as a map\<close>

definition result_of :: "TestRun \<Rightarrow> string \<Rightarrow> TestCaseResult option" where
  "result_of run cid = find (\<lambda>r. tcr_test_case_id r = cid) (or_empty (run_results run))"

lemma apply_update_id [simp]: "tcr_test_case_id (apply_update u r) = tcr_test_case_id r"
  by (simp add: apply_update_def)

lemma new_result_id [simp]: "tcr_test_case_id (new_result u) = ru_test_case_id u"
  by (simp add: new_result_def)

lemma update_first_None: "update_first cid f xs = None \<longleftrightarrow> cid \<notin> tcr_test_case_id ` set xs"
  by (induction xs) auto

lemma update_first_ids:
  "(\<And>r. tcr_test_case_id (f r) = tcr_test_case_id r) \<Longrightarrow> update_first cid f xs = Some ys \<Longrightarrow>
     map tcr_test_case_id ys = map tcr_test_case_id xs"
  by (induction xs arbitrary: ys) (auto split: if_splits)

lemma update_first_find:
  "(\<And>r. tcr_test_case_id (f r) = tcr_test_case_id r) \<Longrightarrow> update_first cid f xs = Some ys \<Longrightarrow>
     find (\<lambda>r. tcr_test_case_id r = k) ys =
     (if k = cid then map_option f (find (\<lambda>r. tcr_test_case_id r = k) xs)
      else find (\<lambda>r. tcr_test_case_id r = k) xs)"
  by (induction xs arbitrary: ys) (auto split: if_splits)

lemma find_append: "find P (xs @ ys) = (case find P xs of None \<Rightarrow> find P ys | r \<Rightarrow> r)"
  by (induction xs) auto

lemma find_None_ids: "find (\<lambda>r. tcr_test_case_id r = k) xs = None \<longleftrightarrow> k \<notin> tcr_test_case_id ` set xs"
  by (induction xs) auto

lemma find_filter_ids:
  "find (\<lambda>r. tcr_test_case_id r = k) (filter (\<lambda>r. tcr_test_case_id r \<noteq> cid) xs) =
     (if k = cid then None else find (\<lambda>r. tcr_test_case_id r = k) xs)"
  by (induction xs) auto

lemma result_of_upsert:
  "result_of (upsert_result run u) k =
     (if k = ru_test_case_id u
      then Some (case result_of run k of Some old \<Rightarrow> apply_update u old | None \<Rightarrow> new_result u)
      else result_of run k)"
proof (cases "update_first (ru_test_case_id u) (apply_update u) (or_empty (run_results run))")
  case None
  then have "find (\<lambda>r. tcr_test_case_id r = ru_test_case_id u) (or_empty (run_results run)) = None"
    by (simp add: update_first_None find_None_ids)
  with None show ?thesis
    by (auto simp: result_of_def upsert_result_def Let_def find_append split: option.splits)
next
  case (Some ys)
  then have "find (\<lambda>r. tcr_test_case_id r = ru_test_case_id u) (or_empty (run_results run)) \<noteq> None"
    using update_first_None [of "ru_test_case_id u" "apply_update u" "or_empty (run_results run)"]
    by (simp add: find_None_ids)
  with Some show ?thesis
    by (auto simp: result_of_def upsert_result_def Let_def
        update_first_find [OF apply_update_id Some])
qed

lemma replace_result_upsert:
  "replace_result run u =
     (if result_of run (ru_test_case_id u) = None then Inl (NotFound ''Test result not found in test run'')
      else Inr (upsert_result run u))"
proof (cases "update_first (ru_test_case_id u) (apply_update u) (or_empty (run_results run))")
  case None
  then have "result_of run (ru_test_case_id u) = None"
    by (simp add: result_of_def update_first_None find_None_ids)
  moreover have "replace_result run u = Inl (NotFound ''Test result not found in test run'')"
    using None by (cases "run_results run") (simp_all add: replace_result_def)
  ultimately show ?thesis by simp
next
  case (Some ys)
  then have "result_of run (ru_test_case_id u) \<noteq> None"
    using update_first_None [of "ru_test_case_id u" "apply_update u" "or_empty (run_results run)"]
    by (simp add: result_of_def find_None_ids)
  moreover have "replace_result run u = Inr (upsert_result run u)"
    using Some by (cases "run_results run") (simp_all add: replace_result_def upsert_result_def)
  ultimately show ?thesis by simp
qed

lemma result_of_remove:
  "remove_result run cid = Inr run' \<Longrightarrow> result_of run' k = (if k = cid then None else result_of run k)"
  by (auto simp: remove_result_def result_of_def find_filter_ids Let_def split: option.splits if_splits)

lemma remove_result_err: "remove_result run cid = Inl e \<longleftrightarrow>
    result_of run cid = None \<and> e = NotFound ''Test result not found in test run''"
  by (cases "run_results run")
     (auto simp: remove_result_def result_of_def find_None_ids length_filter_same Let_def)

text \<open>An edit of a run's results; a refused edit leaves the run as it was.\<close>

datatype edit = Record ResultUpdate | Replace ResultUpdate | Remove string

fun exec_edit :: "edit \<Rightarrow> TestRun \<Rightarrow> TestRun" where
  "exec_edit (Record u) run = upsert_result run u"
| "exec_edit (Replace u) run = (case replace_result run u of Inr run' \<Rightarrow> run' | Inl _ \<Rightarrow> run)"
| "exec_edit (Remove cid) run = (case remove_result run cid of Inr run' \<Rightarrow> run' | Inl _ \<Rightarrow> run)"

text \<open>The specification: a partial map from case identifiers to results.\<close>

fun spec_edit :: "edit \<Rightarrow> (string \<rightharpoonup> TestCaseResult) \<Rightarrow> string \<rightharpoonup> TestCaseResult" where
  "spec_edit (Record u) m = m(ru_test_case_id u \<mapsto>
     (case m (ru_test_case_id u) of Some old \<Rightarrow> apply_update u old | None \<Rightarrow> new_result u))"
| "spec_edit (Replace u) m =
     (case m (ru_test_case_id u) of Some old \<Rightarrow> m(ru_test_case_id u \<mapsto> apply_update u old) | None \<Rightarrow> m)"
| "spec_edit (Remove cid) m = m(cid := None)"

lemma exec_edit_refines: "result_of (exec_edit e run) = spec_edit e (result_of run)"
proof (cases e)
  case (Record u)
  then show ?thesis by (auto simp: result_of_upsert fun_eq_iff)
next
  case (Replace u)
  then show ?thesis
    by (auto simp: replace_result_upsert result_of_upsert fun_eq_iff split: option.splits)
next
  case (Remove cid)
  show ?thesis
  proof (cases "remove_result run cid")
    case (Inl err)
    then have "result_of run cid = None" by (simp add: remove_result_err)
    with Remove Inl show ?thesis by (auto simp: fun_eq_iff)
  next
    case (Inr run')
    with Remove show ?thesis by (auto simp: result_of_remove [OF Inr] fun_eq_iff)
  qed
qed

definition result_ids :: "TestRun \<Rightarrow> string list" where
  "result_ids run = map tcr_test_case_id (or_empty (run_results run))"

lemma result_ids_upsert:
  "result_ids (upsert_result run u) =
     (if ru_test_case_id u \<in> set (result_ids run) then result_ids run
      else result_ids run @ [ru_test_case_id u])"
  using update_first_ids [of "apply_update u" "ru_test_case_id u" "or_empty (run_results run)"]
    update_first_None [of "ru_test_case_id u" "apply_update u" "or_empty (run_results run)"]
  by (auto simp: result_ids_def upsert_result_def Let_def split: option.splits)

lemma result_ids_remove:
  "remove_result run cid = Inr run' \<Longrightarrow> result_ids run' = filter (\<lambda>i. i \<noteq> cid) (result_ids run)"
  by (auto simp: remove_result_def result_ids_def filter_map o_def Let_def split: option.splits if_splits)

lemma exec_edit_distinct: "distinct (result_ids run) \<Longrightarrow> distinct (result_ids (exec_edit e run))"
proof (cases e)
  case (Remove cid)
  then show "distinct (result_ids run) \<Longrightarrow> ?thesis"
    using result_ids_remove [of run cid] by (cases "remove_result run cid") simp_all
qed (auto simp: replace_result_upsert result_ids_upsert)

text \<open>C14. The results of a run behave as a map from cases to results: after any sequence of
  recordings, replacements and removals, refused ones included, looking a case up gives what the
  same sequence does to a partial map, and no case is listed twice if none was at the start.
  In particular a re-recording keeps the attachments and defect links of the stored result.\<close>

theorem results_refine_map:
  "result_of (fold exec_edit es run) = fold spec_edit es (result_of run)
   \<and> (distinct (result_ids run) \<longrightarrow> distinct (result_ids (fold exec_edit es run)))"
  by (induction es arbitrary: run) (simp_all add: exec_edit_refines exec_edit_distinct)

text \<open>A replacement is a recording restricted to cases that have a result: it fails with the not
  found error exactly when the run records none for the case, and otherwise does what recording
  does.\<close>

theorem replace_result_is_guarded_upsert:
  "replace_result run u =
     (if ru_test_case_id u \<in> set (result_ids run) then Inr (upsert_result run u)
      else Inl (NotFound ''Test result not found in test run''))"
  by (auto simp: replace_result_upsert result_of_def result_ids_def find_None_ids)

lemma capture_lookup:
  "map_of (or_empty (run_case_versions (capture_case_version run cid v))) k =
     (case map_of (or_empty (run_case_versions run)) k of
        Some n \<Rightarrow> Some n
      | None \<Rightarrow> if k = cid then Some (case v of Some n \<Rightarrow> n | None \<Rightarrow> 1) else None)"
  by (auto simp: capture_case_version_def UNVERSIONED_CASE_def Let_def split: option.splits)

text \<open>A pinned case version never changes: whatever later captures a run sees, for the same case
  or others, the version recorded first stands, and a case first captured without a version is
  pinned as version 1.\<close>

theorem captured_version_stands:
  "map_of (or_empty (run_case_versions
       (fold (\<lambda>(c, v) r. capture_case_version r c v) later (capture_case_version run cid v)))) cid =
     Some (case map_of (or_empty (run_case_versions run)) cid of
             Some n \<Rightarrow> n
           | None \<Rightarrow> (case v of Some n \<Rightarrow> n | None \<Rightarrow> 1))"
proof -
  have keep: "map_of (or_empty (run_case_versions
      (fold (\<lambda>(c, v) r. capture_case_version r c v) later r))) cid = Some n"
    if "map_of (or_empty (run_case_versions r)) cid = Some n" for r n
    using that by (induction later arbitrary: r) (auto simp: capture_lookup)
  show ?thesis by (rule keep) (auto simp: capture_lookup split: option.splits)
qed

lemma attach_detach_suite:
  assumes "attach_case_to_suite s c t = Inr s1"
  shows "detach_case_from_suite s1 (tc_test_case_id c) = Inr s"
proof -
  have "tc_test_case_id c \<notin> tc_test_case_id ` set (ts_test_cases s)"
    using suite_cases.attach_iff [OF assms] by simp
  then have "filter (\<lambda>x. tc_test_case_id x \<noteq> tc_test_case_id c) (ts_test_cases s) = ts_test_cases s"
    by (intro filter_True) (metis imageI)
  moreover have "s1 = s\<lparr>ts_test_cases := ts_test_cases s @ [c]\<rparr>"
    using assms by (simp add: attach_case_to_suite_def split: if_splits)
  ultimately show ?thesis by (simp add: detach_case_from_suite_def Let_def)
qed

text \<open>Membership of cases in a suite is a set in insertion order. Attaching succeeds exactly when
  neither the member's own identifier nor the one it was addressed by is present; it appends the
  member, keeps the members distinct, is refused when repeated, and detaching the member gives back
  the very suite it was attached to.\<close>

theorem suite_membership:
  "((\<exists>s'. attach_case_to_suite s c t = Inr s') \<longleftrightarrow>
     tc_test_case_id c \<notin> set (map tc_test_case_id (ts_test_cases s))
     \<and> t \<notin> set (map tc_test_case_id (ts_test_cases s)))
   \<and> (attach_case_to_suite s c t = Inr s1 \<longrightarrow>
        detach_case_from_suite s1 (tc_test_case_id c) = Inr s
        \<and> (\<exists>e. attach_case_to_suite s1 c t = Inl e)
        \<and> (distinct (map tc_test_case_id (ts_test_cases s)) \<longrightarrow>
             distinct (map tc_test_case_id (ts_test_cases s1))))"
  using suite_cases.attach_ok_iff [of s c t] attach_detach_suite [of s c t s1]
    suite_cases.attach_twice [of s c t s1] suite_cases.attach_distinct [of s c t s1] by blast

section \<open>A run and a suite to try the rules on\<close>

definition sample_case :: "string \<Rightarrow> TestCase" where
  "sample_case cid = \<lparr>tc_test_case_id = cid, tc_title = ''Login'', tc_description = None,
     tc_preconditions = None, tc_steps = None, tc_expected_result = ''ok'', tc_priority = None,
     tc_severity = None, tc_test_type = None, tc_exploratory = None, tc_attachments = None,
     tc_tags = None, tc_version = None, tc_last_modified = None, tc_defect_links = None\<rparr>"

definition sample_suite :: TestSuite where
  "sample_suite = \<lparr>ts_suite_id = ''S1.json'', ts_name = ''Smoke'', ts_description = None,
     ts_test_cases = [sample_case ''TC1''], ts_tags = None\<rparr>"

definition sample_result :: "string \<Rightarrow> string \<Rightarrow> string \<Rightarrow> TestCaseResult" where
  "sample_result cid status stamp = \<lparr>tcr_test_case_id = cid, tcr_status = status,
     tcr_timestamp = stamp, tcr_notes = None, tcr_duration_ms = None, tcr_attachments = None,
     tcr_defect_links = None\<rparr>"

definition sample_run :: TestRun where
  "sample_run = \<lparr>run_test_run_id = ''R1.json'', run_timestamp = ''0'', run_name = None,
     run_projects = None, run_test_suites = Some [sample_suite], run_test_cases = None,
     run_results = Some [sample_result ''TC1'' ''Failed'' ''5''], run_tags = None,
     run_configurations = None, run_case_versions = None, run_source_workflow_id = None\<rparr>"

definition sample_update :: ResultUpdate where
  "sample_update = \<lparr>ru_test_case_id = ''TC2'', ru_status = ''Passed'', ru_timestamp = ''9'',
     ru_notes = Set ''ok'', ru_duration_ms = Keep\<rparr>"

lemmas sample_defs = sample_case_def sample_suite_def sample_result_def sample_run_def sample_update_def

lemma results_refine_map_witness:
  "distinct (result_ids (fold exec_edit [Record sample_update, Remove ''TC1''] sample_run))
   \<and> result_of (fold exec_edit [Record sample_update, Remove ''TC1''] sample_run) ''TC2'' =
       Some (new_result sample_update)"
  using results_refine_map [of "[Record sample_update, Remove ''TC1'']" sample_run]
  by (simp add: sample_defs result_ids_def result_of_def)

lemma suite_membership_witness:
  "detach_case_from_suite (sample_suite\<lparr>ts_test_cases := [sample_case ''TC1'', sample_case ''TC2'']\<rparr>)
     ''TC2'' = Inr sample_suite"
  using suite_membership [of sample_suite "sample_case ''TC2''" "''TC2''"
      "sample_suite\<lparr>ts_test_cases := [sample_case ''TC1'', sample_case ''TC2'']\<rparr>"]
  by (simp add: sample_defs attach_case_to_suite_def)

end
