(* ===== verification/Reports.thy ===== *)
theory Reports
  imports Composition Calendar "HOL-Library.Multiset" "HOL-Library.Product_Lexorder"
begin

text \<open>
  Reporting arithmetic: milestone progress (\<^verbatim>\<open>src/domain/progress.rs\<close>) and the pure half of the
  reports (\<^verbatim>\<open>src/domain/reports.rs\<close>): coverage, summary, the latest result per case, and the
  filters that decide which runs count.

  Percentages are \<^verbatim>\<open>f64\<close> in the source. They are rationals here, and the rounding that every
  floating-point operation performs is the parameter \<open>rnd\<close>; the bounds are proved for every
  monotone rounding that is exact on 0, 1 and 100, as IEEE 754 rounding is. The identity is one
  such rounding and serves in the witnesses.
\<close>

section \<open>Milestone progress\<close>

text \<open>The \<^verbatim>\<open>BTreeMap\<close> from case identifiers to the recorded status.\<close>

definition population :: "TestRun \<Rightarrow> string option btree" where
  "population run =
     (let declared = fold (\<lambda>c. obj_insert (tc_test_case_id c) None) (or_empty (run_test_cases run)) [];
          embedded = fold (\<lambda>s. fold (\<lambda>c. obj_insert (tc_test_case_id c) None) (ts_test_cases s))
                       (or_empty (run_test_suites run)) declared
      in fold (\<lambda>r. obj_insert (tcr_test_case_id r) (Some (tcr_status r))) (or_empty (run_results run))
           embedded)"

text \<open>The six counters of the loop.\<close>

record Counters =
  c_total :: nat
  c_passed :: nat
  c_failed :: nat
  c_blocked :: nat
  c_untested :: nat
  c_retest :: nat

definition count_status :: "string option \<Rightarrow> Counters \<Rightarrow> Counters" where
  "count_status status c =
     (let c = c\<lparr>c_total := c_total c + 1\<rparr> in
      if status = Some ''Passed'' then c\<lparr>c_passed := c_passed c + 1\<rparr>
      else if status = Some ''Failed'' then c\<lparr>c_failed := c_failed c + 1\<rparr>
      else if status = Some ''Blocked'' then c\<lparr>c_blocked := c_blocked c + 1\<rparr>
      else if status = Some ''Retest'' then c\<lparr>c_retest := c_retest c + 1\<rparr>
      else c\<lparr>c_untested := c_untested c + 1\<rparr>)"

definition count_runs :: "TestRun list \<Rightarrow> Counters" where
  "count_runs runs =
     fold (\<lambda>run. fold count_status (map snd (population run))) runs
       \<lparr>c_total = 0, c_passed = 0, c_failed = 0, c_blocked = 0, c_untested = 0, c_retest = 0\<rparr>"

definition pass_percentage :: "(rat \<Rightarrow> rat) \<Rightarrow> nat \<Rightarrow> nat \<Rightarrow> rat" where
  "pass_percentage rnd passed total' =
     (if 0 < total' then rnd (rnd (rnd (of_nat passed) / rnd (of_nat total')) * 100) else 0)"

definition compute :: "(rat \<Rightarrow> rat) \<Rightarrow> Milestone \<Rightarrow> TestRun list \<Rightarrow> MilestoneProgress" where
  "compute rnd milestone runs =
     (let c = count_runs runs in
      \<lparr>mp_milestone_id = ms_milestone_id milestone, mp_total_cases = c_total c, mp_passed = c_passed c,
       mp_failed = c_failed c, mp_blocked = c_blocked c, mp_untested = c_untested c,
       mp_retest = c_retest c, mp_pass_percentage = pass_percentage rnd (c_passed c) (c_total c)\<rparr>)"

section \<open>Coverage\<close>

record SuiteCases =
  suc_suite_id :: string
  suc_name :: string
  suc_case_count :: nat

record ProjectCases =
  pc_direct :: nat
  pc_suites :: "SuiteCases list"

datatype Scope = AllProjects | InProject string | InProjects "string list"

definition coverage :: "string option \<Rightarrow> ProjectCases list \<Rightarrow> CoverageReport" where
  "coverage project_id projects =
     (let (total', suites) = fold (\<lambda>project acc.
            fold (\<lambda>suite (total', suites).
                (total' + suc_case_count suite,
                 suites @ [\<lparr>sc_suite_id = suc_suite_id suite, sc_name = suc_name suite,
                            sc_case_count = suc_case_count suite\<rparr>]))
              (pc_suites project) (fst acc + pc_direct project, snd acc))
          projects (0, [])
      in \<lparr>cov_project_id = project_id, cov_total_cases = total', cov_suites = suites\<rparr>)"

section \<open>Summary\<close>

record SummaryFilters =
  sf_project_id :: "string option"
  sf_milestone_id :: "string option"
  sf_configuration_id :: "string option"
  sf_from :: "string option"
  sf_to :: "string option"

definition has_status :: "string \<Rightarrow> TestCaseResult \<Rightarrow> bool" where
  "has_status s r \<longleftrightarrow> tcr_status r = s"

definition count_result :: "TestCaseResult \<Rightarrow> SummaryReport \<Rightarrow> SummaryReport" where
  "count_result r acc =
     (let acc = (if has_status ''Passed'' r then acc\<lparr>sr_passed := sr_passed acc + 1\<rparr>
                 else if has_status ''Failed'' r then acc\<lparr>sr_failed := sr_failed acc + 1\<rparr>
                 else if has_status ''Blocked'' r then acc\<lparr>sr_blocked := sr_blocked acc + 1\<rparr>
                 else if has_status ''Untested'' r then acc\<lparr>sr_untested := sr_untested acc + 1\<rparr>
                 else acc)
      in acc\<lparr>sr_total_duration_ms := sr_total_duration_ms acc +
           (case tcr_duration_ms r of Some d \<Rightarrow> d | None \<Rightarrow> 0)\<rparr>)"

definition summary :: "(rat \<Rightarrow> rat) \<Rightarrow> TestCaseResult list \<Rightarrow> SummaryReport" where
  "summary rnd results =
     (let acc = fold count_result results
            \<lparr>sr_total = 0, sr_passed = 0, sr_failed = 0, sr_blocked = 0, sr_untested = 0,
             sr_pass_percentage = 0, sr_total_duration_ms = 0\<rparr>;
          total' = length results
      in acc\<lparr>sr_total := total', sr_pass_percentage := pass_percentage rnd (sr_passed acc) total'\<rparr>)"

section \<open>The latest result of each case\<close>

record ObservedResult =
  ob_run_id :: string
  ob_result :: TestCaseResult

definition result_recency :: "string \<Rightarrow> nat \<times> int \<times> string" where
  "result_recency timestamp = (case parse_i64 (trim timestamp) of
       Some seconds \<Rightarrow> (1, seconds, [])
     | None \<Rightarrow> (0, 0, timestamp))"

text \<open>The key an observed result is ranked by: tuples compare lexicographically in Rust.\<close>

definition rank :: "ObservedResult \<Rightarrow> (nat \<times> int \<times> string) \<times> string" where
  "rank o1 = (result_recency (tcr_timestamp (ob_result o1)), ob_run_id o1)"

definition observed_case :: "ObservedResult \<Rightarrow> string" where
  "observed_case o1 = tcr_test_case_id (ob_result o1)"

text \<open>The \<^verbatim>\<open>HashMap\<close> of winners is only read as a set of pairs, which the final sort orders by
  case identifier; it is kept here in that order from the start.\<close>

definition keep_latest :: "ObservedResult \<Rightarrow> ObservedResult btree \<Rightarrow> ObservedResult btree" where
  "keep_latest entry winners =
     (case map_of winners (observed_case entry) of
        None \<Rightarrow> obj_insert (observed_case entry) entry winners
      | Some current \<Rightarrow>
          if rank current < rank entry
          then obj_insert (observed_case entry) entry winners else winners)"

definition last_case_result :: "ObservedResult \<Rightarrow> LastCaseResult" where
  "last_case_result entry =
     \<lparr>lcr_test_case_id = tcr_test_case_id (ob_result entry), lcr_status = tcr_status (ob_result entry),
      lcr_run_id = ob_run_id entry, lcr_timestamp = tcr_timestamp (ob_result entry)\<rparr>"

definition last_results :: "string option \<Rightarrow> ObservedResult list \<Rightarrow> LastResultsReport" where
  "last_results project_id observed =
     \<lparr>lrr_project_id = project_id,
      lrr_cases = map (\<lambda>(k, entry). last_case_result entry) (fold keep_latest observed [])\<rparr>"

section \<open>Which runs count\<close>

text \<open>\<^verbatim>\<open>date_prefix\<close>: the byte indices 4, 5, 7 and 8 it slices at are character boundaries once the
  two hyphens are there, so the slices cannot panic.\<close>

definition date_prefix :: "string \<Rightarrow> string option" where
  "date_prefix s = Option.bind (str_get_to s 10) (\<lambda>date.
     if date ! 4 = CHR ''-'' \<and> date ! 7 = CHR ''-'' \<and> list_all is_ascii_digit (take 4 date)
        \<and> list_all is_ascii_digit (take 2 (drop 5 date)) \<and> list_all is_ascii_digit (take 2 (drop 8 date))
     then Some date else None)"

definition run_date :: "string \<Rightarrow> string option" where
  "run_date timestamp = (case parse_u64 timestamp of
       Some seconds \<Rightarrow> Some (iso8601_date seconds)
     | None \<Rightarrow> date_prefix timestamp)"

definition parse_date_filter :: "string \<Rightarrow> string result" where
  "parse_date_filter s = ok_or (invalid_request (''Invalid date filter: '' @ s)) (date_prefix s)"

definition run_is_in_scope ::
  "TestRun \<Rightarrow> string \<Rightarrow> string \<Rightarrow> SummaryFilters \<Rightarrow> string list option \<Rightarrow> bool" where
  "run_is_in_scope run home run_id filters milestone_runs =
     (if (case sf_project_id filters of None \<Rightarrow> False | Some project_id \<Rightarrow>
            project_id \<noteq> home
            \<and> \<not> (case run_projects run of None \<Rightarrow> False | Some projects \<Rightarrow>
                    list_ex (\<lambda>p. pr_project_id p = project_id) projects))
      then False
      else if (case milestone_runs of None \<Rightarrow> False | Some run_ids \<Rightarrow>
            \<not> list_ex (\<lambda>i. i = run_id) run_ids)
      then False
      else if (case sf_configuration_id filters of None \<Rightarrow> False | Some config_id \<Rightarrow>
            \<not> (case run_configurations run of None \<Rightarrow> False | Some configurations \<Rightarrow>
                 list_ex (\<lambda>c. cfg_config_id c = config_id) configurations))
      then False
      else if sf_from filters \<noteq> None \<or> sf_to filters \<noteq> None
      then (case run_date (run_timestamp run) of
              None \<Rightarrow> False
            | Some date \<Rightarrow>
                \<not> (case sf_from filters of None \<Rightarrow> False | Some lower \<Rightarrow> date < lower)
                \<and> \<not> (case sf_to filters of None \<Rightarrow> False | Some upper \<Rightarrow> upper < date))
      else True)"

definition run_reachable :: "TestRun \<Rightarrow> string \<Rightarrow> string list \<Rightarrow> bool" where
  "run_reachable run home reachable \<longleftrightarrow>
     list_ex (\<lambda>i. i = home) reachable
     \<and> (case run_projects run of None \<Rightarrow> True | Some projects \<Rightarrow>
          list_all (\<lambda>p. list_ex (\<lambda>i. i = pr_project_id p) reachable) projects)"

section \<open>Progress counts each held case once\<close>

definition recorded_status :: "TestRun \<Rightarrow> string \<Rightarrow> string option" where
  "recorded_status run k =
     map_option tcr_status (find (\<lambda>r. tcr_test_case_id r = k) (rev (or_empty (run_results run))))"

definition tally :: "string \<Rightarrow> string option list \<Rightarrow> nat" where
  "tally s xs = length (filter (\<lambda>x. x = Some s) xs)"

lemma count_status_fold:
  "c_total (fold count_status xs c) = c_total c + length xs"
  "c_passed (fold count_status xs c) = c_passed c + tally ''Passed'' xs"
  "c_failed (fold count_status xs c) = c_failed c + tally ''Failed'' xs"
  "c_blocked (fold count_status xs c) = c_blocked c + tally ''Blocked'' xs"
  "c_retest (fold count_status xs c) = c_retest c + tally ''Retest'' xs"
  by (induction xs arbitrary: c) (simp_all add: count_status_def tally_def Let_def)

definition balanced :: "Counters \<Rightarrow> bool" where
  "balanced c \<longleftrightarrow> c_passed c + c_failed c + c_blocked c + c_untested c + c_retest c = c_total c"

lemma balanced_fold: "balanced c \<Longrightarrow> balanced (fold count_status xs c)"
  by (induction xs arbitrary: c) (simp_all add: count_status_def balanced_def Let_def)

lemma map_of_fold_insert:
  "map_of (fold (\<lambda>x. obj_insert (f x) (g x)) xs m) k =
     (case find (\<lambda>x. f x = k) (rev xs) of Some x \<Rightarrow> Some (g x) | None \<Rightarrow> map_of m k)"
  by (induction xs arbitrary: m) (auto simp: find_append split: option.splits)

lemma obj_sorted_fold_insert:
  "obj_sorted m \<Longrightarrow> obj_sorted (fold (\<lambda>x. obj_insert (f x) (g x)) xs m)"
  by (induction xs arbitrary: m) (simp_all add: obj_sorted_insert)

lemma fold_nested: "fold (\<lambda>s. fold f (g s)) ss m = fold f (concat (map g ss)) m"
  by (induction ss arbitrary: m) simp_all

lemma find_rev_None: "find P (rev xs) = None \<longleftrightarrow> \<not> list_ex P xs"
  by (auto simp: find_None_iff list_ex_iff)

definition held_cases :: "TestRun \<Rightarrow> TestCase list" where
  "held_cases run = or_empty (run_test_cases run) @ concat (map ts_test_cases (or_empty (run_test_suites run)))"

lemma population_alt:
  "population run = fold (\<lambda>r. obj_insert (tcr_test_case_id r) (Some (tcr_status r)))
     (or_empty (run_results run)) (fold (\<lambda>c. obj_insert (tc_test_case_id c) None) (held_cases run) [])"
  by (simp add: population_def held_cases_def Let_def fold_nested)

lemma population_sorted: "obj_sorted (population run)"
  unfolding population_alt by (intro obj_sorted_fold_insert) simp

lemma held_cases_iff:
  "list_ex (\<lambda>c. tc_test_case_id c = k) (held_cases run) \<or>
     list_ex (\<lambda>r. tcr_test_case_id r = k) (or_empty (run_results run)) \<longleftrightarrow> holds_case run k"
  by (auto simp: held_cases_def holds_case_def list_ex_iff)

lemma map_of_population:
  "map_of (population run) k =
     (if holds_case run k then Some (recorded_status run k) else None)"
proof (cases "find (\<lambda>r. tcr_test_case_id r = k) (rev (or_empty (run_results run)))")
  case None
  then have r: "\<not> list_ex (\<lambda>r. tcr_test_case_id r = k) (or_empty (run_results run))"
    by (simp add: find_rev_None)
  have "map_of (population run) k =
      map_of (fold (\<lambda>c. obj_insert (tc_test_case_id c) None) (held_cases run) []) k"
    unfolding population_alt map_of_fold_insert None by simp
  also have "\<dots> = (if list_ex (\<lambda>c. tc_test_case_id c = k) (held_cases run) then Some None else None)"
    by (auto simp: map_of_fold_insert find_rev_None [symmetric] split: option.splits)
  finally show ?thesis
    using r held_cases_iff [of k run] None by (simp add: recorded_status_def)
next
  case (Some x)
  then have "list_ex (\<lambda>r. tcr_test_case_id r = k) (or_empty (run_results run))"
    using find_rev_None [of "\<lambda>r. tcr_test_case_id r = k"] by (metis option.distinct(1))
  then have "holds_case run k" using held_cases_iff [of k run] by blast
  then show ?thesis
    unfolding population_alt map_of_fold_insert Some by (simp add: recorded_status_def Some)
qed

lemma count_values:
  assumes "distinct (map fst m)"
  shows "length (filter P (map snd m)) = card {k. \<exists>v. map_of m k = Some v \<and> P v}"
proof -
  have "{k. \<exists>v. map_of m k = Some v \<and> P v} = fst ` set (filter (P \<circ> snd) m)"
    using assms by (force simp: map_of_eq_Some_iff)
  moreover have "distinct (map fst (filter (P \<circ> snd) m))"
    using assms by (rule distinct_map_filter)
  ultimately have "card {k. \<exists>v. map_of m k = Some v \<and> P v} = length (filter (P \<circ> snd) m)"
    by (metis distinct_card length_map set_map)
  then show ?thesis by (simp add: filter_map)
qed

lemma recorded_is_held: "recorded_status run k = Some s \<Longrightarrow> holds_case run k"
  using held_cases_iff [of k run]
    find_rev_None [of "\<lambda>r. tcr_test_case_id r = k" "or_empty (run_results run)"]
  by (auto simp: recorded_status_def)

lemma population_total: "length (population run) = card {k. holds_case run k}"
  using count_values [OF obj_sorted_distinct [OF population_sorted], of "\<lambda>_. True"]
  by (simp add: map_of_population)

lemma population_tally:
  "tally s (map snd (population run)) = card {k. recorded_status run k = Some s}"
proof -
  have "{k. \<exists>v. map_of (population run) k = Some v \<and> v = Some s} = {k. recorded_status run k = Some s}"
    using recorded_is_held by (auto simp: map_of_population split: if_splits)
  then show ?thesis
    using count_values [OF obj_sorted_distinct [OF population_sorted], of "\<lambda>v. v = Some s"]
    by (simp add: tally_def)
qed

lemma count_runs_fold:
  "c_total (fold (\<lambda>run. fold count_status (map snd (population run))) runs c) =
     c_total c + (\<Sum>run\<leftarrow>runs. card {k. holds_case run k})"
  "c_passed (fold (\<lambda>run. fold count_status (map snd (population run))) runs c) =
     c_passed c + (\<Sum>run\<leftarrow>runs. card {k. recorded_status run k = Some ''Passed''})"
  "c_failed (fold (\<lambda>run. fold count_status (map snd (population run))) runs c) =
     c_failed c + (\<Sum>run\<leftarrow>runs. card {k. recorded_status run k = Some ''Failed''})"
  "c_blocked (fold (\<lambda>run. fold count_status (map snd (population run))) runs c) =
     c_blocked c + (\<Sum>run\<leftarrow>runs. card {k. recorded_status run k = Some ''Blocked''})"
  "c_retest (fold (\<lambda>run. fold count_status (map snd (population run))) runs c) =
     c_retest c + (\<Sum>run\<leftarrow>runs. card {k. recorded_status run k = Some ''Retest''})"
  "balanced c \<Longrightarrow> balanced (fold (\<lambda>run. fold count_status (map snd (population run))) runs c)"
  by (induction runs arbitrary: c)
     (simp_all add: count_status_fold population_tally population_total balanced_fold)

text \<open>Milestone progress counts every case a run holds exactly once: the total is the number of
  held cases summed over the runs, each named bucket is the number of cases whose last recorded
  result has that status, and the five buckets add up to the total.\<close>

theorem progress_counts_held_cases:
  "mp_total_cases (compute rnd m runs) = (\<Sum>run\<leftarrow>runs. card {k. holds_case run k})
   \<and> mp_passed (compute rnd m runs) = (\<Sum>run\<leftarrow>runs. card {k. recorded_status run k = Some ''Passed''})
   \<and> mp_failed (compute rnd m runs) = (\<Sum>run\<leftarrow>runs. card {k. recorded_status run k = Some ''Failed''})
   \<and> mp_blocked (compute rnd m runs) = (\<Sum>run\<leftarrow>runs. card {k. recorded_status run k = Some ''Blocked''})
   \<and> mp_retest (compute rnd m runs) = (\<Sum>run\<leftarrow>runs. card {k. recorded_status run k = Some ''Retest''})
   \<and> mp_passed (compute rnd m runs) + mp_failed (compute rnd m runs) + mp_blocked (compute rnd m runs)
       + mp_untested (compute rnd m runs) + mp_retest (compute rnd m runs) =
     mp_total_cases (compute rnd m runs)"
proof -
  have "balanced (count_runs runs)"
    unfolding count_runs_def by (rule count_runs_fold) (simp add: balanced_def)
  then show ?thesis
    by (simp add: compute_def Let_def count_runs_def count_runs_fold balanced_def)
qed

section \<open>Percentages\<close>

lemma pass_percentage_bounds:
  assumes "mono rnd" "rnd 0 = 0" "rnd 1 = 1" "rnd 100 = 100" "passed \<le> n"
  shows "0 \<le> pass_percentage rnd passed n" "pass_percentage rnd passed n \<le> 100"
    "0 < n \<Longrightarrow> pass_percentage rnd n n = 100"
proof -
  have up: "rnd a \<le> rnd b" if "a \<le> b" for a b using assms(1) that by (rule monoD)
  have pos: "1 \<le> rnd (of_nat n)" if "0 < n"
    using up [of 1 "of_nat n"] that assms(3) by simp
  have q: "0 \<le> rnd (of_nat passed) / rnd (of_nat n) \<and> rnd (of_nat passed) / rnd (of_nat n) \<le> 1" if "0 < n"
    using pos [OF that] up [of 0 "of_nat passed"] up [of "of_nat passed" "of_nat n"] assms(2,5)
    by simp
  have r: "0 \<le> rnd (rnd (of_nat passed) / rnd (of_nat n)) \<and> rnd (rnd (of_nat passed) / rnd (of_nat n)) \<le> 1"
    if "0 < n"
    using q [OF that] up [of 0 "rnd (of_nat passed) / rnd (of_nat n)"]
      up [of "rnd (of_nat passed) / rnd (of_nat n)" 1] assms(2,3) by simp
  show "0 \<le> pass_percentage rnd passed n" "pass_percentage rnd passed n \<le> 100"
    using r up [of 0 "rnd (rnd (of_nat passed) / rnd (of_nat n)) * 100"]
      up [of "rnd (rnd (of_nat passed) / rnd (of_nat n)) * 100" 100] assms(2,4)
    by (auto simp: pass_percentage_def)
  show "pass_percentage rnd n n = 100" if "0 < n"
    using pos [OF that] that assms(3,4) by (simp add: pass_percentage_def)
qed

lemma count_result_fold:
  "sr_passed (fold count_result rs acc) = sr_passed acc + length (filter (has_status ''Passed'') rs)"
  "sr_failed (fold count_result rs acc) = sr_failed acc + length (filter (has_status ''Failed'') rs)"
  "sr_blocked (fold count_result rs acc) = sr_blocked acc + length (filter (has_status ''Blocked'') rs)"
  "sr_untested (fold count_result rs acc) = sr_untested acc + length (filter (has_status ''Untested'') rs)"
  "sr_total_duration_ms (fold count_result rs acc) =
     sr_total_duration_ms acc + (\<Sum>r\<leftarrow>rs. case tcr_duration_ms r of Some d \<Rightarrow> d | None \<Rightarrow> 0)"
  by (induction rs arbitrary: acc)
     (auto simp: count_result_def Let_def has_status_def algebra_simps)

definition duration_of :: "TestCaseResult \<Rightarrow> nat" where
  "duration_of r = (case tcr_duration_ms r of Some d \<Rightarrow> unat d | None \<Rightarrow> 0)"

lemma duration_sum:
  "(\<Sum>r\<leftarrow>rs. case tcr_duration_ms r of Some d \<Rightarrow> d | None \<Rightarrow> 0) =
     (word_of_nat (\<Sum>r\<leftarrow>rs. duration_of r) :: 64 word)"
  by (induction rs) (auto simp: duration_of_def split: option.splits)

lemma buckets_bound:
  "length (filter (has_status ''Passed'') rs) + length (filter (has_status ''Failed'') rs)
   + length (filter (has_status ''Blocked'') rs) + length (filter (has_status ''Untested'') rs)
   + length (filter (\<lambda>r. tcr_status r \<notin> {''Passed'', ''Failed'', ''Blocked'', ''Untested''}) rs) = length rs"
  by (induction rs) (auto simp: has_status_def)

text \<open>A summary counts every result in the total and each result in at most one named bucket:
  the buckets are the results with that status, and the results in no bucket are exactly those
  with another status. The duration is the sum of the recorded durations modulo \<open>2 ^ 64\<close>.\<close>

theorem summary_counts:
  "sr_total (summary rnd rs) = length rs
   \<and> sr_passed (summary rnd rs) = length (filter (has_status ''Passed'') rs)
   \<and> sr_failed (summary rnd rs) = length (filter (has_status ''Failed'') rs)
   \<and> sr_passed (summary rnd rs) + sr_failed (summary rnd rs) + sr_blocked (summary rnd rs)
       + sr_untested (summary rnd rs)
       + length (filter (\<lambda>r. tcr_status r \<notin> {''Passed'', ''Failed'', ''Blocked'', ''Untested''}) rs) =
     sr_total (summary rnd rs)
   \<and> unat (sr_total_duration_ms (summary rnd rs)) = (\<Sum>r\<leftarrow>rs. duration_of r) mod 2 ^ 64"
  using buckets_bound [of rs]
  by (simp add: summary_def Let_def count_result_fold duration_sum unat_of_nat)

text \<open>Pass percentages lie between 0 and 100, in a milestone's progress and in a summary, and a
  summary of passed results only shows exactly 100: for every monotone rounding that is exact on
  0, 1 and 100.\<close>

theorem report_percentages_bounded:
  assumes "mono rnd" "rnd 0 = 0" "rnd 1 = 1" "rnd 100 = 100"
  shows "0 \<le> mp_pass_percentage (compute rnd m runs) \<and> mp_pass_percentage (compute rnd m runs) \<le> 100
    \<and> 0 \<le> sr_pass_percentage (summary rnd rs) \<and> sr_pass_percentage (summary rnd rs) \<le> 100
    \<and> (rs \<noteq> [] \<and> list_all (has_status ''Passed'') rs \<longrightarrow> sr_pass_percentage (summary rnd rs) = 100)"
proof -
  have "balanced (count_runs runs)"
    unfolding count_runs_def by (rule count_runs_fold) (simp add: balanced_def)
  then have "c_passed (count_runs runs) \<le> c_total (count_runs runs)" by (simp add: balanced_def)
  moreover have "filter (has_status ''Passed'') rs = rs" if "list_all (has_status ''Passed'') rs"
    using that by (simp add: list_all_iff)
  ultimately show ?thesis
    using pass_percentage_bounds(1,2) [OF assms] pass_percentage_bounds(3) [OF assms, of "length rs" "length rs"]
    by (auto simp: compute_def summary_def Let_def count_result_fold)
qed

lemma report_percentages_bounded_witness:
  "sr_pass_percentage (summary id [sample_result ''TC1'' ''Passed'' ''5'']) = 100"
  using report_percentages_bounded [of id undefined "[]" "[sample_result ''TC1'' ''Passed'' ''5'']"]
  by (simp add: monoI has_status_def sample_defs)

section \<open>The latest result per case\<close>

definition latest :: "ObservedResult list \<Rightarrow> ObservedResult \<Rightarrow> bool" where
  "latest seen e \<longleftrightarrow> e \<in> set seen \<and>
     (\<forall>e'\<in>set seen. observed_case e' = observed_case e \<longrightarrow> rank e' \<le> rank e)"

definition winners_of :: "ObservedResult list \<Rightarrow> ObservedResult btree \<Rightarrow> bool" where
  "winners_of seen w \<longleftrightarrow> obj_sorted w \<and> fst ` set w = observed_case ` set seen \<and>
     (\<forall>k e. map_of w k = Some e \<longrightarrow> observed_case e = k \<and> latest seen e)"

lemma keep_latest_step:
  assumes w: "winners_of seen w"
  shows "winners_of (seen @ [x]) (keep_latest x w)"
proof (cases "map_of w (observed_case x)")
  case None
  then have new: "observed_case x \<notin> observed_case ` set seen"
    using w by (simp add: winners_of_def map_of_eq_None_notin)
  then have "latest (seen @ [x]) x" by (auto simp: latest_def) (metis imageI)
  moreover have "latest (seen @ [x]) e" if "latest seen e" for e
    using that new by (auto simp: latest_def)
  ultimately show ?thesis
    using w None by (auto simp: winners_of_def keep_latest_def obj_sorted_insert)
next
  case (Some c)
  then have c: "observed_case c = observed_case x" "latest seen c"
    using w by (auto simp: winners_of_def)
  have mem: "observed_case x \<in> observed_case ` set seen"
    using c by (auto simp: latest_def intro: image_eqI [of _ _ c])
  have other: "latest (seen @ [x]) e" if "latest seen e" "observed_case e \<noteq> observed_case x" for e
    using that by (auto simp: latest_def)
  show ?thesis
  proof (cases "rank c < rank x")
    case True
    then have "latest (seen @ [x]) x" using c by (auto simp: latest_def intro: order_trans less_imp_le)
    with True Some w mem other show ?thesis
      by (auto simp: winners_of_def keep_latest_def obj_sorted_insert)
  next
    case False
    then have "latest (seen @ [x]) c" using c by (auto simp: latest_def)
    moreover have "latest (seen @ [x]) e" if "map_of w k = Some e" for k e
    proof (cases "k = observed_case x")
      case True with that Some \<open>latest (seen @ [x]) c\<close> show ?thesis by simp
    next
      case ne: False
      have "observed_case e = k" "latest seen e" using that w by (auto simp: winners_of_def)
      with ne other show ?thesis by simp
    qed
    ultimately show ?thesis
      using False Some w mem by (auto simp: winners_of_def keep_latest_def)
  qed
qed

lemma winners_of_fold: "winners_of seen w \<Longrightarrow> winners_of (seen @ xs) (fold keep_latest xs w)"
proof (induction xs arbitrary: seen w)
  case (Cons x xs)
  from Cons.IH [OF keep_latest_step [OF Cons.prems, of x]] show ?case by simp
qed simp

lemma winners_of_observed: "winners_of xs (fold keep_latest xs [])"
  using winners_of_fold [of "[]" "[]" xs] by (simp add: winners_of_def)

lemma latest_unique:
  assumes "latest xs e" "latest xs e'" "observed_case e = observed_case e'"
    and "\<forall>a\<in>set xs. \<forall>b\<in>set xs. observed_case a = observed_case b \<and> rank a = rank b \<longrightarrow> a = b"
  shows "e = e'"
proof -
  have "rank e \<le> rank e'" "rank e' \<le> rank e" "e \<in> set xs" "e' \<in> set xs"
    using assms(1-3) by (simp_all add: latest_def)
  with assms(3,4) show ?thesis by (meson antisym)
qed

lemma winners_unique:
  assumes "winners_of xs w" "winners_of ys w'" "set xs = set ys"
    and tie: "\<forall>a\<in>set xs. \<forall>b\<in>set xs. observed_case a = observed_case b \<and> rank a = rank b \<longrightarrow> a = b"
  shows "w = w'"
proof (rule obj_ext)
  show "obj_sorted w" "obj_sorted w'" using assms by (auto simp: winners_of_def)
  have same: "latest ys e \<longleftrightarrow> latest xs e" for e using assms(3) by (simp add: latest_def)
  show "map_of w = map_of w'"
  proof
    fix k
    have dom: "map_of w k = None \<longleftrightarrow> map_of w' k = None"
      using assms(1-3) by (simp add: winners_of_def map_of_eq_None_notin)
    show "map_of w k = map_of w' k"
    proof (cases "map_of w k")
      case None with dom show ?thesis by simp
    next
      case (Some e)
      with dom obtain e' where e': "map_of w' k = Some e'" by auto
      have "latest xs e" "latest xs e'" "observed_case e = observed_case e'"
        using Some e' assms(1,2) same by (auto simp: winners_of_def)
      then show ?thesis using Some e' latest_unique [OF _ _ _ tie] by auto
    qed
  qed
qed

lemma winner_entry:
  assumes "(k, e) \<in> set (fold keep_latest xs [])"
  shows "observed_case e = k" "latest xs e"
proof -
  have w: "winners_of xs (fold keep_latest xs [])" by (rule winners_of_observed)
  then have "distinct (map fst (fold keep_latest xs []))"
    by (simp add: winners_of_def obj_sorted_distinct)
  then have "map_of (fold keep_latest xs []) k = Some e" using assms by simp
  then show "observed_case e = k" "latest xs e" using w by (auto simp: winners_of_def)
qed

lemma last_results_keys:
  "map lcr_test_case_id (lrr_cases (last_results p xs)) = map fst (fold keep_latest xs [])"
  using winner_entry(1) [of _ _ xs]
  by (auto simp: last_results_def last_case_result_def observed_case_def)

lemma last_results_observed:
  assumes "c \<in> set (lrr_cases (last_results p xs))"
  obtains e where "e \<in> set xs" "c = last_case_result e"
proof -
  obtain k e where e: "(k, e) \<in> set (fold keep_latest xs [])" "c = last_case_result e"
    using assms by (auto simp: last_results_def)
  from winner_entry(2) [OF e(1)] e(2) that show thesis by (auto simp: latest_def)
qed

text \<open>The last-results report lists exactly the cases some observed result names, in strictly
  increasing order of identifier, and the entry of a case is one of its observed results that no
  other observed result of the case outranks, by recency first and run key second.\<close>

theorem last_results_latest:
  "sorted_wrt (<) (map lcr_test_case_id (lrr_cases (last_results p xs)))
   \<and> set (map lcr_test_case_id (lrr_cases (last_results p xs))) = observed_case ` set xs
   \<and> (\<forall>c\<in>set (lrr_cases (last_results p xs)). \<exists>e\<in>set xs. c = last_case_result e
        \<and> (\<forall>e'\<in>set xs. observed_case e' = observed_case e \<longrightarrow> rank e' \<le> rank e))"
proof -
  have w: "winners_of xs (fold keep_latest xs [])" by (rule winners_of_observed)
  have "\<exists>e\<in>set xs. c = last_case_result e
        \<and> (\<forall>e'\<in>set xs. observed_case e' = observed_case e \<longrightarrow> rank e' \<le> rank e)"
    if c: "c \<in> set (lrr_cases (last_results p xs))" for c
  proof -
    obtain k e where e: "(k, e) \<in> set (fold keep_latest xs [])" "c = last_case_result e"
      using c by (auto simp: last_results_def)
    from winner_entry(2) [OF e(1)] e(2) show ?thesis by (auto simp: latest_def)
  qed
  moreover have "sorted_wrt (<) (map fst (fold keep_latest xs []))"
    using w by (simp add: winners_of_def obj_sorted_def obj_keys_def)
  ultimately show ?thesis
    using w unfolding last_results_keys by (auto simp: winners_of_def)
qed

text \<open>The report does not depend on the order in which the results were observed, provided no two
  observed results of one case have the same recency and the same run key.\<close>

theorem last_results_order_independent:
  assumes "mset xs = mset ys"
    and "\<forall>a\<in>set xs. \<forall>b\<in>set xs. observed_case a = observed_case b \<and> rank a = rank b \<longrightarrow> a = b"
  shows "last_results p xs = last_results p ys"
  using winners_unique [OF winners_of_observed winners_of_observed mset_eq_setD [OF assms(1)] assms(2)]
  by (simp add: last_results_def)

definition seen_at :: "string \<Rightarrow> string \<Rightarrow> string \<Rightarrow> ObservedResult" where
  "seen_at run status stamp = \<lparr>ob_run_id = run, ob_result = sample_result ''TC1'' status stamp\<rparr>"

lemma sample_ranks:
  "rank (seen_at ''R1'' ''Passed'' ''9'') = ((1, 9, []), ''R1'')"
  "rank (seen_at ''R2'' ''Failed'' ''10'') = ((1, 10, []), ''R2'')"
  by (simp_all add: rank_def result_recency_def seen_at_def sample_result_def trim_graphic
      is_ascii_graphic_def parse_i64_def parse_digits_def is_ascii_digit_def digits_value_def)

lemma last_results_latest_witness:
  "last_case_result (seen_at ''R2'' ''Failed'' ''10'') \<in>
     set (lrr_cases (last_results None [seen_at ''R1'' ''Passed'' ''9'', seen_at ''R2'' ''Failed'' ''10'']))"
proof -
  let ?xs = "[seen_at ''R1'' ''Passed'' ''9'', seen_at ''R2'' ''Failed'' ''10'']"
  have oc: "observed_case (seen_at run status stamp) = ''TC1''" for run status stamp
    by (simp add: observed_case_def seen_at_def sample_result_def)
  note latest = last_results_latest [of None ?xs]
  then have "set (map lcr_test_case_id (lrr_cases (last_results None ?xs))) = observed_case ` set ?xs"
    by blast
  then have "lrr_cases (last_results None ?xs) \<noteq> []"
    by (metis image_is_empty list.discI list.map_disc_iff set_empty)
  then obtain c where c: "c \<in> set (lrr_cases (last_results None ?xs))"
    by (meson list.set_sel(1))
  then obtain e where e: "e \<in> set ?xs" "c = last_case_result e"
    "\<forall>e'\<in>set ?xs. observed_case e' = observed_case e \<longrightarrow> rank e' \<le> rank e"
    using latest by blast
  have "e = seen_at ''R2'' ''Failed'' ''10''" using e(1,3) by (auto simp: sample_ranks oc)
  with c e(2) show ?thesis by simp
qed

lemma last_results_order_independent_witness:
  "last_results None [seen_at ''R1'' ''Passed'' ''9'', seen_at ''R2'' ''Failed'' ''10''] =
   last_results None [seen_at ''R2'' ''Failed'' ''10'', seen_at ''R1'' ''Passed'' ''9'']"
  by (rule last_results_order_independent) (auto simp: sample_ranks)

text \<open>The proviso is needed: two runs of different projects may share a run key, and then the result
  read first wins a tie.\<close>

lemma last_results_tie_depends_on_order:
  "last_results None [seen_at ''R1'' ''Passed'' ''9'', seen_at ''R1'' ''Failed'' ''9''] \<noteq>
   last_results None [seen_at ''R1'' ''Failed'' ''9'', seen_at ''R1'' ''Passed'' ''9'']"
  by (simp add: last_results_def keep_latest_def observed_case_def rank_def seen_at_def sample_result_def
      last_case_result_def)

end
