(* ===== verification/Defect.thy ===== *)
theory Defect
  imports Models Errors
begin

text \<open>
  Links to external trackers (\<^verbatim>\<open>src/domain/defect.rs\<close>). The URL is split by hand in the source, and
  the shape of each tracker's issue links is matched against the parts.

  A byte-indexed slice of a string panics when it cuts a character; \<open>is_jira\<close> contains such a slice,
  so the functions that call it return an option whose \<^const>\<open>None\<close> is the panic. The text of a
  deserialisation error is produced by \<^verbatim>\<open>serde_json\<close> and is the parameter \<open>serde_text\<close>.
\<close>

section \<open>Splitting a URL\<close>

definition TRACKER_TYPES :: "string list" where
  "TRACKER_TYPES = [''jira'', ''github'', ''gitlab'', ''custom'']"

definition ATLASSIAN_SUFFIX :: string where
  "ATLASSIAN_SUFFIX = ''.atlassian.net''"

definition GITHUB_HOST :: string where
  "GITHUB_HOST = ''github.com''"

definition GITLAB_HOST :: string where
  "GITLAB_HOST = ''gitlab.com''"

record Url =
  host :: string
  segments :: "string list"

definition invalid_url :: DomainError where
  "invalid_url = invalid_request ''defectUrl must be a well-formed https:// URL''"

definition strip_port :: "string \<Rightarrow> string" where
  "strip_port authority = (case rsplit_once (CHR '':'') authority of
       Some (name, port) \<Rightarrow> if port \<noteq> [] \<and> list_all is_ascii_digit port then name else authority
     | None \<Rightarrow> authority)"

definition split_url :: "string \<Rightarrow> Url result" where
  "split_url url = (case str_get_to url 8 of
       Some pre \<Rightarrow>
         if \<not> eq_ignore_ascii_case pre ''https://'' then Inl invalid_url
         else if list_ex is_whitespace (utf8_chars url) then Inl invalid_url
         else
           (let rest = drop 8 url;
                (authority, path) = (case split_once (CHR ''/'') rest of Some ap \<Rightarrow> ap | None \<Rightarrow> (rest, []));
                path = hd (split_on (\<lambda>c. c = CHR ''?'' \<or> c = CHR ''#'') path)
            in if contains_char (CHR ''@'') authority then Inl invalid_url
               else
                 (let h = strip_port authority in
                  if h = [] \<or> prefix ''.'' h \<or> suffix ''.'' h then Inl invalid_url
                  else Inr \<lparr>host = h,
                    segments = filter (\<lambda>s. s \<noteq> []) (split_on (\<lambda>c. c = CHR ''/'') path)\<rparr>))
     | None \<Rightarrow> Inl invalid_url)"

section \<open>Tracker patterns\<close>

definition is_jira :: "Url \<Rightarrow> bool option" where
  "is_jira url =
     (if length (host url) \<le> length ATLASSIAN_SUFFIX then Some False
      else map_option (\<lambda>tail. eq_ignore_ascii_case tail ATLASSIAN_SUFFIX \<and>
               (case segments url of [b, key] \<Rightarrow> b = ''browse'' \<and> key \<noteq> [] | _ \<Rightarrow> False))
             (str_from (host url) (length (host url) - length ATLASSIAN_SUFFIX)))"

definition is_github :: "Url \<Rightarrow> bool" where
  "is_github url \<longleftrightarrow> eq_ignore_ascii_case (host url) GITHUB_HOST \<and>
     (case segments url of
        [owner, repo, issues, number] \<Rightarrow>
          issues = ''issues'' \<and> owner \<noteq> [] \<and> repo \<noteq> [] \<and> number \<noteq> []
      | _ \<Rightarrow> False)"

definition position :: "('a \<Rightarrow> bool) \<Rightarrow> 'a list \<Rightarrow> nat option" where
  "position p xs = (if list_ex p xs then Some (length (takeWhile (\<lambda>x. \<not> p x) xs)) else None)"

definition is_gitlab :: "Url \<Rightarrow> bool" where
  "is_gitlab url \<longleftrightarrow> eq_ignore_ascii_case (host url) GITLAB_HOST \<and>
     (case position (\<lambda>s. s = ''-'') (segments url) of
        None \<Rightarrow> False
      | Some separator \<Rightarrow>
          2 \<le> separator
          \<and> separator + 1 < length (segments url) \<and> segments url ! (separator + 1) = ''issues''
          \<and> separator + 2 < length (segments url) \<and> segments url ! (separator + 2) \<noteq> []
          \<and> separator + 3 = length (segments url))"

definition validate_url :: "string \<Rightarrow> string \<Rightarrow> unit result option" where
  "validate_url tracker_type url = (case split_url url of
       Inl e \<Rightarrow> Some (Inl e)
     | Inr parsed \<Rightarrow>
         map_option (\<lambda>accepted. guard accepted
             (invalid_request (''defectUrl is not a valid '' @ tracker_type @ '' issue URL'')))
           (if tracker_type = ''jira'' then is_jira parsed
            else Some (if tracker_type = ''github'' then is_github parsed
              else if tracker_type = ''gitlab'' then is_gitlab parsed
              else tracker_type = ''custom'')))"

section \<open>Requests and links\<close>

definition parse_request :: "(json \<Rightarrow> string) \<Rightarrow> json \<Rightarrow> DefectLinkRequest result option" where
  "parse_request serde_text body = (case DefectLinkRequest_from_value body of
       None \<Rightarrow> Some (Inl (invalid_request (''Defect link request is invalid: '' @ serde_text body)))
     | Some request \<Rightarrow>
         (case rall (\<lambda>(field, v). guard (v \<noteq> [])
                 (invalid_request (''Required field '' @ field @ '' is missing'')))
               [(''defectId'', dlr_defect_id request), (''defectUrl'', dlr_defect_url request),
                (''trackerType'', dlr_tracker_type request)] of
            Inl e \<Rightarrow> Some (Inl e)
          | Inr _ \<Rightarrow>
              if dlr_tracker_type request \<notin> set TRACKER_TYPES
              then Some (Inl (invalid_request (''Unsupported trackerType `'' @ dlr_tracker_type request
                     @ ''`; expected one of '' @ join_with '', '' TRACKER_TYPES)))
              else map_option (\<lambda>checked. rbind checked (\<lambda>_. Inr request))
                     (validate_url (dlr_tracker_type request) (dlr_defect_url request))))"

definition new_link :: "DefectLinkRequest \<Rightarrow> string \<Rightarrow> string \<Rightarrow> DefectLink" where
  "new_link request link_id linked_at =
     \<lparr>dl_link_id = link_id, dl_defect_id = dlr_defect_id request, dl_defect_url = dlr_defect_url request,
      dl_tracker_type = dlr_tracker_type request, dl_title = dlr_title request,
      dl_status = dlr_status request, dl_linked_at = linked_at\<rparr>"

section \<open>What an accepted link points to\<close>

text \<open>The authority of a URL as the source reads it: between the scheme and the next slash.\<close>

definition has_authority :: "string \<Rightarrow> string \<Rightarrow> bool" where
  "has_authority url authority \<longleftrightarrow> (\<exists>scheme rest. url = scheme @ authority @ rest
     \<and> eq_ignore_ascii_case scheme ''https://'' \<and> (rest = [] \<or> hd rest = CHR ''/'')
     \<and> CHR ''/'' \<notin> set authority \<and> CHR ''@'' \<notin> set authority)"

definition names_host :: "string \<Rightarrow> string \<Rightarrow> bool" where
  "names_host authority h \<longleftrightarrow> authority = h \<or>
     (\<exists>port. authority = h @ CHR '':'' # port \<and> port \<noteq> [] \<and> list_all is_ascii_digit port)"

lemma rsplit_once_SomeD: "rsplit_once c s = Some (a, b) \<Longrightarrow> s = a @ c # b"
  by (auto simp: rsplit_once_def dest!: split_once_SomeD) (metis append_Cons append_Nil append_assoc rev.simps(2) rev_append rev_rev_ident)

lemma strip_port_names: "names_host authority (strip_port authority)"
  by (auto simp: names_host_def strip_port_def split: option.splits dest!: rsplit_once_SomeD)

lemma split_url_host:
  assumes "split_url url = Inr u"
  shows "\<exists>authority. has_authority url authority \<and> names_host authority (host u)"
proof -
  obtain pre where pre: "str_get_to url 8 = Some pre" "eq_ignore_ascii_case pre ''https://''"
    using assms by (auto simp: split_url_def split: option.splits if_splits)
  define rest where "rest = drop 8 url"
  obtain authority path where ap: "(case split_once (CHR ''/'') rest of Some ap \<Rightarrow> ap | None \<Rightarrow> (rest, []))
      = (authority, path)" by (metis surj_pair)
  have url: "url = pre @ rest"
    using pre(1) by (auto simp: str_get_to_def rest_def split: if_splits)
  have at: "CHR ''@'' \<notin> set authority" and h: "host u = strip_port authority"
    using assms pre ap
    by (auto simp: split_url_def rest_def [symmetric] contains_char_def Let_def split: if_splits)
  have "\<exists>tail. rest = authority @ tail \<and> (tail = [] \<or> hd tail = CHR ''/'') \<and> CHR ''/'' \<notin> set authority"
  proof (cases "split_once (CHR ''/'') rest")
    case None
    with ap have "rest = authority" by simp
    with None show ?thesis by (auto simp: split_once_None_iff)
  next
    case (Some ap')
    with ap have "split_once (CHR ''/'') rest = Some (authority, path)" by simp
    from split_once_SomeD [OF this] show ?thesis by auto
  qed
  with at url pre(2) have "has_authority url authority" by (auto simp: has_authority_def)
  with h strip_port_names [of authority] show ?thesis by auto
qed

text \<open>C39. A link accepted for a known tracker points at that tracker's host: what stands between
  the https scheme and the next slash holds no user information, and up to an all-digit port it is
  github.com, gitlab.com or a name ending in .atlassian.net, in any case.\<close>

theorem accepted_link_host:
  assumes "validate_url tracker url = Some (Inr ())" "tracker \<noteq> ''custom''"
  shows "\<exists>authority h. has_authority url authority \<and> names_host authority h \<and>
     (tracker = ''github'' \<and> eq_ignore_ascii_case h ''github.com''
      \<or> tracker = ''gitlab'' \<and> eq_ignore_ascii_case h ''gitlab.com''
      \<or> tracker = ''jira'' \<and> (\<exists>site tail. site \<noteq> [] \<and> h = site @ tail \<and> eq_ignore_ascii_case tail ''.atlassian.net''))"
proof -
  obtain u where u: "split_url url = Inr u"
    using assms(1) by (cases "split_url url") (auto simp: validate_url_def)
  have jira: "\<exists>site tail. site \<noteq> [] \<and> host u = site @ tail \<and> eq_ignore_ascii_case tail ''.atlassian.net''"
    if "is_jira u = Some True"
  proof (intro exI conjI)
    let ?n = "length (host u) - length ATLASSIAN_SUFFIX"
    show "take ?n (host u) \<noteq> []" "host u = take ?n (host u) @ drop ?n (host u)"
      "eq_ignore_ascii_case (drop ?n (host u)) ''.atlassian.net''"
      using that by (auto simp: is_jira_def str_from_def ATLASSIAN_SUFFIX_def split: if_splits)
  qed
  have "tracker = ''github'' \<and> eq_ignore_ascii_case (host u) ''github.com''
      \<or> tracker = ''gitlab'' \<and> eq_ignore_ascii_case (host u) ''gitlab.com''
      \<or> tracker = ''jira'' \<and> is_jira u = Some True"
    using assms u
    by (auto simp: validate_url_def is_github_def is_gitlab_def GITHUB_HOST_def GITLAB_HOST_def
        split: if_splits)
  with jira split_url_host [OF u] show ?thesis by blast
qed

lemma split_url_github:
  "split_url ''https://github.com/o/r/issues/1'' =
     Inr \<lparr>host = ''github.com'', segments = [''o'', ''r'', ''issues'', ''1'']\<rparr>"
  using no_whitespace_graphic [of "''https://github.com/o/r/issues/1''"]
  by (simp add: split_url_def str_get_to_def is_char_boundary_def is_continuation_def is_ascii_graphic_def
      split_once_def contains_char_def strip_port_def rsplit_once_def prefix_def suffix_def del: utf8_chars.simps)

lemma accepted_link_host_witness:
  "\<exists>authority h. has_authority ''https://github.com/o/r/issues/1'' authority \<and> names_host authority h
     \<and> eq_ignore_ascii_case h ''github.com''"
proof -
  have "validate_url ''github'' ''https://github.com/o/r/issues/1'' = Some (Inr ())"
    by (simp add: validate_url_def split_url_github is_github_def GITHUB_HOST_def)
  from accepted_link_host [OF this] show ?thesis by auto
qed

text \<open>A host in the sense of RFC 3986 ends at a question mark or a number sign too, and the source
  does not stop there: the host below is \<^verbatim>\<open>evil.example\<close>, and the link is accepted as a Jira link.\<close>

lemma split_url_forged:
  "split_url ''https://evil.example?.atlassian.net/browse/K-1'' =
     Inr \<lparr>host = ''evil.example?.atlassian.net'', segments = [''browse'', ''K-1'']\<rparr>"
  using no_whitespace_graphic [of "''https://evil.example?.atlassian.net/browse/K-1''"]
  by (simp add: split_url_def str_get_to_def is_char_boundary_def is_continuation_def is_ascii_graphic_def
      split_once_def contains_char_def strip_port_def rsplit_once_def prefix_def suffix_def del: utf8_chars.simps)

lemma jira_host_can_be_forged:
  "validate_url ''jira'' ''https://evil.example?.atlassian.net/browse/K-1'' = Some (Inr ())"
  by (simp add: validate_url_def split_url_forged is_jira_def ATLASSIAN_SUFFIX_def str_from_def
      is_char_boundary_def is_continuation_def)

text \<open>A host whose last fourteen bytes begin inside a character makes the check panic.\<close>

lemma jira_check_panics:
  "is_jira \<lparr>host = concat (replicate 7 [CHR 0xC3, CHR 0xA9]) @ ''a'', segments = segs\<rparr> = None"
  by (simp add: is_jira_def ATLASSIAN_SUFFIX_def str_from_def is_char_boundary_def is_continuation_def
      numeral_nat)

end
