(* ===== verification/Import.thy ===== *)
theory Import
  imports Models Errors
begin

text \<open>
  Report import (\<^verbatim>\<open>src/domain/import.rs\<close>): the byte scan that bounds the nesting of a JUnit document
  before the recursive XML parser sees it, the mapping of its testcases, and the strict JSON reader.

  The scan walks a byte array by index; an index is represented by the rest of the array from there
  on, which is all the source ever looks at. The XML parser \<^verbatim>\<open>roxmltree\<close> and the JSON parser
  \<^verbatim>\<open>serde_json\<close> are parameters: functions from text to an optional tree. Of a tree the source only
  uses the tag names, the attributes, the children and the ancestors of a node.
\<close>

section \<open>Data\<close>

datatype ImportStatus = SPassed | SFailed | SBlocked

fun import_status_str :: "ImportStatus \<Rightarrow> string" where
  "import_status_str SPassed = ''Passed''"
| "import_status_str SFailed = ''Failed''"
| "import_status_str SBlocked = ''Blocked''"

record ParsedCase =
  pca_test_case_id :: string
  pca_status :: ImportStatus
  pca_notes :: "string option"
  pca_timestamp :: "string option"

record ParsedReport =
  pre_cases :: "ParsedCase list"
  pre_errors :: nat

definition MAX_ELEMENT_DEPTH :: nat where
  "MAX_ELEMENT_DEPTH = 100"

section \<open>The nesting bound\<close>

fun skip_past :: "string \<Rightarrow> string \<Rightarrow> string" where
  "skip_past delimiter [] = []"
| "skip_past delimiter (c # cs) =
     (if prefix delimiter (c # cs) then drop (length delimiter) (c # cs) else skip_past delimiter cs)"

text \<open>The end of a quoted value: past the closing quote, or the end of the document.\<close>

fun skip_quoted :: "char \<Rightarrow> string \<Rightarrow> string" where
  "skip_quoted quote [] = []"
| "skip_quoted quote (c # cs) = (if c = quote then cs else skip_quoted quote cs)"

lemma skip_quoted_length: "length (skip_quoted q s) \<le> length s"
  by (induction s) auto

lemma skip_past_length: "length (skip_past d s) \<le> length s"
  by (induction s) auto

function scan_tag :: "char option \<Rightarrow> string \<Rightarrow> bool \<times> string" where
  "scan_tag previous [] = (False, [])"
| "scan_tag previous (c # cs) =
     (if c = CHR ''>'' then (previous = Some (CHR ''/''), cs)
      else if c = CHR 0x22 \<or> c = CHR 0x27 then scan_tag (Some c) (skip_quoted c cs)
      else scan_tag (Some c) cs)"
  by pat_completeness auto
termination
  by (relation "measure (\<lambda>(p, s). length s)") (auto simp: skip_quoted_length less_Suc_eq_le)

lemma scan_tag_length: "length (snd (scan_tag p s)) \<le> length s"
proof (induction p s rule: scan_tag.induct)
  case (2 previous c cs)
  then show ?case using skip_quoted_length [of c cs] by (auto intro: le_trans)
qed simp

lemma scan_tag_rest: "scan_tag p s = (b, r) \<Longrightarrow> length r \<le> length s"
  using scan_tag_length [of p s] by simp

lemma skip_past_drop: "length (skip_past d (drop n s)) \<le> length s"
  using skip_past_length [of d "drop n s"] by simp

function nests_from :: "nat \<Rightarrow> string \<Rightarrow> bool" where
  "nests_from depth [] = False"
| "nests_from depth (c # cs) =
     (if c \<noteq> CHR ''<'' then nests_from depth cs
      else if prefix ''<!--'' (c # cs) then nests_from depth (skip_past ''-->'' (drop 3 cs))
      else if prefix ''<![CDATA['' (c # cs) then nests_from depth (skip_past '']]>'' (drop 8 cs))
      else if prefix ''?'' cs then nests_from depth (skip_past ''?>'' (drop 1 cs))
      else if prefix ''/'' cs then nests_from (depth - 1) (skip_past ''>'' cs)
      else (case scan_tag None cs of (self_closing, rest) \<Rightarrow>
              if self_closing then nests_from depth rest
              else if MAX_ELEMENT_DEPTH < depth + 1 then True
              else nests_from (depth + 1) rest))"
  by pat_completeness auto
termination
  by (relation "measure (\<lambda>(d, s). length s)")
     (auto simp: skip_past_drop skip_past_length less_Suc_eq_le dest!: scan_tag_rest [OF sym])

declare nests_from.simps [simp del]

definition nests_too_deeply :: "string \<Rightarrow> bool" where
  "nests_too_deeply xml = nests_from 0 xml"

section \<open>Testcases of a report\<close>

text \<open>A node of the parsed document: an element with its tag name, attributes and children, or
  anything else (text, comments, processing instructions).\<close>

datatype xml_node = Element (tag: string) (attributes: "(string \<times> string) list") (children: "xml_node list")
  | Other

fun has_tag_name :: "string \<Rightarrow> xml_node \<Rightarrow> bool" where
  "has_tag_name name (Element t as cs) \<longleftrightarrow> t = name"
| "has_tag_name name Other \<longleftrightarrow> False"

fun attribute :: "string \<Rightarrow> xml_node \<Rightarrow> string option" where
  "attribute name (Element t as cs) = map_of as name"
| "attribute name Other = None"

fun node_children :: "xml_node \<Rightarrow> xml_node list" where
  "node_children (Element t as cs) = cs"
| "node_children Other = []"

text \<open>The descendants of a node in document order, each with its ancestors, itself first, as
  \<^verbatim>\<open>Node::ancestors\<close> walks them.\<close>

fun descendants :: "xml_node list \<Rightarrow> xml_node \<Rightarrow> (xml_node \<times> xml_node list) list" where
  "descendants outer (Element t as cs) =
     (Element t as cs, Element t as cs # outer)
     # concat (map (descendants (Element t as cs # outer)) cs)"
| "descendants outer Other = [(Other, Other # outer)]"

definition is_failure :: "xml_node \<Rightarrow> bool" where
  "is_failure child \<longleftrightarrow> has_tag_name ''failure'' child \<or> has_tag_name ''error'' child"

definition status_of :: "xml_node \<Rightarrow> ImportStatus" where
  "status_of testcase =
     (if list_ex is_failure (node_children testcase) then SFailed
      else if list_ex (has_tag_name ''skipped'') (node_children testcase) then SBlocked
      else SPassed)"

definition failure_message :: "xml_node \<Rightarrow> string option" where
  "failure_message testcase =
     Option.bind (find is_failure (node_children testcase)) (attribute ''message'')"

definition suite_timestamp :: "xml_node list \<Rightarrow> string option" where
  "suite_timestamp ancestors =
     Option.bind (find (has_tag_name ''testsuite'') ancestors) (attribute ''timestamp'')"

definition nonempty :: "string option \<Rightarrow> string option" where
  "nonempty s = (case s of Some (c # cs) \<Rightarrow> Some (c # cs) | _ \<Rightarrow> None)"

definition map_case :: "xml_node \<times> xml_node list \<Rightarrow> ParsedCase option" where
  "map_case located = (case located of (testcase, ancestors) \<Rightarrow>
     map_option (\<lambda>name.
       \<lparr>pca_test_case_id = (case nonempty (attribute ''classname'' testcase) of
            Some classname \<Rightarrow> classname @ ''.'' @ name | None \<Rightarrow> name),
        pca_status = status_of testcase, pca_notes = failure_message testcase,
        pca_timestamp = suite_timestamp ancestors\<rparr>)
     (nonempty (attribute ''name'' testcase)))"

definition testcases :: "xml_node list \<Rightarrow> (xml_node \<times> xml_node list) list" where
  "testcases document =
     filter (\<lambda>(node, ancestors). has_tag_name ''testcase'' node) (concat (map (descendants []) document))"

definition collect_cases :: "(xml_node \<times> xml_node list) list \<Rightarrow> ParsedReport" where
  "collect_cases found = fold (\<lambda>located report. case map_case located of
       Some c \<Rightarrow> report\<lparr>pre_cases := pre_cases report @ [c]\<rparr>
     | None \<Rightarrow> report\<lparr>pre_errors := pre_errors report + 1\<rparr>)
     found \<lparr>pre_cases = [], pre_errors = 0\<rparr>"

definition parse :: "(string \<Rightarrow> xml_node list option) \<Rightarrow> string \<Rightarrow> ParsedReport result" where
  "parse parse_xml xml =
     (if nests_too_deeply xml then Inl (invalid_request ''JUnit XML nests elements too deeply'')
      else case parse_xml xml of
             None \<Rightarrow> Inl (invalid_request ''Malformed JUnit XML'')
           | Some document \<Rightarrow> Inr (collect_cases (testcases document)))"

section \<open>JSON results\<close>

record JsonEntry =
  je_test_case_id :: string
  je_status :: string
  je_notes :: "string option"
  je_timestamp :: "string option"

definition JsonEntry_from_value :: "json \<Rightarrow> JsonEntry option" where
  "JsonEntry_from_value v = do {
     look \<leftarrow> struct_view True [''testCaseId'', ''status'', ''notes'', ''timestamp''] v;
     x0 \<leftarrow> req dec_str (look ''testCaseId'');
     x1 \<leftarrow> req dec_str (look ''status'');
     x2 \<leftarrow> opt dec_str (look ''notes'');
     x3 \<leftarrow> opt dec_str (look ''timestamp'');
     Some \<lparr>je_test_case_id = x0, je_status = x1, je_notes = x2, je_timestamp = x3\<rparr>}"

definition unusable_body :: DomainError where
  "unusable_body = invalid_request
     ''Import body must be an array of results, or an object whose only field is `results`''"

definition map_json_entry :: "(json \<Rightarrow> string) \<Rightarrow> nat \<times> json \<Rightarrow> ParsedCase result" where
  "map_json_entry serde_text indexed = (case indexed of (index, v) \<Rightarrow>
     rbind (ok_or (invalid_request (''Import entry '' @ show_nat index @ '' is invalid: '' @ serde_text v))
              (JsonEntry_from_value v)) (\<lambda>entry.
     rbind (guard (je_test_case_id entry \<noteq> [])
              (invalid_request (''Import entry '' @ show_nat index @ '' is missing testCaseId''))) (\<lambda>_.
     rbind (if je_status entry = ''Passed'' then Inr SPassed
            else if je_status entry = ''Failed'' then Inr SFailed
            else if je_status entry = ''Blocked'' then Inr SBlocked
            else Inl invalid_import_status) (\<lambda>status.
       Inr \<lparr>pca_test_case_id = je_test_case_id entry, pca_status = status,
            pca_notes = je_notes entry, pca_timestamp = je_timestamp entry\<rparr>))))"

definition import_entries :: "json \<Rightarrow> json list result" where
  "import_entries v = (case v of
       Arr entries \<Rightarrow> Inr entries
     | Obj [(key, Arr entries)] \<Rightarrow> if key = ''results'' then Inr entries else Inl unusable_body
     | _ \<Rightarrow> Inl unusable_body)"

definition parse_json :: "(string \<Rightarrow> json option) \<Rightarrow> (json \<Rightarrow> string) \<Rightarrow> string \<Rightarrow> ParsedCase list result" where
  "parse_json from_slice serde_text body =
     rbind (ok_or (invalid_request ''Import body must be valid JSON'') (from_slice body)) (\<lambda>v.
     rbind (import_entries v) (\<lambda>entries.
       rmap (map_json_entry serde_text) (enumerate 0 entries)))"

section \<open>The scan is exact on well-formed documents\<close>

text \<open>Documents as they are written: a tag is a sequence of bare characters and quoted values, and
  comments, CDATA sections and processing instructions run to their own delimiter. Document type
  declarations are left out; the scan counts them as start tags.\<close>

datatype piece = Bare char | Quoted char string

datatype markup = Txt string | Comment string | CData string | Instr string
  | Empty "piece list" | Elem "piece list" "markup list" string

fun render_piece :: "piece \<Rightarrow> string" where
  "render_piece (Bare c) = [c]"
| "render_piece (Quoted q s) = q # s @ [q]"

fun piece_ok :: "piece \<Rightarrow> bool" where
  "piece_ok (Bare c) \<longleftrightarrow> c \<notin> {CHR ''>'', CHR 0x22, CHR 0x27}"
| "piece_ok (Quoted q s) \<longleftrightarrow> q \<in> {CHR 0x22, CHR 0x27} \<and> q \<notin> set s"

fun starts_name :: "piece list \<Rightarrow> bool" where
  "starts_name (Bare c # _) \<longleftrightarrow> c \<notin> {CHR ''!'', CHR ''?'', CHR ''/''}"
| "starts_name _ \<longleftrightarrow> False"

definition delimited :: "string \<Rightarrow> string \<Rightarrow> bool" where
  "delimited d s \<longleftrightarrow> (\<forall>i<length s. \<not> prefix d (drop i (s @ d)))"

fun render :: "markup \<Rightarrow> string" where
  "render (Txt s) = s"
| "render (Comment s) = ''<!--'' @ s @ ''-->''"
| "render (CData s) = ''<![CDATA['' @ s @ '']]>''"
| "render (Instr s) = ''<?'' @ s @ ''?>''"
| "render (Empty ps) = ''<'' @ concat (map render_piece ps) @ ''/>''"
| "render (Elem ps ms n) = ''<'' @ concat (map render_piece ps) @ ''>'' @ concat (map render ms) @ ''</'' @ n @ ''>''"

fun well_formed :: "markup \<Rightarrow> bool" where
  "well_formed (Txt s) \<longleftrightarrow> CHR ''<'' \<notin> set s"
| "well_formed (Comment s) \<longleftrightarrow> delimited ''-->'' s"
| "well_formed (CData s) \<longleftrightarrow> delimited '']]>'' s"
| "well_formed (Instr s) \<longleftrightarrow> delimited ''?>'' s"
| "well_formed (Empty ps) \<longleftrightarrow> starts_name ps \<and> list_all piece_ok ps"
| "well_formed (Elem ps ms n) \<longleftrightarrow> starts_name ps \<and> list_all piece_ok ps \<and> last ps \<noteq> Bare (CHR ''/'')
     \<and> list_all well_formed ms \<and> CHR ''>'' \<notin> set n"

text \<open>How deep start tags nest; an element closed in its own tag holds nothing.\<close>

fun depth :: "markup \<Rightarrow> nat" where
  "depth (Elem ps ms n) = Suc (foldr max (map depth ms) 0)"
| "depth _ = 0"

lemma skip_past_delimited:
  assumes "d \<noteq> []" "delimited d s"
  shows "skip_past d (s @ d @ r) = r"
  using assms(2)
proof (induction s)
  case Nil
  obtain c cs where "d = c # cs" using assms(1) by (cases d) auto
  then show ?case by simp
next
  case (Cons a s)
  have "\<not> prefix d ((a # s) @ d)" using Cons.prems by (auto simp: delimited_def)
  then have "\<not> prefix d (((a # s) @ d) @ r)"
    by (metis prefix_length_prefix length_append le_add2 prefixI)
  moreover have "delimited d s"
    using Cons.prems by (auto simp: delimited_def)
  ultimately show ?case using Cons.IH by simp
qed

lemma skip_past_char: "c \<notin> set n \<Longrightarrow> skip_past [c] (n @ c # r) = r"
  by (induction n) auto

lemma skip_quoted_append: "q \<notin> set s \<Longrightarrow> skip_quoted q (s @ q # r) = r"
  by (induction s) auto

fun mark :: "piece \<Rightarrow> char" where
  "mark (Bare c) = c"
| "mark (Quoted q s) = q"

lemma scan_tag_pieces:
  "list_all piece_ok ps \<Longrightarrow>
     scan_tag p (concat (map render_piece ps) @ r) =
     scan_tag (if ps = [] then p else Some (mark (last ps))) r"
proof (induction ps arbitrary: p)
  case (Cons x ps)
  then show ?case by (cases x) (auto simp: skip_quoted_append)
qed simp

lemma scan_open_tag:
  assumes "starts_name ps" "list_all piece_ok ps" "last ps \<noteq> Bare (CHR ''/'')"
  shows "scan_tag None (concat (map render_piece ps) @ CHR ''>'' # r) = (False, r)"
proof -
  have "ps \<noteq> []" using assms(1) by auto
  moreover from this have "piece_ok (last ps)" using assms(2) by (simp add: list_all_iff)
  ultimately show ?thesis
    using assms by (cases "last ps") (auto simp: scan_tag_pieces)
qed

lemma scan_empty_tag:
  assumes "list_all piece_ok ps"
  shows "scan_tag None (concat (map render_piece ps) @ CHR ''/'' # CHR ''>'' # r) = (True, r)"
  using assms by (simp add: scan_tag_pieces)

lemma tag_start:
  assumes "starts_name ps"
  shows "\<not> prefix ''!--'' (concat (map render_piece ps) @ r)"
    "\<not> prefix ''![CDATA['' (concat (map render_piece ps) @ r)"
    "\<not> prefix ''?'' (concat (map render_piece ps) @ r)" "\<not> prefix ''/'' (concat (map render_piece ps) @ r)"
  using assms by (cases ps rule: starts_name.cases; auto)+

lemma nests_from_text: "CHR ''<'' \<notin> set s \<Longrightarrow> nests_from d (s @ r) = nests_from d r"
  by (induction s) (auto simp: nests_from.simps)

lemma nests_from_render:
  "well_formed m \<Longrightarrow> d \<le> MAX_ELEMENT_DEPTH \<Longrightarrow>
     nests_from d (render m @ r) \<longleftrightarrow> MAX_ELEMENT_DEPTH < d + depth m \<or> nests_from d r"
proof (induction m arbitrary: d r)
  case (Txt s)
  then show ?case by (simp add: nests_from_text)
next
  case (Comment s)
  then show ?case using skip_past_delimited [of "''-->''" s r] by (simp add: nests_from.simps)
next
  case (CData s)
  then show ?case using skip_past_delimited [of "'']]>''" s r] by (simp add: nests_from.simps)
next
  case (Instr s)
  then show ?case using skip_past_delimited [of "''?>''" s r] by (simp add: nests_from.simps)
next
  case (Empty ps)
  then show ?case
    by (simp add: nests_from.simps(2) tag_start scan_empty_tag)
next
  case (Elem ps ms n)
  have inner: "nests_from e (concat (map render ks) @ q) \<longleftrightarrow>
      MAX_ELEMENT_DEPTH < e + foldr max (map depth ks) 0 \<or> nests_from e q"
    if "e \<le> MAX_ELEMENT_DEPTH" "set ks \<subseteq> set ms" for e ks q
    using that(2)
  proof (induction ks)
    case (Cons k ks)
    have "well_formed k" using Cons.prems Elem.prems(1) by (auto simp: list_all_iff)
    with Cons Elem.IH [of k e "concat (map render ks) @ q"] that(1) show ?case by auto
  qed (use that(1) in simp)
  have close: "nests_from (Suc d) (CHR ''<'' # CHR ''/'' # n @ CHR ''>'' # r) = nests_from d r"
    using Elem.prems(1) skip_past_char [of "CHR ''>''" "CHR ''/'' # n" r] by (simp add: nests_from.simps(2))
  have "nests_from d (render (Elem ps ms n) @ r) \<longleftrightarrow> MAX_ELEMENT_DEPTH < d + 1 \<or>
      nests_from (Suc d) (concat (map render ms) @ CHR ''<'' # CHR ''/'' # n @ CHR ''>'' # r)"
    using Elem.prems(1) by (simp add: nests_from.simps(2) tag_start scan_open_tag)
  also have "\<dots> \<longleftrightarrow> MAX_ELEMENT_DEPTH < d + depth (Elem ps ms n) \<or> nests_from d r"
    using inner [of "Suc d" ms] close by (cases "MAX_ELEMENT_DEPTH < d + 1") auto
  finally show ?case .
qed

text \<open>C38. The scan that protects the recursive XML parser is exact: on every well-formed document
  without a document type declaration it refuses precisely when start tags nest more than one
  hundred levels deep, whatever comments, CDATA sections, processing instructions and quoted
  attribute values contain.\<close>

theorem nests_too_deeply_exact:
  assumes "list_all well_formed ms"
  shows "nests_too_deeply (concat (map render ms)) \<longleftrightarrow> (\<exists>m\<in>set ms. 100 < depth m)"
proof -
  have "nests_from 0 (concat (map render ms)) \<longleftrightarrow> (\<exists>m\<in>set ms. MAX_ELEMENT_DEPTH < depth m)"
    using assms by (induction ms) (auto simp: nests_from_render nests_from.simps(1))
  then show ?thesis by (simp add: nests_too_deeply_def MAX_ELEMENT_DEPTH_def)
qed

lemma nests_too_deeply_exact_witness:
  "\<not> nests_too_deeply (concat (map render
     [Elem [Bare (CHR ''a''), Quoted (CHR 0x22) ''<b>''] [Comment ''<c><d>'', Empty [Bare (CHR ''e'')]] ''a'']))"
proof -
  let ?m = "Elem [Bare (CHR ''a''), Quoted (CHR 0x22) ''<b>''] [Comment ''<c><d>'', Empty [Bare (CHR ''e'')]] ''a''"
  have "delimited ''-->'' ''<c><d>''"
    by (auto simp: delimited_def less_Suc_eq)
  then have "list_all well_formed [?m]" by simp
  from nests_too_deeply_exact [OF this] show ?thesis by simp
qed

section \<open>What an import reports\<close>

fun count_tag :: "string \<Rightarrow> xml_node \<Rightarrow> nat" where
  "count_tag name (Element t as cs) = (if t = name then 1 else 0) + sum_list (map (count_tag name) cs)"
| "count_tag name Other = 0"

lemma length_descendants:
  "length (filter (\<lambda>(node, ancestors). has_tag_name name node) (descendants outer node)) = count_tag name node"
proof (induction node arbitrary: outer)
  case (Element t as cs)
  have "length (filter (\<lambda>(node, ancestors). has_tag_name name node) (concat (map (descendants o') ks))) =
      sum_list (map (count_tag name) ks)" if "set ks \<subseteq> set cs" for ks o'
    using that Element.IH by (induction ks) auto
  from this [of cs] show ?case by simp
qed simp

lemma length_testcases: "length (testcases document) = sum_list (map (count_tag ''testcase'') document)"
  by (induction document) (simp_all add: testcases_def length_descendants)

lemma collect_cases_fold:
  "fold (\<lambda>located report. case map_case located of
       Some c \<Rightarrow> report\<lparr>pre_cases := pre_cases report @ [c]\<rparr>
     | None \<Rightarrow> report\<lparr>pre_errors := pre_errors report + 1\<rparr>) found report =
   report\<lparr>pre_cases := pre_cases report @ List.map_filter map_case found,
          pre_errors := pre_errors report + length (filter (\<lambda>l. map_case l = None) found)\<rparr>"
  by (induction found arbitrary: report) (auto simp: List.map_filter_simps split: option.splits)

lemma length_map_filter:
  "length (List.map_filter f xs) + length (filter (\<lambda>x. f x = None) xs) = length xs"
  by (induction xs) (auto simp: List.map_filter_simps split: option.splits)

lemma nonempty_Some: "nonempty s = Some t \<longleftrightarrow> s = Some t \<and> t \<noteq> []"
  by (auto simp: nonempty_def split: option.splits list.splits)

lemma map_case_named:
  "map_case l = Some c \<Longrightarrow> pca_test_case_id c \<noteq> []
     \<and> pca_status c = status_of (fst l) \<and> attribute ''name'' (fst l) \<notin> {None, Some []}"
  by (cases l) (auto simp: map_case_def nonempty_Some split: option.splits)

text \<open>A JUnit import accounts for every testcase of the report: the mapped cases and the counted
  errors add up to the number of testcase elements at any depth, the mapped cases keep document
  order, and each of them has a non-empty identifier and the status its element calls for.\<close>

theorem junit_import_accounts:
  assumes "parse parse_xml xml = Inr report"
  shows "\<exists>document. parse_xml xml = Some document
    \<and> length (pre_cases report) + pre_errors report = sum_list (map (count_tag ''testcase'') document)
    \<and> pre_cases report = List.map_filter map_case (testcases document)
    \<and> (\<forall>c\<in>set (pre_cases report). pca_test_case_id c \<noteq> [] \<and>
         (\<exists>(node, ancestors)\<in>set (testcases document). pca_status c = status_of node))"
proof -
  obtain document where d: "parse_xml xml = Some document" "report = collect_cases (testcases document)"
    using assms by (auto simp: parse_def split: if_splits option.splits)
  have c: "pre_cases report = List.map_filter map_case (testcases document)"
    "pre_errors report = length (filter (\<lambda>l. map_case l = None) (testcases document))"
    by (simp_all add: d(2) collect_cases_def collect_cases_fold)
  have "pca_test_case_id k \<noteq> [] \<and> (\<exists>(node, ancestors)\<in>set (testcases document). pca_status k = status_of node)"
    if k: "k \<in> set (pre_cases report)" for k
  proof -
    obtain l where "l \<in> set (testcases document)" "map_case l = Some k"
      using k by (auto simp: c map_filter_def)
    then show ?thesis using map_case_named [of l k] by (auto intro!: bexI [of _ l])
  qed
  then show ?thesis
    using d(1) c length_map_filter [of map_case "testcases document"] by (auto simp: length_testcases)
qed

definition sample_report :: "xml_node list" where
  "sample_report = [Element ''testsuite'' [(''timestamp'', ''t'')]
     [Element ''testcase'' [(''name'', ''n''), (''classname'', ''c'')] [Element ''skipped'' [] []],
      Other, Element ''testcase'' [] []]]"

lemma junit_import_accounts_witness:
  "pre_errors (collect_cases (testcases sample_report)) = 1
   \<and> map pca_test_case_id (pre_cases (collect_cases (testcases sample_report))) = [''c.n'']"
proof -
  have "parse (\<lambda>_. Some sample_report) [] = Inr (collect_cases (testcases sample_report))"
    by (simp add: parse_def nests_too_deeply_def nests_from.simps)
  from junit_import_accounts [OF this] show ?thesis
    by (auto simp: sample_report_def testcases_def map_case_def nonempty_def List.map_filter_simps)
qed

lemma import_entries_Inr:
  "import_entries v = Inr es \<longleftrightarrow> v = Arr es \<or> v = Obj [(''results'', Arr es)]"
proof (cases v)
  case (Obj m)
  then show ?thesis
  proof (cases m)
    case (Cons kv m')
    with Obj show ?thesis
      by (cases kv; cases "snd kv"; cases m') (auto simp: import_entries_def)
  qed (simp add: import_entries_def)
qed (auto simp: import_entries_def)

lemma import_entries_Inl: "import_entries v = Inl e \<Longrightarrow> e = unusable_body"
proof (cases v)
  case (Obj m)
  then show "import_entries v = Inl e \<Longrightarrow> e = unusable_body"
  proof (cases m)
    case (Cons kv m')
    with Obj show "import_entries v = Inl e \<Longrightarrow> e = unusable_body"
      by (cases kv; cases "snd kv"; cases m') (auto simp: import_entries_def split: if_splits)
  qed (simp add: import_entries_def)
qed (auto simp: import_entries_def)

lemma map_json_entry_code:
  "map_json_entry serde_text x = Inl e \<Longrightarrow> code e = ''invalid_request'' \<or> code e = ''invalid_status''"
  by (cases x) (auto simp: map_json_entry_def rbind_Inl_iff invalid_request_def
      invalid_import_status_def split: if_splits)

lemma map_json_entries_code:
  "rmap (map_json_entry serde_text) xs = Inl e \<Longrightarrow> code e = ''invalid_request'' \<or> code e = ''invalid_status''"
  by (induction xs) (auto simp: rbind_Inl_iff dest: map_json_entry_code)

text \<open>A JSON import is all or nothing: a body is accepted exactly when it is an array of entries,
  or an object whose only field \<open>results\<close> holds one, and every entry is accepted; then the cases
  are the entries in order. Every refusal is an invalid request.\<close>

theorem parse_json_all_or_nothing:
  "(parse_json from_slice serde_text body = Inr cases \<longleftrightarrow>
     (\<exists>entries. from_slice body \<in> {Some (Arr entries), Some (Obj [(''results'', Arr entries)])}
        \<and> list_all2 (\<lambda>e c. map_json_entry serde_text e = Inr c) (enumerate 0 entries) cases))
   \<and> (\<forall>e. parse_json from_slice serde_text body = Inl e \<longrightarrow> code e \<in> {''invalid_request'', ''invalid_status''})"
proof
  show "parse_json from_slice serde_text body = Inr cases \<longleftrightarrow>
     (\<exists>entries. from_slice body \<in> {Some (Arr entries), Some (Obj [(''results'', Arr entries)])}
        \<and> list_all2 (\<lambda>e c. map_json_entry serde_text e = Inr c) (enumerate 0 entries) cases)"
    by (auto simp: parse_json_def rbind_Inr_iff rmap_Inr_iff import_entries_Inr)
  show "\<forall>e. parse_json from_slice serde_text body = Inl e \<longrightarrow> code e \<in> {''invalid_request'', ''invalid_status''}"
    by (auto simp: parse_json_def rbind_Inl_iff unusable_body_def invalid_request_def
        dest!: import_entries_Inl map_json_entries_code)
qed

lemma parse_json_all_or_nothing_witness:
  "\<exists>e. parse_json (\<lambda>_. Some Null) (\<lambda>_. []) [] = Inl e \<and> code e \<in> {''invalid_request'', ''invalid_status''}"
proof -
  have "parse_json (\<lambda>_. Some Null) (\<lambda>_. []) [] = Inl unusable_body"
    by (simp add: parse_json_def import_entries_def)
  with parse_json_all_or_nothing [of "\<lambda>_. Some Null" "\<lambda>_. []" "[]" "[]"] show ?thesis by blast
qed

text \<open>An entry need not be an object: the derived decoder also reads a positional array.\<close>

lemma parse_json_accepts_positional_entries:
  "parse_json (\<lambda>_. Some (Arr [Arr [Str ''TC1'', Str ''Passed'', Null, Null]])) (\<lambda>_. []) [] =
     Inr [\<lparr>pca_test_case_id = ''TC1'', pca_status = SPassed, pca_notes = None, pca_timestamp = None\<rparr>]"
  by (simp add: parse_json_def import_entries_def map_json_entry_def JsonEntry_from_value_def struct_view_def dec_str_def
      opt_def)

end
