(* ===== verification/Cache.thy ===== *)
theory Cache
  imports Json Errors
begin

text \<open>
  The write-invalidated cache of derived answers (\<^verbatim>\<open>src/domain/service/cache.rs\<close>) and the keys the
  reports build for it. The generation is a wrapping 64-bit counter, an instant is a natural number
  of nanoseconds, and a poisoned lock, which only a panic while holding it produces, is left out.

  Answering from the cache is two steps in the source: the value is computed, and then stored under
  whatever generation is current by then. Run one after the other they never serve a stale answer
  (\<open>cache_answers_are_fresh\<close>); with a write in between they do (\<open>cache_race_serves_stale\<close>).
\<close>

section \<open>The cache\<close>

record Entry =
  en_generation :: "64 word"
  en_written :: nat
  en_value :: json

record DerivationCache =
  generation :: "64 word"
  entries :: "Entry btree"

definition MAX_AGE :: nat where
  "MAX_AGE = 45 * 10 ^ 9"

definition empty_cache :: DerivationCache where
  "empty_cache = \<lparr>generation = 0, entries = []\<rparr>"

definition cache_get :: "nat \<Rightarrow> string \<Rightarrow> DerivationCache \<Rightarrow> json option" where
  "cache_get now key c = Option.bind (map_of (entries c) key) (\<lambda>e.
     if en_generation e = generation c \<and> now - en_written e < MAX_AGE then Some (en_value e) else None)"

definition cache_put :: "nat \<Rightarrow> string \<Rightarrow> json \<Rightarrow> DerivationCache \<Rightarrow> DerivationCache" where
  "cache_put now key v c = c\<lparr>entries := obj_insert key
       \<lparr>en_generation = generation c, en_written = now, en_value = v\<rparr>
       (filter (\<lambda>(k, e). en_generation e = generation c) (entries c))\<rparr>"

definition invalidate :: "DerivationCache \<Rightarrow> DerivationCache" where
  "invalidate c = c\<lparr>generation := generation c + 1\<rparr>"

definition scope_key :: "string list option \<Rightarrow> string" where
  "scope_key reachable = (case reachable of
       None \<Rightarrow> ''*''
     | Some projects \<Rightarrow> concat (map (\<lambda>p. show_nat (length p) @ '':'' @ p) projects))"

definition optional_key :: "string option \<Rightarrow> string" where
  "optional_key v = (case v of None \<Rightarrow> ''-'' | Some s \<Rightarrow> show_nat (length s) @ '':'' @ s)"

text \<open>\<^verbatim>\<open>cached_derivations\<close> over a store of any kind: the value cached for the key, or the one computed
  now, which is stored.\<close>

definition cached_derivations ::
  "nat \<Rightarrow> string \<Rightarrow> json result \<Rightarrow> DerivationCache \<Rightarrow> json result \<times> DerivationCache" where
  "cached_derivations now key computed c = (case cache_get now key c of
       Some hit \<Rightarrow> (Inr hit, c)
     | None \<Rightarrow> (case computed of
           Inl e \<Rightarrow> (Inl e, c)
         | Inr v \<Rightarrow> (Inr v, cache_put now key v c)))"

section \<open>Answers are fresh on one replica\<close>

text \<open>A run of the service as the cache sees it: a store, questions asked by key, and writes, each of
  which installs a new store and retires the cache.\<close>

datatype 's cache_event = Ask nat string | Write 's

fun cache_step :: "(string \<Rightarrow> 's \<Rightarrow> json result) \<Rightarrow> 's cache_event \<Rightarrow> 's \<times> DerivationCache \<Rightarrow> 's \<times> DerivationCache" where
  "cache_step f (Ask now key) (s, c) = (s, snd (cached_derivations now key (f key s) c))"
| "cache_step f (Write s') (s, c) = (s', invalidate c)"

fun writes :: "'s cache_event list \<Rightarrow> nat" where
  "writes [] = 0"
| "writes (Ask _ _ # es) = writes es"
| "writes (Write _ # es) = Suc (writes es)"

definition cache_ok :: "(string \<Rightarrow> 's \<Rightarrow> json result) \<Rightarrow> nat \<Rightarrow> 's \<times> DerivationCache \<Rightarrow> bool" where
  "cache_ok f n sc \<longleftrightarrow> unat (generation (snd sc)) = n \<and> obj_sorted (entries (snd sc)) \<and>
     (\<forall>k e. map_of (entries (snd sc)) k = Some e \<longrightarrow> unat (en_generation e) \<le> n \<and>
        (en_generation e = generation (snd sc) \<longrightarrow> f k (fst sc) = Inr (en_value e)))"

lemma map_of_filter_SomeD:
  "distinct (map fst m) \<Longrightarrow> map_of (filter P m) k = Some v \<Longrightarrow> map_of m k = Some v"
  by (metis (no_types, lifting) distinct_map_filter filter_is_subset map_of_eq_Some_iff subsetD)

lemma obj_sorted_filter: "obj_sorted m \<Longrightarrow> obj_sorted (filter P m)"
  by (induction m) (auto simp: obj_sorted_Cons)

lemma cached_answer_fresh:
  assumes "cache_ok f n (s, c)"
  shows "fst (cached_derivations now key (f key s) c) = f key s"
  using assms
  by (auto simp: cached_derivations_def cache_get_def cache_ok_def split: option.splits sum.splits bind_splits if_splits)

lemma cache_put_ok:
  assumes ok: "cache_ok f n (s, c)" and v: "f key s = Inr v"
  shows "cache_ok f n (s, cache_put now key v c)"
proof -
  have sorted: "obj_sorted (entries c)" and n: "unat (generation c) = n" using ok by (auto simp: cache_ok_def)
  let ?m = "filter (\<lambda>(k, e). en_generation e = generation c) (entries c)"
  have kept: "map_of (entries c) k = Some e" if "map_of ?m k = Some e" for k e
    using map_of_filter_SomeD [OF obj_sorted_distinct [OF sorted] that] .
  have "obj_sorted (obj_insert key x ?m)" for x
    by (intro obj_sorted_insert obj_sorted_filter sorted)
  moreover have "unat (en_generation e) \<le> n \<and> (en_generation e = generation c \<longrightarrow> f k s = Inr (en_value e))"
    if "map_of (entries (cache_put now key v c)) k = Some e" for k e
    using that kept [of k e] ok v n by (auto simp: cache_put_def cache_ok_def split: if_splits)
  ultimately show ?thesis using n by (auto simp: cache_ok_def cache_put_def)
qed

lemma cache_step_ok:
  assumes "cache_ok f n sc" "Suc n < 2 ^ 64 \<or> (\<exists>now key. ev = Ask now key)"
  shows "cache_ok f (n + writes [ev]) (cache_step f ev sc)"
proof (cases ev)
  case (Ask now key)
  obtain s c where sc: "sc = (s, c)" by force
  show ?thesis
    using assms(1) cache_put_ok [of f n s c key]
    by (auto simp: Ask sc cached_derivations_def split: option.splits sum.splits)
next
  case (Write s')
  obtain s c where sc: "sc = (s, c)" by force
  from assms have n: "unat (generation c) = n" "Suc n < 2 ^ 64"
    by (auto simp: Write sc cache_ok_def)
  then have g: "unat (generation c + 1) = Suc n"
    by (simp add: unat_add_lem [THEN iffD1])
  have "en_generation e \<noteq> generation c + 1" if "map_of (entries c) k = Some e" for k e
    using assms(1) that g n(1) unfolding sc cache_ok_def by (metis Suc_n_not_le_n snd_conv)
  with assms(1) g show ?thesis
    by (auto simp: Write sc cache_ok_def invalidate_def intro: le_SucI)
qed

lemma cache_run_ok:
  "cache_ok f n sc \<Longrightarrow> n + writes es < 2 ^ 64 \<Longrightarrow> cache_ok f (n + writes es) (fold (cache_step f) es sc)"
proof (induction es arbitrary: n sc)
  case (Cons ev es)
  have "cache_ok f (n + writes [ev]) (cache_step f ev sc)"
    using Cons.prems by (intro cache_step_ok) (cases ev; auto)+
  then have "cache_ok f (n + writes [ev] + writes es) (fold (cache_step f) es (cache_step f ev sc))"
    using Cons.prems by (intro Cons.IH) (cases ev; auto)+
  then show ?case by (cases ev) auto
qed simp

text \<open>C28. On one replica a cached answer is never stale: after any sequence of questions and writes,
  fewer than \<open>2 ^ 64\<close> writes among them, the answer to a question is what computing it on the current
  store gives, an error included. The key has to determine the computation.\<close>

theorem cache_answers_are_fresh:
  assumes "writes es < 2 ^ 64"
    and "fold (cache_step f) es (s0, empty_cache) = (s, c)"
  shows "fst (cached_derivations now key (f key s) c) = f key s"
proof -
  have "cache_ok f 0 (s0, empty_cache)" by (simp add: cache_ok_def empty_cache_def)
  from cache_run_ok [OF this, of es] assms have "cache_ok f (writes es) (s, c)" by simp
  then show ?thesis by (rule cached_answer_fresh)
qed

lemma cache_answers_are_fresh_witness:
  "fst (cached_derivations 5 ''k'' (Inr (JBool False)) (invalidate (cache_put 1 ''k'' (JBool True) empty_cache))) =
     Inr (JBool False)"
  using cache_answers_are_fresh [of "[Ask 1 ''k'', Write False]" "\<lambda>_ b. Inr (JBool b)" True False
      "invalidate (cache_put 1 ''k'' (JBool True) empty_cache)" 5 "''k''"]
  by (simp add: cached_derivations_def cache_get_def empty_cache_def)

text \<open>With a write between computing and storing, the value computed before the write is filed
  under the generation that follows it, and answers from then on: two requests interleaved this way
  leave a stale answer in the cache until it ages out.\<close>

theorem cache_race_serves_stale:
  assumes "now - t < MAX_AGE"
  shows "cache_get now key (cache_put t key (old :: json) (invalidate c)) = Some old"
  using assms by (simp add: cache_get_def cache_put_def invalidate_def)

lemma cache_race_serves_stale_witness:
  "cache_get 1 ''k'' (cache_put 0 ''k'' Null (invalidate empty_cache)) = Some Null"
  by (rule cache_race_serves_stale) (simp add: MAX_AGE_def)

section \<open>Keys\<close>

lemma digits_colon:
  assumes "show_nat m @ CHR '':'' # s = show_nat n @ CHR '':'' # t"
  shows "m = n \<and> s = t"
proof -
  have c: "CHR '':'' \<notin> set (show_nat k)" for k
    using show_nat_digits [of "CHR '':''" k] by (auto simp: is_ascii_digit_def)
  have "split_once (CHR '':'') (show_nat m @ CHR '':'' # s) = Some (show_nat m, s)"
    "split_once (CHR '':'') (show_nat n @ CHR '':'' # t) = Some (show_nat n, t)"
    by (simp_all only: split_once_append [OF c])
  then have "(show_nat m, s) = (show_nat n, t)" by (metis assms option.inject)
  then show ?thesis by (metis prod.inject show_nat_inject)
qed

lemma prefixed_inject:
  assumes "show_nat (length s) @ CHR '':'' # s @ r = show_nat (length t) @ CHR '':'' # t @ q"
  shows "s = t \<and> r = q"
  using digits_colon [OF assms] by (metis append_eq_append_conv)

lemma show_nat_head: "\<exists>c cs. show_nat n = c # cs \<and> is_ascii_digit c"
  using show_nat_digits [of "hd (show_nat n)" n] by (cases "show_nat n") auto

lemma optional_key_inject:
  assumes "optional_key a @ r = optional_key b @ q"
  shows "a = b \<and> r = q"
proof -
  have "\<not> is_ascii_digit (CHR ''-'')" by (simp add: is_ascii_digit_def)
  then show ?thesis
    using assms show_nat_head [of "length (the a)"] show_nat_head [of "length (the b)"]
      prefixed_inject [of "the a" r "the b" q]
    by (cases a; cases b) (auto simp: optional_key_def)
qed

lemma scope_entries_inject:
  "concat (map (\<lambda>p. show_nat (length p) @ '':'' @ p) xs) @ CHR ''|'' # r =
   concat (map (\<lambda>p. show_nat (length p) @ '':'' @ p) ys) @ CHR ''|'' # q \<Longrightarrow> xs = ys \<and> r = q"
proof (induction xs arbitrary: ys)
  case Nil
  have "\<not> is_ascii_digit (CHR ''|'')" by (simp add: is_ascii_digit_def)
  with Nil show ?case using show_nat_head [of "length (hd ys)"] by (cases ys) auto
next
  case (Cons x xs)
  have "\<not> is_ascii_digit (CHR ''|'')" by (simp add: is_ascii_digit_def)
  with Cons.prems obtain y zs where ys: "ys = y # zs"
    using show_nat_head [of "length x"] by (cases ys) auto
  from Cons.prems have "show_nat (length x) @ CHR '':'' # x @ (concat (map (\<lambda>p. show_nat (length p) @ '':'' @ p) xs) @ CHR ''|'' # r) =
      show_nat (length y) @ CHR '':'' # y @ (concat (map (\<lambda>p. show_nat (length p) @ '':'' @ p) zs) @ CHR ''|'' # q)"
    by (simp add: ys)
  from prefixed_inject [OF this] Cons.IH [of zs] show ?case by (simp add: ys)
qed

lemma scope_key_inject:
  assumes "scope_key a @ CHR ''|'' # r = scope_key b @ CHR ''|'' # q"
  shows "a = b \<and> r = q"
proof -
  have star: "\<not> is_ascii_digit (CHR ''*'')" "CHR ''*'' \<noteq> CHR ''|''" by (simp_all add: is_ascii_digit_def)
  have head: "concat (map (\<lambda>p. show_nat (length p) @ '':'' @ p) xs) @ CHR ''|'' # r \<noteq> CHR ''*'' # q" for xs r q
    using star show_nat_head [of "length (hd xs)"] by (cases xs) auto
  show ?thesis
  proof (cases a)
    case None
    then show ?thesis
      using assms head [of _ q "CHR ''|'' # r"] by (cases b) (auto simp: scope_key_def)
  next
    case a: (Some xs)
    show ?thesis
    proof (cases b)
      case None
      with a show ?thesis using assms head [of xs r "CHR ''|'' # q"] by (simp add: scope_key_def)
    next
      case (Some ys)
      with a show ?thesis using assms scope_entries_inject [of xs r ys q] by (simp add: scope_key_def)
    qed
  qed
qed

end
