(* ===== verification/Service.thy ===== *)
theory Service
  imports Documents Repository Cache
begin

text \<open>
  The application service (\<^verbatim>\<open>src/domain/service/mod.rs\<close> and \<^verbatim>\<open>crud.rs\<close>): resolution of identifiers,
  assembly of the documents a read serves, and the create, update and delete paths over the file
  repository.

  A \<open>TestService\<close> record holds what a request sees besides the store: the repository, the clock as
  the texts and the instant the source reads from it, the suffix \<^verbatim>\<open>unique_suffix\<close> draws, the
  Unicode \<^verbatim>\<open>to_lowercase\<close> of the standard library, and the text \<^verbatim>\<open>serde_json\<close> gives when a value
  does not decode. The state is the file system and the derivation
  cache; a reading operation is a function of the file system, a writing one a state transformer.
  The audit log the source wraps writes in has no effect on either and is left out.
\<close>

section \<open>State and operations\<close>

record TestService =
  repository :: FileRepository
  iso_now :: string
  secs_now :: string
  instant_now :: nat
  suffix_now :: nat
  to_lowercase :: "string \<Rightarrow> string"
  serde_text :: "json \<Rightarrow> string"

record Svc =
  files :: fs
  derivations :: DerivationCache

type_synonym 'a sop = "Svc \<Rightarrow> 'a result \<times> Svc"

definition sbind :: "'a sop \<Rightarrow> ('a \<Rightarrow> 'b sop) \<Rightarrow> 'b sop" where
  "sbind m f st = (case m st of (Inl e, st') \<Rightarrow> (Inl e, st') | (Inr x, st') \<Rightarrow> f x st')"

definition slift :: "'a result \<Rightarrow> 'a sop" where
  "slift r st = (r, st)"

definition sread :: "(fs \<Rightarrow> 'a result) \<Rightarrow> 'a sop" where
  "sread g st = (g (files st), st)"

text \<open>A storage operation with its error classified.\<close>

definition sio :: "(io_error \<Rightarrow> DomainError) \<Rightarrow> 'a op \<Rightarrow> 'a sop" where
  "sio err m st = (case m (files st) of (r, fs) \<Rightarrow> (map_err err r, st\<lparr>files := fs\<rparr>))"

text \<open>\<^verbatim>\<open>inspect(|_| self.derivations.invalidate())\<close>: a success retires the derived answers.\<close>

definition invalidating :: "'a sop \<Rightarrow> 'a sop" where
  "invalidating m = sbind m (\<lambda>x st. (Inr x, st\<lparr>derivations := invalidate (derivations st)\<rparr>))"

lemma sbind_simps [simp]:
  "m st = (Inl e, st') \<Longrightarrow> sbind m f st = (Inl e, st')"
  "m st = (Inr x, st') \<Longrightarrow> sbind m f st = f x st'"
  by (simp_all add: sbind_def)

lemma sbind_slift [simp]: "sbind (slift (Inr x)) f = f x" "sbind (slift (Inl e)) f = slift (Inl e)"
  by (rule ext, simp add: sbind_def slift_def)+

lemma sbind_sread:
  "sbind (sread g) f st = (case g (files st) of Inl e \<Rightarrow> (Inl e, st) | Inr x \<Rightarrow> f x st)"
  by (simp add: sbind_def sread_def split: sum.splits)

section \<open>Resolving an identifier\<close>

definition resolve ::
  "FileRepository \<Rightarrow> Resource \<Rightarrow> string \<Rightarrow> Parent option \<Rightarrow> string \<Rightarrow> fs \<Rightarrow> Parent result" where
  "resolve R r rid home missing fs =
     rbind (case home of
              None \<Rightarrow> Inr None
            | Some h \<Rightarrow> rbind (map_err read_error (exists_at R r (Some h) rid fs))
                (\<lambda>present. Inr (if present then Some h else None))) (\<lambda>found.
     case found of
       Some h \<Rightarrow> Inr h
     | None \<Rightarrow> rbind (map_err read_error (locate R r rid fs)) (\<lambda>homes.
         case homes of
           [] \<Rightarrow> Inl (NotFound missing)
         | [h] \<Rightarrow> Inr h
         | _ \<Rightarrow> Inl (ambiguous r homes)))"

definition parent_of :: "FileRepository \<Rightarrow> Resource \<Rightarrow> string \<Rightarrow> string \<Rightarrow> fs \<Rightarrow> Parent result" where
  "parent_of R r rid missing fs = resolve R r rid None missing fs"

definition project_of :: "FileRepository \<Rightarrow> Resource \<Rightarrow> string \<Rightarrow> string \<Rightarrow> fs \<Rightarrow> string result" where
  "project_of R r rid missing fs =
     rbind (parent_of R r rid missing fs) (\<lambda>p. Inr (parent_project p))"

definition run_home :: "FileRepository \<Rightarrow> string \<Rightarrow> fs \<Rightarrow> Parent result" where
  "run_home R run_id fs = resolve R Runs run_id None ''Test run not found'' fs"

definition resolve_home :: "FileRepository \<Rightarrow> Resource \<Rightarrow> string \<Rightarrow> string \<Rightarrow> fs \<Rightarrow> Parent option result" where
  "resolve_home R r rid missing fs =
     (if r = Projects then Inr None
      else rbind (parent_of R r rid missing fs) (\<lambda>p. Inr (Some p)))"

definition owner_for_write :: "FileRepository \<Rightarrow> Resource \<Rightarrow> string \<Rightarrow> string \<Rightarrow> fs \<Rightarrow> Parent option result" where
  "owner_for_write R r rid missing fs =
     (if r = Projects then Inr None
      else rbind (parent_of R r rid missing fs) (\<lambda>p. Inr (Some p)))"

definition sort_result :: "bool io_result \<Rightarrow> bool io_result \<Rightarrow> bool io_result" where
  "sort_result project suite = rbind project (\<lambda>p. if \<not> p then Inr False else suite)"

definition require_parent :: "FileRepository \<Rightarrow> Parent \<Rightarrow> fs \<Rightarrow> unit result" where
  "require_parent R parent fs =
     (case (case parent of
              ProjectParent project \<Rightarrow> exists_at R Projects None project fs
            | SuiteParent project suite \<Rightarrow>
                sort_result (exists_at R Projects None project fs)
                  (exists_at R Suites (Some (ProjectParent project)) suite fs)) of
        Inr here \<Rightarrow> if here then Inr () else Inl (NotFound (parent_missing_message parent))
      | Inl e \<Rightarrow> Inl (delete_error e))"

section \<open>Reading documents\<close>

definition check_stored_shape :: "Resource \<Rightarrow> json \<Rightarrow> unit result" where
  "check_stored_shape r v = guard (document_matches_model r v) (Internal ''Stored JSON is invalid'')"

definition read_document ::
  "FileRepository \<Rightarrow> Resource \<Rightarrow> Parent option \<Rightarrow> string \<Rightarrow> string \<Rightarrow> fs \<Rightarrow> json result" where
  "read_document R r parent rid missing fs =
     rbind (map_err (document_error missing) (read_at R r parent rid fs)) (\<lambda>v.
     rbind (check_stored_shape r v) (\<lambda>_. Inr v))"

definition document_at :: "FileRepository \<Rightarrow> Resource \<Rightarrow> string \<Rightarrow> Parent option \<Rightarrow> fs \<Rightarrow> json result" where
  "document_at R r rid home fs =
     rbind (map_err read_error (read_at R r home rid fs)) (\<lambda>v.
     rbind (check_stored_shape r v) (\<lambda>_. Inr v))"

definition service_document :: "FileRepository \<Rightarrow> Resource \<Rightarrow> string \<Rightarrow> fs \<Rightarrow> json result" where
  "service_document R r rid fs =
     rbind (owner_for_write R r rid (entity_missing_message r) fs) (\<lambda>parent.
     rbind (map_err (load_error (entity_missing_message r)) (read_at R r parent rid fs)) (\<lambda>v.
     rbind (check_stored_shape r v) (\<lambda>_. Inr v)))"

definition document_in ::
  "FileRepository \<Rightarrow> Resource \<Rightarrow> Parent \<Rightarrow> string \<Rightarrow> string \<Rightarrow> fs \<Rightarrow> json result" where
  "document_in R r parent rid missing fs = read_document R r (Some parent) rid missing fs"

definition etag :: "FileRepository \<Rightarrow> Resource \<Rightarrow> string \<Rightarrow> fs \<Rightarrow> string option" where
  "etag R r rid fs =
     Option.bind (ok_opt (owner_for_write R r rid [] fs)) (\<lambda>parent.
     Option.bind (ok_opt (read_raw_at R r parent rid fs)) (\<lambda>raw. Some (compute_etag R raw)))"

section \<open>Assembling children\<close>

datatype ChildExpansion = Full | Ids

definition expansion_from_query :: "string option \<Rightarrow> ChildExpansion" where
  "expansion_from_query v = (if v = Some ''ids'' then Ids else Full)"

definition child_documents :: "FileRepository \<Rightarrow> Parent \<Rightarrow> Resource \<Rightarrow> fs \<Rightarrow> json list result" where
  "child_documents R parent child fs =
     rbind (map_err read_error (list_children R parent child fs)) (\<lambda>ids.
       rmap (\<lambda>i. read_document R child (Some parent) i ''Resource not found'' fs) ids)"

definition assemble_suite :: "FileRepository \<Rightarrow> Parent \<Rightarrow> string \<Rightarrow> string \<Rightarrow> fs \<Rightarrow> json result" where
  "assemble_suite R project rid missing fs =
     rbind (read_document R Suites (Some project) rid missing fs) (\<lambda>v.
     rbind (child_documents R (SuiteParent (parent_project project) rid) Cases fs) (\<lambda>cases.
       Inr (on_object (obj_insert ''testCases'' (Arr cases)) v)))"

definition child_suites :: "FileRepository \<Rightarrow> Parent \<Rightarrow> fs \<Rightarrow> json list result" where
  "child_suites R project fs =
     rbind (map_err read_error (list_children R project Suites fs)) (\<lambda>ids.
       rmap (\<lambda>i. assemble_suite R project i ''Resource not found'' fs) ids)"

definition with_cases :: "json list \<Rightarrow> json btree \<Rightarrow> json btree" where
  "with_cases cases m =
     (if cases = [] then obj_remove ''testCases'' m else obj_insert ''testCases'' (Arr cases) m)"

definition suite_home :: "Parent option \<Rightarrow> string \<Rightarrow> string \<Rightarrow> Parent result" where
  "suite_home home rid missing = (case home of
       None \<Rightarrow> Inl (NotFound missing)
     | Some project \<Rightarrow> Inr (SuiteParent (parent_project project) rid))"

definition hydrate ::
  "FileRepository \<Rightarrow> Resource \<Rightarrow> string \<Rightarrow> Parent option \<Rightarrow> json \<Rightarrow> string \<Rightarrow> ChildExpansion \<Rightarrow> fs \<Rightarrow> json result" where
  "hydrate R r rid home v missing expansion fs =
     (if r = Projects then
        (let parent = ProjectParent rid in
         if expansion = Ids
         then rbind (map_err read_error (list_children R parent Suites fs)) (\<lambda>suites.
              rbind (map_err read_error (list_children R parent Cases fs)) (\<lambda>cases.
                Inr (on_object (\<lambda>m. with_cases (map Str cases)
                       (obj_insert ''testSuites'' (Arr (map Str suites)) m)) v)))
         else rbind (child_suites R parent fs) (\<lambda>suites.
              rbind (child_documents R parent Cases fs) (\<lambda>cases.
                Inr (on_object (\<lambda>m. with_cases cases (obj_insert ''testSuites'' (Arr suites) m)) v))))
      else if r = Suites then
        rbind (suite_home home rid missing) (\<lambda>suite.
        rbind (if expansion = Ids
               then rbind (map_err read_error (list_children R suite Cases fs)) (\<lambda>cases. Inr (map Str cases))
               else child_documents R suite Cases fs) (\<lambda>cases.
          Inr (on_object (obj_insert ''testCases'' (Arr cases)) v)))
      else Inr v)"

definition assembled_with ::
  "FileRepository \<Rightarrow> Resource \<Rightarrow> string \<Rightarrow> string \<Rightarrow> Parent option \<Rightarrow> ChildExpansion \<Rightarrow> fs \<Rightarrow> json result" where
  "assembled_with R r rid missing home expansion fs =
     rbind (read_document R r home rid missing fs) (\<lambda>v. hydrate R r rid home v missing expansion fs)"

definition assembled :: "FileRepository \<Rightarrow> Resource \<Rightarrow> string \<Rightarrow> string \<Rightarrow> fs \<Rightarrow> json result" where
  "assembled R r rid missing fs =
     rbind (resolve_home R r rid missing fs) (\<lambda>home. assembled_with R r rid missing home Full fs)"

definition get_and_etag ::
  "FileRepository \<Rightarrow> Resource \<Rightarrow> string \<Rightarrow> Parent option \<Rightarrow> string \<Rightarrow> ChildExpansion \<Rightarrow> fs \<Rightarrow> (json \<times> string) result" where
  "get_and_etag R r rid home missing expansion fs =
     rbind (map_err (document_error missing) (read_raw_at R r home rid fs)) (\<lambda>raw.
     rbind (map_err Internal (decode R raw)) (\<lambda>v.
     rbind (check_stored_shape r v) (\<lambda>_.
     rbind (hydrate R r rid home v missing expansion fs) (\<lambda>hydrated.
       Inr (hydrated, compute_etag R raw)))))"

definition load :: "FileRepository \<Rightarrow> (json \<Rightarrow> 'a option) \<Rightarrow> Resource \<Rightarrow> string \<Rightarrow> Parent option \<Rightarrow> string \<Rightarrow> fs \<Rightarrow> 'a result" where
  "load R decoder r rid home missing fs =
     rbind (resolve R r rid home missing fs) (\<lambda>parent.
     rbind (read_document R r (Some parent) rid missing fs) (\<lambda>v.
       ok_or (Internal ''Stored JSON is invalid'') (decoder v)))"

definition load_entity :: "FileRepository \<Rightarrow> (json \<Rightarrow> 'a option) \<Rightarrow> Resource \<Rightarrow> string \<Rightarrow> fs \<Rightarrow> 'a result" where
  "load_entity R decoder r rid fs =
     rbind (assembled R r rid (entity_missing_message r) fs) (\<lambda>v.
       ok_or (Internal ''Stored JSON is invalid'') (decoder v))"

definition service_get :: "FileRepository \<Rightarrow> Resource \<Rightarrow> string \<Rightarrow> fs \<Rightarrow> json result" where
  "service_get R r rid fs = assembled R r rid ''Resource not found'' fs"

section \<open>Listing\<close>

record ListQuery =
  lq_filter :: "string option"
  lq_tags :: "string option"
  lq_configuration :: "string option"

definition requested_tags :: "(string \<Rightarrow> string) \<Rightarrow> string \<Rightarrow> string list" where
  "requested_tags lower parameter =
     map (\<lambda>tag. lower (trim tag)) (split_on (\<lambda>c. c = CHR '','') parameter)"

definition document_has_any_tag :: "(string \<Rightarrow> string) \<Rightarrow> json \<Rightarrow> string list \<Rightarrow> bool" where
  "document_has_any_tag lower v requested = (case Option.bind (get v ''tags'') as_array of
       None \<Rightarrow> False
     | Some tags \<Rightarrow> list_ex (\<lambda>tag. lower tag \<in> set requested) (List.map_filter as_str tags))"

definition document_links_configuration :: "json \<Rightarrow> string \<Rightarrow> bool" where
  "document_links_configuration v config_id = (case Option.bind (get v ''configurations'') as_array of
       None \<Rightarrow> False
     | Some cs \<Rightarrow> list_ex (\<lambda>c. get_str c ''configId'' = Some config_id) cs)"

definition apply_list_query ::
  "(string \<Rightarrow> string) \<Rightarrow> Resource \<Rightarrow> ListQuery \<Rightarrow> (string \<Rightarrow> Parent option \<Rightarrow> json option)
     \<Rightarrow> (string \<times> Parent option) list \<Rightarrow> (string \<times> Parent option) list" where
  "apply_list_query lower r query load_doc items =
     (let named = (case lq_filter query of
            None \<Rightarrow> items
          | Some needle \<Rightarrow> filter (\<lambda>(item, _). sublist (lower needle) (lower item)) items);
          tagged = (case lq_tags query of
            None \<Rightarrow> named
          | Some tags \<Rightarrow> filter (\<lambda>(item, home). case load_doc item home of
                None \<Rightarrow> False
              | Some v \<Rightarrow> document_has_any_tag lower v (requested_tags lower tags)) named)
      in case (if r = Runs then lq_configuration query else None) of
           None \<Rightarrow> tagged
         | Some config_id \<Rightarrow> filter (\<lambda>(item, home). case load_doc item home of
               None \<Rightarrow> False
             | Some v \<Rightarrow> document_links_configuration v config_id) tagged)"

definition service_list_homes ::
  "TestService \<Rightarrow> Resource \<Rightarrow> ListQuery \<Rightarrow> fs \<Rightarrow> (string \<times> Parent option) list result" where
  "service_list_homes S r query fs =
     rbind (map_err from_io (list_with_homes (repository S) r fs)) (\<lambda>rows.
       Inr (apply_list_query (to_lowercase S) r query
              (\<lambda>item home. ok_opt (read_at (repository S) r home item fs)) rows))"

definition service_list :: "TestService \<Rightarrow> Resource \<Rightarrow> ListQuery \<Rightarrow> fs \<Rightarrow> string list result" where
  "service_list S r query fs =
     rbind (service_list_homes S r query fs) (\<lambda>rows. Inr (remdups_adj (sort (map fst rows))))"

definition list_children_matching ::
  "TestService \<Rightarrow> Parent \<Rightarrow> Resource \<Rightarrow> ListQuery \<Rightarrow> fs \<Rightarrow> string list result" where
  "list_children_matching S parent child query fs =
     rbind (require_parent (repository S) parent fs) (\<lambda>_.
     rbind (map_err read_error (list_children (repository S) parent child fs)) (\<lambda>items.
       Inr (map fst (apply_list_query (to_lowercase S) child query
              (\<lambda>item _. ok_opt (read_at (repository S) child (Some parent) item fs))
              (map (\<lambda>item. (item, Some parent)) items)))))"

definition service_list_children :: "TestService \<Rightarrow> Parent \<Rightarrow> Resource \<Rightarrow> fs \<Rightarrow> string list result" where
  "service_list_children S parent child fs =
     list_children_matching S parent child
       \<lparr>lq_filter = None, lq_tags = None, lq_configuration = None\<rparr> fs"

section \<open>Creating\<close>

definition create_marker :: "TestService \<Rightarrow> Resource \<Rightarrow> Parent option \<Rightarrow> string \<Rightarrow> json \<Rightarrow> unit sop" where
  "create_marker S r parent rid v =
     sio from_io (create_at (repository S) r parent rid (created_document r (iso_now S) (secs_now S) rid v))"

definition service_create_at :: "TestService \<Rightarrow> Resource \<Rightarrow> Parent option \<Rightarrow> json \<Rightarrow> string sop" where
  "service_create_at S r parent v =
     sbind (slift (validate_payload r v)) (\<lambda>_.
     sbind (slift (derive_create_id r v)) (\<lambda>rid.
       invalidating (sbind (create_marker S r parent rid v) (\<lambda>_. slift (Inr rid)))))"

fun created_inside :: "Resource \<Rightarrow> string option" where
  "created_inside Suites = Some ''Test suites are created inside a project: POST /projects/{id}/test_suites''"
| "created_inside Cases = Some ''Test cases are created inside a project or a suite: POST /projects/{id}/test_cases or POST /test_suites/{id}/test_cases''"
| "created_inside Runs = Some ''Test runs are created inside a project: POST /projects/{id}/test_runs''"
| "created_inside Milestones = Some ''Milestones are created inside a project: POST /projects/{id}/milestones''"
| "created_inside Configurations = Some ''Configurations are created inside a project: POST /projects/{id}/configurations''"
| "created_inside Workflows = Some ''Workflows are created inside a project: POST /projects/{id}/workflows''"
| "created_inside Projects = None"

definition service_create :: "TestService \<Rightarrow> Resource \<Rightarrow> json \<Rightarrow> string sop" where
  "service_create S r v = (case created_inside r of
       Some message \<Rightarrow> slift (Inl (invalid_request message))
     | None \<Rightarrow> service_create_at S r None v)"

definition create_in :: "TestService \<Rightarrow> Resource \<Rightarrow> Parent \<Rightarrow> json \<Rightarrow> string sop" where
  "create_in S r parent v =
     sbind (sread (require_parent (repository S) parent)) (\<lambda>_. service_create_at S r (Some parent) v)"

section \<open>Updating\<close>

text \<open>\<^verbatim>\<open>revise_case\<close> runs inside the transaction, so it works on the file system directly. Its first
  component is its own result; the caller turns an error into an opaque storage error.\<close>

definition revise_case ::
  "TestService \<Rightarrow> Parent option \<Rightarrow> string \<Rightarrow> json \<Rightarrow> json \<Rightarrow> fs \<Rightarrow> json result \<times> fs" where
  "revise_case S parent rid stored merged fs = (case parent of
       None \<Rightarrow> (Inl (Internal ''A test case update needs a parent folder''), fs)
     | Some home \<Rightarrow> (case merged of
         Obj m \<Rightarrow>
           if case_content_changed stored merged
           then (case save_revision_locked (repository S) home rid (stored_version stored) stored fs of
                   (Inl e, fs') \<Rightarrow> (Inl (from_io e), fs')
                 | (Inr _, fs') \<Rightarrow> (Inr (Obj (revise_fields (iso_now S) stored True m)), fs'))
           else (Inr (Obj (revise_fields (iso_now S) stored False m)), fs)
       | _ \<Rightarrow> (Inl (Internal ''Stored JSON is invalid''), fs)))"

definition revise_op :: "TestService \<Rightarrow> Resource \<Rightarrow> Parent option \<Rightarrow> string \<Rightarrow> json \<Rightarrow> json \<Rightarrow> json op" where
  "revise_op S r parent rid stored merged fs =
     (if r = Cases
      then (case revise_case S parent rid stored merged fs of
              (res, fs') \<Rightarrow> (map_err (\<lambda>e. io_err KOther (display e)) res, fs'))
      else (Inr merged, fs))"

definition update_closure :: "TestService \<Rightarrow> Resource \<Rightarrow> Parent option \<Rightarrow> string \<Rightarrow> json \<Rightarrow> json \<Rightarrow> json op" where
  "update_closure S r parent rid v stored =
     obind (olift (map_err (\<lambda>e. io_err KInvalidInput (display e)) (merged_document stored v))) (\<lambda>merged.
     obind (revise_op S r parent rid stored merged) (\<lambda>revised.
       olift (Inr (normalise_marker r (secs_now S) rid revised))))"

fun body_identity_field :: "Resource \<Rightarrow> string option" where
  "body_identity_field Projects = Some ''projectId''"
| "body_identity_field Suites = Some ''suiteId''"
| "body_identity_field Runs = Some ''testRunId''"
| "body_identity_field Milestones = Some ''milestoneId''"
| "body_identity_field Configurations = Some ''configId''"
| "body_identity_field Workflows = Some ''workflowId''"
| "body_identity_field Cases = None"

definition refuse_foreign_identity ::
  "FileRepository \<Rightarrow> Resource \<Rightarrow> Parent option \<Rightarrow> string \<Rightarrow> json \<Rightarrow> fs \<Rightarrow> unit result" where
  "refuse_foreign_identity R r parent rid v fs = (case body_identity_field r of
       None \<Rightarrow> Inr ()
     | Some field \<Rightarrow> (case get_str v field of
         None \<Rightarrow> Inr ()
       | Some supplied \<Rightarrow>
           if supplied = rid then Inr ()
           else rbind (map_err (document_error ''Resource not found'') (read_at R r parent rid fs)) (\<lambda>stored.
                if get_str stored field = Some supplied then Inr ()
                else rbind (map_err (\<lambda>_. invalid_id) (validate_document_id r supplied)) (\<lambda>_.
                  Inl (invalid_request (''Field `'' @ field
                    @ ''` names another document; an identifier is immutable, delete the resource and recreate it to rename it''))))))"

definition write_document ::
  "TestService \<Rightarrow> Resource \<Rightarrow> Parent option \<Rightarrow> string \<Rightarrow> json \<Rightarrow> string option \<Rightarrow> json sop" where
  "write_document S r parent rid v expected_etag =
     sbind (slift (validate_payload r v)) (\<lambda>_.
     sbind (sread (refuse_foreign_identity (repository S) r parent rid v)) (\<lambda>_.
       invalidating (sio (map_mutation_error ''Resource not found'')
         (transform_at (repository S) r parent rid
            (case expected_etag of Some t \<Rightarrow> if t = [] then None else Some t | None \<Rightarrow> None)
            (update_closure S r parent rid v)))))"

definition update_with_etag :: "TestService \<Rightarrow> Resource \<Rightarrow> string \<Rightarrow> json \<Rightarrow> string option \<Rightarrow> json sop" where
  "update_with_etag S r rid v expected_etag =
     sbind (sread (owner_for_write (repository S) r rid ''Resource not found'')) (\<lambda>parent.
       write_document S r parent rid v expected_etag)"

definition service_update :: "TestService \<Rightarrow> Resource \<Rightarrow> string \<Rightarrow> json \<Rightarrow> unit sop" where
  "service_update S r rid v = sbind (update_with_etag S r rid v None) (\<lambda>_. slift (Inr ()))"

definition update_in :: "TestService \<Rightarrow> Resource \<Rightarrow> Parent \<Rightarrow> string \<Rightarrow> json \<Rightarrow> string option \<Rightarrow> json sop" where
  "update_in S r parent rid v expected_etag =
     sbind (sread (require_parent (repository S) parent)) (\<lambda>_.
       write_document S r (Some parent) rid v expected_etag)"

section \<open>Deleting and placing\<close>

definition service_delete :: "TestService \<Rightarrow> Resource \<Rightarrow> string \<Rightarrow> unit sop" where
  "service_delete S r rid =
     sbind (sread (owner_for_write (repository S) r rid ''Resource not found'')) (\<lambda>parent.
       invalidating (sio delete_error (delete_at (repository S) r parent rid)))"

definition delete_in :: "TestService \<Rightarrow> Resource \<Rightarrow> Parent \<Rightarrow> string \<Rightarrow> unit sop" where
  "delete_in S r parent rid =
     sbind (sread (require_parent (repository S) parent)) (\<lambda>_.
       invalidating (sio delete_error (delete_at (repository S) r (Some parent) rid)))"

datatype Composed = CreatedEntity string | Placed string Placement

fun composed_id :: "Composed \<Rightarrow> string" where
  "composed_id (CreatedEntity i) = i"
| "composed_id (Placed i _) = i"

fun composed_message :: "Composed \<Rightarrow> string \<Rightarrow> string" where
  "composed_message (CreatedEntity _) noun = noun @ '' created''"
| "composed_message (Placed _ Copy) noun = noun @ '' copied''"
| "composed_message (Placed _ Move) noun = noun @ '' moved''"

definition place_into :: "TestService \<Rightarrow> Resource \<Rightarrow> Parent \<Rightarrow> json \<Rightarrow> Composed sop" where
  "place_into S r target body =
     (if r \<noteq> Suites \<and> r \<noteq> Cases
      then slift (Inl (invalid_request ''Only test suites and test cases can be placed''))
      else
        (let id_field = (if r = Suites then ''suiteId'' else ''testCaseId'') in
         sbind (slift (ok_or (invalid_request (''Required field '' @ id_field @ '' is missing''))
                  (required_string body id_field))) (\<lambda>rid.
         sbind (sread (parent_of (repository S) r rid (entity_missing_message r))) (\<lambda>source.
         sbind (slift (guard (\<not> (r = Suites \<and> (case target of ProjectParent _ \<Rightarrow> False | _ \<Rightarrow> True)))
                  (invalid_request ''A test suite can only be placed into a project''))) (\<lambda>_.
         sbind (sread (require_parent (repository S) target)) (\<lambda>_.
         sbind (sio placement_error
                  (place (repository S) r source rid target (placement_mode body))) (\<lambda>_.
           slift (Inr (Placed rid (placement_mode body))))))))))"

section \<open>Transactions on one document\<close>

text \<open>The shape \<^verbatim>\<open>mutate_run\<close> and \<^verbatim>\<open>mutate_case_document\<close> share: decode the stored document, mutate it,
  encode it again, all under one lock. The mutation may read the file system it runs in. Its own
  refusal travels past storage in a captured variable and wins over the error storage reports.\<close>

definition doc_closure ::
  "TestService \<Rightarrow> (json \<Rightarrow> 'd option) \<Rightarrow> ('d \<Rightarrow> json) \<Rightarrow> string \<Rightarrow> ('d \<Rightarrow> fs \<Rightarrow> ('a \<times> 'd) result) \<Rightarrow> json \<Rightarrow> json op" where
  "doc_closure S dec enc refused mutate stored fs = (case dec stored of
       None \<Rightarrow> (Inl (io_err KInvalidData (serde_text S stored)), fs)
     | Some d \<Rightarrow> (case mutate d fs of
           Inl _ \<Rightarrow> (Inl (io_err KOther refused), fs)
         | Inr (x, d') \<Rightarrow> (Inr (enc d'), fs)))"

text \<open>What the closure leaves in \<^verbatim>\<open>produced\<close> and \<^verbatim>\<open>refusal\<close>, when storage calls it at all.\<close>

definition doc_outcome ::
  "FileRepository \<Rightarrow> Resource \<Rightarrow> (json \<Rightarrow> 'd option) \<Rightarrow> Parent \<Rightarrow> string \<Rightarrow> ('d \<Rightarrow> fs \<Rightarrow> ('a \<times> 'd) result)
     \<Rightarrow> fs \<Rightarrow> 'a result option" where
  "doc_outcome R r dec home rid mutate fs =
     (if lock_busy R then None
      else case read_at R r (Some home) rid fs of
             Inl _ \<Rightarrow> None
           | Inr stored \<Rightarrow> map_option (\<lambda>d. rbind (mutate d fs) (\<lambda>(x, _). Inr x)) (dec stored))"

definition mutate_document ::
  "TestService \<Rightarrow> Resource \<Rightarrow> (json \<Rightarrow> 'd option) \<Rightarrow> ('d \<Rightarrow> json) \<Rightarrow> string \<Rightarrow> string \<Rightarrow> string
     \<Rightarrow> Parent \<Rightarrow> string \<Rightarrow> ('d \<Rightarrow> fs \<Rightarrow> ('a \<times> 'd) result) \<Rightarrow> 'a sop" where
  "mutate_document S r dec enc missing refused silent home rid mutate st =
     (case transform_at (repository S) r (Some home) rid None (doc_closure S dec enc refused mutate) (files st) of
        (outcome, fs') \<Rightarrow>
          (let st' = st\<lparr>files := fs'\<rparr>;
               produced = doc_outcome (repository S) r dec home rid mutate (files st)
           in case produced of
                Some (Inl refusal) \<Rightarrow> (Inl refusal, st')
              | _ \<Rightarrow> (case outcome of
                    Inl e \<Rightarrow> (Inl (map_mutation_error missing e), st')
                  | Inr _ \<Rightarrow>
                      (case produced of Some (Inr x) \<Rightarrow> Inr x | _ \<Rightarrow> Inl (Internal silent),
                       st'\<lparr>derivations := invalidate (derivations st)\<rparr>))))"

definition mutate_run ::
  "TestService \<Rightarrow> string \<Rightarrow> (Parent \<Rightarrow> TestRun \<Rightarrow> fs \<Rightarrow> ('a \<times> TestRun) result) \<Rightarrow> 'a sop" where
  "mutate_run S run_id mutate =
     sbind (sread (run_home (repository S) run_id)) (\<lambda>home.
       mutate_document S Runs TestRun_from_value TestRun_to_value ''Test run not found''
         ''run mutation refused'' ''run mutation produced no outcome'' home run_id (mutate home))"

definition mutate_case_document ::
  "TestService \<Rightarrow> Parent \<Rightarrow> string \<Rightarrow> (TestCase \<Rightarrow> fs \<Rightarrow> ('a \<times> TestCase) result) \<Rightarrow> 'a sop" where
  "mutate_case_document S parent case_id mutate =
     mutate_document S Cases TestCase_from_value TestCase_to_value ''Test case not found''
       ''case mutation refused'' ''case mutation produced no outcome'' parent case_id mutate"

end
