(* ===== verification/Service_Laws.thy ===== *)
theory Service_Laws
  imports Service Repository_Locate
begin

text \<open>
  What the service promises about documents, over the laws of the repository: an identifier resolves
  to the one parent that holds it, a stored document reads back, a refused write changes nothing, and
  the entity tag of a read is the precondition that protects it.
\<close>

section \<open>Steps of the service\<close>

lemma sio_Inr_iff:
  "sio err m st = (Inr x, st') \<longleftrightarrow> (\<exists>fs. m (files st) = (Inr x, fs) \<and> st' = st\<lparr>files := fs\<rparr>)"
  by (auto simp: sio_def split: prod.splits)

lemma sio_Inl_iff:
  "sio err m st = (Inl e, st') \<longleftrightarrow>
     (\<exists>e' fs. m (files st) = (Inl e', fs) \<and> e = err e' \<and> st' = st\<lparr>files := fs\<rparr>)"
  by (auto simp: sio_def map_err_Inl_iff split: prod.splits)

lemma sbind_Inr_iff:
  "sbind m f st = (Inr y, st'') \<longleftrightarrow> (\<exists>x st'. m st = (Inr x, st') \<and> f x st' = (Inr y, st''))"
  by (auto simp: sbind_def split: prod.splits sum.splits)

lemma sbind_Inl_iff:
  "sbind m f st = (Inl e, st'') \<longleftrightarrow>
     m st = (Inl e, st'') \<or> (\<exists>x st'. m st = (Inr x, st') \<and> f x st' = (Inl e, st''))"
  by (auto simp: sbind_def split: prod.splits sum.splits)

lemma slift_iff [simp]: "slift r st = (x, st') \<longleftrightarrow> x = r \<and> st' = st"
  by (auto simp: slift_def)

lemma sread_iff [simp]: "sread g st = (x, st') \<longleftrightarrow> x = g (files st) \<and> st' = st"
  by (auto simp: sread_def)

lemma invalidating_Inr_iff:
  "invalidating m st = (Inr x, st') \<longleftrightarrow>
     (\<exists>st1. m st = (Inr x, st1) \<and> st' = st1\<lparr>derivations := invalidate (derivations st1)\<rparr>)"
  by (auto simp: invalidating_def sbind_Inr_iff)

lemma invalidating_Inl_iff: "invalidating m st = (Inl e, st') \<longleftrightarrow> m st = (Inl e, st')"
  by (auto simp: invalidating_def sbind_Inl_iff)

lemmas service_step_simps =
  sio_Inr_iff sio_Inl_iff sbind_Inr_iff sbind_Inl_iff invalidating_Inr_iff invalidating_Inl_iff

section \<open>Resolution\<close>

lemma resolve_global:
  "resolve R r rid None missing fs = Inr h \<longleftrightarrow> locate R r rid fs = Inr [h]"
proof (cases "locate R r rid fs")
  case (Inr homes)
  then show ?thesis
    by (cases homes; cases "tl homes") (auto simp: resolve_def)
qed (simp add: resolve_def)

lemma locate_distinct_iff:
  assumes "locate R r rid fs = Inr homes" "tree_ok fs" "plain_names fs"
  shows "set homes = {h. existing_parent R fs h \<and> exists_at R r (Some h) rid fs = Inr True}"
  using locate_homes [OF assms] by blast

text \<open>A bare identifier resolves exactly to its one home: when resolution answers with a parent, it
  is the only existing parent that holds the document, when it answers not found no parent holds it,
  and a preferred home that holds the document always wins.\<close>

theorem resolve_exact:
  assumes "tree_ok fs" "plain_names fs"
  shows "(resolve R r rid None missing fs = Inr h \<longrightarrow>
      {p. existing_parent R fs p \<and> exists_at R r (Some p) rid fs = Inr True} = {h})
    \<and> (locate R r rid fs = Inr homes \<and> resolve R r rid None missing fs = Inl (NotFound missing) \<longrightarrow>
      {p. existing_parent R fs p \<and> exists_at R r (Some p) rid fs = Inr True} = {})
    \<and> (exists_at R r (Some p0) rid fs = Inr True \<longrightarrow> resolve R r rid (Some p0) missing fs = Inr p0)"
proof (intro conjI impI)
  assume "resolve R r rid None missing fs = Inr h"
  then show "{p. existing_parent R fs p \<and> exists_at R r (Some p) rid fs = Inr True} = {h}"
    using locate_distinct_iff [OF _ assms, of R r rid "[h]"] by (simp add: resolve_global)
next
  assume a: "locate R r rid fs = Inr homes \<and> resolve R r rid None missing fs = Inl (NotFound missing)"
  then have "homes = []"
    by (auto simp: resolve_def ambiguous_def split: list.splits)
  then show "{p. existing_parent R fs p \<and> exists_at R r (Some p) rid fs = Inr True} = {}"
    using locate_distinct_iff [OF conjunct1 [OF a] assms] by simp
next
  assume "exists_at R r (Some p0) rid fs = Inr True"
  then show "resolve R r rid (Some p0) missing fs = Inr p0" by (simp add: resolve_def)
qed

section \<open>Creating\<close>

lemma read_document_Inr_iff:
  "read_document R r parent rid missing fs = Inr v \<longleftrightarrow>
     read_at R r parent rid fs = Inr v \<and> document_matches_model r v"
  by (auto simp: read_document_def rbind_Inr_iff check_stored_shape_def)

lemma created_reads:
  assumes "create_at R r parent rid v fs = (Inr u, fs')" "decode R (encode R v) = Inr v"
  shows "read_at R r parent rid fs' = Inr v"
proof -
  from assms(1) obtain p where "document R r parent rid = Inr p" "write_json R p v fs = (Inr u, fs')"
    by (rule create_at_ok)
  with assms(2) show ?thesis using write_json_files(2) by (auto simp: read_at_Inr_iff)
qed

text \<open>C1. A created document reads back: after a successful create inside a parent, a read of the
  identifier in that parent gives the stored document, with one exception: a workflow created
  without steps is stored and then refused by every read. The create overwrote nothing, left every
  other file alone and retired the derived answers.\<close>

theorem create_in_reads_back:
  assumes "create_in S r parent v st = (Inr rid, st')"
    and "decode (repository S) (encode (repository S) (created_document r (iso_now S) (secs_now S) rid v)) =
      Inr (created_document r (iso_now S) (secs_now S) rid v)"
  shows "read_document (repository S) r (Some parent) rid missing (files st') =
      (if r = Workflows \<and> get v ''steps'' \<in> {None, Some Null} then Inl (Internal ''Stored JSON is invalid'')
       else Inr (created_document r (iso_now S) (secs_now S) rid v))
    \<and> (\<forall>q b. file_at (files st) q = Some b \<longrightarrow> file_at (files st') q = Some b)
    \<and> generation (derivations st') = generation (derivations st) + 1"
proof -
  let ?R = "repository S" and ?d = "created_document r (iso_now S) (secs_now S) rid v"
  obtain u st1 where v: "validate_payload r v = Inr ()" "derive_create_id r v = Inr rid"
    and c: "create_marker S r (Some parent) rid v st = (Inr u, st1)"
    and st': "st' = st1\<lparr>derivations := invalidate (derivations st1)\<rparr>"
    using assms(1) by (auto simp: create_in_def service_create_at_def service_step_simps)
  obtain fs where fs: "create_at ?R r (Some parent) rid ?d (files st) = (Inr u, fs)" "st1 = st\<lparr>files := fs\<rparr>"
    using c by (auto simp: create_marker_def sio_Inr_iff)
  have rd: "read_at ?R r (Some parent) rid fs = Inr ?d" by (rule created_reads [OF fs(1) assms(2)])
  have m: "document_matches_model r ?d \<longleftrightarrow> (r = Workflows \<longrightarrow> get v ''steps'' \<notin> {None, Some Null})"
    by (rule created_document_model [OF v])
  have keep: "file_at fs q = Some b" if "file_at (files st) q = Some b" for q b
    using fs(1)
  proof (rule create_at_ok)
    fix p assume p: "file_at (files st) p = None" "write_json ?R p ?d (files st) = (Inr u, fs)"
    then have "q \<noteq> p" using that by auto
    with that write_json_files(1) [OF p(2)] show "file_at fs q = Some b" by simp
  qed
  show ?thesis
    using rd m keep by (auto simp: st' fs(2) read_document_def check_stored_shape_def invalidate_def guard_def)
qed

section \<open>Updating\<close>

lemma save_revision_inner_frame:
  assumes "save_revision_inner R parent cid n v fs = (x, fs')" "file_at fs q = Some b"
  shows "file_at fs' q = Some b"
  using assms(1)
proof (cases rule: save_revision_inner_cases)
  case (2 p)
  then have "q \<noteq> p" using assms(2) by (auto simp: path_exists_def file_at_def split: option.splits)
  with 2 assms(2) write_json_files(1) show ?thesis by metis
qed (use assms(2) in simp)

definition preserves :: "fs \<Rightarrow> fs \<Rightarrow> bool" where
  "preserves fs fs' \<longleftrightarrow> (\<forall>q b. file_at fs q = Some b \<longrightarrow> file_at fs' q = Some b)"

lemma preserves_refl [simp]: "preserves fs fs"
  by (simp add: preserves_def)

lemma revise_op_frame: "revise_op S r parent rid stored merged fs = (x, fs') \<Longrightarrow> preserves fs fs'"
  using save_revision_inner_frame
  by (fastforce simp: revise_op_def revise_case_def save_revision_locked_def preserves_def
      split: if_splits option.splits json.splits prod.splits sum.splits)

lemma update_closure_frame: "update_closure S r parent rid v stored fs = (x, fs') \<Longrightarrow> preserves fs fs'"
  by (auto simp: update_closure_def obind_olift obind_def olift_def
      split: sum.splits prod.splits dest: revise_op_frame)

lemma revise_op_result:
  assumes "revise_op S r parent rid stored (Obj m) fs = (Inr d, fs')"
  shows "d = (if r = Cases
     then Obj (revise_fields (iso_now S) stored (case_content_changed stored (Obj m)) m) else Obj m)"
  using assms by (auto simp: revise_op_def revise_case_def split: option.splits prod.splits sum.splits if_splits)

lemma update_closure_result:
  assumes "update_closure S r parent rid v stored fs = (Inr d, fs')"
  shows "updated_document r (iso_now S) (secs_now S) rid stored v = Inr d"
proof -
  obtain s where s: "stored = Obj s"
    using assms by (cases stored) (auto simp: update_closure_def merged_document_def olift_def obind_def)
  then obtain m where m: "merged_document stored v = Inr (Obj m)" by (simp add: merged_document_def)
  then obtain rv where "revise_op S r parent rid stored (Obj m) fs = (Inr rv, fs')"
    "d = normalise_marker r (secs_now S) rid rv"
    using assms by (auto simp: update_closure_def obind_olift obind_Inr_iff olift_def)
  with revise_op_result [OF this(1)] m show ?thesis by (auto simp: updated_document_def Let_def)
qed

lemma write_document_run:
  assumes "write_document S r parent rid v et st = (Inr d, st')"
  obtains p raw stored fs1 fs' where "document (repository S) r parent rid = Inr p"
    "file_at (files st) p = Some raw" "decode (repository S) raw = Inr stored"
    "et \<in> {None, Some [], Some (compute_etag (repository S) raw)}" "validate_payload r v = Inr ()"
    "update_closure S r parent rid v stored (files st) = (Inr d, fs1)"
    "write_json (repository S) p d fs1 = (Inr (), fs')"
    "st' = st\<lparr>files := fs', derivations := invalidate (derivations st)\<rparr>"
proof -
  let ?et = "case et of Some t \<Rightarrow> if t = [] then None else Some t | None \<Rightarrow> None"
  obtain fs' where ok: "validate_payload r v = Inr ()"
    and t: "transform_at (repository S) r parent rid ?et (update_closure S r parent rid v) (files st) = (Inr d, fs')"
    and st': "st' = st\<lparr>files := fs', derivations := invalidate (derivations st)\<rparr>"
    using assms by (auto simp: write_document_def service_step_simps)
  from t show thesis
  proof (cases rule: transform_at_cases)
    case (ran p raw stored)
    from ran(6) obtain fs1 where u: "update_closure S r parent rid v stored (files st) = (Inr d, fs1)"
      "write_json (repository S) p d fs1 = (Inr (), fs')"
      by (auto simp: obind_Inr_iff oread_def olift_def)
    have "et \<in> {None, Some [], Some (compute_etag (repository S) raw)}"
      using ran(4) by (auto split: option.splits if_splits)
    then show thesis by (rule that [OF ran(1-3) _ ok u st'])
  qed simp
qed

lemma write_document_ok:
  assumes "write_document S r parent rid v et st = (Inr d, st')"
  obtains p raw stored where "document (repository S) r parent rid = Inr p"
    "file_at (files st) p = Some raw" "decode (repository S) raw = Inr stored"
    "updated_document r (iso_now S) (secs_now S) rid stored v = Inr d"
    "file_at (files st') p = Some (encode (repository S) d)"
    "\<And>q b. q \<noteq> p \<Longrightarrow> file_at (files st) q = Some b \<Longrightarrow> file_at (files st') q = Some b"
    "derivations st' = invalidate (derivations st)" "validate_payload r v = Inr ()"
  using assms
proof (rule write_document_run)
  fix p raw stored fs1 fs'
  assume a: "document (repository S) r parent rid = Inr p" "file_at (files st) p = Some raw"
    "decode (repository S) raw = Inr stored" "validate_payload r v = Inr ()"
    and u: "update_closure S r parent rid v stored (files st) = (Inr d, fs1)"
    and w: "write_json (repository S) p d fs1 = (Inr (), fs')"
    and st': "st' = st\<lparr>files := fs', derivations := invalidate (derivations st)\<rparr>"
  show thesis
  proof (rule that [OF a(1-3) update_closure_result [OF u]])
    show "file_at (files st') p = Some (encode (repository S) d)" using write_json_files(2) [OF w] st' by simp
    show "file_at (files st') q = Some b" if "q \<noteq> p" "file_at (files st) q = Some b" for q b
      using write_json_files(1) [OF w that(1)] update_closure_frame [OF u] that(2) st'
      by (simp add: preserves_def)
    show "derivations st' = invalidate (derivations st)" by (simp add: st')
  qed (rule a(4))
qed


lemma transform_at_refused:
  assumes "transform_at R r parent rid et f fs = (Inl e, fs')"
    and "\<And>stored fs x fs'. f stored fs = (x, fs') \<Longrightarrow> preserves fs fs'"
  shows "preserves fs fs'"
  using assms(1)
proof (cases rule: transform_at_cases)
  case (ran p raw stored)
  obtain y fs1 where y: "f stored fs = (y, fs1)" by force
  have "preserves fs fs1" by (rule assms(2) [OF y])
  moreover have "fs' = fs1 \<or> (\<forall>q. file_at fs' q = file_at fs1 q)"
    using ran(6) y write_json_files(3)
    by (auto simp: obind_def oread_def olift_def split: sum.splits prod.splits)
  ultimately show ?thesis by (auto simp: preserves_def)
qed simp

text \<open>C6. A refused update loses nothing: whatever the reason, every stored file keeps its contents
  (at most the snapshot of the version that was about to be replaced has been added), and the
  derived answers stand.\<close>

theorem refused_update_keeps_files:
  assumes "write_document S r parent rid v et st = (Inl e, st')"
  shows "(file_at (files st) q = Some b \<longrightarrow> file_at (files st') q = Some b)
    \<and> derivations st' = derivations st"
proof -
  consider "st' = st" | e' fs' where "transform_at (repository S) r parent rid
      (case et of Some t \<Rightarrow> if t = [] then None else Some t | None \<Rightarrow> None)
      (update_closure S r parent rid v) (files st) = (Inl e', fs')" "st' = st\<lparr>files := fs'\<rparr>"
    using assms by (auto simp: write_document_def service_step_simps)
  then show ?thesis
  proof cases
    case 2
    with transform_at_refused [OF 2(1) update_closure_frame] show ?thesis by (simp add: preserves_def)
  qed simp
qed

section \<open>Entity tags\<close>

lemma get_and_etag_digest:
  assumes "get_and_etag R r rid home missing expansion fs = Inr (v, t)"
  obtains p raw where "document R r home rid = Inr p" "file_at fs p = Some raw" "t = compute_etag R raw"
  using assms by (auto simp: get_and_etag_def rbind_Inr_iff read_raw_at_def read_confined_file_at)

text \<open>C3. No lost update: a client that reads a document with its entity tag and writes it back under
  that tag, in whatever state the store is by then, is refused with the current tag and changes
  nothing when the stored bytes have another digest, and writes exactly as an unconditional update
  would when they are the bytes it read.\<close>

theorem etag_prevents_lost_update:
  assumes "get_and_etag (repository S) r rid parent missing expansion fs0 = Inr (doc, t)" "t \<noteq> []"
    and "document (repository S) r parent rid = Inr p" "file_at (files st) p = Some raw"
    and "\<not> lock_busy (repository S)" "validate_payload r v = Inr ()"
    and "refuse_foreign_identity (repository S) r parent rid v (files st) = Inr ()"
  shows "(compute_etag (repository S) raw \<noteq> t \<longrightarrow>
      write_document S r parent rid v (Some t) st = (Inl (PreconditionFailed (compute_etag (repository S) raw)), st))
    \<and> (file_at fs0 p = Some raw \<longrightarrow>
      write_document S r parent rid v (Some t) st = write_document S r parent rid v None st)"
proof (intro conjI impI)
  assume "compute_etag (repository S) raw \<noteq> t"
  with transform_at_precondition [OF assms(3-5), of t "update_closure S r parent rid v"]
  show "write_document S r parent rid v (Some t) st =
      (Inl (PreconditionFailed (compute_etag (repository S) raw)), st)"
    using assms(2,6,7)
    by (auto simp: write_document_def service_step_simps map_mutation_error_def)
next
  assume "file_at fs0 p = Some raw"
  then have "t = compute_etag (repository S) raw"
    using assms(1,3) by (auto elim!: get_and_etag_digest)
  with transform_at_precondition [OF assms(3-5), of t "update_closure S r parent rid v"] assms(2)
  show "write_document S r parent rid v (Some t) st = write_document S r parent rid v None st"
    using assms(6,7) by (simp add: write_document_def sread_def invalidating_def sbind_def sio_def)
qed

section \<open>Transactions\<close>

text \<open>A transaction on a document is atomic: when the mutation refuses or storage fails, no stored
  file changes, and the cache stands; when it succeeds the stored document is the encoding of what
  the mutation made of the decoded stored one, in the state it ran in, and no other file changes.\<close>

lemma mutate_document_cases:
  assumes "mutate_document S r dec enc missing refused silent home rid mutate st = (x, st')"
  obtains (kept) e where "x = Inl e" "\<And>q. file_at (files st') q = file_at (files st) q"
      "derivations st' = derivations st"
    | (written) y p raw stored d d' where "x = Inr y" "document (repository S) r (Some home) rid = Inr p"
      "file_at (files st) p = Some raw" "decode (repository S) raw = Inr stored" "dec stored = Some d"
      "mutate d (files st) = Inr (y, d')" "file_at (files st') p = Some (encode (repository S) (enc d'))"
      "\<And>q. q \<noteq> p \<Longrightarrow> file_at (files st') q = file_at (files st) q"
      "derivations st' = invalidate (derivations st)"
proof -
  let ?R = "repository S" and ?f = "doc_closure S dec enc refused mutate"
  obtain outcome fs' where t: "transform_at ?R r (Some home) rid None ?f (files st) = (outcome, fs')" by force
  note unfolded = assms [unfolded mutate_document_def t, simplified Let_def, simplified]
  have same: "fs1 = fs" if "?f stored fs = (y, fs1)" for stored fs y fs1
    using that by (auto simp: doc_closure_def split: option.splits sum.splits prod.splits)
  from t show thesis
  proof (cases rule: transform_at_cases)
    case (early e)
    have "\<exists>e'. x = Inl e'" "st' = st\<lparr>files := fs'\<rparr>"
      using unfolded early by (auto split: option.splits sum.splits)
    then show thesis using early kept by auto
  next
    case (ran p raw stored)
    have read: "read_at ?R r (Some home) rid (files st) = Inr stored"
      using ran by (auto simp: read_at_Inr_iff)
    obtain y where y: "?f stored (files st) = (y, files st)"
      using same [of stored "files st"] by (metis surj_pair)
    show thesis
    proof (cases y)
      case (Inl e)
      then have fs': "fs' = files st" "outcome = Inl e" using ran(6) y by (auto simp: obind_def)
      have "\<exists>e'. x = Inl e'" "st' = st\<lparr>files := fs'\<rparr>"
        using unfolded fs' by (auto split: option.splits sum.splits)
      then show thesis using fs' kept by auto
    next
      case (Inr nv)
      then obtain d z d' where d: "dec stored = Some d" "mutate d (files st) = Inr (z, d')" "nv = enc d'"
        using y by (auto simp: doc_closure_def split: option.splits sum.splits prod.splits)
      have out: "doc_outcome ?R r dec home rid mutate (files st) = Some (Inr z)"
        using read d ran(5) by (simp add: doc_outcome_def)
      show thesis
      proof (cases outcome)
        case (Inl e)
        have "\<forall>q. file_at fs' q = file_at (files st) q"
          using ran(6) y \<open>y = Inr nv\<close> Inl write_json_files(3)
          by (auto simp: obind_def oread_def olift_def split: sum.splits prod.splits)
        then show thesis using unfolded out Inl by (intro kept) auto
      next
        case (Inr w)
        have wr: "write_json ?R p nv (files st) = (Inr (), fs')"
          using ran(6) y \<open>y = Inr nv\<close> Inr
          by (auto simp: obind_def oread_def olift_def split: sum.splits prod.splits)
        show thesis
          using unfolded out Inr write_json_files(1,2) [OF wr] d ran(1-3)
          by (intro written [of z p raw stored d d']) auto
      qed
    qed
  qed
qed

end
