(* ===== verification/Service_Examples.thy ===== *)
theory Service_Examples
  imports Service_Laws Repository_Examples
begin

text \<open>
  The theorems about the service applied to a concrete store: project \<^verbatim>\<open>p\<close> holds the test case \<^verbatim>\<open>c\<close>,
  and the JSON writer and reader are a table of the three documents that occur.
\<close>

definition new_case :: "json btree" where
  "new_case = [(''expectedResult'', Str ''e''), (''testCaseId'', Str ''n''), (''title'', Str ''t'')]"

definition created_case :: json where
  "created_case = Obj [(''expectedResult'', Str ''e''), (''lastModified'', Str ''now''),
     (''testCaseId'', Str ''n''), (''title'', Str ''t''), (''version'', Num (PosInt 1))]"

definition revised_case :: json where
  "revised_case = Obj [(''expectedResult'', Str ''e''), (''lastModified'', Str ''now''),
     (''testCaseId'', Str ''c''), (''title'', Str ''u''), (''version'', Num (PosInt 4))]"

definition table_repo :: FileRepository where
  "table_repo = \<lparr>root = [''data''], lock_busy = False,
     encode = (\<lambda>d. if d = Obj stored_case then ''A'' else if d = revised_case then ''B'' else ''C''),
     decode = (\<lambda>b. Inr (if b = ''A'' then Obj stored_case else if b = ''B'' then revised_case else created_case)),
     compute_etag = (\<lambda>b. b)\<rparr>"

definition table_fs :: fs where
  "table_fs =
     [([''data''], Dir), ([''data'', ''projects''], Dir), ([''data'', ''projects'', ''p''], Dir),
      ([''data'', ''projects'', ''p'', ''project.json''], File ''{}''),
      ([''data'', ''projects'', ''p'', ''c''], Dir),
      ([''data'', ''projects'', ''p'', ''c'', ''test-case.json''], File ''A'')]"

definition table_service :: TestService where
  "table_service = \<lparr>repository = table_repo, iso_now = ''now'', secs_now = ''0'', instant_now = 0,
     suffix_now = 7, to_lowercase = (\<lambda>s. s), serde_text = (\<lambda>_. ''bad'')\<rparr>"

definition table_state :: Svc where
  "table_state = \<lparr>files = table_fs, derivations = empty_cache\<rparr>"

lemma table_selectors [simp]:
  "repository table_service = table_repo" "iso_now table_service = ''now''"
  "secs_now table_service = ''0''" "files table_state = table_fs" "derivations table_state = empty_cache"
  by (simp_all add: table_service_def table_state_def)

lemma table_tree: "tree_ok table_fs" "plain_names table_fs"
  by code_simp+

lemma new_case_valid: "validate_payload Cases (Obj new_case) = Inr ()"
  by (simp add: validate_payload_iff references_within_limit_def accepts_def TestCase_spec_def
        f_req_simps new_case_def)

lemma title_valid: "validate_payload Cases (Obj [(''title'', Str ''u'')]) = Inr ()"
  by (simp add: validate_payload_iff references_within_limit_def accepts_def TestCase_spec_def
        f_req_simps)

lemma new_case_id: "derive_create_id Cases (Obj new_case) = Inr ''n''"
  by (simp add: derive_create_id_def required_string_def get_str_def new_case_def)

lemma new_case_created: "created_document Cases ''now'' ''0'' ''n'' (Obj new_case) = created_case"
  by code_simp

lemma title_revised:
  "updated_document Cases ''now'' ''0'' ''c'' (Obj stored_case) (Obj [(''title'', Str ''u'')]) = Inr revised_case"
  by code_simp

theorem resolve_exact_witness:
  "{p. existing_parent table_repo table_fs p \<and> exists_at table_repo Cases (Some p) ''c'' table_fs = Inr True}
     = {ProjectParent ''p.json''}"
proof -
  have "resolve table_repo Cases ''c'' None ''gone'' table_fs = Inr (ProjectParent ''p.json'')" by code_simp
  with resolve_exact [OF table_tree] show ?thesis by blast
qed

theorem create_in_reads_back_witness:
  "\<exists>st'. create_in table_service Cases (ProjectParent ''p.json'') (Obj new_case) table_state = (Inr ''n'', st')
   \<and> read_document table_repo Cases in_p ''n'' ''gone'' (files st') = Inr created_case"
proof -
  let ?st = "create_in table_service Cases (ProjectParent ''p.json'') (Obj new_case) table_state"
  have m: "fst (create_at table_repo Cases in_p ''n'' created_case table_fs) = Inr ()" by code_simp
  have p: "require_parent table_repo (ProjectParent ''p.json'') table_fs = Inr ()" by code_simp
  have c: "?st = (Inr ''n'', snd ?st)"
    using m p by (auto simp: create_in_def service_create_at_def sbind_sread new_case_valid new_case_id
        create_marker_def new_case_created invalidating_def sbind_def sio_def slift_def split: prod.splits)
  have d: "decode table_repo (encode table_repo created_case) = Inr created_case" by code_simp
  have "read_document table_repo Cases in_p ''n'' ''gone'' (files (snd ?st)) = Inr created_case"
    using create_in_reads_back [OF c, of "''gone''"] d new_case_created by simp
  with c show ?thesis by blast
qed

lemma table_write:
  "\<exists>st'. write_document table_service Cases in_p ''c'' (Obj [(''title'', Str ''u'')]) None table_state = (Inr revised_case, st')"
proof -
  have t: "fst (transform_at table_repo Cases in_p ''c'' None
      (update_closure table_service Cases in_p ''c'' (Obj [(''title'', Str ''u'')])) table_fs) = Inr revised_case"
    by code_simp
  have f: "refuse_foreign_identity table_repo Cases in_p ''c'' (Obj [(''title'', Str ''u'')]) table_fs = Inr ()"
    by code_simp
  from t f show ?thesis
    by (auto simp: write_document_def sbind_sread title_valid invalidating_def sbind_def sio_def slift_def
        split: prod.splits)
qed


theorem refused_update_keeps_files_witness:
  "\<exists>e st'. write_document table_service Cases in_p ''c'' Null None table_state = (Inl e, st')
   \<and> file_at (files st') [''data'', ''projects'', ''p'', ''c'', ''test-case.json''] = Some ''A''"
proof -
  have "\<not> is_ok (validate_payload Cases Null)" by code_simp
  then obtain e where "validate_payload Cases Null = Inl e" by (cases "validate_payload Cases Null") auto
  then have "write_document table_service Cases in_p ''c'' Null None table_state = (Inl e, table_state)"
    by (simp add: write_document_def sbind_def slift_def)
  note w = this
  have "file_at table_fs [''data'', ''projects'', ''p'', ''c'', ''test-case.json''] = Some ''A''" by code_simp
  with refused_update_keeps_files [OF w] w show ?thesis by auto
qed

theorem etag_prevents_lost_update_witness:
  "write_document table_service Cases in_p ''c'' (Obj [(''title'', Str ''u'')]) (Some ''A'') table_state
     = write_document table_service Cases in_p ''c'' (Obj [(''title'', Str ''u'')]) None table_state"
proof -
  let ?p = "[''data'', ''projects'', ''p'', ''c'', ''test-case.json'']"
  have a: "get_and_etag table_repo Cases ''c'' in_p ''gone'' Full table_fs = Inr (Obj stored_case, ''A'')"
    by code_simp
  have b: "document table_repo Cases in_p ''c'' = Inr ?p" "file_at table_fs ?p = Some ''A''"
    "\<not> lock_busy table_repo" by code_simp+
  have f: "refuse_foreign_identity table_repo Cases in_p ''c'' (Obj [(''title'', Str ''u'')]) table_fs = Inr ()"
    by code_simp
  show ?thesis
    using etag_prevents_lost_update [of table_service Cases "''c''" in_p "''gone''" Full table_fs "Obj stored_case"
        "''A''" ?p table_state "''A''" "Obj [(''title'', Str ''u'')]"] a b f title_valid by simp
qed

end
