(* ===== verification/Run_Service.thy ===== *)
theory Run_Service
  imports Service Composition Defect Import Names Calendar
begin

text \<open>
  Composition, execution and attachments as the service performs them
  (\<^verbatim>\<open>src/domain/service/composition.rs\<close>, \<^verbatim>\<open>attachments.rs\<close>, \<^verbatim>\<open>history.rs\<close>, \<^verbatim>\<open>duplication.rs\<close>): the run
  sub-routes are transactions on the run document around the rules of theory \<open>Composition\<close>.
\<close>

section \<open>Suites and cases in their parents\<close>

definition compose :: "TestService \<Rightarrow> Resource \<Rightarrow> Parent \<Rightarrow> json \<Rightarrow> Composed sop" where
  "compose S r target body =
     sbind (slift (creates r body)) (\<lambda>creation.
       if creation then sbind (create_in S r target body) (\<lambda>rid. slift (Inr (CreatedEntity rid)))
       else place_into S r target body)"

definition suite_parent :: "FileRepository \<Rightarrow> string \<Rightarrow> fs \<Rightarrow> Parent result" where
  "suite_parent R suite_id fs =
     rbind (parent_of R Suites suite_id ''Test suite not found'' fs) (\<lambda>home.
       Inr (SuiteParent (parent_project home) suite_id))"

definition add_case_to_suite :: "TestService \<Rightarrow> string \<Rightarrow> json \<Rightarrow> unit sop" where
  "add_case_to_suite S suite_id body =
     sbind (sread (suite_parent (repository S) suite_id)) (\<lambda>parent.
     sbind (compose S Cases parent body) (\<lambda>_. slift (Inr ())))"

definition remove_case_from_suite :: "TestService \<Rightarrow> string \<Rightarrow> string \<Rightarrow> unit sop" where
  "remove_case_from_suite S suite_id case_id =
     sbind (sread (suite_parent (repository S) suite_id)) (\<lambda>parent. delete_in S Cases parent case_id)"

section \<open>Reading a result request\<close>

definition VALID_STATUSES :: "string list" where
  "VALID_STATUSES = [''Passed'', ''Failed'', ''Blocked'', ''Untested'', ''Retest'']"

definition RESULT_REQUEST_FIELDS :: "string list" where
  "RESULT_REQUEST_FIELDS = [''testCaseId'', ''status'', ''timestamp'', ''notes'', ''durationMs'']"

definition request_case :: "json \<Rightarrow> json btree \<Rightarrow> string option \<Rightarrow> string result" where
  "request_case body object addressed_case = (case addressed_case of
       None \<Rightarrow> ok_or (invalid_request ''Required field testCaseId is missing'')
                 (required_string body ''testCaseId'')
     | Some addressed \<Rightarrow> (case map_of object ''testCaseId'' of
           None \<Rightarrow> Inr addressed
         | Some (Str s) \<Rightarrow> if s = addressed then Inr addressed
             else Inl (invalid_request ''Field `testCaseId` must match the case in the path'')
         | Some _ \<Rightarrow> Inl (invalid_request ''Field `testCaseId` is invalid'')))"

definition request_timestamp :: "string \<Rightarrow> json option \<Rightarrow> string result" where
  "request_timestamp secs v = (case v of
       None \<Rightarrow> Inr secs
     | Some Null \<Rightarrow> Inr secs
     | Some (Str s) \<Rightarrow> if s \<noteq> [] then Inr s else Inl (invalid_request ''Field `timestamp` is invalid'')
     | Some _ \<Rightarrow> Inl (invalid_request ''Field `timestamp` is invalid''))"

definition request_notes :: "json option \<Rightarrow> string Patch result" where
  "request_notes v = (case v of
       None \<Rightarrow> Inr Keep
     | Some Null \<Rightarrow> Inr Clear
     | Some (Str s) \<Rightarrow> Inr (Set s)
     | Some _ \<Rightarrow> Inl (invalid_request ''Field `notes` is invalid''))"

definition request_duration :: "json option \<Rightarrow> 64 word Patch result" where
  "request_duration v = (case v of
       None \<Rightarrow> Inr Keep
     | Some Null \<Rightarrow> Inr Clear
     | Some d \<Rightarrow> (case as_u64 d of
           Some ms \<Rightarrow> Inr (Set ms)
         | None \<Rightarrow> Inl (invalid_request ''Field `durationMs` is invalid'')))"

definition result_update :: "string \<Rightarrow> json \<Rightarrow> string option \<Rightarrow> ResultUpdate result" where
  "result_update secs body addressed_case =
     rbind (ok_or (invalid_request ''Request body must be a JSON object'') (as_object body)) (\<lambda>object.
     rbind (rall (\<lambda>key. guard (key \<in> set RESULT_REQUEST_FIELDS)
              (invalid_request (''Unknown field `'' @ key @ ''`''))) (obj_keys object)) (\<lambda>_.
     rbind (request_case body object addressed_case) (\<lambda>cid.
     rbind (ok_or (invalid_request ''Required field status is missing'') (required_string body ''status'')) (\<lambda>status.
     rbind (guard (status \<in> set VALID_STATUSES) invalid_status) (\<lambda>_.
     rbind (request_timestamp secs (map_of object ''timestamp'')) (\<lambda>timestamp.
     rbind (request_notes (map_of object ''notes'')) (\<lambda>notes.
     rbind (request_duration (map_of object ''durationMs'')) (\<lambda>duration.
       Inr \<lparr>ru_test_case_id = cid, ru_status = status, ru_timestamp = timestamp, ru_notes = notes,
            ru_duration_ms = duration\<rparr>))))))))"

section \<open>Run sub-resources\<close>

definition add_suite_to_run :: "TestService \<Rightarrow> string \<Rightarrow> json \<Rightarrow> unit sop" where
  "add_suite_to_run S run_id body =
     sbind (slift (ok_or (invalid_request ''Required field suiteId is missing'')
              (required_string body ''suiteId''))) (\<lambda>suite_id.
       mutate_run S run_id (\<lambda>_ run fs.
         rbind (load_entity (repository S) TestSuite_from_value Suites suite_id fs) (\<lambda>suite.
         rbind (attach_suite_to_run run suite suite_id) (\<lambda>run'. Inr ((), run')))))"

definition add_case_to_run :: "TestService \<Rightarrow> string \<Rightarrow> json \<Rightarrow> unit sop" where
  "add_case_to_run S run_id body =
     sbind (slift (ok_or (invalid_request ''Required field testCaseId is missing'')
              (required_string body ''testCaseId''))) (\<lambda>case_id.
       mutate_run S run_id (\<lambda>_ run fs.
         rbind (load_entity (repository S) TestCase_from_value Cases case_id fs) (\<lambda>c.
         rbind (attach_case_to_run run c case_id) (\<lambda>run'.
           Inr ((), capture_case_version run' (tc_test_case_id c) (tc_version c))))))"

definition stored_result :: "string \<Rightarrow> TestRun \<Rightarrow> string \<Rightarrow> (TestCaseResult \<times> TestRun) result" where
  "stored_result silent run cid =
     rbind (ok_or (Internal silent) (Option.bind (run_results run)
       (find (\<lambda>r. tcr_test_case_id r = cid)))) (\<lambda>r. Inr (r, run))"

definition record_result :: "TestService \<Rightarrow> ResultUpdate \<Rightarrow> TestRun \<Rightarrow> fs \<Rightarrow> (TestCaseResult \<times> TestRun) result" where
  "record_result S u run fs =
     (if \<not> holds_case run (ru_test_case_id u) then Inl (NotFound ''Test case not in test run'')
      else
        (let held = ok_opt (load_entity (repository S) TestCase_from_value Cases (ru_test_case_id u) fs);
             pinned = capture_case_version run
               (case held of Some c \<Rightarrow> tc_test_case_id c | None \<Rightarrow> ru_test_case_id u)
               (Option.bind held tc_version)
         in stored_result ''recorded result not stored'' (upsert_result pinned u) (ru_test_case_id u)))"

definition record_run_result :: "TestService \<Rightarrow> string \<Rightarrow> json \<Rightarrow> TestCaseResult sop" where
  "record_run_result S run_id body =
     sbind (slift (result_update (secs_now S) body None)) (\<lambda>u.
       mutate_run S run_id (\<lambda>_. record_result S u))"

definition replace_run_result :: "TestService \<Rightarrow> string \<Rightarrow> string \<Rightarrow> json \<Rightarrow> TestCaseResult sop" where
  "replace_run_result S run_id case_id body =
     sbind (slift (result_update (secs_now S) body (Some case_id))) (\<lambda>u.
       mutate_run S run_id (\<lambda>_ run _.
         rbind (replace_result run u) (\<lambda>run'.
           stored_result ''replaced result not stored'' run' (ru_test_case_id u))))"

definition delete_run_result :: "TestService \<Rightarrow> string \<Rightarrow> string \<Rightarrow> unit sop" where
  "delete_run_result S run_id case_id =
     mutate_run S run_id (\<lambda>_ run _. rbind (remove_result run case_id) (\<lambda>run'. Inr ((), run')))"

definition link_configuration_to_run :: "TestService \<Rightarrow> string \<Rightarrow> json \<Rightarrow> unit sop" where
  "link_configuration_to_run S run_id body =
     sbind (slift (ok_or (invalid_request ''Required field configId is missing'')
              (required_string body ''configId''))) (\<lambda>config_id.
       mutate_run S run_id (\<lambda>home run fs.
         rbind (load (repository S) TestConfiguration_from_value Configurations config_id (Some home)
                  (entity_missing_message Configurations) fs) (\<lambda>configuration.
         rbind (attach_configuration_to_run run configuration config_id) (\<lambda>run'. Inr ((), run')))))"

definition unlink_configuration_from_run :: "TestService \<Rightarrow> string \<Rightarrow> string \<Rightarrow> unit sop" where
  "unlink_configuration_from_run S run_id config_id =
     mutate_run S run_id (\<lambda>home run fs.
       rbind (resolve (repository S) Configurations config_id (Some home)
                (entity_missing_message Configurations) fs) (\<lambda>_.
       rbind (detach_configuration_from_run run config_id) (\<lambda>run'. Inr ((), run'))))"

section \<open>Imports\<close>

record import_state =
  im_run :: TestRun
  im_seen :: "string list"
  im_counts :: ImportCounts
  im_imported :: nat
  im_duplicates :: nat

definition import_update :: "string \<Rightarrow> ParsedCase \<Rightarrow> ResultUpdate" where
  "import_update secs c =
     \<lparr>ru_test_case_id = pca_test_case_id c, ru_status = import_status_str (pca_status c),
      ru_timestamp = (case pca_timestamp c of Some t \<Rightarrow> t | None \<Rightarrow> secs),
      ru_notes = (case pca_notes c of Some n \<Rightarrow> Set n | None \<Rightarrow> Keep), ru_duration_ms = Keep\<rparr>"

fun count_status_of :: "ImportStatus \<Rightarrow> ImportCounts \<Rightarrow> ImportCounts" where
  "count_status_of SPassed c = c\<lparr>ic_passed := ic_passed c + 1\<rparr>"
| "count_status_of SFailed c = c\<lparr>ic_failed := ic_failed c + 1\<rparr>"
| "count_status_of SBlocked c = c\<lparr>ic_blocked := ic_blocked c + 1\<rparr>"

definition import_one :: "string \<Rightarrow> ParsedCase \<Rightarrow> import_state \<Rightarrow> import_state" where
  "import_one secs c st =
     (if pca_test_case_id c \<in> set (im_seen st) then st\<lparr>im_duplicates := im_duplicates st + 1\<rparr>
      else st\<lparr>im_run := upsert_result (im_run st) (import_update secs c),
              im_seen := pca_test_case_id c # im_seen st,
              im_counts := count_status_of (pca_status c) (im_counts st),
              im_imported := im_imported st + 1\<rparr>)"

definition import_into :: "string \<Rightarrow> ParsedCase list \<Rightarrow> nat \<Rightarrow> TestRun \<Rightarrow> ImportSummary \<times> TestRun" where
  "import_into secs cases errors run =
     (let st = fold (import_one secs) cases
            \<lparr>im_run = run, im_seen = map tcr_test_case_id (or_empty (run_results run)),
             im_counts = \<lparr>ic_passed = 0, ic_failed = 0, ic_blocked = 0\<rparr>, im_imported = 0,
             im_duplicates = 0\<rparr>
      in (\<lparr>is_imported = im_imported st, is_skipped = im_duplicates st + errors, is_errors = errors,
           is_duplicates = im_duplicates st, is_summary = im_counts st\<rparr>, im_run st))"

definition store_imported_results :: "TestService \<Rightarrow> string \<Rightarrow> ParsedCase list \<Rightarrow> nat \<Rightarrow> ImportSummary sop" where
  "store_imported_results S run_id cases errors =
     mutate_run S run_id (\<lambda>_ run _. Inr (import_into (secs_now S) cases errors run))"

definition import_junit_results ::
  "TestService \<Rightarrow> (string \<Rightarrow> xml_node list option) \<Rightarrow> string \<Rightarrow> string \<Rightarrow> ImportSummary sop" where
  "import_junit_results S parse_xml run_id xml =
     sbind (slift (parse parse_xml xml)) (\<lambda>report.
       store_imported_results S run_id (pre_cases report) (pre_errors report))"

definition import_json_results ::
  "TestService \<Rightarrow> (string \<Rightarrow> json option) \<Rightarrow> string \<Rightarrow> string \<Rightarrow> ImportSummary sop" where
  "import_json_results S from_slice run_id body =
     sbind (slift (parse_json from_slice (serde_text S) body)) (\<lambda>cases.
       store_imported_results S run_id cases 0)"

section \<open>Defects of the case behind a result\<close>

definition resolve_result_case :: "FileRepository \<Rightarrow> string \<Rightarrow> string \<Rightarrow> fs \<Rightarrow> Parent result" where
  "resolve_result_case R run_id case_id fs =
     rbind (run_home R run_id fs) (\<lambda>home.
     rbind (load R TestRun_from_value Runs run_id (Some home) ''Test run not found'' fs) (\<lambda>run.
     rbind (guard (list_ex (\<lambda>r. tcr_test_case_id r = case_id) (or_empty (run_results run)))
              (NotFound ''Test result not found in test run'')) (\<lambda>_.
     rbind (map_err read_error (locate R Cases case_id fs)) (\<lambda>parents.
       case find (\<lambda>p. parent_project p = parent_project home) parents of
         Some at_home \<Rightarrow> Inr at_home
       | None \<Rightarrow>
           (let named = parent_project home # map pr_project_id (or_empty (run_projects run));
                in_reach = filter (\<lambda>p. parent_project p \<in> set named) parents
            in case in_reach of
                 [] \<Rightarrow> Inl (NotFound ''Test case not found'')
               | [one] \<Rightarrow> Inr one
               | _ \<Rightarrow> Inl (ambiguous Cases in_reach))))))"

definition case_defects :: "FileRepository \<Rightarrow> Parent \<Rightarrow> string \<Rightarrow> fs \<Rightarrow> DefectLink list result" where
  "case_defects R parent case_id fs =
     rbind (load R TestCase_from_value Cases case_id (Some parent) ''Test case not found'' fs) (\<lambda>c.
       Inr (or_empty (tc_defect_links c)))"

text \<open>\<^const>\<open>None\<close> in the result is the panic of \<open>is_jira\<close>, before anything is written.\<close>

definition link_defect_to_case ::
  "TestService \<Rightarrow> Parent \<Rightarrow> string \<Rightarrow> json \<Rightarrow> Svc \<Rightarrow> (DefectLink result \<times> Svc) option" where
  "link_defect_to_case S parent case_id body st =
     map_option (\<lambda>parsed.
       sbind (slift parsed) (\<lambda>request.
         let link = new_link request (''link-'' @ show_nat (suffix_now S)) (secs_now S)
         in sbind (mutate_case_document S parent case_id (\<lambda>c _.
                rbind (attach_defect_to_case c link) (\<lambda>c'. Inr ((), c')))) (\<lambda>_. slift (Inr link))) st)
       (parse_request (serde_text S) body)"

definition unlink_defect_from_case :: "TestService \<Rightarrow> Parent \<Rightarrow> string \<Rightarrow> string \<Rightarrow> unit sop" where
  "unlink_defect_from_case S parent case_id link_id =
     mutate_case_document S parent case_id (\<lambda>c _.
       rbind (detach_defect_from_case c link_id) (\<lambda>c'. Inr ((), c')))"

end
