(* ===== verification/Run_Laws.thy ===== *)
theory Run_Laws
  imports Service_Examples Run_Service
begin

text \<open>
  What the run sub-routes promise: an import accounts for every parsed case and never touches a
  recorded result, and a recording is one atomic transaction on the run document.
\<close>

section \<open>Imports\<close>

abbreviation im_total :: "import_state \<Rightarrow> nat" where
  "im_total st \<equiv> ic_passed (im_counts st) + ic_failed (im_counts st) + ic_blocked (im_counts st)"

definition im_ok :: "import_state \<Rightarrow> bool" where
  "im_ok st \<longleftrightarrow> set (im_seen st) = set (result_ids (im_run st)) \<and> im_total st = im_imported st"

lemma import_update_id [simp]: "ru_test_case_id (import_update secs c) = pca_test_case_id c"
  by (simp add: import_update_def)

lemma import_one_ok: "im_ok st \<Longrightarrow> im_ok (import_one secs c st)"
  by (cases "pca_status c") (auto simp: im_ok_def import_one_def result_ids_upsert)

lemma import_fold_ok: "im_ok st \<Longrightarrow> im_ok (fold (import_one secs) cases st)"
  by (induction cases arbitrary: st) (simp_all add: import_one_ok)

lemma import_fold_counts:
  "im_imported (fold (import_one secs) cases st) + im_duplicates (fold (import_one secs) cases st) =
     im_imported st + im_duplicates st + length cases"
  by (induction cases arbitrary: st) (simp_all add: import_one_def)

lemma result_of_None_ids: "result_of run k = None \<longleftrightarrow> k \<notin> set (result_ids run)"
  by (simp add: result_of_def result_ids_def find_None_ids)

definition first_import :: "string \<Rightarrow> ParsedCase list \<Rightarrow> string \<Rightarrow> TestCaseResult option" where
  "first_import secs cases k =
     map_option (\<lambda>c. new_result (import_update secs c)) (find (\<lambda>c. pca_test_case_id c = k) cases)"

lemma import_one_results:
  assumes "im_ok st"
  shows "result_of (im_run (import_one secs c st)) k =
    (case result_of (im_run st) k of Some r \<Rightarrow> Some r | None \<Rightarrow> first_import secs [c] k)"
  using assms result_of_None_ids [of "im_run st" k]
  by (auto simp: import_one_def im_ok_def first_import_def result_of_upsert split: option.splits)

lemma import_fold_results:
  "im_ok st \<Longrightarrow> result_of (im_run (fold (import_one secs) cases st)) k =
    (case result_of (im_run st) k of Some r \<Rightarrow> Some r | None \<Rightarrow> first_import secs cases k)"
  by (induction cases arbitrary: st)
    (auto simp: import_one_ok import_one_results first_import_def split: option.splits)

lemma import_fold_known:
  "\<forall>c\<in>set cases. pca_test_case_id c \<in> set (im_seen st) \<Longrightarrow>
     fold (import_one secs) cases st = st\<lparr>im_duplicates := im_duplicates st + length cases\<rparr>"
  by (induction cases arbitrary: st) (simp_all add: import_one_def)

definition import_start :: "TestRun \<Rightarrow> import_state" where
  "import_start run = \<lparr>im_run = run, im_seen = result_ids run,
     im_counts = \<lparr>ic_passed = 0, ic_failed = 0, ic_blocked = 0\<rparr>, im_imported = 0, im_duplicates = 0\<rparr>"

lemma import_start_ok [simp]: "im_ok (import_start run)"
  by (simp add: im_ok_def import_start_def)

lemma import_into_start:
  "import_into secs cases errors run =
     (let st = fold (import_one secs) cases (import_start run)
      in (\<lparr>is_imported = im_imported st, is_skipped = im_duplicates st + errors, is_errors = errors,
           is_duplicates = im_duplicates st, is_summary = im_counts st\<rparr>, im_run st))"
  by (simp add: import_into_def import_start_def result_ids_def)

lemma import_into_results:
  "result_of (snd (import_into secs cases errors run)) k =
    (case result_of run k of Some r \<Rightarrow> Some r | None \<Rightarrow> first_import secs cases k)"
  by (simp add: import_into_start Let_def import_fold_results) (simp add: import_start_def)

lemma import_into_again:
  "import_into secs' cases errors' (snd (import_into secs cases errors run)) =
    (\<lparr>is_imported = 0, is_skipped = length cases + errors', is_errors = errors',
      is_duplicates = length cases, is_summary = \<lparr>ic_passed = 0, ic_failed = 0, ic_blocked = 0\<rparr>\<rparr>,
     snd (import_into secs cases errors run))"
proof -
  let ?run = "snd (import_into secs cases errors run)"
  have "result_of ?run (pca_test_case_id c) \<noteq> None" if "c \<in> set cases" for c
    using that find_None_iff [of "\<lambda>c'. pca_test_case_id c' = pca_test_case_id c" cases]
    by (auto simp: import_into_results first_import_def simp del: not_None_eq split: option.splits)
  then have known: "\<forall>c\<in>set cases. pca_test_case_id c \<in> set (im_seen (import_start ?run))"
    using result_of_None_ids by (force simp: import_start_def)
  show ?thesis
    unfolding import_into_start [of secs' cases] Let_def import_fold_known [OF known]
    by (simp add: import_start_def)
qed

text \<open>C24. An import accounts for every parsed case and is idempotent: each case is either imported or a
  duplicate, the status counts add up to the imported ones, a case that already had a result keeps
  it untouched, a new case gets the result of its first occurrence, and importing the same cases
  again imports nothing and leaves the run as it is.\<close>

theorem import_into_accounts:
  assumes "import_into secs cases errors run = (sm, run')"
  shows "is_imported sm + is_duplicates sm = length cases
    \<and> is_skipped sm = is_duplicates sm + errors
    \<and> ic_passed (is_summary sm) + ic_failed (is_summary sm) + ic_blocked (is_summary sm) = is_imported sm
    \<and> result_of run' k = (case result_of run k of Some r \<Rightarrow> Some r | None \<Rightarrow>
         map_option (\<lambda>c. new_result (import_update secs c)) (find (\<lambda>c. pca_test_case_id c = k) cases))
    \<and> is_imported (fst (import_into secs' cases errors run')) = 0
    \<and> snd (import_into secs' cases errors run') = run'"
proof -
  let ?st = "fold (import_one secs) cases (import_start run)"
  have run': "run' = snd (import_into secs cases errors run)" using assms by simp
  have "im_imported ?st + im_duplicates ?st = length cases"
    using import_fold_counts [of secs cases "import_start run"] by (simp add: import_start_def)
  moreover have "im_total ?st = im_imported ?st"
    using import_fold_ok [OF import_start_ok] by (simp add: im_ok_def)
  moreover have "sm = fst (import_into secs cases errors run)" using assms by simp
  ultimately show ?thesis
    unfolding run' import_into_again import_into_results first_import_def
    by (simp add: import_into_start Let_def)
qed

section \<open>Transactions on a run\<close>

lemma mutate_run_ok:
  assumes "mutate_run S run_id mutate st = (Inr y, st')"
  obtains home p raw stored run run' where "run_home (repository S) run_id (files st) = Inr home"
    "document (repository S) Runs (Some home) run_id = Inr p" "file_at (files st) p = Some raw"
    "decode (repository S) raw = Inr stored" "TestRun_from_value stored = Some run"
    "mutate home run (files st) = Inr (y, run')"
    "file_at (files st') p = Some (encode (repository S) (TestRun_to_value run'))"
    "\<And>q. q \<noteq> p \<Longrightarrow> file_at (files st') q = file_at (files st) q"
    "derivations st' = invalidate (derivations st)"
proof -
  obtain home where h: "run_home (repository S) run_id (files st) = Inr home"
    and m: "mutate_document S Runs TestRun_from_value TestRun_to_value ''Test run not found''
      ''run mutation refused'' ''run mutation produced no outcome'' home run_id (mutate home) st = (Inr y, st')"
    using assms by (auto simp: mutate_run_def sbind_Inr_iff dest: sym)
  from m show thesis
  proof (cases rule: mutate_document_cases)
    case (written y' p raw stored d d')
    then show thesis using that [OF h] by simp
  qed simp
qed

lemma mutate_run_error:
  assumes "mutate_run S run_id mutate st = (Inl e, st')"
  shows "file_at (files st') q = file_at (files st) q \<and> derivations st' = derivations st"
proof -
  consider "st' = st" | home where "mutate_document S Runs TestRun_from_value TestRun_to_value
      ''Test run not found'' ''run mutation refused'' ''run mutation produced no outcome'' home run_id
      (mutate home) st = (Inl e, st')"
    using assms by (auto simp: mutate_run_def sbind_Inl_iff)
  then show ?thesis
  proof cases
    case 2
    then show ?thesis by (cases rule: mutate_document_cases) simp_all
  qed simp
qed

definition run_at :: "TestService \<Rightarrow> Parent \<Rightarrow> string \<Rightarrow> fs \<Rightarrow> TestRun option" where
  "run_at S home run_id fs =
     Option.bind (ok_opt (read_at (repository S) Runs (Some home) run_id fs)) TestRun_from_value"

lemma run_at_document:
  assumes "document (repository S) Runs (Some home) run_id = Inr p" "file_at fs p = Some raw"
    and "decode (repository S) raw = Inr v"
  shows "run_at S home run_id fs = TestRun_from_value v"
proof -
  have "read_at (repository S) Runs (Some home) run_id fs = Inr v"
    using assms by (auto simp: read_at_Inr_iff)
  then show ?thesis by (simp add: run_at_def)
qed

lemma mutate_run_stored:
  assumes "mutate_run S run_id mutate st = (Inr y, st')"
  obtains home run run' where "run_home (repository S) run_id (files st) = Inr home"
    "run_at S home run_id (files st) = Some run" "mutate home run (files st) = Inr (y, run')"
    "decode (repository S) (encode (repository S) (TestRun_to_value run')) = Inr (TestRun_to_value run') \<Longrightarrow>
       run_at S home run_id (files st') = Some run'"
  using assms
proof (rule mutate_run_ok)
  fix home p raw stored run run'
  assume a: "run_home (repository S) run_id (files st) = Inr home"
    "document (repository S) Runs (Some home) run_id = Inr p" "file_at (files st) p = Some raw"
    "decode (repository S) raw = Inr stored" "TestRun_from_value stored = Some run"
    "mutate home run (files st) = Inr (y, run')"
    "file_at (files st') p = Some (encode (repository S) (TestRun_to_value run'))"
  show thesis
  proof (rule that [OF a(1) _ a(6)])
    show "run_at S home run_id (files st) = Some run" using run_at_document [OF a(2-4)] a(5) by simp
    show "run_at S home run_id (files st') = Some run'"
      if "decode (repository S) (encode (repository S) (TestRun_to_value run')) = Inr (TestRun_to_value run')"
      using run_at_document [OF a(2,7) that] by (simp add: TestRun_roundtrip)
  qed
qed

lemma result_update_ok:
  assumes "result_update secs body addressed = Inr u"
  shows "ru_status u \<in> set VALID_STATUSES \<and> (\<forall>cid. addressed = Some cid \<longrightarrow> ru_test_case_id u = cid)"
  using assms
  by (auto simp: result_update_def request_case_def rbind_Inr_iff guard_def split: if_splits option.splits json.splits)

lemma capture_keeps_results [simp]:
  "run_results (capture_case_version run cid v) = run_results run"
  by (simp add: capture_case_version_def Let_def split: option.splits)

lemma stored_result_Inr_iff: "stored_result silent run cid = Inr (r, run') \<longleftrightarrow> run' = run \<and> result_of run cid = Some r"
  by (auto simp: stored_result_def result_of_def rbind_Inr_iff ok_or_def or_empty_def split: option.splits Option.bind_splits)

lemma record_result_ok:
  assumes "record_result S u run fs = Inr (res, run')"
  shows "holds_case run (ru_test_case_id u)
    \<and> res = (case result_of run (ru_test_case_id u) of Some old \<Rightarrow> apply_update u old | None \<Rightarrow> new_result u)
    \<and> (\<forall>k. result_of run' k = (if k = ru_test_case_id u then Some res else result_of run k))"
proof -
  have cap: "result_of (capture_case_version run c v) k = result_of run k" for c v k
    by (simp add: result_of_def)
  show ?thesis
    using assms by (auto simp: record_result_def stored_result_Inr_iff result_of_upsert cap Let_def split: if_splits)
qed


section \<open>Examples\<close>

definition parsed :: "string \<Rightarrow> ImportStatus \<Rightarrow> ParsedCase" where
  "parsed k s = \<lparr>pca_test_case_id = k, pca_status = s, pca_notes = None, pca_timestamp = None\<rparr>"

theorem import_into_accounts_witness:
  "result_of (snd (import_into ''9'' [parsed ''TC1'' SPassed, parsed ''TC2'' SPassed] 0 sample_run)) ''TC1'' =
     Some (sample_result ''TC1'' ''Failed'' ''5'')
   \<and> is_imported (fst (import_into ''9'' [parsed ''TC1'' SPassed, parsed ''TC2'' SPassed] 0
       (snd (import_into ''9'' [parsed ''TC1'' SPassed, parsed ''TC2'' SPassed] 0 sample_run)))) = 0"
proof -
  have "result_of sample_run ''TC1'' = Some (sample_result ''TC1'' ''Failed'' ''5'')"
    by (simp add: result_of_def sample_defs)
  with import_into_accounts [OF surjective_pairing, where k = "''TC1''" and run = sample_run] show ?thesis
    by simp
qed

definition run_repo :: FileRepository where
  "run_repo = table_repo\<lparr>encode := (\<lambda>_. ''R''), decode := (\<lambda>_. Inr (TestRun_to_value sample_run))\<rparr>"

definition run_fs :: fs where
  "run_fs = table_fs @ [([''data'', ''projects'', ''p'', ''test_runs''], Dir),
     ([''data'', ''projects'', ''p'', ''test_runs'', ''R1.json''], File ''R'')]"

definition result_body :: json where
  "result_body = Obj [(''status'', Str ''Passed''), (''testCaseId'', Str ''TC1'')]"


end
