(* ===== verification/Case_Service.thy ===== *)
theory Case_Service
  imports Service Names Calendar
begin

text \<open>
  Attachments, history and duplication (\<^verbatim>\<open>src/domain/service/attachments.rs\<close>, \<^verbatim>\<open>history.rs\<close>,
  \<^verbatim>\<open>duplication.rs\<close> and \<^verbatim>\<open>src/domain/duplicate.rs\<close>).
\<close>

section \<open>Attachments\<close>

record StoredAttachment =
  sa_filename :: string
  sa_original_name :: string
  sa_size :: nat

definition require_test_case :: "FileRepository \<Rightarrow> string \<Rightarrow> fs \<Rightarrow> Parent result" where
  "require_test_case R rid fs = parent_of R Cases rid ''Test case not found'' fs"

definition attachment_entry :: "string \<Rightarrow> string \<Rightarrow> nat \<Rightarrow> string option \<Rightarrow> json" where
  "attachment_entry filename original nbytes uploaded = struct_obj
     [(''filename'', Some (Str filename)), (''originalName'', Some (Str original)),
      (''mimeType'', Some (Str (mime_type filename))),
      (''size'', Some (Num (PosInt (word_of_nat nbytes)))), (''uploadedAt'', map_option Str uploaded)]"

definition store_attachment ::
  "TestService \<Rightarrow> Parent \<Rightarrow> string \<Rightarrow> string \<Rightarrow> string \<Rightarrow> StoredAttachment sop" where
  "store_attachment S parent rid original contents =
     sbind (slift (guard (length contents \<le> MAX_ATTACHMENT_BYTES) (PayloadTooLarge MAX_ATTACHMENT_BYTES))) (\<lambda>_.
     sbind (slift (stored_attachment_name (suffix_now S) original)) (\<lambda>filename.
     sbind (sio attachment_write_error (save_attachment (repository S) parent rid filename
              (attachment_entry filename original (length contents) (Some (iso_now S))) contents)) (\<lambda>_.
       slift (Inr \<lparr>sa_filename = filename, sa_original_name = original, sa_size = length contents\<rparr>))))"

definition service_read_attachment :: "FileRepository \<Rightarrow> Parent \<Rightarrow> string \<Rightarrow> string \<Rightarrow> fs \<Rightarrow> string result" where
  "service_read_attachment R parent rid filename fs =
     map_err attachment_error (read_attachment R parent rid filename fs)"

definition service_delete_attachment :: "TestService \<Rightarrow> Parent \<Rightarrow> string \<Rightarrow> string \<Rightarrow> unit sop" where
  "service_delete_attachment S parent rid filename =
     sio attachment_error (delete_attachment (repository S) parent rid filename)"

definition structured_step :: "FileRepository \<Rightarrow> Parent \<Rightarrow> string \<Rightarrow> nat \<Rightarrow> fs \<Rightarrow> json result" where
  "structured_step R parent rid i fs =
     rbind (read_document R Cases (Some parent) rid ''Test case not found'' fs) (\<lambda>v.
     rbind (ok_or (invalid_request (''Step index '' @ show_nat i @ '' is out of range''))
              (Option.bind (Option.bind (get v ''steps'') as_array)
                 (\<lambda>steps. if i < length steps then Some (steps ! i) else None))) (\<lambda>step.
       case step of
         Obj m \<Rightarrow> Inr (Obj m)
       | _ \<Rightarrow> Inl (invalid_request (''Step '' @ show_nat i @ '' is a plain string step, not a structured step''))))"

definition store_step_attachment ::
  "TestService \<Rightarrow> Parent \<Rightarrow> string \<Rightarrow> nat \<Rightarrow> string \<Rightarrow> string \<Rightarrow> StoredAttachment sop" where
  "store_step_attachment S parent rid i original contents =
     sbind (slift (guard (length contents \<le> MAX_ATTACHMENT_BYTES) (PayloadTooLarge MAX_ATTACHMENT_BYTES))) (\<lambda>_.
     sbind (sread (structured_step (repository S) parent rid i)) (\<lambda>_.
     sbind (slift (stored_attachment_name (suffix_now S) original)) (\<lambda>filename.
     sbind (sio attachment_write_error (save_step_attachment (repository S) parent rid i filename
              (attachment_entry filename original (length contents) None) contents)) (\<lambda>_.
       slift (Inr \<lparr>sa_filename = filename, sa_original_name = original, sa_size = length contents\<rparr>)))))"

definition list_step_attachments :: "FileRepository \<Rightarrow> Parent \<Rightarrow> string \<Rightarrow> nat \<Rightarrow> fs \<Rightarrow> json list result" where
  "list_step_attachments R parent rid i fs =
     rbind (structured_step R parent rid i fs) (\<lambda>step.
       Inr (case Option.bind (get step ''attachments'') as_array of Some items \<Rightarrow> items | None \<Rightarrow> []))"

definition service_read_step_attachment ::
  "FileRepository \<Rightarrow> Parent \<Rightarrow> string \<Rightarrow> nat \<Rightarrow> string \<Rightarrow> fs \<Rightarrow> string result" where
  "service_read_step_attachment R parent rid i filename fs =
     map_err attachment_error (read_step_attachment R parent rid i filename fs)"

definition service_delete_step_attachment ::
  "TestService \<Rightarrow> Parent \<Rightarrow> string \<Rightarrow> nat \<Rightarrow> string \<Rightarrow> unit sop" where
  "service_delete_step_attachment S parent rid i filename =
     sio attachment_error (delete_step_attachment (repository S) parent rid i filename)"

section \<open>History\<close>

definition changed_fields :: "json \<Rightarrow> json \<Rightarrow> string list" where
  "changed_fields snapshot successor =
     filter (\<lambda>field. get snapshot field \<noteq> get successor field) QUALIFYING_CASE_FIELDS"

text \<open>Each snapshot is compared with the one after it, the last with the live document.\<close>

definition history_entries :: "nat list \<Rightarrow> json list \<Rightarrow> json \<Rightarrow> CaseHistoryEntry list" where
  "history_entries versions snapshots live =
     map (\<lambda>(version, snapshot, successor).
         \<lparr>che_version = word_of_nat version, che_last_modified = get_str snapshot ''lastModified'',
          che_changed_fields = changed_fields snapshot successor\<rparr>)
       (zip versions (zip snapshots (tl snapshots @ [live])))"

definition list_case_history :: "FileRepository \<Rightarrow> Parent \<Rightarrow> string \<Rightarrow> fs \<Rightarrow> CaseHistoryEntry list result" where
  "list_case_history R parent rid fs =
     rbind (map_err read_error (list_revisions R parent rid fs)) (\<lambda>versions.
       if versions = [] then Inr []
       else rbind (read_document R Cases (Some parent) rid ''Test case not found'' fs) (\<lambda>live.
            rbind (rmap (\<lambda>version. map_err (document_error ''Revision not found'')
                     (read_revision R parent rid (word_of_nat version) fs)) versions) (\<lambda>snapshots.
              Inr (history_entries versions snapshots live))))"

definition read_case_revision :: "FileRepository \<Rightarrow> Parent \<Rightarrow> string \<Rightarrow> 64 word \<Rightarrow> fs \<Rightarrow> json result" where
  "read_case_revision R parent rid version fs =
     map_err (document_error ''Revision not found'') (read_revision R parent rid version fs)"

section \<open>Duplication\<close>

record DuplicateSpec =
  ds_resource :: Resource
  ds_id_field :: string
  ds_not_found_message :: string
  ds_rename :: "(string \<times> string) option"
  ds_reset_run_state :: bool
  ds_duplicated_message :: string
  ds_already_exists_message :: string

definition PROJECT :: DuplicateSpec where
  "PROJECT = \<lparr>ds_resource = Projects, ds_id_field = ''projectId'', ds_not_found_message = ''Project not found'',
     ds_rename = Some (''newName'', ''name''), ds_reset_run_state = False,
     ds_duplicated_message = ''Project duplicated'', ds_already_exists_message = ''Project already exists''\<rparr>"

definition SUITE :: DuplicateSpec where
  "SUITE = \<lparr>ds_resource = Suites, ds_id_field = ''suiteId'', ds_not_found_message = ''Test suite not found'',
     ds_rename = Some (''newName'', ''name''), ds_reset_run_state = False,
     ds_duplicated_message = ''Test suite duplicated'', ds_already_exists_message = ''Test suite already exists''\<rparr>"

definition CASE :: DuplicateSpec where
  "CASE = \<lparr>ds_resource = Cases, ds_id_field = ''testCaseId'', ds_not_found_message = ''Test case not found'',
     ds_rename = Some (''newTitle'', ''title''), ds_reset_run_state = False,
     ds_duplicated_message = ''Test case duplicated'', ds_already_exists_message = ''Test case already exists''\<rparr>"

definition RUN :: DuplicateSpec where
  "RUN = \<lparr>ds_resource = Runs, ds_id_field = ''testRunId'', ds_not_found_message = ''Test run not found'',
     ds_rename = None, ds_reset_run_state = True,
     ds_duplicated_message = ''Test run duplicated'', ds_already_exists_message = ''Test run already exists''\<rparr>"

definition MILESTONE :: DuplicateSpec where
  "MILESTONE = \<lparr>ds_resource = Milestones, ds_id_field = ''milestoneId'', ds_not_found_message = ''Milestone not found'',
     ds_rename = None, ds_reset_run_state = False,
     ds_duplicated_message = ''Milestone duplicated'', ds_already_exists_message = ''Milestone already exists''\<rparr>"

definition WORKFLOW :: DuplicateSpec where
  "WORKFLOW = \<lparr>ds_resource = Workflows, ds_id_field = ''workflowId'', ds_not_found_message = ''Workflow not found'',
     ds_rename = None, ds_reset_run_state = False,
     ds_duplicated_message = ''Workflow duplicated'', ds_already_exists_message = ''Workflow already exists''\<rparr>"

definition duplicate_id :: "DuplicateSpec \<Rightarrow> string \<Rightarrow> json \<Rightarrow> nat \<Rightarrow> string" where
  "duplicate_id spec source_id body unique = (case get_str body ''newId'' of
       Some new_id \<Rightarrow> new_id
     | None \<Rightarrow>
         (let derived = trim_end_matches ''.json'' source_id @ ''-copy-'' @ show_nat unique
          in if id_requires_json_suffix (ds_resource spec) then derived @ ''.json'' else derived))"

definition apply_overrides ::
  "DuplicateSpec \<Rightarrow> string \<Rightarrow> json \<Rightarrow> nat \<Rightarrow> string \<Rightarrow> json \<Rightarrow> string \<times> json" where
  "apply_overrides spec source_id body unique secs v =
     (let v1 = set_field (ds_id_field spec) (Str (duplicate_id spec source_id body unique)) v;
          v2 = (case ds_rename spec of
                  None \<Rightarrow> v1
                | Some (body_key, document_field) \<Rightarrow> (case get_str body body_key of
                      None \<Rightarrow> v1
                    | Some new_name \<Rightarrow> set_field document_field (Str new_name) v1));
          v3 = (if ds_reset_run_state spec
                then on_object (obj_remove ''results'') (set_field ''timestamp'' (Str secs) v2)
                else v2)
      in (case get_str v3 (ds_id_field spec) of Some i \<Rightarrow> i | None \<Rightarrow> ''unknown'', v3))"

definition duplicate_error :: "DuplicateSpec \<Rightarrow> io_error \<Rightarrow> DomainError" where
  "duplicate_error spec e =
     (if io_kind e = KAlreadyExists then Conflict (ds_already_exists_message spec) else from_io e)"

definition store_copy :: "TestService \<Rightarrow> DuplicateSpec \<Rightarrow> Parent option \<Rightarrow> string \<times> json \<Rightarrow> string sop" where
  "store_copy S spec parent copied = (case copied of (new_id, copy) \<Rightarrow>
     sbind (slift (map_err (\<lambda>_. invalid_id) (validate_document_id (ds_resource spec) new_id))) (\<lambda>_.
     sbind (invalidating (sio (duplicate_error spec)
              (create_at (repository S) (ds_resource spec) parent new_id
                 (normalise_marker (ds_resource spec) (secs_now S) new_id copy)))) (\<lambda>_.
       slift (Inr new_id))))"

definition duplicate :: "TestService \<Rightarrow> DuplicateSpec \<Rightarrow> string \<Rightarrow> json \<Rightarrow> string sop" where
  "duplicate S spec rid body =
     sbind (sread (owner_for_write (repository S) (ds_resource spec) rid (ds_not_found_message spec))) (\<lambda>parent.
     sbind (sread (\<lambda>fs. map_err (load_error (ds_not_found_message spec))
              (read_at (repository S) (ds_resource spec) parent rid fs))) (\<lambda>v.
       store_copy S spec parent (apply_overrides spec rid body (suffix_now S) (secs_now S) v)))"

end
