(* ===== verification/Case_Laws.thy ===== *)
theory Case_Laws
  imports Service_Examples Case_Service
begin

text \<open>
  What history and duplication promise: a content change archives the version it replaces, and a copy
  differs from its source in the named fields only.
\<close>

section \<open>History\<close>

lemma revision_not_document:
  assumes "document R Cases (Some parent) rid = Inr q" "revision_marker (root R) parent rid n = Inr p"
  shows "p \<noteq> q"
proof -
  have "last p = revision_name n" using assms(2) by (auto simp: revision_marker_ok)
  moreover have "last q = ''test-case.json''" using assms(1) by (cases rule: document_cases) auto
  ultimately show ?thesis by (auto simp: revision_name_def)
qed

text \<open>C10. No version is lost: an update that changes the content of a test case leaves the replaced
  version readable as a revision, under the number it had, byte for byte the document that was
  stored, and the live document carries the next number.\<close>

theorem update_archives_old_version:
  assumes "write_document S Cases (Some parent) rid v et st = (Inr d, st')"
    and "read_document (repository S) Cases (Some parent) rid missing (files st) = Inr stored"
    and "merged_document stored v = Inr m" "case_content_changed stored m"
    and "revision_marker (root (repository S)) parent rid (stored_version stored) = Inr p"
    and "\<not> path_exists (files st) p"
    and "decode (repository S) (encode (repository S) stored) = Inr stored"
  shows "read_case_revision (repository S) parent rid (stored_version stored) (files st') = Inr stored
    \<and> stored_version d = stored_version stored + 1"
  using assms(1)
proof (rule write_document_run)
  fix q raw stored' fs1 fs'
  assume q: "document (repository S) Cases (Some parent) rid = Inr q"
    "file_at (files st) q = Some raw" "decode (repository S) raw = Inr stored'"
    and u: "update_closure S Cases (Some parent) rid v stored' (files st) = (Inr d, fs1)"
    and w: "write_json (repository S) q d fs1 = (Inr (), fs')"
    and st': "st' = st\<lparr>files := fs', derivations := invalidate (derivations st)\<rparr>"
  have s: "stored' = stored" using q assms(2) by (auto simp: read_document_Inr_iff read_at_Inr_iff)
  obtain mm where mm: "m = Obj mm" using assms(3) by (cases stored; cases v) (auto simp: merged_document_def)
  have r: "revise_op S Cases (Some parent) rid stored m (files st) = (Inr d, fs1)"
    using u s assms(3) by (auto simp: update_closure_def obind_olift obind_Inr_iff olift_def normalise_marker_def)
  then have sv: "save_revision_inner (repository S) parent rid (stored_version stored) stored (files st) = (Inr (), fs1)"
    and d: "d = Obj (revise_fields (iso_now S) stored True mm)"
    using assms(4) mm by (auto simp: revise_op_def revise_case_def save_revision_locked_def map_err_Inr_iff
        split: prod.splits sum.splits)
  have "file_at fs' p = Some (encode (repository S) stored)"
    using save_revision_inner_file [OF sv assms(5,6)] write_json_files(1) [OF w] revision_not_document [OF q(1) assms(5)]
    by simp
  then have "read_revision (repository S) parent rid (stored_version stored) fs' = Inr stored"
    by (rule read_revision_file [OF assms(5) _ assms(7)])
  then show ?thesis
    by (simp add: st' read_case_revision_def d revise_fields_def Let_def stored_version_def as_u64_def split: option.splits)
qed

section \<open>Duplication\<close>

lemma get_on_object_insert: "j \<noteq> k \<Longrightarrow> get (on_object (obj_insert j x) v) k = get v k"
  by (cases v) (simp_all add: on_object_def)

lemma get_on_object_remove: "get (on_object (obj_remove j) v) k = (if j = k then None else get v k)"
  by (cases v) (simp_all add: on_object_def get_def)

lemma get_normalise:
  assumes "k \<notin> {''testSuites'', ''testCases'', ''timestamp''}" "\<forall>c i. marker_fields r = Some (c, i) \<longrightarrow> k \<noteq> i"
  shows "get (normalise_marker r secs rid v) k = get v k"
  using assms by (cases v; cases r) (simp_all add: normalise_marker_def normalise_fields_def Let_def on_object_def get_def)

lemma get_overrides:
  assumes "spec \<in> {PROJECT, SUITE, CASE, RUN, MILESTONE, WORKFLOW}"
    and "k \<notin> {ds_id_field spec, ''name'', ''title'', ''results'', ''timestamp'', ''testSuites'', ''testCases''}"
  shows "get (snd (apply_overrides spec rid body n secs v)) k = get v k"
  using assms
  by (auto simp: apply_overrides_def Let_def set_field_def get_on_object_insert get_on_object_remove
      PROJECT_def SUITE_def CASE_def RUN_def MILESTONE_def WORKFLOW_def split: option.splits)

lemma duplicate_ok:
  assumes "duplicate S spec rid body st = (Inr new_id, st')"
  obtains parent v copy fs where
    "owner_for_write (repository S) (ds_resource spec) rid (ds_not_found_message spec) (files st) = Inr parent"
    "read_at (repository S) (ds_resource spec) parent rid (files st) = Inr v"
    "apply_overrides spec rid body (suffix_now S) (secs_now S) v = (new_id, copy)"
    "create_at (repository S) (ds_resource spec) parent new_id
       (normalise_marker (ds_resource spec) (secs_now S) new_id copy) (files st) = (Inr (), fs)"
    "st' = st\<lparr>files := fs, derivations := invalidate (derivations st)\<rparr>"
proof -
  obtain parent v where p: "owner_for_write (repository S) (ds_resource spec) rid (ds_not_found_message spec) (files st) = Inr parent"
    "read_at (repository S) (ds_resource spec) parent rid (files st) = Inr v"
    "store_copy S spec parent (apply_overrides spec rid body (suffix_now S) (secs_now S) v) st = (Inr new_id, st')"
    using assms by (auto simp: duplicate_def sbind_Inr_iff map_err_Inr_iff dest!: sym [of "Inr _" "owner_for_write _ _ _ _ _"]
      sym [of "Inr _" "map_err _ _"])
  obtain i copy where o: "apply_overrides spec rid body (suffix_now S) (secs_now S) v = (i, copy)" by force
  show thesis
    using p(3) that [OF p(1,2)] o by (auto simp: store_copy_def service_step_simps)
qed

text \<open>A copy is faithful and overwrites nothing: duplicating a document creates one new document
  beside it, every existing file, the source included, keeps its contents, and the copy has the
  source's value in every field except its identifier, its name, the child collections and, for a
  run, the timestamp and the results, which a copy of a run does not carry.\<close>

theorem duplicate_copies:
  assumes "duplicate S spec rid body st = (Inr new_id, st')"
    and "spec \<in> {PROJECT, SUITE, CASE, RUN, MILESTONE, WORKFLOW}"
    and "k \<notin> {ds_id_field spec, ''name'', ''title'', ''results'', ''timestamp'', ''testSuites'', ''testCases''}"
  shows "\<exists>parent v p copy. read_at (repository S) (ds_resource spec) parent rid (files st) = Inr v
    \<and> document (repository S) (ds_resource spec) parent new_id = Inr p \<and> file_at (files st) p = None
    \<and> file_at (files st') p = Some (encode (repository S) copy) \<and> get copy k = get v k
    \<and> (spec = RUN \<longrightarrow> get copy ''results'' = None)
    \<and> (\<forall>q b. file_at (files st) q = Some b \<longrightarrow> file_at (files st') q = Some b)"
  using assms(1)
proof (rule duplicate_ok)
  fix parent v copy fs
  let ?R = "repository S" and ?d = "normalise_marker (ds_resource spec) (secs_now S) new_id copy"
  assume v: "read_at ?R (ds_resource spec) parent rid (files st) = Inr v"
    and o: "apply_overrides spec rid body (suffix_now S) (secs_now S) v = (new_id, copy)"
    and c: "create_at ?R (ds_resource spec) parent new_id ?d (files st) = (Inr (), fs)"
    and st': "st' = st\<lparr>files := fs, derivations := invalidate (derivations st)\<rparr>"
  have "get ?d k = get copy k"
    using assms(2,3) by (intro get_normalise) (auto simp: PROJECT_def SUITE_def CASE_def RUN_def MILESTONE_def WORKFLOW_def)
  also have "\<dots> = get v k" using get_overrides [OF assms(2,3)] o by (metis snd_conv)
  finally have k: "get ?d k = get v k" .
  have "get copy ''results'' = None" if "spec = RUN"
    using o that by (auto simp: apply_overrides_def RUN_def Let_def get_on_object_remove)
  then have res: "get ?d ''results'' = None" if "spec = RUN"
    using that by (subst get_normalise) (auto simp: RUN_def)
  from c show ?thesis
  proof (rule create_at_ok)
    fix p assume p: "document ?R (ds_resource spec) parent new_id = Inr p" "file_at (files st) p = None"
      "write_json ?R p ?d (files st) = (Inr (), fs)"
    have "file_at fs q = Some b" if "file_at (files st) q = Some b" for q b
      using that p(2) write_json_files(1) [OF p(3), of q] by (cases "q = p") auto
    then show ?thesis
      using v p(1,2) write_json_files(2) [OF p(3)] k res by (auto simp: st' intro!: exI)
  qed
qed

section \<open>Examples\<close>

theorem update_archives_old_version_witness:
  "\<exists>st'. write_document table_service Cases in_p ''c'' (Obj [(''title'', Str ''u'')]) None table_state = (Inr revised_case, st')
   \<and> read_case_revision table_repo (ProjectParent ''p.json'') ''c'' (stored_version (Obj stored_case)) (files st') = Inr (Obj stored_case)"
proof -
  obtain st' where w: "write_document table_service Cases in_p ''c'' (Obj [(''title'', Str ''u'')]) None table_state
      = (Inr revised_case, st')" using table_write by blast
  let ?m = "Obj (obj_insert ''title'' (Str ''u'') stored_case)"
  let ?p = "[''data'', ''projects'', ''p'', ''c'', ''revisions'', ''v3.json'']"
  have a: "read_document table_repo Cases in_p ''c'' ''gone'' table_fs = Inr (Obj stored_case)"
    "merged_document (Obj stored_case) (Obj [(''title'', Str ''u'')]) = Inr ?m"
    "case_content_changed (Obj stored_case) ?m"
    "revision_marker (root table_repo) (ProjectParent ''p.json'') ''c'' (stored_version (Obj stored_case)) = Inr ?p"
    "\<not> path_exists table_fs ?p" "decode table_repo (encode table_repo (Obj stored_case)) = Inr (Obj stored_case)"
    by code_simp+
  from update_archives_old_version [OF w, unfolded table_selectors, OF a] w show ?thesis by blast
qed

theorem duplicate_copies_witness:
  "\<exists>st' parent v p copy. duplicate table_service CASE ''c'' (Obj [(''newId'', Str ''d'')]) table_state = (Inr ''d'', st')
   \<and> read_at table_repo Cases parent ''c'' table_fs = Inr v \<and> document table_repo Cases parent ''d'' = Inr p
   \<and> file_at table_fs p = None \<and> file_at (files st') p = Some (encode table_repo copy)
   \<and> get copy ''expectedResult'' = get v ''expectedResult''"
proof -
  let ?r = "duplicate table_service CASE ''c'' (Obj [(''newId'', Str ''d'')]) table_state"
  have "fst ?r = Inr ''d''" by code_simp
  then have d: "?r = (Inr ''d'', snd ?r)" by (simp add: prod_eq_iff)
  have k: "''expectedResult'' \<notin> {ds_id_field CASE, ''name'', ''title'', ''results'', ''timestamp'', ''testSuites'', ''testCases''}"
    by (simp add: CASE_def)
  have c: "ds_resource CASE = Cases" by (simp add: CASE_def)
  obtain st' where st': "?r = (Inr ''d'', st')" using d by blast
  from duplicate_copies [OF st' _ k, unfolded table_selectors c] st' show ?thesis by simp blast
qed

end
