(* ===== verification/Report_Service.thy ===== *)
theory Report_Service
  imports Service Reports
begin

text \<open>
  The reports as the service answers them (\<^verbatim>\<open>src/domain/service/reporting.rs\<close> and \<^verbatim>\<open>metadata.rs\<close>): the
  walks over the stored tree that feed the arithmetic of theory \<open>Reports\<close>, the filters that keep a
  restricted caller inside its projects, and the derivation cache in front of them.
\<close>

section \<open>Reports as JSON\<close>

definition dec_usize :: "json \<Rightarrow> nat option" where
  "dec_usize v = map_option unat (dec_u64 v)"

definition enc_usize :: "nat \<Rightarrow> json" where
  "enc_usize n = Num (PosInt (word_of_nat n))"

definition MilestoneProgress_to_value :: "MilestoneProgress \<Rightarrow> json" where
  "MilestoneProgress_to_value p = struct_obj
     [(''milestoneId'', Some (Str (mp_milestone_id p))), (''totalCases'', Some (enc_usize (mp_total_cases p))),
      (''passed'', Some (enc_usize (mp_passed p))), (''failed'', Some (enc_usize (mp_failed p))),
      (''blocked'', Some (enc_usize (mp_blocked p))), (''untested'', Some (enc_usize (mp_untested p))),
      (''retest'', Some (enc_usize (mp_retest p))), (''passPercentage'', Some (Num (Float (mp_pass_percentage p))))]"

definition MilestoneProgress_from_value :: "json \<Rightarrow> MilestoneProgress option" where
  "MilestoneProgress_from_value v = do {
     look \<leftarrow> struct_view False [''milestoneId'', ''totalCases'', ''passed'', ''failed'', ''blocked'', ''untested'',
       ''retest'', ''passPercentage''] v;
     x0 \<leftarrow> req dec_str (look ''milestoneId'');
     x1 \<leftarrow> req dec_usize (look ''totalCases'');
     x2 \<leftarrow> req dec_usize (look ''passed'');
     x3 \<leftarrow> req dec_usize (look ''failed'');
     x4 \<leftarrow> req dec_usize (look ''blocked'');
     x5 \<leftarrow> req dec_usize (look ''untested'');
     x6 \<leftarrow> req dec_usize (look ''retest'');
     x7 \<leftarrow> req dec_f64 (look ''passPercentage'');
     Some \<lparr>mp_milestone_id = x0, mp_total_cases = x1, mp_passed = x2, mp_failed = x3, mp_blocked = x4,
       mp_untested = x5, mp_retest = x6, mp_pass_percentage = x7\<rparr>}"

definition SummaryReport_to_value :: "SummaryReport \<Rightarrow> json" where
  "SummaryReport_to_value r = struct_obj
     [(''total'', Some (enc_usize (sr_total r))), (''passed'', Some (enc_usize (sr_passed r))),
      (''failed'', Some (enc_usize (sr_failed r))), (''blocked'', Some (enc_usize (sr_blocked r))),
      (''untested'', Some (enc_usize (sr_untested r))), (''passPercentage'', Some (Num (Float (sr_pass_percentage r)))),
      (''totalDurationMs'', Some (Num (PosInt (sr_total_duration_ms r))))]"

definition SummaryReport_from_value :: "json \<Rightarrow> SummaryReport option" where
  "SummaryReport_from_value v = do {
     look \<leftarrow> struct_view False [''total'', ''passed'', ''failed'', ''blocked'', ''untested'', ''passPercentage'',
       ''totalDurationMs''] v;
     x0 \<leftarrow> req dec_usize (look ''total'');
     x1 \<leftarrow> req dec_usize (look ''passed'');
     x2 \<leftarrow> req dec_usize (look ''failed'');
     x3 \<leftarrow> req dec_usize (look ''blocked'');
     x4 \<leftarrow> req dec_usize (look ''untested'');
     x5 \<leftarrow> req dec_f64 (look ''passPercentage'');
     x6 \<leftarrow> req dec_u64 (look ''totalDurationMs'');
     Some \<lparr>sr_total = x0, sr_passed = x1, sr_failed = x2, sr_blocked = x3, sr_untested = x4,
       sr_pass_percentage = x5, sr_total_duration_ms = x6\<rparr>}"

definition LastCaseResult_to_value :: "LastCaseResult \<Rightarrow> json" where
  "LastCaseResult_to_value c = struct_obj
     [(''testCaseId'', Some (Str (lcr_test_case_id c))), (''status'', Some (Str (lcr_status c))),
      (''runId'', Some (Str (lcr_run_id c))), (''timestamp'', Some (Str (lcr_timestamp c)))]"

definition LastCaseResult_from_value :: "json \<Rightarrow> LastCaseResult option" where
  "LastCaseResult_from_value v = do {
     look \<leftarrow> struct_view False [''testCaseId'', ''status'', ''runId'', ''timestamp''] v;
     x0 \<leftarrow> req dec_str (look ''testCaseId'');
     x1 \<leftarrow> req dec_str (look ''status'');
     x2 \<leftarrow> req dec_str (look ''runId'');
     x3 \<leftarrow> req dec_str (look ''timestamp'');
     Some \<lparr>lcr_test_case_id = x0, lcr_status = x1, lcr_run_id = x2, lcr_timestamp = x3\<rparr>}"

definition LastResultsReport_to_value :: "LastResultsReport \<Rightarrow> json" where
  "LastResultsReport_to_value r = struct_obj
     [(''projectId'', map_option Str (lrr_project_id r)),
      (''cases'', Some (enc_vec LastCaseResult_to_value (lrr_cases r)))]"

definition LastResultsReport_from_value :: "json \<Rightarrow> LastResultsReport option" where
  "LastResultsReport_from_value v = do {
     look \<leftarrow> struct_view False [''projectId'', ''cases''] v;
     x0 \<leftarrow> opt dec_str (look ''projectId'');
     x1 \<leftarrow> req (dec_vec LastCaseResult_from_value) (look ''cases'');
     Some \<lparr>lrr_project_id = x0, lrr_cases = x1\<rparr>}"

text \<open>An answer through the cache: encoded, stored, decoded again.\<close>

definition cached :: "TestService \<Rightarrow> string \<Rightarrow> ('r \<Rightarrow> json) \<Rightarrow> (json \<Rightarrow> 'r option) \<Rightarrow> (fs \<Rightarrow> 'r result) \<Rightarrow> 'r sop" where
  "cached S key enc dec computed st =
     (case cached_derivations (instant_now S) key (rbind (computed (files st)) (\<lambda>r. Inr (enc r))) (derivations st) of
        (answer, c) \<Rightarrow>
          (rbind answer (\<lambda>v. ok_or (Internal (serde_text S v)) (dec v)), st\<lparr>derivations := c\<rparr>))"

section \<open>Milestone progress\<close>

definition milestone_runs :: "FileRepository \<Rightarrow> Parent \<Rightarrow> string list \<Rightarrow> fs \<Rightarrow> TestRun list result" where
  "milestone_runs R home run_ids fs =
     rbind (rmap (\<lambda>run_id. case resolve R Runs run_id (Some home) ''Test run not found'' fs of
              Inl (NotFound _) \<Rightarrow> Inr []
            | Inl e \<Rightarrow> Inl e
            | Inr found \<Rightarrow>
                Inr (case read_document R Runs (Some found) run_id ''Test run not found'' fs of
                       Inl _ \<Rightarrow> []
                     | Inr v \<Rightarrow> (case TestRun_from_value v of None \<Rightarrow> [] | Some run \<Rightarrow> [run])))
           run_ids) (\<lambda>runs. Inr (concat runs))"

definition load_milestone :: "FileRepository \<Rightarrow> Parent \<Rightarrow> string \<Rightarrow> fs \<Rightarrow> Milestone result" where
  "load_milestone R home rid fs =
     rbind (map_err milestone_error (read_at R Milestones (Some home) rid fs)) (\<lambda>v.
       ok_or (Internal ''Stored milestone JSON is invalid'') (Milestone_from_value v))"

definition milestone_progress_uncached ::
  "FileRepository \<Rightarrow> (rat \<Rightarrow> rat) \<Rightarrow> string \<Rightarrow> fs \<Rightarrow> MilestoneProgress result" where
  "milestone_progress_uncached R rnd rid fs =
     rbind (resolve R Milestones rid None ''Milestone not found'' fs) (\<lambda>home.
     rbind (load_milestone R home rid fs) (\<lambda>milestone.
     rbind (milestone_runs R home (or_empty (ms_test_run_ids milestone)) fs) (\<lambda>runs.
       Inr (compute rnd milestone runs))))"

definition milestone_progress :: "TestService \<Rightarrow> (rat \<Rightarrow> rat) \<Rightarrow> string \<Rightarrow> MilestoneProgress sop" where
  "milestone_progress S rnd rid =
     cached S (''progress|'' @ rid) MilestoneProgress_to_value MilestoneProgress_from_value
       (milestone_progress_uncached (repository S) rnd rid)"

section \<open>Coverage\<close>

definition scope_projects :: "FileRepository \<Rightarrow> Scope \<Rightarrow> fs \<Rightarrow> (string option \<times> string list) result" where
  "scope_projects R scope fs = (case scope of
       AllProjects \<Rightarrow> rbind (map_err read_error (list_ids R Projects fs)) (\<lambda>ps. Inr (None, ps))
     | InProject p \<Rightarrow> rbind (require_parent R (ProjectParent p) fs) (\<lambda>_. Inr (Some p, [p]))
     | InProjects ps \<Rightarrow> Inr (None, ps))"

definition suite_cases :: "FileRepository \<Rightarrow> string \<Rightarrow> string \<Rightarrow> fs \<Rightarrow> SuiteCases result" where
  "suite_cases R project suite_id fs =
     rbind (map_err read_error (read_at R Suites (Some (ProjectParent project)) suite_id fs)) (\<lambda>v.
     rbind (map_err read_error (list_children R (SuiteParent project suite_id) Cases fs)) (\<lambda>cases.
       Inr \<lparr>suc_suite_id = suite_id,
            suc_name = (case get_str v ''name'' of Some n \<Rightarrow> n | None \<Rightarrow> suite_id),
            suc_case_count = length cases\<rparr>))"

definition project_cases :: "FileRepository \<Rightarrow> fs \<Rightarrow> string \<Rightarrow> ProjectCases result" where
  "project_cases R fs project =
     rbind (map_err read_error (list_children R (ProjectParent project) Cases fs)) (\<lambda>direct.
     rbind (map_err read_error (list_children R (ProjectParent project) Suites fs)) (\<lambda>suite_ids.
     rbind (rmap (\<lambda>s. suite_cases R project s fs) suite_ids) (\<lambda>suites.
       Inr \<lparr>pc_direct = length direct, pc_suites = suites\<rparr>)))"

definition coverage_report :: "FileRepository \<Rightarrow> Scope \<Rightarrow> fs \<Rightarrow> CoverageReport result" where
  "coverage_report R scope fs =
     rbind (scope_projects R scope fs) (\<lambda>(echo, projects).
     rbind (rmap (project_cases R fs) projects) (\<lambda>cases. Inr (coverage echo cases)))"

section \<open>The walk over runs\<close>

text \<open>The runs of a project that can be read and decoded and that the caller may see.\<close>

definition visible_runs ::
  "FileRepository \<Rightarrow> string list option \<Rightarrow> fs \<Rightarrow> string \<Rightarrow> (string \<times> string \<times> TestRun) list result" where
  "visible_runs R reachable fs project =
     rbind (map_err read_error (list_children R (ProjectParent project) Runs fs)) (\<lambda>run_ids.
       Inr (List.map_filter (\<lambda>run_id.
         case read_at R Runs (Some (ProjectParent project)) run_id fs of
           Inl _ \<Rightarrow> None
         | Inr v \<Rightarrow> (case TestRun_from_value v of
               None \<Rightarrow> None
             | Some run \<Rightarrow>
                 if (case reachable of None \<Rightarrow> True | Some ps \<Rightarrow> run_reachable run project ps)
                 then Some (project, run_id, run) else None)) run_ids))"

definition walk_runs ::
  "FileRepository \<Rightarrow> string list option \<Rightarrow> string list \<Rightarrow> fs \<Rightarrow> (string \<times> string \<times> TestRun) list result" where
  "walk_runs R reachable projects fs =
     rbind (rmap (visible_runs R reachable fs) projects) (\<lambda>rows. Inr (concat rows))"

section \<open>Summary\<close>

definition filter_out_of_reach ::
  "FileRepository \<Rightarrow> Resource \<Rightarrow> string \<Rightarrow> string list option \<Rightarrow> DomainError \<Rightarrow> fs \<Rightarrow> bool" where
  "filter_out_of_reach R r rid reachable e fs =
     (if \<not> (case e of NotFound _ \<Rightarrow> True | Conflict _ \<Rightarrow> True | _ \<Rightarrow> False) then False
      else case reachable of
             None \<Rightarrow> False
           | Some ps \<Rightarrow>
               \<not> list_ex (\<lambda>home. parent_project home \<in> set ps)
                    (case locate R r rid fs of Inr homes \<Rightarrow> homes | Inl _ \<Rightarrow> []))"

text \<open>The milestone filter: the run identifiers it names, or \<^const>\<open>None\<close> for the empty report.\<close>

definition milestone_filter ::
  "FileRepository \<Rightarrow> string list option \<Rightarrow> string option \<Rightarrow> fs \<Rightarrow> string list option option result" where
  "milestone_filter R reachable milestone_id fs = (case milestone_id of
       None \<Rightarrow> Inr (Some None)
     | Some rid \<Rightarrow> (case resolve R Milestones rid None ''Milestone not found'' fs of
           Inr home \<Rightarrow> rbind (load_milestone R home rid fs) (\<lambda>m.
             Inr (Some (Some (or_empty (ms_test_run_ids m)))))
         | Inl e \<Rightarrow> if filter_out_of_reach R Milestones rid reachable e fs then Inr None else Inl e))"

text \<open>The configuration filter: whether the report goes on.\<close>

definition configuration_filter ::
  "FileRepository \<Rightarrow> string list option \<Rightarrow> string option \<Rightarrow> fs \<Rightarrow> bool result" where
  "configuration_filter R reachable configuration_id fs = (case configuration_id of
       None \<Rightarrow> Inr True
     | Some config_id \<Rightarrow> (case locate R Configurations config_id fs of
           Inl e \<Rightarrow> Inl (delete_error e)
         | Inr homes \<Rightarrow>
             if homes \<noteq> [] then Inr True
             else if reachable \<noteq> None then Inr False
             else Inl (NotFound (entity_missing_message Configurations))))"

definition normal_date :: "string option \<Rightarrow> string option result" where
  "normal_date raw = (case raw of None \<Rightarrow> Inr None | Some s \<Rightarrow> rbind (parse_date_filter s) (\<lambda>d. Inr (Some d)))"

definition summary_report_uncached ::
  "FileRepository \<Rightarrow> (rat \<Rightarrow> rat) \<Rightarrow> SummaryFilters \<Rightarrow> string list option \<Rightarrow> fs \<Rightarrow> SummaryReport result" where
  "summary_report_uncached R rnd filters reachable fs =
     rbind (case sf_project_id filters of
              None \<Rightarrow> Inr () | Some p \<Rightarrow> require_parent R (ProjectParent p) fs) (\<lambda>_.
     rbind (milestone_filter R reachable (sf_milestone_id filters) fs) (\<lambda>milestone.
       case milestone of
         None \<Rightarrow> Inr (summary rnd [])
       | Some milestone_run_ids \<Rightarrow>
           rbind (configuration_filter R reachable (sf_configuration_id filters) fs) (\<lambda>go.
           if \<not> go then Inr (summary rnd [])
           else
             rbind (normal_date (sf_from filters)) (\<lambda>lower.
             rbind (normal_date (sf_to filters)) (\<lambda>upper.
             rbind (map_err read_error (list_ids R Projects fs)) (\<lambda>projects.
             rbind (walk_runs R reachable projects fs) (\<lambda>rows.
               Inr (summary rnd (concat (map (\<lambda>(home, run_id, run). or_empty (run_results run))
                 (filter (\<lambda>(home, run_id, run). run_is_in_scope run home run_id
                     (filters\<lparr>sf_from := lower, sf_to := upper\<rparr>) milestone_run_ids) rows))))))))))) "

definition summary_key :: "SummaryFilters \<Rightarrow> string list option \<Rightarrow> string" where
  "summary_key filters reachable =
     ''summary|'' @ scope_key reachable @ ''|'' @ optional_key (sf_project_id filters) @ ''|''
     @ optional_key (sf_milestone_id filters) @ ''|'' @ optional_key (sf_configuration_id filters) @ ''|''
     @ optional_key (sf_from filters) @ ''|'' @ optional_key (sf_to filters)"

definition summary_report ::
  "TestService \<Rightarrow> (rat \<Rightarrow> rat) \<Rightarrow> SummaryFilters \<Rightarrow> string list option \<Rightarrow> SummaryReport sop" where
  "summary_report S rnd filters reachable =
     cached S (summary_key filters reachable) SummaryReport_to_value SummaryReport_from_value
       (summary_report_uncached (repository S) rnd filters reachable)"

section \<open>Last results\<close>

definition last_results_report_uncached ::
  "FileRepository \<Rightarrow> Scope \<Rightarrow> string list option \<Rightarrow> fs \<Rightarrow> LastResultsReport result" where
  "last_results_report_uncached R scope reachable fs =
     rbind (scope_projects R scope fs) (\<lambda>(echo, projects).
     rbind (walk_runs R reachable projects fs) (\<lambda>rows.
       Inr (last_results echo (concat (map (\<lambda>(home, run_id, run).
         map (\<lambda>r. \<lparr>ob_run_id = run_id, ob_result = r\<rparr>) (or_empty (run_results run))) rows)))))"

definition last_results_key :: "Scope \<Rightarrow> string list option \<Rightarrow> string" where
  "last_results_key scope reachable =
     ''last-results|'' @ scope_key reachable @ ''|'' @ (case scope of
       AllProjects \<Rightarrow> ''all''
     | InProject p \<Rightarrow> ''project|'' @ p
     | InProjects ps \<Rightarrow> ''projects|'' @ join_with '','' (sort ps))"

definition last_results_report :: "TestService \<Rightarrow> Scope \<Rightarrow> string list option \<Rightarrow> LastResultsReport sop" where
  "last_results_report S scope reachable =
     cached S (last_results_key scope reachable) LastResultsReport_to_value LastResultsReport_from_value
       (last_results_report_uncached (repository S) scope reachable)"

section \<open>Names for the context bar\<close>

definition project_names ::
  "FileRepository \<Rightarrow> Resource \<Rightarrow> string list option \<Rightarrow> fs \<Rightarrow> string \<Rightarrow> string list result" where
  "project_names R r reachable fs project =
     (if (case reachable of None \<Rightarrow> False | Some ps \<Rightarrow> project \<notin> set ps) then Inr []
      else rbind (map_err read_error (list_children R (ProjectParent project) r fs)) (\<lambda>ids.
        Inr (List.map_filter (\<lambda>rid. Option.bind (ok_opt (read_at R r (Some (ProjectParent project)) rid fs))
               (\<lambda>v. get_str v ''name'')) ids)))"

definition distinct_names :: "FileRepository \<Rightarrow> Resource \<Rightarrow> string list option \<Rightarrow> fs \<Rightarrow> string list result" where
  "distinct_names R r reachable fs =
     rbind (map_err read_error (list_ids R Projects fs)) (\<lambda>projects.
     rbind (rmap (project_names R r reachable fs) projects) (\<lambda>names.
       Inr (sort (remdups (concat names)))))"

definition dec_names :: "json \<Rightarrow> string list option" where
  "dec_names v = Some (case as_array v of Some items \<Rightarrow> List.map_filter as_str items | None \<Rightarrow> [])"

definition cached_names :: "TestService \<Rightarrow> string \<Rightarrow> Resource \<Rightarrow> string list option \<Rightarrow> string list sop" where
  "cached_names S kind r reachable =
     cached S (kind @ ''|'' @ scope_key reachable) (\<lambda>names. Arr (map Str names)) dec_names
       (distinct_names (repository S) r reachable)"

definition release_names :: "TestService \<Rightarrow> string list option \<Rightarrow> string list sop" where
  "release_names S reachable = cached_names S ''releases'' Milestones reachable"

definition environment_names :: "TestService \<Rightarrow> string list option \<Rightarrow> string list sop" where
  "environment_names S reachable = cached_names S ''environments'' Configurations reachable"

end
