(* ===== verification/Report_Laws.thy ===== *)
theory Report_Laws
  imports Run_Laws Report_Service
begin

text \<open>
  What the reports promise: a caller's reach confines what a report is computed from, and a cached
  answer is never handed to a caller with other filters or another reach.
\<close>

section \<open>Confinement\<close>

definition reachable_run :: "string list \<Rightarrow> string \<Rightarrow> TestRun \<Rightarrow> bool" where
  "reachable_run ps home run \<longleftrightarrow> home \<in> set ps \<and> pr_project_id ` set (or_empty (run_projects run)) \<subseteq> set ps"

lemma run_reachable_iff: "run_reachable run home ps \<longleftrightarrow> reachable_run ps home run"
  by (auto simp: run_reachable_def reachable_run_def list_ex_iff list_all_iff or_empty_def split: option.splits)

lemma set_map_filter: "set (List.map_filter f xs) = {y. \<exists>x\<in>set xs. f x = Some y}"
  by (auto simp: List.map_filter_def image_iff) (metis option.sel)

lemma visible_runs_row:
  assumes "visible_runs R reachable fs project = Inr rs" "(home, run_id, run) \<in> set rs"
  shows "home = project \<and> (\<forall>ps. reachable = Some ps \<longrightarrow> reachable_run ps home run)
    \<and> (\<exists>v. read_at R Runs (Some (ProjectParent home)) run_id fs = Inr v \<and> TestRun_from_value v = Some run)"
proof -
  obtain i where "(case read_at R Runs (Some (ProjectParent project)) i fs of
           Inl _ \<Rightarrow> None
         | Inr v \<Rightarrow> (case TestRun_from_value v of
               None \<Rightarrow> None
             | Some run \<Rightarrow>
                 if (case reachable of None \<Rightarrow> True | Some ps \<Rightarrow> run_reachable run project ps)
                 then Some (project, i, run) else None)) = Some (home, run_id, run)"
    using assms unfolding visible_runs_def rbind_Inr_iff by (auto simp: set_map_filter)
  then show ?thesis
    by (auto simp: run_reachable_iff split: sum.splits option.splits if_splits)
qed

lemma walk_runs_confined:
  assumes "walk_runs R reachable projects fs = Inr rows" "(home, run_id, run) \<in> set rows"
  shows "home \<in> set projects \<and> (\<forall>ps. reachable = Some ps \<longrightarrow> reachable_run ps home run)
    \<and> (\<exists>v. read_at R Runs (Some (ProjectParent home)) run_id fs = Inr v \<and> TestRun_from_value v = Some run)"
proof -
  obtain rss where rss: "rmap (visible_runs R reachable fs) projects = Inr rss" "rows = concat rss"
    using assms(1) by (auto simp: walk_runs_def rbind_Inr_iff)
  obtain rs where rs: "rs \<in> set rss" "(home, run_id, run) \<in> set rs" using assms(2) rss(2) by auto
  then obtain project where p: "project \<in> set projects" "visible_runs R reachable fs project = Inr rs"
    using rss(1) unfolding rmap_Inr_iff list_all2_conv_all_nth by (metis in_set_conv_nth)
  from visible_runs_row [OF p(2) rs(2)] p(1) show ?thesis by auto
qed

text \<open>C27. A report never leaves the caller's reach: every line of the last-results report is a result
  recorded in a stored run that lives in a project the caller can reach, and all of whose projects
  the caller can reach.\<close>

theorem last_results_confined:
  assumes "last_results_report_uncached R scope (Some ps) fs = Inr report" "c \<in> set (lrr_cases report)"
  shows "\<exists>home v run r. home \<in> set ps \<and> read_at R Runs (Some (ProjectParent home)) (lcr_run_id c) fs = Inr v
    \<and> TestRun_from_value v = Some run \<and> pr_project_id ` set (or_empty (run_projects run)) \<subseteq> set ps
    \<and> r \<in> set (or_empty (run_results run))
    \<and> lcr_test_case_id c = tcr_test_case_id r \<and> lcr_status c = tcr_status r \<and> lcr_timestamp c = tcr_timestamp r"
proof -
  obtain echo projects rows where w: "walk_runs R (Some ps) projects fs = Inr rows"
    and rep: "report = last_results echo (concat (map (\<lambda>(home, run_id, run).
         map (\<lambda>r. \<lparr>ob_run_id = run_id, ob_result = r\<rparr>) (or_empty (run_results run))) rows))"
    using assms(1) by (auto simp: last_results_report_uncached_def rbind_Inr_iff)
  obtain e where e: "e \<in> set (concat (map (\<lambda>(home, run_id, run).
         map (\<lambda>r. \<lparr>ob_run_id = run_id, ob_result = r\<rparr>) (or_empty (run_results run))) rows))"
    "c = last_case_result e"
    using assms(2) unfolding rep by (rule last_results_observed)
  from e(1) obtain home run_id run r where row: "(home, run_id, run) \<in> set rows"
    "r \<in> set (or_empty (run_results run))" "e = \<lparr>ob_run_id = run_id, ob_result = r\<rparr>"
    by (auto simp: split_beta)
  from walk_runs_confined [OF w row(1)] row(2,3) e(2) show ?thesis
    by (auto simp: last_case_result_def reachable_run_def)
qed

section \<open>Cache keys\<close>

text \<open>Two summary requests share a cached answer only when they ask the same: equal keys come from
  equal filters and an equal reach, whatever characters the identifiers contain.\<close>

theorem summary_key_injective:
  assumes "summary_key f reach = summary_key f' reach'"
  shows "reach = reach' \<and> sf_project_id f = sf_project_id f' \<and> sf_milestone_id f = sf_milestone_id f'
    \<and> sf_configuration_id f = sf_configuration_id f' \<and> sf_from f = sf_from f' \<and> sf_to f = sf_to f'"
proof -
  have s: "reach = reach'" and r: "optional_key (sf_project_id f) @ ''|'' @ optional_key (sf_milestone_id f) @ ''|''
      @ optional_key (sf_configuration_id f) @ ''|'' @ optional_key (sf_from f) @ ''|'' @ optional_key (sf_to f) =
     optional_key (sf_project_id f') @ ''|'' @ optional_key (sf_milestone_id f') @ ''|''
      @ optional_key (sf_configuration_id f') @ ''|'' @ optional_key (sf_from f') @ ''|'' @ optional_key (sf_to f')"
    using assms scope_key_inject [of reach _ reach'] by (fastforce simp: summary_key_def)+
  note a = optional_key_inject [OF r]
  note b = optional_key_inject [OF a [THEN conjunct2, simplified]]
  note c = optional_key_inject [OF b [THEN conjunct2, simplified]]
  note d = optional_key_inject [OF c [THEN conjunct2, simplified]]
  have "sf_to f = sf_to f'"
    using d optional_key_inject [of "sf_to f" "[]" "sf_to f'" "[]"] by simp
  with s a b c d show ?thesis by simp
qed

text \<open>The key of the last-results report has no such guarantee by its scope part alone, which joins the
  identifiers with commas.\<close>

lemma last_results_key_collides:
  "last_results_key (InProjects [''a'', ''b'']) reach = last_results_key (InProjects [''a,b'']) reach"
  by (simp add: last_results_key_def)

theorem summary_key_injective_witness:
  "summary_key \<lparr>sf_project_id = Some ''a'', sf_milestone_id = None, sf_configuration_id = None, sf_from = None, sf_to = None\<rparr>
     (Some (sort [''q'', ''p''])) =
   summary_key \<lparr>sf_project_id = Some ''a'', sf_milestone_id = None, sf_configuration_id = None, sf_from = None, sf_to = None\<rparr>
     (Some [''p'', ''q''])
   \<and> Some (sort [''q'', ''p'']) = Some [''p'', ''q'']"
proof -
  let ?f = "\<lparr>sf_project_id = Some ''a'', sf_milestone_id = None, sf_configuration_id = None, sf_from = None, sf_to = None\<rparr>"
  have k: "summary_key ?f (Some (sort [''q'', ''p''])) = summary_key ?f (Some [''p'', ''q''])" by code_simp
  from summary_key_injective [OF k] k show ?thesis by blast
qed

theorem last_results_confined_witness:
  "\<exists>report c home v. last_results_report_uncached run_repo (InProject ''p.json'') (Some [''p.json'']) run_fs = Inr report
     \<and> c \<in> set (lrr_cases report) \<and> home \<in> set [''p.json'']
     \<and> read_at run_repo Runs (Some (ProjectParent home)) (lcr_run_id c) run_fs = Inr v"
proof -
  let ?r = "last_results_report_uncached run_repo (InProject ''p.json'') (Some [''p.json'']) run_fs"
  have "case ?r of Inr report \<Rightarrow> lrr_cases report \<noteq> [] | Inl _ \<Rightarrow> False" by code_simp
  then obtain report where "?r = Inr report" "lrr_cases report \<noteq> []" by (auto split: sum.splits)
  then obtain c where r: "?r = Inr report" "c \<in> set (lrr_cases report)" by (meson list.set_sel(1))
  from last_results_confined [OF r] r show ?thesis by blast
qed

end
