(* ===== verification/Codec.thy ===== *)
theory Codec
  imports Json
begin

text \<open>
  An instance of the JSON writer and reader the sources take from \<^verbatim>\<open>serde_json\<close>, on which theorems
  that assume a round trip are applied: a length-prefixed rendering with an exact inverse. It stands
  for no code of the repository.
\<close>

definition enc_num :: "nat \<Rightarrow> string" where
  "enc_num n = show_nat n @ '';''"

definition enc_int :: "int \<Rightarrow> string" where
  "enc_int i = (if i < 0 then ''-'' else ''+'') @ enc_num (nat \<bar>i\<bar>)"

definition enc_text :: "string \<Rightarrow> string" where
  "enc_text s = enc_num (length s) @ s"

fun write_value :: "json \<Rightarrow> string" where
  "write_value Null = ''n''"
| "write_value (JBool b) = (if b then ''t'' else ''f'')"
| "write_value (Num (PosInt w)) = ''p'' @ enc_num (unat w)"
| "write_value (Num (NegInt i)) = ''m'' @ enc_int i"
| "write_value (Num (Float q)) = ''r'' @ enc_int (fst (quotient_of q)) @ enc_int (snd (quotient_of q))"
| "write_value (Str s) = ''s'' @ enc_text s"
| "write_value (Arr vs) = ''a'' @ enc_num (length vs) @ concat (map write_value vs)"
| "write_value (Obj m) = ''o'' @ enc_num (length m) @ concat (map (\<lambda>(k, v). enc_text k @ write_value v) m)"

type_synonym 'a reader = "string \<Rightarrow> ('a \<times> string) option"

definition read_num :: "nat reader" where
  "read_num s = map_option (\<lambda>(ds, rest). (digits_value ds, rest)) (split_once (CHR '';'') s)"

definition read_int :: "int reader" where
  "read_int s = (case s of
       [] \<Rightarrow> None
     | c # t \<Rightarrow> map_option (\<lambda>(n, rest). (if c = CHR ''-'' then - int n else int n, rest)) (read_num t))"

definition read_text :: "string reader" where
  "read_text s = map_option (\<lambda>(n, rest). (take n rest, drop n rest)) (read_num s)"

fun read_many :: "'a reader \<Rightarrow> nat \<Rightarrow> 'a list reader" where
  "read_many r 0 s = Some ([], s)"
| "read_many r (Suc n) s =
     Option.bind (r s) (\<lambda>(x, s'). map_option (\<lambda>(xs, t). (x # xs, t)) (read_many r n s'))"

definition read_entry :: "json reader \<Rightarrow> (string \<times> json) reader" where
  "read_entry r s = Option.bind (read_text s) (\<lambda>(k, s'). map_option (\<lambda>(v, t). ((k, v), t)) (r s'))"

fun read_value :: "nat \<Rightarrow> json reader" where
  "read_value 0 s = None"
| "read_value (Suc n) s = (case s of
       [] \<Rightarrow> None
     | c # t \<Rightarrow>
         if c = CHR ''n'' then Some (Null, t)
         else if c = CHR ''t'' then Some (JBool True, t)
         else if c = CHR ''f'' then Some (JBool False, t)
         else if c = CHR ''p'' then map_option (\<lambda>(k, u). (Num (PosInt (word_of_nat k)), u)) (read_num t)
         else if c = CHR ''m'' then map_option (\<lambda>(i, u). (Num (NegInt i), u)) (read_int t)
         else if c = CHR ''r'' then
           Option.bind (read_int t) (\<lambda>(a, u). map_option (\<lambda>(b, w). (Num (Float (Fract a b)), w)) (read_int u))
         else if c = CHR ''s'' then map_option (\<lambda>(x, u). (Str x, u)) (read_text t)
         else if c = CHR ''a'' then
           Option.bind (read_num t) (\<lambda>(k, u). map_option (\<lambda>(vs, w). (Arr vs, w)) (read_many (read_value n) k u))
         else
           Option.bind (read_num t) (\<lambda>(k, u).
             map_option (\<lambda>(m, w). (Obj m, w)) (read_many (read_entry (read_value n)) k u)))"

definition read_all :: "string \<Rightarrow> string + json" where
  "read_all s = (case read_value (length s) s of
       Some (v, []) \<Rightarrow> Inr v
     | _ \<Rightarrow> Inl ''expected value'')"

section \<open>Round trip\<close>

lemma read_num_enc [simp]: "read_num (enc_num n @ rest) = Some (n, rest)"
proof -
  have "CHR '';'' \<notin> set (show_nat n)"
    using show_nat_digits [of "CHR '';''" n] by (auto simp: is_ascii_digit_def)
  from split_once_append [OF this] show ?thesis by (simp add: read_num_def enc_num_def)
qed

lemma read_int_enc [simp]: "read_int (enc_int i @ rest) = Some (i, rest)"
  by (simp add: read_int_def enc_int_def)

lemma read_text_enc [simp]: "read_text (enc_text s @ rest) = Some (s, rest)"
  by (simp add: read_text_def enc_text_def)

lemma read_many_enc:
  "(\<And>x rest. x \<in> set xs \<Longrightarrow> r (enc x @ rest) = Some (x, rest)) \<Longrightarrow>
     read_many r (length xs) (concat (map enc xs) @ rest) = Some (xs, rest)"
  by (induction xs) simp_all

lemma length_concat_member: "x \<in> set xs \<Longrightarrow> length (f x) \<le> length (concat (map f xs))"
  by (induction xs) auto

lemma read_write_value:
  "length (write_value v) \<le> n \<Longrightarrow> read_value n (write_value v @ rest) = Some (v, rest)"
proof (induction v arbitrary: n rest rule: write_value.induct)
  case (5 q)
  have "Fract (fst (quotient_of q)) (snd (quotient_of q)) = q"
    by (metis Fract_of_int_quotient quotient_of_div surjective_pairing)
  with 5 show ?case by (cases n) simp_all
next
  case (7 vs)
  then obtain m where n: "n = Suc m" by (cases n) auto
  have "read_value m (write_value x @ rest) = Some (x, rest)" if "x \<in> set vs" for x rest
    using 7 that length_concat_member [OF that, of write_value] by (simp add: n)
  then have "read_many (read_value m) (length vs) (concat (map write_value vs) @ rest) = Some (vs, rest)"
    by (rule read_many_enc)
  then show ?case by (simp add: n)
next
  case (8 m)
  then obtain k where n: "n = Suc k" by (cases n) auto
  let ?e = "\<lambda>(k, v). enc_text k @ write_value v"
  have "read_entry (read_value k) (?e x @ rest) = Some (x, rest)" if "x \<in> set m" for x rest
  proof -
    obtain key v where x: "x = (key, v)" by force
    have "length (write_value v) \<le> k"
      using 8(2) length_concat_member [OF that, of ?e] by (simp add: n x)
    with 8(1) [of "(key, v)" key v] that x show ?thesis by (auto simp: read_entry_def)
  qed
  then have "read_many (read_entry (read_value k)) (length m) (concat (map ?e m) @ rest) = Some (m, rest)"
    by (rule read_many_enc)
  then show ?case by (simp add: n)
qed (auto simp: gr0_conv_Suc dest!: Suc_le_D)

lemma read_all_write [simp]: "read_all (write_value v) = Inr v"
  using read_write_value [of v "length (write_value v)" "[]"] by (simp add: read_all_def)

end
