(* ===== verification/Accounts.thy ===== *)
theory Accounts
  imports Models Repository "HOL-Library.Product_Lexorder"
begin

text \<open>
  Accounts, refresh tokens and project grants on disk (\<^verbatim>\<open>src/auth/store.rs\<close>):
  \<^verbatim>\<open>auth/users.json\<close> holds the accounts with their live refresh tokens, and
  \<^verbatim>\<open>auth/projects/<project>.json\<close> the role each account has in one project. The store lives below
  the data root of the document repository and takes the same lock, so an \<open>AuthStore\<close> holds that
  repository, and the text \<^verbatim>\<open>serde_json\<close> gives for a value of the wrong shape. Permissions, temporary
  names and syncing of directories have no place in the model of the file system.
\<close>

section \<open>Data\<close>

datatype Role = Viewer | Editor | Owner

fun role_rank :: "Role \<Rightarrow> nat" where
  "role_rank Viewer = 0"
| "role_rank Editor = 1"
| "role_rank Owner = 2"

lemma role_rank_inject [simp]: "role_rank a = role_rank b \<longleftrightarrow> a = b"
  by (cases a; cases b) simp_all

instantiation Role :: linorder
begin

definition less_eq_Role :: "Role \<Rightarrow> Role \<Rightarrow> bool" where
  "less_eq_Role a b \<longleftrightarrow> role_rank a \<le> role_rank b"

definition less_Role :: "Role \<Rightarrow> Role \<Rightarrow> bool" where
  "less_Role a b \<longleftrightarrow> role_rank a < role_rank b"

instance
  by standard (auto simp: less_eq_Role_def less_Role_def)

end

record StoredRefreshToken =
  rt_id :: string
  rt_hash :: string
  rt_expires_at :: "64 word"

record User =
  u_id :: string
  u_username :: string
  u_password_hash :: string
  u_system_admin :: bool
  u_created_at :: "64 word"
  u_refresh_tokens :: "StoredRefreshToken list"

type_synonym Grants = "Role btree"

record AuthStore =
  as_repo :: FileRepository
  as_shape :: "json \<Rightarrow> string"

section \<open>Serialisation\<close>

text \<open>A field with \<^verbatim>\<open>#[serde(default)]\<close>, and the view of a struct whose missing trailing fields all have
  defaults. A unit variant is its lower-case name, or an object with that one key and null.\<close>

definition dflt :: "'a \<Rightarrow> (json \<Rightarrow> 'a option) \<Rightarrow> json option \<Rightarrow> 'a option" where
  "dflt d dec a = (case a of None \<Rightarrow> Some d | Some v \<Rightarrow> dec v)"

definition struct_view_dflt :: "string list \<Rightarrow> json \<Rightarrow> (string \<Rightarrow> json option) option" where
  "struct_view_dflt names v = (case v of
       Obj m \<Rightarrow> Some (map_of m)
     | Arr vs \<Rightarrow> if length vs \<le> length names then Some (map_of (zip names vs)) else None
     | _ \<Rightarrow> None)"

fun role_str :: "Role \<Rightarrow> string" where
  "role_str Viewer = ''viewer''"
| "role_str Editor = ''editor''"
| "role_str Owner = ''owner''"

definition role_of_str :: "string \<Rightarrow> Role option" where
  "role_of_str s = (if s = ''viewer'' then Some Viewer else if s = ''editor'' then Some Editor
     else if s = ''owner'' then Some Owner else None)"

definition dec_role :: "json \<Rightarrow> Role option" where
  "dec_role v = (case v of
       Str s \<Rightarrow> role_of_str s
     | Obj [(s, Null)] \<Rightarrow> role_of_str s
     | _ \<Rightarrow> None)"

definition StoredRefreshToken_to_value :: "StoredRefreshToken \<Rightarrow> json" where
  "StoredRefreshToken_to_value x = struct_obj
     [(''id'', Some (Str (rt_id x))), (''hash'', Some (Str (rt_hash x))),
      (''expiresAt'', Some (enc_u64 (rt_expires_at x)))]"

definition StoredRefreshToken_from_value :: "json \<Rightarrow> StoredRefreshToken option" where
  "StoredRefreshToken_from_value v = do {
     look \<leftarrow> struct_view False [''id'', ''hash'', ''expiresAt''] v;
     x0 \<leftarrow> req dec_str (look ''id'');
     x1 \<leftarrow> req dec_str (look ''hash'');
     x2 \<leftarrow> req dec_u64 (look ''expiresAt'');
     Some \<lparr>rt_id = x0, rt_hash = x1, rt_expires_at = x2\<rparr>}"

definition User_fields :: "string list" where
  "User_fields = [''id'', ''username'', ''passwordHash'', ''systemAdmin'', ''createdAt'', ''refreshTokens'']"

definition User_to_value :: "User \<Rightarrow> json" where
  "User_to_value x = struct_obj
     [(''id'', Some (Str (u_id x))), (''username'', Some (Str (u_username x))),
      (''passwordHash'', Some (Str (u_password_hash x))), (''systemAdmin'', Some (JBool (u_system_admin x))),
      (''createdAt'', Some (enc_u64 (u_created_at x))),
      (''refreshTokens'', Some (enc_vec StoredRefreshToken_to_value (u_refresh_tokens x)))]"

definition User_from_value :: "json \<Rightarrow> User option" where
  "User_from_value v = do {
     look \<leftarrow> struct_view_dflt User_fields v;
     x0 \<leftarrow> req dec_str (look ''id'');
     x1 \<leftarrow> req dec_str (look ''username'');
     x2 \<leftarrow> req dec_str (look ''passwordHash'');
     x3 \<leftarrow> req dec_bool (look ''systemAdmin'');
     x4 \<leftarrow> req dec_u64 (look ''createdAt'');
     x5 \<leftarrow> dflt [] (dec_vec StoredRefreshToken_from_value) (look ''refreshTokens'');
     Some \<lparr>u_id = x0, u_username = x1, u_password_hash = x2, u_system_admin = x3, u_created_at = x4,
       u_refresh_tokens = x5\<rparr>}"

definition UserFile_to_value :: "User list \<Rightarrow> json" where
  "UserFile_to_value users = struct_obj [(''users'', Some (enc_vec User_to_value users))]"

definition UserFile_from_value :: "json \<Rightarrow> User list option" where
  "UserFile_from_value v = do {
     look \<leftarrow> struct_view_dflt [''users''] v;
     dflt [] (dec_vec User_from_value) (look ''users'')}"

definition Grants_to_value :: "Grants \<Rightarrow> json" where
  "Grants_to_value g = struct_obj [(''grants'', Some (enc_map (\<lambda>r. Str (role_str r)) g))]"

definition Grants_from_value :: "json \<Rightarrow> Grants option" where
  "Grants_from_value v = do {
     look \<leftarrow> struct_view_dflt [''grants''] v;
     dflt [] (dec_map dec_role) (look ''grants'')}"

section \<open>Paths and files\<close>

definition auth_dir :: "AuthStore \<Rightarrow> path" where
  "auth_dir A = root (as_repo A) @ [''auth'']"

definition users_path :: "AuthStore \<Rightarrow> path" where
  "users_path A = auth_dir A @ [''users.json'']"

definition grants_dir :: "AuthStore \<Rightarrow> path" where
  "grants_dir A = auth_dir A @ [''projects'']"

definition grant_path :: "AuthStore \<Rightarrow> string \<Rightarrow> path io_result" where
  "grant_path A project_id =
     (let folder = folder_name project_id in
      rbind (validate_component folder) (\<lambda>_.
      rbind (validate_component (folder @ ''.json'')) (\<lambda>_.
      rbind (ensure_within (root (as_repo A)) (grants_dir A @ [folder @ ''.json''])) (\<lambda>_.
        Inr (grants_dir A @ [folder @ ''.json''])))))"

definition write_json_atomically :: "AuthStore \<Rightarrow> path \<Rightarrow> json \<Rightarrow> unit op" where
  "write_json_atomically A destination v = write_json (as_repo A) destination v"

text \<open>Read a file and decode it; a file that is not there is the default.\<close>

definition read_or_default :: "AuthStore \<Rightarrow> path \<Rightarrow> (json \<Rightarrow> 'a option) \<Rightarrow> 'a \<Rightarrow> fs \<Rightarrow> 'a io_result" where
  "read_or_default A p dec d fs = (case read_confined (root (as_repo A)) p fs of
       Inr contents \<Rightarrow>
         rbind (map_err (io_err KInvalidData) (decode (as_repo A) contents)) (\<lambda>v.
           ok_or (io_err KInvalidData (as_shape A v)) (dec v))
     | Inl e \<Rightarrow> if io_kind e = KNotFound then Inr d else Inl e)"

definition read_users_unlocked :: "AuthStore \<Rightarrow> fs \<Rightarrow> User list io_result" where
  "read_users_unlocked A fs = read_or_default A (users_path A) UserFile_from_value [] fs"

definition write_users_unlocked :: "AuthStore \<Rightarrow> User list \<Rightarrow> unit op" where
  "write_users_unlocked A users = write_json_atomically A (users_path A) (UserFile_to_value users)"

definition read_grants_unlocked :: "AuthStore \<Rightarrow> string \<Rightarrow> fs \<Rightarrow> Grants io_result" where
  "read_grants_unlocked A project_id fs =
     rbind (grant_path A project_id) (\<lambda>p. read_or_default A p Grants_from_value [] fs)"

definition write_grants_unlocked :: "AuthStore \<Rightarrow> string \<Rightarrow> Grants \<Rightarrow> unit op" where
  "write_grants_unlocked A project_id grants =
     obind (olift (grant_path A project_id)) (\<lambda>p. write_json_atomically A p (Grants_to_value grants))"

definition read_all_grants_unlocked :: "AuthStore \<Rightarrow> fs \<Rightarrow> (string \<times> Grants) list io_result" where
  "read_all_grants_unlocked A fs =
     rbind (entries_or_empty fs (grants_dir A)) (\<lambda>names.
       rmap (\<lambda>folder. rbind (read_grants_unlocked A (folder_wire_id folder) fs) (\<lambda>g. Inr (folder_wire_id folder, g)))
         (List.map_filter (strip_suffix ''.json'') names))"

definition new_store :: "AuthStore \<Rightarrow> unit op" where
  "new_store A = create_private_dir_all (grants_dir A)"

section \<open>Accounts\<close>

definition users :: "AuthStore \<Rightarrow> fs \<Rightarrow> User list io_result" where
  "users A fs = read_users_unlocked A fs"

definition user :: "AuthStore \<Rightarrow> string \<Rightarrow> fs \<Rightarrow> User option io_result" where
  "user A i fs = rbind (users A fs) (\<lambda>us. Inr (find (\<lambda>u. u_id u = i) us))"

definition user_by_username :: "AuthStore \<Rightarrow> string \<Rightarrow> fs \<Rightarrow> User option io_result" where
  "user_by_username A name fs =
     rbind (users A fs) (\<lambda>us. Inr (find (\<lambda>u. eq_ignore_ascii_case (u_username u) name) us))"

definition insert_user :: "AuthStore \<Rightarrow> User \<Rightarrow> unit op" where
  "insert_user A u = locked (as_repo A) (obind (oread (read_users_unlocked A)) (\<lambda>us.
     if list_ex (\<lambda>e. u_id e = u_id u) us
     then olift (Inl (io_err KAlreadyExists ''account identifier is taken''))
     else if list_ex (\<lambda>e. eq_ignore_ascii_case (u_username e) (u_username u)) us
     then olift (Inl (io_err KAlreadyExists ''username is taken''))
     else write_users_unlocked A (us @ [u])))"

definition remove_user :: "AuthStore \<Rightarrow> string \<Rightarrow> bool op" where
  "remove_user A i = locked (as_repo A) (obind (oread (read_users_unlocked A)) (\<lambda>us.
     let kept = filter (\<lambda>u. u_id u \<noteq> i) us in
     if length kept = length us then olift (Inr False)
     else obind (write_users_unlocked A kept) (\<lambda>_. olift (Inr True))))"

section \<open>Refresh tokens\<close>

definition user_by_refresh_hash :: "AuthStore \<Rightarrow> string \<Rightarrow> fs \<Rightarrow> (User \<times> StoredRefreshToken) option io_result" where
  "user_by_refresh_hash A hash fs =
     rbind (read_users_unlocked A fs) (\<lambda>us.
       Inr (case List.map_filter (\<lambda>u. map_option (Pair u) (find (\<lambda>t. rt_hash t = hash) (u_refresh_tokens u))) us of
              [] \<Rightarrow> None | x # _ \<Rightarrow> Some x))"

fun update_user :: "string \<Rightarrow> (User \<Rightarrow> User) \<Rightarrow> User list \<Rightarrow> User list" where
  "update_user i f [] = []"
| "update_user i f (u # us) = (if u_id u = i then f u # us else u # update_user i f us)"

definition insert_refresh_token :: "AuthStore \<Rightarrow> string \<Rightarrow> StoredRefreshToken \<Rightarrow> unit op" where
  "insert_refresh_token A user_id token = locked (as_repo A) (obind (oread (read_users_unlocked A)) (\<lambda>us.
     if find (\<lambda>u. u_id u = user_id) us = None then olift (Inl (io_err KNotFound ''account not found''))
     else write_users_unlocked A
       (update_user user_id (\<lambda>u. u\<lparr>u_refresh_tokens := u_refresh_tokens u @ [token]\<rparr>) us)))"

definition revoke_refresh_token :: "AuthStore \<Rightarrow> string \<Rightarrow> string \<Rightarrow> bool op" where
  "revoke_refresh_token A user_id token_id = locked (as_repo A) (obind (oread (read_users_unlocked A)) (\<lambda>us.
     case find (\<lambda>u. u_id u = user_id) us of
       None \<Rightarrow> olift (Inr False)
     | Some u \<Rightarrow>
         let kept = filter (\<lambda>t. rt_id t \<noteq> token_id) (u_refresh_tokens u);
             removed = (length kept \<noteq> length (u_refresh_tokens u)) in
         if removed
         then obind (write_users_unlocked A (update_user user_id (\<lambda>u. u\<lparr>u_refresh_tokens := kept\<rparr>) us))
                (\<lambda>_. olift (Inr removed))
         else olift (Inr removed)))"

definition prune_expired_refresh_tokens :: "AuthStore \<Rightarrow> 64 word \<Rightarrow> nat op" where
  "prune_expired_refresh_tokens A now = locked (as_repo A) (obind (oread (read_users_unlocked A)) (\<lambda>us.
     let kept = map (\<lambda>u. u\<lparr>u_refresh_tokens := filter (\<lambda>t. now < rt_expires_at t) (u_refresh_tokens u)\<rparr>) us;
         dropped = sum_list (map (\<lambda>u. length (u_refresh_tokens u)) us)
           - sum_list (map (\<lambda>u. length (u_refresh_tokens u)) kept) in
     if dropped > 0 then obind (write_users_unlocked A kept) (\<lambda>_. olift (Inr dropped))
     else olift (Inr dropped)))"

section \<open>Grants\<close>

definition grants :: "AuthStore \<Rightarrow> string \<Rightarrow> fs \<Rightarrow> Grants io_result" where
  "grants A project_id fs = read_grants_unlocked A project_id fs"

definition role_of :: "AuthStore \<Rightarrow> string \<Rightarrow> string \<Rightarrow> fs \<Rightarrow> Role option io_result" where
  "role_of A project_id user_id fs = rbind (grants A project_id fs) (\<lambda>g. Inr (map_of g user_id))"

definition set_role :: "AuthStore \<Rightarrow> string \<Rightarrow> string \<Rightarrow> Role \<Rightarrow> unit op" where
  "set_role A project_id user_id role = locked (as_repo A)
     (obind (oread (read_grants_unlocked A project_id)) (\<lambda>g.
       write_grants_unlocked A project_id (obj_insert user_id role g)))"

definition remove_role :: "AuthStore \<Rightarrow> string \<Rightarrow> string \<Rightarrow> bool op" where
  "remove_role A project_id user_id = locked (as_repo A)
     (obind (oread (read_grants_unlocked A project_id)) (\<lambda>g.
       if map_of g user_id = None then olift (Inr False)
       else obind (write_grants_unlocked A project_id (obj_remove user_id g)) (\<lambda>_. olift (Inr True))))"

definition grant_count :: "AuthStore \<Rightarrow> string \<Rightarrow> fs \<Rightarrow> nat io_result" where
  "grant_count A project_id fs = rbind (grants A project_id fs) (\<lambda>g. Inr (length g))"

definition remove_project_grants :: "AuthStore \<Rightarrow> string \<Rightarrow> bool op" where
  "remove_project_grants A project_id = locked (as_repo A)
     (obind (olift (grant_path A project_id)) (\<lambda>p fs.
       case remove_file p fs of
         (Inr _, fs') \<Rightarrow> (Inr True, fs')
       | (Inl e, fs') \<Rightarrow> if io_kind e = KNotFound then (Inr False, fs') else (Inl e, fs')))"

definition projects_for_user :: "AuthStore \<Rightarrow> string \<Rightarrow> fs \<Rightarrow> string list io_result" where
  "projects_for_user A user_id fs =
     rbind (read_all_grants_unlocked A fs) (\<lambda>rows.
       Inr (remdups_adj (sort (map fst (filter (\<lambda>(p, g). map_of g user_id \<noteq> None) rows)))))"

definition orphan_grants :: "AuthStore \<Rightarrow> (string \<times> string \<times> Role) list op" where
  "orphan_grants A = locked (as_repo A)
     (obind (oread (read_users_unlocked A)) (\<lambda>us.
      obind (oread (read_all_grants_unlocked A)) (\<lambda>rows.
        olift (Inr (remdups_adj (sort (concat (map (\<lambda>(p, g).
          map (\<lambda>(i, r). (p, i, r)) (filter (\<lambda>(i, r). i \<notin> set (map u_id us)) g)) rows)))))))) "

end
