(* ===== verification/Account_Laws.thy ===== *)
theory Account_Laws
  imports Accounts Repository_Laws Codec
begin

text \<open>
  What the account store promises: identifiers and names stay distinct, a refresh token is spent at
  most once however the operations of concurrent clients interleave, and the roles of a project
  behave as a map.
\<close>

section \<open>Round trips\<close>

lemma struct_view_dflt_struct_obj:
  assumes "distinct (map fst fs)"
  shows "struct_view_dflt names (struct_obj fs) = Some (\<lambda>k. case map_of fs k of None \<Rightarrow> None | Some v \<Rightarrow> v)"
  unfolding struct_view_dflt_def struct_obj_def json.case option.inject
  by (rule ext) (rule map_of_struct_obj [OF assms])

lemma dflt_Some [simp]: "dflt d dec (Some v) = dec v"
  by (simp add: dflt_def)

lemma StoredRefreshToken_roundtrip: "StoredRefreshToken_from_value (StoredRefreshToken_to_value x) = Some x"
  unfolding StoredRefreshToken_from_value_def StoredRefreshToken_to_value_def
  by (subst struct_view_struct_obj) simp_all

lemma User_roundtrip: "User_from_value (User_to_value x) = Some x"
  unfolding User_from_value_def User_to_value_def
  by (subst struct_view_dflt_struct_obj) (simp_all add: enc_vec_roundtrip StoredRefreshToken_roundtrip)

lemma UserFile_roundtrip: "UserFile_from_value (UserFile_to_value us) = Some us"
  unfolding UserFile_from_value_def UserFile_to_value_def
  by (subst struct_view_dflt_struct_obj) (simp_all add: enc_vec_roundtrip User_roundtrip)

lemma dec_role_roundtrip: "dec_role (Str (role_str r)) = Some r"
  by (cases r) (simp_all add: dec_role_def role_of_str_def)

lemma Grants_roundtrip: "Grants_from_value (Grants_to_value g) = Some g"
  unfolding Grants_from_value_def Grants_to_value_def
  by (subst struct_view_dflt_struct_obj) (simp_all add: dec_map_roundtrip dec_role_roundtrip)

section \<open>The stored accounts\<close>

definition stored_users :: "AuthStore \<Rightarrow> fs \<Rightarrow> User list" where
  "stored_users A fs = (case Option.bind (file_at fs (users_path A))
       (\<lambda>b. Option.bind (ok_opt (decode (as_repo A) b)) UserFile_from_value) of
     None \<Rightarrow> [] | Some us \<Rightarrow> us)"

definition codec_ok :: "FileRepository \<Rightarrow> bool" where
  "codec_ok R \<longleftrightarrow> (\<forall>v. decode R (encode R v) = Inr v)"

lemma users_path_below: "prefix (root (as_repo A)) (users_path A) \<and> users_path A \<noteq> root (as_repo A)"
  by (simp add: users_path_def auth_dir_def)

lemma read_or_default_Inr:
  assumes "read_or_default A p dec d fs = Inr x"
  shows "x = (case Option.bind (file_at fs p) (\<lambda>b. Option.bind (ok_opt (decode (as_repo A) b)) dec) of
     None \<Rightarrow> d | Some y \<Rightarrow> y)"
proof (cases "read_confined (root (as_repo A)) p fs")
  case (Inl e)
  then have "file_at fs p = None"
    using assms by (auto simp: read_or_default_def read_confined_def file_at_def missing_error_def
        split: option.splits node.splits if_splits)
  with Inl assms show ?thesis by (auto simp: read_or_default_def split: if_splits)
next
  case (Inr b)
  then have "file_at fs p = Some b" by (simp add: read_confined_file_at)
  then show ?thesis
    using assms Inr by (auto simp: read_or_default_def rbind_Inr_iff map_err_Inr_iff ok_or_Inr_iff)
qed

lemma read_users_stored: "read_users_unlocked A fs = Inr us \<Longrightarrow> us = stored_users A fs"
  unfolding read_users_unlocked_def stored_users_def by (rule read_or_default_Inr)

lemma stored_users_cong: "file_at fs' (users_path A) = file_at fs (users_path A) \<Longrightarrow> stored_users A fs' = stored_users A fs"
  by (simp add: stored_users_def)

lemma write_users_stored:
  assumes "write_users_unlocked A us fs = (x, fs')" "codec_ok (as_repo A)"
  shows "stored_users A fs' = (case x of Inr _ \<Rightarrow> us | Inl _ \<Rightarrow> stored_users A fs)"
proof (cases x)
  case (Inl e)
  then have "\<forall>q. file_at fs' q = file_at fs q"
    using assms(1) write_json_files(3) by (auto simp: write_users_unlocked_def write_json_atomically_def)
  with Inl show ?thesis by (auto intro: stored_users_cong)
next
  case (Inr u)
  then have "file_at fs' (users_path A) = Some (encode (as_repo A) (UserFile_to_value us))"
    using assms(1) write_json_files(2) by (auto simp: write_users_unlocked_def write_json_atomically_def)
  with Inr assms(2) show ?thesis
    by (simp add: stored_users_def codec_ok_def ok_opt_def UserFile_roundtrip)
qed

text \<open>Every operation on accounts reads them, under the lock, and answers or writes them back.\<close>

lemma locked_users_cases:
  assumes "locked (as_repo A) (obind (oread (read_users_unlocked A)) body) fs = (x, fs')"
  obtains e where "x = Inl e" "fs' = fs" | "body (stored_users A fs) fs = (x, fs')"
  using assms by (auto simp: locked_def obind_olift obind_oread split: sum.splits dest: read_users_stored)

section \<open>Accounts stay distinct\<close>

datatype auth_event =
    InsertUser User
  | RemoveUser string
  | InsertToken string StoredRefreshToken
  | Revoke string string
  | Prune "64 word"
  | SetRole string string Role
  | RemoveRole string string
  | RemoveGrants string

fun exec_auth :: "AuthStore \<Rightarrow> auth_event \<Rightarrow> fs \<Rightarrow> fs" where
  "exec_auth A (InsertUser u) fs = snd (insert_user A u fs)"
| "exec_auth A (RemoveUser i) fs = snd (remove_user A i fs)"
| "exec_auth A (InsertToken i t) fs = snd (insert_refresh_token A i t fs)"
| "exec_auth A (Revoke i t) fs = snd (revoke_refresh_token A i t fs)"
| "exec_auth A (Prune now) fs = snd (prune_expired_refresh_tokens A now fs)"
| "exec_auth A (SetRole p i r) fs = snd (set_role A p i r fs)"
| "exec_auth A (RemoveRole p i) fs = snd (remove_role A p i fs)"
| "exec_auth A (RemoveGrants p) fs = snd (remove_project_grants A p fs)"

definition live_prune :: "64 word \<Rightarrow> User \<Rightarrow> User" where
  "live_prune now u = u\<lparr>u_refresh_tokens := filter (\<lambda>t. now < rt_expires_at t) (u_refresh_tokens u)\<rparr>"

text \<open>What an event does to the stored accounts, when it does anything.\<close>

fun spec_auth :: "auth_event \<Rightarrow> User list \<Rightarrow> User list" where
  "spec_auth (InsertUser u) us =
     (if u_id u \<in> u_id ` set us \<or> (\<exists>e\<in>set us. eq_ignore_ascii_case (u_username e) (u_username u)) then us else us @ [u])"
| "spec_auth (RemoveUser i) us = filter (\<lambda>u. u_id u \<noteq> i) us"
| "spec_auth (InsertToken i t) us = update_user i (\<lambda>u. u\<lparr>u_refresh_tokens := u_refresh_tokens u @ [t]\<rparr>) us"
| "spec_auth (Revoke i t) us =
     update_user i (\<lambda>u. u\<lparr>u_refresh_tokens := filter (\<lambda>x. rt_id x \<noteq> t) (u_refresh_tokens u)\<rparr>) us"
| "spec_auth (Prune now) us = map (live_prune now) us"
| "spec_auth _ us = us"

lemma write_users_then:
  assumes "obind (write_users_unlocked A us) (\<lambda>_. olift (Inr y)) fs = (x, fs')" "codec_ok (as_repo A)"
  shows "stored_users A fs' = (case x of Inr _ \<Rightarrow> us | Inl _ \<Rightarrow> stored_users A fs)"
  using assms(1) write_users_stored [OF _ assms(2), of us fs]
  by (auto simp: obind_def olift_def split: prod.splits sum.splits)

lemma grant_path_not_users: "grant_path A p = Inr q \<Longrightarrow> q \<noteq> users_path A"
  by (auto simp: grant_path_def users_path_def grants_dir_def Let_def rbind_Inr_iff)

lemma update_user_same:
  "find (\<lambda>u. u_id u = i) us = Some v \<Longrightarrow> f v = g v \<Longrightarrow> update_user i f us = update_user i g us"
  by (induction us) (auto split: if_splits)

lemma update_user_none: "find (\<lambda>u. u_id u = i) us = None \<Longrightarrow> update_user i f us = us"
  by (induction us) (auto split: if_splits)

lemma update_user_id: "find (\<lambda>u. u_id u = i) us = Some v \<Longrightarrow> f v = v \<Longrightarrow> update_user i f us = us"
  by (induction us) (auto split: if_splits)

lemma length_filter_eq: "length (filter P xs) = length xs \<longleftrightarrow> filter P xs = xs"
  by (metis filter_True length_filter_less less_irrefl)

lemma prune_nothing:
  assumes "sum_list (map (\<lambda>u. length (u_refresh_tokens u)) us) \<le>
     sum_list (map (\<lambda>u. length (u_refresh_tokens u)) (map (live_prune now) us))"
  shows "map (live_prune now) us = us"
  using assms
proof (induction us)
  case (Cons u us)
  have le: "length (u_refresh_tokens (live_prune now v)) \<le> length (u_refresh_tokens v)" for v
    by (simp add: live_prune_def)
  have rest: "sum_list (map (\<lambda>u. length (u_refresh_tokens u)) (map (live_prune now) us)) \<le>
      sum_list (map (\<lambda>u. length (u_refresh_tokens u)) us)"
    using le by (induction us) (simp_all add: add_mono)
  from Cons.prems le [of u] rest
  have u: "length (u_refresh_tokens (live_prune now u)) = length (u_refresh_tokens u)"
    and us: "sum_list (map (\<lambda>u. length (u_refresh_tokens u)) us) \<le>
      sum_list (map (\<lambda>u. length (u_refresh_tokens u)) (map (live_prune now) us))"
    by (simp_all only: list.map sum_list.Cons)
  from u Cons.IH [OF us] show ?case by (simp add: live_prune_def length_filter_eq)
qed simp

lemma insert_user_stored:
  assumes "insert_user A u fs = (x, fs')" "codec_ok (as_repo A)"
  shows "stored_users A fs' = (case x of Inr _ \<Rightarrow> spec_auth (InsertUser u) (stored_users A fs) | Inl _ \<Rightarrow> stored_users A fs)"
  using assms(1) unfolding insert_user_def
  by (rule locked_users_cases)
    (auto simp: list_ex_iff olift_def split: if_splits sum.splits dest!: write_users_stored [OF _ assms(2)])

lemma remove_user_stored:
  assumes "remove_user A i fs = (x, fs')" "codec_ok (as_repo A)"
  shows "stored_users A fs' = (case x of Inr _ \<Rightarrow> spec_auth (RemoveUser i) (stored_users A fs) | Inl _ \<Rightarrow> stored_users A fs)"
  using assms(1) unfolding remove_user_def
  by (rule locked_users_cases)
    (auto simp: Let_def olift_def length_filter_eq split: if_splits sum.splits
      dest!: write_users_then [OF _ assms(2)])

lemma insert_token_stored:
  assumes "insert_refresh_token A i t fs = (x, fs')" "codec_ok (as_repo A)"
  shows "stored_users A fs' = (case x of Inr _ \<Rightarrow> spec_auth (InsertToken i t) (stored_users A fs) | Inl _ \<Rightarrow> stored_users A fs)"
  using assms(1) unfolding insert_refresh_token_def
  by (rule locked_users_cases)
    (auto simp: olift_def split: if_splits sum.splits dest!: write_users_stored [OF _ assms(2)])

lemma revoke_stored:
  assumes "revoke_refresh_token A i t fs = (x, fs')" "codec_ok (as_repo A)"
  shows "stored_users A fs' = (case x of Inr _ \<Rightarrow> spec_auth (Revoke i t) (stored_users A fs) | Inl _ \<Rightarrow> stored_users A fs)
    \<and> (x = Inr True \<longrightarrow> (\<exists>u. find (\<lambda>u. u_id u = i) (stored_users A fs) = Some u \<and> t \<in> rt_id ` set (u_refresh_tokens u)))"
  using assms(1) unfolding revoke_refresh_token_def
proof (rule locked_users_cases)
  let ?us = "stored_users A fs"
  assume b: "(case find (\<lambda>u. u_id u = i) ?us of
       None \<Rightarrow> olift (Inr False)
     | Some u \<Rightarrow>
         let kept = filter (\<lambda>y. rt_id y \<noteq> t) (u_refresh_tokens u);
             removed = (length kept \<noteq> length (u_refresh_tokens u)) in
         if removed
         then obind (write_users_unlocked A (update_user i (\<lambda>u. u\<lparr>u_refresh_tokens := kept\<rparr>) ?us))
                (\<lambda>_. olift (Inr removed))
         else olift (Inr removed)) fs = (x, fs')"
  show ?thesis
  proof (cases "find (\<lambda>u. u_id u = i) ?us")
    case None
    with b show ?thesis by (auto simp: olift_def update_user_none)
  next
    case (Some u)
    let ?kept = "filter (\<lambda>y. rt_id y \<noteq> t) (u_refresh_tokens u)"
    let ?upd = "update_user i (\<lambda>u. u\<lparr>u_refresh_tokens := ?kept\<rparr>) ?us"
    have same: "?upd = spec_auth (Revoke i t) ?us" 
      unfolding spec_auth.simps by (rule update_user_same [OF Some]) (rule refl)
    show ?thesis
    proof (cases "length ?kept = length (u_refresh_tokens u)")
      case True
      then have k: "?kept = u_refresh_tokens u" by (simp add: length_filter_eq)
      have "spec_auth (Revoke i t) ?us = ?us" unfolding same [symmetric] by (rule update_user_id [OF Some]) (simp add: k)
      with b Some True show ?thesis by (auto simp: olift_def)
    next
      case False
      then have w: "obind (write_users_unlocked A ?upd) (\<lambda>_. olift (Inr True)) fs = (x, fs')"
        using b Some by (simp add: Let_def)
      have "\<exists>y\<in>set (u_refresh_tokens u). rt_id y = t" using False by (auto simp: length_filter_eq filter_id_conv)
      with write_users_then [OF w assms(2)] same Some show ?thesis by (auto split: sum.splits)
    qed
  qed
qed simp

lemma prune_stored:
  assumes "prune_expired_refresh_tokens A now fs = (x, fs')" "codec_ok (as_repo A)"
  shows "stored_users A fs' = (case x of Inr _ \<Rightarrow> spec_auth (Prune now) (stored_users A fs) | Inl _ \<Rightarrow> stored_users A fs)"
  using assms(1) unfolding prune_expired_refresh_tokens_def live_prune_def [symmetric, abs_def]
  by (rule locked_users_cases)
    (auto simp: Let_def olift_def prune_nothing split: if_splits sum.splits dest!: write_users_then [OF _ assms(2)])

lemma grants_event_stored:
  "stored_users A (exec_auth A (SetRole p i r) fs) = stored_users A fs"
  "stored_users A (exec_auth A (RemoveRole p i) fs) = stored_users A fs"
  "stored_users A (exec_auth A (RemoveGrants p) fs) = stored_users A fs"
proof -
  have w: "file_at fs' (users_path A) = file_at fs (users_path A)"
    if "write_grants_unlocked A p g fs = (x, fs')" for g x fs'
    using that grant_path_not_users [of A p] write_json_files(1)
    by (auto simp: write_grants_unlocked_def write_json_atomically_def obind_olift split: sum.splits)
  show "stored_users A (exec_auth A (SetRole p i r) fs) = stored_users A fs"
    using w by (intro stored_users_cong)
      (auto simp: set_role_def locked_def obind_olift obind_oread split: sum.splits, metis surjective_pairing)
  show "stored_users A (exec_auth A (RemoveRole p i) fs) = stored_users A fs"
    using w by (intro stored_users_cong)
      (auto simp: remove_role_def locked_def obind_def olift_def oread_def split: sum.splits prod.splits)
  show "stored_users A (exec_auth A (RemoveGrants p) fs) = stored_users A fs"
  proof (intro stored_users_cong)
    have "file_at fs' (users_path A) = file_at fs (users_path A)"
      if "grant_path A p = Inr q" "remove_file q fs = (x, fs')" for q x fs'
    proof -
      have "\<not> prefix q (users_path A)"
        using that(1) by (auto simp: grant_path_def users_path_def grants_dir_def Let_def rbind_Inr_iff)
      with that(2) show ?thesis
        by (auto simp: remove_file_def file_at_def split: option.splits node.splits)
    qed
    then show "file_at (exec_auth A (RemoveGrants p) fs) (users_path A) = file_at fs (users_path A)"
      by (auto simp: remove_project_grants_def locked_def obind_olift split: sum.splits prod.splits)
  qed
qed

lemma exec_auth_cases:
  assumes "codec_ok (as_repo A)"
  shows "stored_users A (exec_auth A ev fs) \<in> {stored_users A fs, spec_auth ev (stored_users A fs)}"
proof (cases ev)
  case (InsertUser u)
  then show ?thesis using insert_user_stored [OF surjective_pairing assms] by (auto split: sum.splits)
next
  case (RemoveUser i)
  then show ?thesis using remove_user_stored [OF surjective_pairing assms] by (auto split: sum.splits)
next
  case (InsertToken i t)
  then show ?thesis using insert_token_stored [OF surjective_pairing assms] by (auto split: sum.splits)
next
  case (Revoke i t)
  then show ?thesis using revoke_stored [OF surjective_pairing assms] by (auto split: sum.splits)
next
  case (Prune now)
  then show ?thesis using prune_stored [OF surjective_pairing assms] by (auto split: sum.splits)
qed (simp_all only: grants_event_stored insertI1)

definition accounts_ok :: "User list \<Rightarrow> bool" where
  "accounts_ok us \<longleftrightarrow> distinct (map u_id us) \<and> distinct (map (\<lambda>u. map to_ascii_lowercase (u_username u)) us)"

lemma map_update_user: "(\<And>u. g (f u) = g u) \<Longrightarrow> map g (update_user i f us) = map g us"
  by (induction us) simp_all

lemma spec_auth_ok: "accounts_ok us \<Longrightarrow> accounts_ok (spec_auth ev us)"
  by (cases ev)
    (auto simp: accounts_ok_def map_update_user eq_ignore_ascii_case_def live_prune_def o_def distinct_map_filter)

text \<open>Accounts stay distinct: whatever sequence of store operations runs, failed ones included, no
  two stored accounts come to share an identifier, or a login name up to ASCII case.\<close>

theorem accounts_stay_distinct:
  assumes "codec_ok (as_repo A)" "accounts_ok (stored_users A fs)"
  shows "accounts_ok (stored_users A (fold (exec_auth A) es fs))"
  using assms(2)
proof (induction es arbitrary: fs)
  case (Cons ev es)
  have "accounts_ok (stored_users A (exec_auth A ev fs))"
    using exec_auth_cases [OF assms(1), of ev fs] Cons.prems spec_auth_ok by auto
  with Cons.IH show ?case by simp
qed simp

section \<open>A refresh token is spent once\<close>

text \<open>The contract of a ledger of live tokens: a revocation that answers true spent a live token, no
  operation brings a token back unless it mints it.\<close>

locale token_ledger =
  fixes live :: "'s \<Rightarrow> ('u \<times> 't) set"
    and step :: "'e \<Rightarrow> 's \<Rightarrow> 's"
    and spends :: "'u \<times> 't \<Rightarrow> 'e \<Rightarrow> 's \<Rightarrow> bool"
    and mints :: "'e \<Rightarrow> ('u \<times> 't) set"
  assumes spends_live: "spends k e s \<Longrightarrow> k \<in> live s \<and> k \<notin> live (step e s)"
    and only_mints: "live (step e s) \<subseteq> live s \<union> mints e"
begin

fun spendings :: "'u \<times> 't \<Rightarrow> 'e list \<Rightarrow> 's \<Rightarrow> nat" where
  "spendings k [] s = 0"
| "spendings k (e # es) s = (if spends k e s then 1 else 0) + spendings k es (step e s)"

lemma dead_unspent: "k \<notin> live s \<Longrightarrow> \<forall>e\<in>set es. k \<notin> mints e \<Longrightarrow> spendings k es s = 0"
proof (induction es arbitrary: s)
  case (Cons e es)
  then have "\<not> spends k e s" "k \<notin> live (step e s)" using spends_live [of k e s] only_mints [of e s] by auto
  with Cons show ?case by simp
qed simp

lemma spent_once: "\<forall>e\<in>set es. k \<notin> mints e \<Longrightarrow> spendings k es s \<le> 1"
proof (induction es arbitrary: s)
  case (Cons e es)
  show ?case
  proof (cases "spends k e s")
    case True
    then have "spendings k es (step e s) = 0"
      using spends_live Cons.prems by (intro dead_unspent) auto
    then show ?thesis by simp
  next
    case False
    with Cons show ?thesis by simp
  qed
qed simp

end

definition live_tokens :: "User list \<Rightarrow> (string \<times> string) set" where
  "live_tokens us = {(i, t). \<exists>u. find (\<lambda>u. u_id u = i) us = Some u \<and> t \<in> rt_id ` set (u_refresh_tokens u)}"

text \<open>Whether an event, run on this file system, is a revocation of the token that answers true.\<close>

fun revokes :: "AuthStore \<Rightarrow> string \<times> string \<Rightarrow> auth_event \<Rightarrow> fs \<Rightarrow> bool" where
  "revokes A k (Revoke i t) fs \<longleftrightarrow> k = (i, t) \<and> fst (revoke_refresh_token A i t fs) = Inr True"
| "revokes A k _ fs \<longleftrightarrow> False"

fun minted :: "auth_event \<Rightarrow> (string \<times> string) set" where
  "minted (InsertToken i t) = {(i, rt_id t)}"
| "minted (InsertUser u) = (\<lambda>t. (u_id u, rt_id t)) ` set (u_refresh_tokens u)"
| "minted _ = {}"

lemma find_update_user:
  "(\<And>u. u_id (f u) = u_id u) \<Longrightarrow>
     find (\<lambda>u. u_id u = j) (update_user i f us) =
       (if j = i then map_option f (find (\<lambda>u. u_id u = j) us) else find (\<lambda>u. u_id u = j) us)"
  by (induction us) auto

lemma find_user_append:
  "find P (us @ [u]) = (case find P us of Some v \<Rightarrow> Some v | None \<Rightarrow> if P u then Some u else None)"
  by (induction us) auto

lemma find_user_filter:
  "find (\<lambda>u. u_id u = j) (filter (\<lambda>u. u_id u \<noteq> i) us) = (if j = i then None else find (\<lambda>u. u_id u = j) us)"
  by (induction us) auto

lemma find_user_map: "(\<And>u. u_id (f u) = u_id u) \<Longrightarrow>
    find (\<lambda>u. u_id u = j) (map f us) = map_option f (find (\<lambda>u. u_id u = j) us)"
  by (induction us) auto

lemma spec_auth_live: "live_tokens (spec_auth ev us) \<subseteq> live_tokens us \<union> minted ev"
  by (cases ev)
    (auto simp: live_tokens_def find_update_user find_user_append find_user_filter find_user_map live_prune_def
      split: option.splits if_splits)

lemma stored_live:
  assumes "codec_ok (as_repo A)"
  shows "live_tokens (stored_users A (exec_auth A ev fs)) \<subseteq> live_tokens (stored_users A fs) \<union> minted ev"
  using exec_auth_cases [OF assms, of ev fs] spec_auth_live [of ev "stored_users A fs"] by auto

lemma revoked_dead:
  assumes "codec_ok (as_repo A)" "revokes A k ev fs"
  shows "k \<in> live_tokens (stored_users A fs) \<and> k \<notin> live_tokens (stored_users A (exec_auth A ev fs))"
proof -
  obtain i t where ev: "ev = Revoke i t" "k = (i, t)" "fst (revoke_refresh_token A i t fs) = Inr True"
    using assms(2) by (cases ev) auto
  have r: "revoke_refresh_token A i t fs = (Inr True, exec_auth A ev fs)"
    using ev by (simp add: prod_eq_iff)
  from revoke_stored [OF r assms(1)] ev show ?thesis
    by (auto simp: live_tokens_def find_update_user)
qed

text \<open>A store keeps the contract when its codec round-trips; without that it counts as holding nothing.\<close>

definition ledger_live :: "AuthStore \<Rightarrow> fs \<Rightarrow> (string \<times> string) set" where
  "ledger_live A fs = (if codec_ok (as_repo A) then live_tokens (stored_users A fs) else {})"

definition ledger_spends :: "AuthStore \<Rightarrow> string \<times> string \<Rightarrow> auth_event \<Rightarrow> fs \<Rightarrow> bool" where
  "ledger_spends A k ev fs \<longleftrightarrow> codec_ok (as_repo A) \<and> revokes A k ev fs"

interpretation ledger: token_ledger "ledger_live A" "exec_auth A" "ledger_spends A" minted for A
  by unfold_locales (use revoked_dead stored_live in \<open>auto simp: ledger_live_def ledger_spends_def\<close>)

text \<open>How often a token is revoked with the answer true along a sequence of store operations.\<close>

fun true_revocations :: "AuthStore \<Rightarrow> string \<times> string \<Rightarrow> auth_event list \<Rightarrow> fs \<Rightarrow> nat" where
  "true_revocations A k [] fs = 0"
| "true_revocations A k (ev # es) fs =
     (if revokes A k ev fs then 1 else 0) + true_revocations A k es (exec_auth A ev fs)"

lemma true_revocations_spendings:
  "codec_ok (as_repo A) \<Longrightarrow> true_revocations A k es fs = ledger.spendings A k es fs"
  by (induction es arbitrary: fs) (simp_all add: ledger_spends_def)

text \<open>C17. A refresh token is spent at most once: in any interleaving of the store operations of
  concurrent clients, of all the attempts to revoke one token of one account at most one is told
  that it removed it, as long as no operation mints the same token identifier again. This is the
  gate rotation passes through, so exactly one caller may exchange a token.\<close>

theorem refresh_token_spent_once:
  assumes "codec_ok (as_repo A)" "\<forall>ev\<in>set es. (user_id, token_id) \<notin> minted ev"
  shows "true_revocations A (user_id, token_id) es fs \<le> 1"
  using ledger.spent_once [OF assms(2)] true_revocations_spendings [OF assms(1)] by simp

end
