(* ===== verification/Token.thy ===== *)
theory Token
  imports Models Codec
begin

unbundle bit_operations_syntax

text \<open>
  Access and refresh tokens (\<^verbatim>\<open>src/auth/token.rs\<close>). The code the sources only call is a record of
  parameters: base64url and its inverse, the HMAC and the SHA-256 digest as byte strings, and the
  JSON writer and reader of \<^verbatim>\<open>serde_json\<close>. What the theorems need of it are the hypotheses
  \<open>crypto_ok\<close>: decoding inverts encoding, an encoded segment holds no dot, a written value reads
  back, and the header reads as written. Random identifiers and instants are arguments.
\<close>

record Crypto =
  b64_encode :: "string \<Rightarrow> string"
  b64_decode :: "string \<Rightarrow> string option"
  hmac :: "string \<Rightarrow> string \<Rightarrow> string"
  sha256 :: "string \<Rightarrow> string"
  to_vec :: "json \<Rightarrow> string"
  from_slice :: "string \<Rightarrow> json option"

definition crypto_ok :: "Crypto \<Rightarrow> bool" where
  "crypto_ok C \<longleftrightarrow>
     (\<forall>b. b64_decode C (b64_encode C b) = Some b \<and> CHR ''.'' \<notin> set (b64_encode C b))
     \<and> (\<forall>v. from_slice C (to_vec C v) = Some v)
     \<and> from_slice C ''{\"alg\":\"HS256\",\"typ\":\"JWT\"}'' = Some (Obj [(''alg'', Str ''HS256''), (''typ'', Str ''JWT'')])"

section \<open>Claims\<close>

definition ALGORITHM :: string where
  "ALGORITHM = ''HS256''"

record Claims =
  cl_subject :: string
  cl_issued_at :: "64 word"
  cl_expires_at :: "64 word"
  cl_token_id :: string
  cl_system_admin :: bool

record RawClaims =
  rc_sub :: string
  rc_iat :: "64 word"
  rc_exp :: "64 word"
  rc_jti :: string
  rc_sys :: bool

definition RawClaims_fields :: "string list" where
  "RawClaims_fields = [''sub'', ''iat'', ''exp'', ''jti'', ''sys'']"

definition RawClaims_to_value :: "RawClaims \<Rightarrow> json" where
  "RawClaims_to_value x = struct_obj
     [(''sub'', Some (Str (rc_sub x))), (''iat'', Some (enc_u64 (rc_iat x))),
      (''exp'', Some (enc_u64 (rc_exp x))), (''jti'', Some (Str (rc_jti x))),
      (''sys'', Some (JBool (rc_sys x)))]"

definition RawClaims_from_value :: "json \<Rightarrow> RawClaims option" where
  "RawClaims_from_value v = do {
     look \<leftarrow> struct_view False RawClaims_fields v;
     x0 \<leftarrow> req dec_str (look ''sub'');
     x1 \<leftarrow> req dec_u64 (look ''iat'');
     x2 \<leftarrow> req dec_u64 (look ''exp'');
     x3 \<leftarrow> req dec_str (look ''jti'');
     x4 \<leftarrow> req dec_bool (look ''sys'');
     Some \<lparr>rc_sub = x0, rc_iat = x1, rc_exp = x2, rc_jti = x3, rc_sys = x4\<rparr>}"

text \<open>\<^verbatim>\<open>RawHeader\<close> has the one field \<^verbatim>\<open>alg\<close>.\<close>

definition RawHeader_alg :: "json \<Rightarrow> string option" where
  "RawHeader_alg v = do {
     look \<leftarrow> struct_view False [''alg''] v;
     req dec_str (look ''alg'')}"

datatype TokenError = Malformed | BadSignature | Expired

section \<open>Operations\<close>

definition saturating_add :: "64 word \<Rightarrow> 64 word \<Rightarrow> 64 word" where
  "saturating_add a b = (if unat a + unat b < 2 ^ 64 then a + b else - 1)"

definition sign :: "Crypto \<Rightarrow> string \<Rightarrow> string \<Rightarrow> string" where
  "sign C secret message = b64_encode C (hmac C secret message)"

definition constant_time_eq :: "string \<Rightarrow> string \<Rightarrow> bool" where
  "constant_time_eq l r =
     (if length l \<noteq> length r then False
      else fold (\<lambda>(a, b) difference. difference OR ((word_of_nat (byte a) :: 8 word) XOR word_of_nat (byte b))) (zip l r) 0 = 0)"

definition mint_access_token ::
  "Crypto \<Rightarrow> string \<Rightarrow> string \<Rightarrow> bool \<Rightarrow> 64 word \<Rightarrow> 64 word \<Rightarrow> string \<Rightarrow> string" where
  "mint_access_token C secret subject system_admin ttl now jti =
     (let claims = \<lparr>rc_sub = subject, rc_iat = now, rc_exp = saturating_add now ttl, rc_jti = jti,
            rc_sys = system_admin\<rparr>;
          header = b64_encode C ''{\"alg\":\"HS256\",\"typ\":\"JWT\"}'';
          payload = b64_encode C (to_vec C (RawClaims_to_value claims));
          signing_input = header @ ''.'' @ payload
      in signing_input @ ''.'' @ sign C secret signing_input)"

definition verify_access_token ::
  "Crypto \<Rightarrow> string \<Rightarrow> string \<Rightarrow> 64 word \<Rightarrow> TokenError + Claims" where
  "verify_access_token C secret token now =
     (case split_on (\<lambda>c. c = CHR ''.'') token of
        [header, payload, signature] \<Rightarrow>
          rbind (ok_or Malformed (b64_decode C header)) (\<lambda>header_json.
          rbind (ok_or Malformed (Option.bind (from_slice C header_json) RawHeader_alg)) (\<lambda>alg.
          rbind (guard (alg = ALGORITHM) Malformed) (\<lambda>_.
          rbind (guard (constant_time_eq (sign C secret (header @ ''.'' @ payload)) signature) BadSignature) (\<lambda>_.
          rbind (ok_or Malformed (b64_decode C payload)) (\<lambda>payload_json.
          rbind (ok_or Malformed (Option.bind (from_slice C payload_json) RawClaims_from_value)) (\<lambda>claims.
          rbind (guard (\<not> rc_exp claims \<le> now) Expired) (\<lambda>_.
            Inr \<lparr>cl_subject = rc_sub claims, cl_issued_at = rc_iat claims, cl_expires_at = rc_exp claims,
                 cl_token_id = rc_jti claims, cl_system_admin = rc_sys claims\<rparr>)))))))
      | _ \<Rightarrow> Inl Malformed)"

definition REFRESH_TOKEN_BYTES :: nat where
  "REFRESH_TOKEN_BYTES = 32"

text \<open>\<^verbatim>\<open>random_b64\<close> with the bytes drawn as an argument.\<close>

definition mint_refresh_token :: "Crypto \<Rightarrow> string \<Rightarrow> string" where
  "mint_refresh_token C bytes = b64_encode C (take REFRESH_TOKEN_BYTES bytes)"

definition hex_byte :: "char \<Rightarrow> string" where
  "hex_byte c = [''0123456789abcdef'' ! (byte c div 16), ''0123456789abcdef'' ! (byte c mod 16)]"

definition hash_refresh_token :: "Crypto \<Rightarrow> string \<Rightarrow> string" where
  "hash_refresh_token C token = concat (map hex_byte (sha256 C token))"

section \<open>Comparison in constant time\<close>

lemma or_zero_iff: "(a :: 8 word) OR b = 0 \<longleftrightarrow> a = 0 \<and> b = 0"
  by (auto simp: bit_eq_iff bit_simps)

lemma xor_zero_iff: "(a :: 8 word) XOR b = 0 \<longleftrightarrow> a = b"
  by (auto simp: bit_eq_iff bit_simps)

lemma byte_word_inject: "(word_of_nat (byte a) :: 8 word) = word_of_nat (byte b) \<longleftrightarrow> a = b"
proof
  assume "(word_of_nat (byte a) :: 8 word) = word_of_nat (byte b)"
  then have "unat (word_of_nat (byte a) :: 8 word) = unat (word_of_nat (byte b) :: 8 word)" by simp
  moreover have "unat (word_of_nat (byte c) :: 8 word) = byte c" for c
    using nat_of_char_less_256 [of c] by (simp add: unat_of_nat)
  ultimately show "a = b" by simp
qed simp

lemma fold_difference:
  "fold (\<lambda>(a, b) d. d OR ((word_of_nat (byte a) :: 8 word) XOR word_of_nat (byte b))) ps d = 0 \<longleftrightarrow>
     d = 0 \<and> (\<forall>(a, b)\<in>set ps. a = b)"
  by (induction ps arbitrary: d) (auto simp: or_zero_iff xor_zero_iff byte_word_inject)

text \<open>The constant-time comparison of tags is equality: the accumulated difference of two strings of
  equal length is zero exactly when every byte agrees, and strings of different lengths differ.\<close>

lemma constant_time_eq_iff: "constant_time_eq l r \<longleftrightarrow> l = r"
proof (cases "length l = length r")
  case True
  then have "(\<forall>(a, b)\<in>set (zip l r). a = b) \<longleftrightarrow> l = r"
    by (induction l r rule: list_induct2) auto
  with True show ?thesis by (simp add: constant_time_eq_def fold_difference)
qed (auto simp: constant_time_eq_def)

section \<open>Tokens\<close>

lemma RawClaims_roundtrip: "RawClaims_from_value (RawClaims_to_value x) = Some x"
  unfolding RawClaims_from_value_def RawClaims_to_value_def
  by (subst struct_view_struct_obj) (simp_all add: RawClaims_fields_def)

lemma split_on_none: "\<forall>c\<in>set a. \<not> p c \<Longrightarrow> split_on p a = [a]"
  by (induction a) simp_all

lemma split_on_append: "\<forall>c\<in>set a. \<not> p c \<Longrightarrow> p c \<Longrightarrow> split_on p (a @ c # b) = a # split_on p b"
  by (induction a) (simp_all split: list.splits)

lemma split_on_join: "join_with [c] (split_on (\<lambda>x. x = c) s) = s"
proof (induction s)
  case (Cons x s)
  then show ?case by (cases "split_on (\<lambda>x. x = c) s"; cases "tl (split_on (\<lambda>x. x = c) s)") auto
qed simp

lemma split_on_dots:
  assumes "CHR ''.'' \<notin> set a" "CHR ''.'' \<notin> set b" "CHR ''.'' \<notin> set c"
  shows "split_on (\<lambda>c. c = CHR ''.'') (a @ ''.'' @ b @ ''.'' @ c) = [a, b, c]"
proof -
  have p: "\<forall>x\<in>set a. \<not> x = CHR ''.''" "\<forall>x\<in>set b. \<not> x = CHR ''.''" "\<forall>x\<in>set c. \<not> x = CHR ''.''"
    using assms by auto
  show ?thesis
    using split_on_append [OF p(1), of "CHR ''.''" "b @ ''.'' @ c"] split_on_append [OF p(2), of "CHR ''.''" c]
      split_on_none [OF p(3)] by simp
qed

lemma split_on_dots_iff:
  "split_on (\<lambda>c. c = CHR ''.'') s = [a, b, c] \<Longrightarrow> s = a @ ''.'' @ b @ ''.'' @ c"
  using split_on_join [of "CHR ''.''" s] by simp

lemma unat_saturating_add: "unat (saturating_add a b) = min (unat a + unat b) (2 ^ 64 - 1)"
  by (auto simp: saturating_add_def unat_word_ariths unsigned_minus_1_eq_mask mask_eq_exp_minus_1 min_def)

text \<open>A token the server minted is accepted until it expires and not after: verification under the
  same secret yields the subject, the authority and the instants it was minted with when the
  instant of the request is before the expiry, and the expiry error from that instant on. The
  expiry is the minting instant plus the lifetime, stopped at the largest instant.\<close>

lemma minted_verifies:
  assumes "crypto_ok C"
  shows "verify_access_token C secret (mint_access_token C secret subject sys ttl now jti) at_time =
      (if unat at_time < min (unat now + unat ttl) (2 ^ 64 - 1)
       then Inr \<lparr>cl_subject = subject, cl_issued_at = now, cl_expires_at = saturating_add now ttl,
                 cl_token_id = jti, cl_system_admin = sys\<rparr>
       else Inl Expired)"
proof -
  have dec: "b64_decode C (b64_encode C b) = Some b" "CHR ''.'' \<notin> set (b64_encode C b)" for b
    using assms by (auto simp: crypto_ok_def)
  have hd: "from_slice C ''{\"alg\":\"HS256\",\"typ\":\"JWT\"}'' = Some (Obj [(''alg'', Str ''HS256''), (''typ'', Str ''JWT'')])"
    "from_slice C (to_vec C v) = Some v" for v
    using assms by (auto simp: crypto_ok_def)
  have alg: "RawHeader_alg (Obj [(''alg'', Str ''HS256''), (''typ'', Str ''JWT'')]) = Some ALGORITHM"
    by (simp add: RawHeader_alg_def struct_view_def ALGORITHM_def)
  have "split_on (\<lambda>c. c = CHR ''.'') (mint_access_token C secret subject sys ttl now jti) =
     (let h = b64_encode C ''{\"alg\":\"HS256\",\"typ\":\"JWT\"}'';
          p = b64_encode C (to_vec C (RawClaims_to_value \<lparr>rc_sub = subject, rc_iat = now,
                rc_exp = saturating_add now ttl, rc_jti = jti, rc_sys = sys\<rparr>))
      in [h, p, sign C secret (h @ ''.'' @ p)])"
    using split_on_dots dec(2) by (simp add: mint_access_token_def Let_def sign_def)
  then show ?thesis
    by (simp add: verify_access_token_def Let_def dec hd alg constant_time_eq_iff RawClaims_roundtrip
        guard_def word_le_nat_alt unat_saturating_add not_le)
qed

text \<open>C29. Only authentic tokens are accepted: a token verification accepts carries, after its last dot,
  the tag of everything before it under the server's secret, names HS256 in its header, and is
  presented before the expiry in its signed payload; the subject and the authority it grants are
  read from that payload.\<close>

theorem accepted_token_is_signed:
  assumes "verify_access_token C secret token now = Inr claims"
  shows "\<exists>header payload bytes v raw. token = header @ ''.'' @ payload @ ''.'' @ sign C secret (header @ ''.'' @ payload)
    \<and> Option.bind (b64_decode C header) (\<lambda>b. Option.bind (from_slice C b) RawHeader_alg) = Some ''HS256''
    \<and> b64_decode C payload = Some bytes \<and> from_slice C bytes = Some v \<and> RawClaims_from_value v = Some raw
    \<and> cl_subject claims = rc_sub raw \<and> cl_system_admin claims = rc_sys raw \<and> cl_expires_at claims = rc_exp raw
    \<and> now < cl_expires_at claims"
proof -
  obtain header payload signature where s: "split_on (\<lambda>c. c = CHR ''.'') token = [header, payload, signature]"
    using assms by (auto simp: verify_access_token_def split: list.splits)
  from assms have v: "signature = sign C secret (header @ ''.'' @ payload)
     \<and> Option.bind (b64_decode C header) (\<lambda>b. Option.bind (from_slice C b) RawHeader_alg) = Some ''HS256''
     \<and> (\<exists>bytes v raw. b64_decode C payload = Some bytes \<and> from_slice C bytes = Some v
        \<and> RawClaims_from_value v = Some raw \<and> cl_subject claims = rc_sub raw
        \<and> cl_system_admin claims = rc_sys raw \<and> cl_expires_at claims = rc_exp raw \<and> now < cl_expires_at claims)"
    by (auto simp: verify_access_token_def s rbind_Inr_iff guard_def ALGORITHM_def ok_or_Inr_iff
        constant_time_eq_iff Option.bind_eq_Some_conv not_le split: if_splits)
  with split_on_dots_iff [OF s] show ?thesis by (metis (no_types, lifting))
qed

section \<open>Examples\<close>

text \<open>An instance of the parameters that satisfies the hypotheses: a segment writes a dot as a pair of
  letters, a tag is the key followed by the message, and values are written by the sample codec.\<close>

fun esc :: "string \<Rightarrow> string" where
  "esc [] = []"
| "esc (c # cs) = (if c = CHR ''.'' then ''ab'' else if c = CHR ''a'' then ''aa'' else [c]) @ esc cs"

fun unesc :: "string \<Rightarrow> string" where
  "unesc [] = []"
| "unesc [c] = [c]"
| "unesc (c # d # cs) =
     (if c = CHR ''a'' then (if d = CHR ''b'' then CHR ''.'' else d) # unesc cs else c # unesc (d # cs))"

lemma unesc_esc: "unesc (esc s) = s \<and> CHR ''.'' \<notin> set (esc s)"
proof (induction s)
  case (Cons c s)
  then show ?case by (cases "esc s") auto
qed simp

definition sample_crypto :: Crypto where
  "sample_crypto = \<lparr>b64_encode = esc, b64_decode = (\<lambda>s. Some (unesc s)), hmac = (\<lambda>k m. k @ m),
     sha256 = (\<lambda>s. s), to_vec = write_value,
     from_slice = (\<lambda>b. if b = ''{\"alg\":\"HS256\",\"typ\":\"JWT\"}''
        then Some (Obj [(''alg'', Str ''HS256''), (''typ'', Str ''JWT'')]) else ok_opt (read_all b))\<rparr>"

lemma write_value_head: "write_value v \<noteq> CHR ''{'' # s"
  by (cases v rule: write_value.cases) simp_all

lemma sample_crypto_ok: "crypto_ok sample_crypto"
  by (simp add: crypto_ok_def sample_crypto_def unesc_esc write_value_head)

theorem accepted_token_is_signed_witness:
  "\<exists>header payload. mint_access_token sample_crypto ''k'' ''u1'' False 900 100 ''j'' =
     header @ ''.'' @ payload @ ''.'' @ sign sample_crypto ''k'' (header @ ''.'' @ payload)"
proof -
  have "verify_access_token sample_crypto ''k'' (mint_access_token sample_crypto ''k'' ''u1'' False 900 100 ''j'') 999 =
      Inr \<lparr>cl_subject = ''u1'', cl_issued_at = 100, cl_expires_at = saturating_add 100 900, cl_token_id = ''j'', cl_system_admin = False\<rparr>"
    by (subst minted_verifies [OF sample_crypto_ok]) simp
  from accepted_token_is_signed [OF this] show ?thesis by blast
qed

end
