(* ===== verification/Session.thy ===== *)
theory Session
  imports Account_Laws Token Service_Laws
begin

text \<open>
  Sessions (\<^verbatim>\<open>src/auth/session.rs\<close>): sign in, rotate, sign out, and deciding whether a caller may act
  on a project, over the account store and the tokens. Argon2 is a record of parameters
  (\<^verbatim>\<open>src/auth/password.rs\<close> only calls it); the random draws of one call are a record too, and the
  instant is an argument as in the source. The state is that of the service, whose files hold the
  account store.
\<close>

section \<open>Configuration, passwords and draws\<close>

record AuthConfig =
  ac_required :: bool
  ac_jwt_secret :: "string option"
  ac_access_ttl :: "64 word"
  ac_refresh_ttl :: "64 word"
  ac_bootstrap_username :: "string option"
  ac_bootstrap_password :: "string option"

record Argon2 =
  parse_phc :: "string \<Rightarrow> string option"
  argon2_verify :: "string \<Rightarrow> string \<Rightarrow> bool"
  argon2_hash :: "string \<Rightarrow> string \<Rightarrow> string option"

definition verify_password :: "Argon2 \<Rightarrow> string \<Rightarrow> string \<Rightarrow> bool" where
  "verify_password P stored password = (case parse_phc P stored of
       None \<Rightarrow> False
     | Some parsed \<Rightarrow> argon2_verify P password parsed)"

text \<open>\<^verbatim>\<open>hash_password\<close> with the salt drawn as an argument.\<close>

definition hash_password :: "Argon2 \<Rightarrow> string \<Rightarrow> string \<Rightarrow> string option" where
  "hash_password P salt password = argon2_hash P password salt"

record Draws =
  dr_jti :: string
  dr_refresh :: string
  dr_id :: string

record AuthEnv =
  ae_store :: AuthStore
  ae_crypto :: Crypto
  ae_argon :: Argon2
  ae_config :: AuthConfig

definition DECOY_HASH :: string where
  "DECOY_HASH = ''$argon2id$v=19$m=19456,t=2,p=1$AAAAAAAAAAAAAAAAAAAAAA$AAAAAAAAAAAAAAAAAAAAAAAAAAAAAAAAAAAAAAAAAAA''"

section \<open>Callers\<close>

record Principal =
  pr_user_id :: string
  pr_system_admin :: bool

fun role_name :: "Role \<Rightarrow> string" where
  "role_name Viewer = ''viewer''"
| "role_name Editor = ''editor''"
| "role_name Owner = ''owner''"

definition require_role :: "AuthStore \<Rightarrow> Principal \<Rightarrow> string \<Rightarrow> Role \<Rightarrow> fs \<Rightarrow> unit result" where
  "require_role A p project_id required fs =
     (if pr_system_admin p then Inr ()
      else rbind (map_err from_io (role_of A project_id (pr_user_id p) fs)) (\<lambda>held.
        if (case held of Some r \<Rightarrow> required \<le> r | None \<Rightarrow> False) then Inr ()
        else Inl (forbidden (''This account needs the '' @ role_name required @ '' role in the project''))))"

section \<open>Sessions\<close>

record SessionTokens =
  se_access_token :: string
  se_refresh_token :: string
  se_access_expires_at :: "64 word"
  se_refresh_expires_at :: "64 word"

definition secret :: "AuthConfig \<Rightarrow> string result" where
  "secret cfg = ok_or (Internal ''auth is not configured with a signing secret'') (ac_jwt_secret cfg)"

definition issue_tokens :: "AuthEnv \<Rightarrow> Draws \<Rightarrow> User \<Rightarrow> string \<Rightarrow> 64 word \<Rightarrow> SessionTokens sop" where
  "issue_tokens E d u key now =
     (let C = ae_crypto E; cfg = ae_config E;
          access = mint_access_token C key (u_id u) (u_system_admin u) (ac_access_ttl cfg) now (dr_jti d);
          refresh_token = mint_refresh_token C (dr_refresh d);
          refresh_expires = saturating_add now (ac_refresh_ttl cfg)
      in sbind (sio from_io (insert_refresh_token (ae_store E) (u_id u)
             \<lparr>rt_id = dr_id d, rt_hash = hash_refresh_token C refresh_token, rt_expires_at = refresh_expires\<rparr>)) (\<lambda>_.
           slift (Inr \<lparr>se_access_token = access, se_refresh_token = refresh_token,
             se_access_expires_at = saturating_add now (ac_access_ttl cfg), se_refresh_expires_at = refresh_expires\<rparr>)))"

definition login :: "AuthEnv \<Rightarrow> Draws \<Rightarrow> string \<Rightarrow> string \<Rightarrow> 64 word \<Rightarrow> SessionTokens sop" where
  "login E d username password now =
     sbind (slift (secret (ae_config E))) (\<lambda>key.
     sbind (sread (\<lambda>fs. map_err from_io (user_by_username (ae_store E) username fs))) (\<lambda>found.
     let candidate = (case found of Some account \<Rightarrow> u_password_hash account | None \<Rightarrow> DECOY_HASH);
         verified = verify_password (ae_argon E) candidate password
     in case found of
          None \<Rightarrow> slift (Inl invalid_credentials)
        | Some u \<Rightarrow>
            if \<not> verified then slift (Inl invalid_credentials)
            else sbind (sio from_io (prune_expired_refresh_tokens (ae_store E) now)) (\<lambda>_.
                 issue_tokens E d u key now)))"

definition rotate ::
  "AuthEnv \<Rightarrow> Draws \<Rightarrow> string \<Rightarrow> 64 word \<Rightarrow> (User \<times> StoredRefreshToken) option \<Rightarrow> SessionTokens sop" where
  "rotate E d key now found = (case found of
       None \<Rightarrow> slift (Inl invalid_refresh_token)
     | Some (u, stored) \<Rightarrow>
         if rt_expires_at stored \<le> now
         then sbind (sio from_io (revoke_refresh_token (ae_store E) (u_id u) (rt_id stored))) (\<lambda>_.
              slift (Inl invalid_refresh_token))
         else sbind (sio from_io (revoke_refresh_token (ae_store E) (u_id u) (rt_id stored))) (\<lambda>removed.
              if \<not> removed then slift (Inl invalid_refresh_token)
              else issue_tokens E d u key now))"

definition refresh :: "AuthEnv \<Rightarrow> Draws \<Rightarrow> string \<Rightarrow> 64 word \<Rightarrow> SessionTokens sop" where
  "refresh E d refresh_token now =
     sbind (slift (secret (ae_config E))) (\<lambda>key.
     sbind (sread (\<lambda>fs. map_err from_io (user_by_refresh_hash (ae_store E)
              (hash_refresh_token (ae_crypto E) refresh_token) fs))) (\<lambda>found.
       rotate E d key now found))"

definition logout :: "AuthEnv \<Rightarrow> Principal \<Rightarrow> string \<Rightarrow> bool sop" where
  "logout E p refresh_token =
     sbind (sread (\<lambda>fs. map_err from_io (user_by_refresh_hash (ae_store E)
              (hash_refresh_token (ae_crypto E) refresh_token) fs))) (\<lambda>found.
     case found of
       None \<Rightarrow> slift (Inr False)
     | Some (u, stored) \<Rightarrow>
         if u_id u \<noteq> pr_user_id p then slift (Inr False)
         else sbind (sio from_io (revoke_refresh_token (ae_store E) (u_id u) (rt_id stored))) (\<lambda>_.
              slift (Inr True)))"

definition authenticate :: "AuthEnv \<Rightarrow> string \<Rightarrow> 64 word \<Rightarrow> Principal result" where
  "authenticate E access_token now =
     rbind (secret (ae_config E)) (\<lambda>key.
     rbind (map_err (\<lambda>e. case e of Expired \<Rightarrow> token_expired | _ \<Rightarrow> invalid_token)
              (verify_access_token (ae_crypto E) key access_token now)) (\<lambda>claims.
       Inr \<lparr>pr_user_id = cl_subject claims, pr_system_admin = cl_system_admin claims\<rparr>))"

end
