(* ===== verification/Session_Laws.thy ===== *)
theory Session_Laws
  imports Session Repository_Trees
begin

text \<open>
  What sessions promise: a sign-in yields a token that authenticates as the account whose password was
  given, refusals do not tell which half was wrong, a live refresh token can be exchanged, and once
  it was, a replay is refused; role changes take effect with the next check.
\<close>

section \<open>Signing in\<close>

lemma user_by_username_stored:
  "user_by_username A name fs = Inr found \<Longrightarrow>
     found = find (\<lambda>u. eq_ignore_ascii_case (u_username u) name) (stored_users A fs)"
  by (auto simp: user_by_username_def users_def rbind_Inr_iff dest: read_users_stored)

lemma user_by_refresh_hash_stored:
  assumes "user_by_refresh_hash A h fs = Inr found"
  shows "case found of
      None \<Rightarrow> \<forall>u\<in>set (stored_users A fs). \<forall>t\<in>set (u_refresh_tokens u). rt_hash t \<noteq> h
    | Some (u, t) \<Rightarrow> u \<in> set (stored_users A fs) \<and> t \<in> set (u_refresh_tokens u) \<and> rt_hash t = h"
proof -
  let ?f = "\<lambda>u. map_option (Pair u) (find (\<lambda>t. rt_hash t = h) (u_refresh_tokens u))"
  have f: "found = (case List.map_filter ?f (stored_users A fs) of [] \<Rightarrow> None | x # _ \<Rightarrow> Some x)"
    using assms by (auto simp: user_by_refresh_hash_def rbind_Inr_iff dest: read_users_stored)
  show ?thesis
  proof (cases "List.map_filter ?f (stored_users A fs)")
    case Nil
    then have "?f u = None" if "u \<in> set (stored_users A fs)" for u
      using that by (auto simp: List.map_filter_def filter_empty_conv)
    with Nil f show ?thesis by (auto simp: find_None_iff)
  next
    case (Cons x xs)
    then have "x \<in> set (List.map_filter ?f (stored_users A fs))" by simp
    then obtain u where "u \<in> set (stored_users A fs)" "?f u = Some x"
      by (auto simp: List.map_filter_def)
    with Cons f show ?thesis by (auto simp: find_Some_iff split: option.splits)
  qed
qed

lemma issue_tokens_ok:
  assumes "issue_tokens E d u key now st = (Inr tokens, st')"
  shows "se_access_token tokens = mint_access_token (ae_crypto E) key (u_id u) (u_system_admin u)
       (ac_access_ttl (ae_config E)) now (dr_jti d)
    \<and> se_refresh_token tokens = mint_refresh_token (ae_crypto E) (dr_refresh d)
    \<and> (\<exists>fs. insert_refresh_token (ae_store E) (u_id u) \<lparr>rt_id = dr_id d,
          rt_hash = hash_refresh_token (ae_crypto E) (se_refresh_token tokens),
          rt_expires_at = saturating_add now (ac_refresh_ttl (ae_config E))\<rparr> (files st) = (Inr (), fs)
        \<and> st' = st\<lparr>files := fs\<rparr>)"
  using assms by (auto simp: issue_tokens_def Let_def sbind_Inr_iff sio_Inr_iff)


text \<open>A refused sign-in tells nothing: with a signing secret and readable accounts, an unknown login
  name and a wrong password give the same answer, and neither changes anything.\<close>

theorem login_refusal_uniform:
  assumes "secret (ae_config E) = Inr key" "user_by_username (ae_store E) username (files st) = Inr found"
  shows "fst (login E d username password now st) = Inl invalid_credentials
      \<and> snd (login E d username password now st) = st
    \<or> (\<exists>u. found = Some u \<and> verify_password (ae_argon E) (u_password_hash u) password)"
  using assms by (cases found) (auto simp: login_def Let_def sbind_def sread_def slift_def)

section \<open>Rotation\<close>

definition holds_hash :: "AuthStore \<Rightarrow> string \<Rightarrow> fs \<Rightarrow> (string \<times> string) set" where
  "holds_hash A h fs = {(u_id u, rt_id t) | u t. u \<in> set (stored_users A fs) \<and> t \<in> set (u_refresh_tokens u) \<and> rt_hash t = h}"

lemma refresh_ok:
  assumes "refresh E d refresh_token now st = (Inr tokens, st')"
  obtains key u stored fs1 fs2 where "secret (ae_config E) = Inr key"
    "user_by_refresh_hash (ae_store E) (hash_refresh_token (ae_crypto E) refresh_token) (files st) = Inr (Some (u, stored))"
    "now < rt_expires_at stored"
    "revoke_refresh_token (ae_store E) (u_id u) (rt_id stored) (files st) = (Inr True, fs1)"
    "insert_refresh_token (ae_store E) (u_id u) \<lparr>rt_id = dr_id d,
          rt_hash = hash_refresh_token (ae_crypto E) (se_refresh_token tokens),
          rt_expires_at = saturating_add now (ac_refresh_ttl (ae_config E))\<rparr> fs1 = (Inr (), fs2)"
    "st' = st\<lparr>files := fs2\<rparr>" "se_refresh_token tokens = mint_refresh_token (ae_crypto E) (dr_refresh d)"
proof -
  obtain key found where key: "secret (ae_config E) = Inr key"
    and f: "user_by_refresh_hash (ae_store E) (hash_refresh_token (ae_crypto E) refresh_token) (files st) = Inr found"
    and r: "rotate E d key now found st = (Inr tokens, st')"
    using assms by (auto simp: refresh_def sbind_Inr_iff map_err_Inr_iff
        dest!: sym [of "Inr _" "secret _"] sym [of "Inr _" "map_err _ _"])
  obtain u stored where found: "found = Some (u, stored)" using r by (cases found) (auto simp: rotate_def)
  have e: "now < rt_expires_at stored" and rest: "sbind (sio from_io (revoke_refresh_token (ae_store E) (u_id u) (rt_id stored)))
      (\<lambda>removed. if \<not> removed then slift (Inl invalid_refresh_token) else issue_tokens E d u key now) st = (Inr tokens, st')"
    using r found by (auto simp: rotate_def sbind_Inr_iff not_le split: if_splits)
  note u = f [unfolded found]
  from rest obtain fs1 where "revoke_refresh_token (ae_store E) (u_id u) (rt_id stored) (files st) = (Inr True, fs1)"
    "issue_tokens E d u key now (st\<lparr>files := fs1\<rparr>) = (Inr tokens, st')"
    by (auto simp: sbind_Inr_iff sio_Inr_iff split: if_splits)
  with issue_tokens_ok [OF this(2)] key u e that show thesis by auto
qed

lemma set_update_user: "set (update_user i f us) \<subseteq> set us \<union> f ` {u \<in> set us. u_id u = i}"
  by (induction us) auto

lemma update_user_distinct:
  "distinct (map u_id us) \<Longrightarrow> u \<in> set (update_user i f us) \<Longrightarrow> (\<And>u. u_id (f u) = u_id u) \<Longrightarrow>
     (u_id u \<noteq> i \<and> u \<in> set us) \<or> (\<exists>v\<in>set us. u_id v = i \<and> u = f v)"
  by (induction us) (auto simp: image_iff split: if_splits)

text \<open>A spent refresh token cannot be replayed: once a refresh token has been exchanged, presenting
  it again is refused as invalid and changes nothing, provided the accounts are distinct, the
  digest was stored once, the new token has another digest, and the accounts can be read.\<close>

theorem refresh_replay_refused:
  assumes "refresh E d refresh_token now st = (Inr tokens, st')" "codec_ok (as_repo (ae_store E))"
    and "accounts_ok (stored_users (ae_store E) (files st))"
    and "holds_hash (ae_store E) (hash_refresh_token (ae_crypto E) refresh_token) (files st) = {k}"
    and "hash_refresh_token (ae_crypto E) (se_refresh_token tokens) \<noteq> hash_refresh_token (ae_crypto E) refresh_token"
    and "is_ok (read_users_unlocked (ae_store E) (files st'))"
  shows "refresh E d' refresh_token now' st' = (Inl invalid_refresh_token, st')"
  using assms(1)
proof (rule refresh_ok)
  let ?A = "ae_store E" and ?h = "hash_refresh_token (ae_crypto E) refresh_token"
  fix key u stored fs1 fs2
  assume key: "secret (ae_config E) = Inr key"
    and u: "user_by_refresh_hash ?A ?h (files st) = Inr (Some (u, stored))"
    and r: "revoke_refresh_token ?A (u_id u) (rt_id stored) (files st) = (Inr True, fs1)"
    and i: "insert_refresh_token ?A (u_id u) \<lparr>rt_id = dr_id d,
          rt_hash = hash_refresh_token (ae_crypto E) (se_refresh_token tokens),
          rt_expires_at = saturating_add now (ac_refresh_ttl (ae_config E))\<rparr> fs1 = (Inr (), fs2)"
    and st': "st' = st\<lparr>files := fs2\<rparr>"
  have m: "u \<in> set (stored_users ?A (files st))" "stored \<in> set (u_refresh_tokens u)" "rt_hash stored = ?h"
    using user_by_refresh_hash_stored [OF u] by auto
  then have "(u_id u, rt_id stored) \<in> holds_hash ?A ?h (files st)" by (auto simp: holds_hash_def)
  then have k: "k = (u_id u, rt_id stored)" using assms(4) by simp
  have d: "distinct (map u_id (stored_users ?A (files st)))" using assms(3) by (simp add: accounts_ok_def)
  have us1: "stored_users ?A fs1 = spec_auth (Revoke (u_id u) (rt_id stored)) (stored_users ?A (files st))"
    using revoke_stored [OF r assms(2)] by simp
  have d1: "distinct (map u_id (stored_users ?A fs1))"
    using d unfolding us1 by (simp add: map_update_user)
  have us2: "stored_users ?A fs2 = spec_auth (InsertToken (u_id u) \<lparr>rt_id = dr_id d,
          rt_hash = hash_refresh_token (ae_crypto E) (se_refresh_token tokens),
          rt_expires_at = saturating_add now (ac_refresh_ttl (ae_config E))\<rparr>) (stored_users ?A fs1)"
    using insert_token_stored [OF i assms(2)] by simp
  have gone1: "rt_hash t \<noteq> ?h" if "v \<in> set (stored_users ?A fs1)" "t \<in> set (u_refresh_tokens v)" for v t
  proof
    assume "rt_hash t = ?h"
    with update_user_distinct [OF d that(1) [unfolded us1 spec_auth.simps]] that(2)
    obtain w where "w \<in> set (stored_users ?A (files st))" "t \<in> set (u_refresh_tokens w)"
      "u_id w \<noteq> u_id u \<or> rt_id t \<noteq> rt_id stored" by auto
    with \<open>rt_hash t = ?h\<close> have "(u_id w, rt_id t) \<in> holds_hash ?A ?h (files st)" by (auto simp: holds_hash_def)
    with assms(4) k \<open>u_id w \<noteq> u_id u \<or> rt_id t \<noteq> rt_id stored\<close> show False by auto
  qed
  have gone2: "rt_hash t \<noteq> ?h" if "v \<in> set (stored_users ?A fs2)" "t \<in> set (u_refresh_tokens v)" for v t
    using update_user_distinct [OF d1 that(1) [unfolded us2 spec_auth.simps]] that(2) gone1 assms(5) by auto
  obtain found where f: "user_by_refresh_hash ?A ?h (files st') = Inr found"
    using assms(6) by (cases "read_users_unlocked ?A (files st')") (auto simp: user_by_refresh_hash_def)
  have "found = None" using user_by_refresh_hash_stored [OF f] gone2 st' by (auto split: option.splits)
  with f key show ?thesis by (simp add: refresh_def rotate_def sbind_def sread_def slift_def)
qed

section \<open>A live token can be exchanged\<close>

lemma write_json_over_file:
  assumes "tree_ok fs" "file_at fs p = Some b" "p \<noteq> []"
  shows "\<exists>fs'. write_json R p v fs = (Inr (), fs')"
proof -
  have up: "lookup fs q = Some Dir" if "p = q @ xs" "xs \<noteq> []" for q xs
    using tree_ok_prefix [OF assms(1), of q xs] assms(2) that by (auto simp: file_at_def split: option.splits)
  have dirs: "\<not> is_file fs q" if pre: "prefix q (butlast p)" for q
  proof -
    obtain ys where "butlast p = q @ ys" using pre by (auto simp: prefix_def)
    then have "p = q @ (ys @ [last p])" using assms(3) by (metis append.assoc append_butlast_last_id)
    then show ?thesis using up by (simp add: is_file_iff)
  qed
  have "\<not> list_ex (is_file fs) (butlast (prefixes (butlast p)))"
    using dirs by (auto simp: list_ex_iff dest!: in_set_butlastD)
  moreover have "\<not> is_file fs (butlast p)" using dirs by simp
  ultimately obtain fs1 where c: "create_private_dir_all (butlast p) fs = (Inr (), fs1)"
    by (simp add: create_private_dir_all_def)
  have "lookup fs1 p = lookup fs p" using mkdirs_lookup [OF c, of p] assms(2) by (auto simp: file_at_def split: option.splits)
  then have "\<not> is_dir fs1 p" using assms(2) by (auto simp: is_dir_iff file_at_def split: option.splits)
  with c assms(3) show ?thesis by (simp add: write_json_def obind_def replace_file_def)
qed

lemma read_users_after_write:
  assumes "write_users_unlocked A us fs = (Inr (), fs')" "codec_ok (as_repo A)"
  shows "read_users_unlocked A fs' = Inr us \<and> file_at fs' (users_path A) \<noteq> None"
proof -
  have f: "file_at fs' (users_path A) = Some (encode (as_repo A) (UserFile_to_value us))"
    using assms(1) write_json_files(2) by (auto simp: write_users_unlocked_def write_json_atomically_def)
  then have "read_confined (root (as_repo A)) (users_path A) fs' = Inr (encode (as_repo A) (UserFile_to_value us))"
    using users_path_below [of A] by (simp add: read_confined_file_at)
  with f assms(2) show ?thesis
    by (simp add: read_users_unlocked_def read_or_default_def codec_ok_def UserFile_roundtrip)
qed

lemma write_users_succeeds:
  assumes "tree_ok fs" "file_at fs (users_path A) = Some b"
  shows "\<exists>fs'. write_users_unlocked A us fs = (Inr (), fs') \<and> tree_ok fs'"
proof -
  have "users_path A \<noteq> []" by (simp add: users_path_def)
  from write_json_over_file [OF assms this] obtain fs' where
    w: "write_users_unlocked A us fs = (Inr (), fs')"
    unfolding write_users_unlocked_def write_json_atomically_def by blast
  then have "tree_ok fs'"
    using keepsD [OF keeps_write_json] assms(1) unfolding write_users_unlocked_def write_json_atomically_def by blast
  with w show ?thesis by blast
qed

lemma distinct_find_user: "distinct (map u_id us) \<Longrightarrow> u \<in> set us \<Longrightarrow> find (\<lambda>v. u_id v = u_id u) us = Some u"
  by (induction us) auto

lemma revoke_succeeds:
  assumes "\<not> lock_busy (as_repo A)" "codec_ok (as_repo A)" "tree_ok fs" "accounts_ok (stored_users A fs)"
    and "read_users_unlocked A fs = Inr us" "u \<in> set us" "t \<in> set (u_refresh_tokens u)"
    and "file_at fs (users_path A) = Some b"
  shows "\<exists>fs' us'. revoke_refresh_token A (u_id u) (rt_id t) fs = (Inr True, fs') \<and> tree_ok fs'
    \<and> read_users_unlocked A fs' = Inr us' \<and> map u_id us' = map u_id us \<and> file_at fs' (users_path A) \<noteq> None"
proof -
  have us: "us = stored_users A fs" by (rule read_users_stored [OF assms(5)])
  have find: "find (\<lambda>v. u_id v = u_id u) us = Some u"
    using assms(4,6) us by (intro distinct_find_user) (simp_all add: accounts_ok_def)
  let ?kept = "filter (\<lambda>y. rt_id y \<noteq> rt_id t) (u_refresh_tokens u)"
  let ?us' = "update_user (u_id u) (\<lambda>u. u\<lparr>u_refresh_tokens := ?kept\<rparr>) us"
  have len: "length ?kept \<noteq> length (u_refresh_tokens u)"
    using assms(7) by (auto simp: length_filter_eq filter_id_conv)
  obtain fs' where w: "write_users_unlocked A ?us' fs = (Inr (), fs')" "tree_ok fs'"
    using write_users_succeeds [OF assms(3,8)] by blast
  have "revoke_refresh_token A (u_id u) (rt_id t) fs = (Inr True, fs')"
    using assms(1,5) find len w(1)
    by (simp add: revoke_refresh_token_def locked_def acquire_lock_def guard_def oread_def obind_def olift_def Let_def)
  with w read_users_after_write [OF w(1) assms(2)] show ?thesis by (auto simp: map_update_user)
qed

lemma insert_token_succeeds:
  assumes "\<not> lock_busy (as_repo A)" "tree_ok fs" "read_users_unlocked A fs = Inr us" "i \<in> u_id ` set us"
    and "file_at fs (users_path A) \<noteq> None"
    and "codec_ok (as_repo A)"
  shows "\<exists>fs'. insert_refresh_token A i t fs = (Inr (), fs') \<and> is_ok (read_users_unlocked A fs')"
proof -
  have "find (\<lambda>u. u_id u = i) us \<noteq> None" using assms(4) by (auto simp: find_None_iff)
  moreover obtain fs' where w: "write_users_unlocked A
      (update_user i (\<lambda>u. u\<lparr>u_refresh_tokens := u_refresh_tokens u @ [t]\<rparr>) us) fs = (Inr (), fs')"
    using write_users_succeeds [OF assms(2)] assms(5) by blast
  moreover have "is_ok (read_users_unlocked A fs')" using read_users_after_write [OF w assms(6)] by simp
  ultimately show ?thesis
    using assms(1,3) by (auto simp: insert_refresh_token_def locked_def acquire_lock_def guard_def oread_def obind_def olift_def)
qed

lemma exchange_succeeds:
  assumes "secret (ae_config E) = Inr key" "\<not> lock_busy (as_repo (ae_store E))" "codec_ok (as_repo (ae_store E))"
    and "tree_ok (files st)" "accounts_ok (stored_users (ae_store E) (files st))"
    and "read_users_unlocked (ae_store E) (files st) = Inr us" "v \<in> set us" "x \<in> set (u_refresh_tokens v)"
    and "rt_hash x = hash_refresh_token (ae_crypto E) refresh_token"
    and "\<forall>v\<in>set us. \<forall>x\<in>set (u_refresh_tokens v). rt_hash x = hash_refresh_token (ae_crypto E) refresh_token \<longrightarrow> now < rt_expires_at x"
  shows "\<exists>tokens st'. refresh E d refresh_token now st = (Inr tokens, st')
    \<and> is_ok (read_users_unlocked (ae_store E) (files st'))"
proof -
  let ?A = "ae_store E" and ?h = "hash_refresh_token (ae_crypto E) refresh_token"
  have us: "us = stored_users ?A (files st)" by (rule read_users_stored [OF assms(6)])
  obtain found where f: "user_by_refresh_hash ?A ?h (files st) = Inr found"
    using assms(6) by (simp add: user_by_refresh_hash_def)
  obtain u t where found: "found = Some (u, t)" and ut: "u \<in> set us" "t \<in> set (u_refresh_tokens u)" "rt_hash t = ?h"
    using user_by_refresh_hash_stored [OF f] assms(7-9) us by (auto split: option.splits)
  have e: "now < rt_expires_at t" using assms(10) ut by blast
  obtain b where b: "file_at (files st) (users_path ?A) = Some b"
    using ut(1) unfolding us stored_users_def by (cases "file_at (files st) (users_path ?A)") auto
  obtain fs1 us1 where r: "revoke_refresh_token ?A (u_id u) (rt_id t) (files st) = (Inr True, fs1)" "tree_ok fs1"
    "read_users_unlocked ?A fs1 = Inr us1" "map u_id us1 = map u_id us" "file_at fs1 (users_path ?A) \<noteq> None"
    using revoke_succeeds [OF assms(2-6) ut(1,2) b] by blast
  have "u_id u \<in> u_id ` set us1" using r(4) ut(1) by (metis image_eqI list.set_map)
  then have i: "\<exists>fs'. insert_refresh_token ?A (u_id u) x fs1 = (Inr (), fs') \<and> is_ok (read_users_unlocked ?A fs')" for x
    using insert_token_succeeds [OF assms(2) r(2,3)] r(5) assms(3) by blast
  have "\<exists>tokens st'. issue_tokens E d u key now (st\<lparr>files := fs1\<rparr>) = (Inr tokens, st')
      \<and> is_ok (read_users_unlocked ?A (files st'))"
  proof -
    obtain fs2 where "insert_refresh_token ?A (u_id u) \<lparr>rt_id = dr_id d,
        rt_hash = hash_refresh_token (ae_crypto E) (mint_refresh_token (ae_crypto E) (dr_refresh d)),
        rt_expires_at = saturating_add now (ac_refresh_ttl (ae_config E))\<rparr> fs1 = (Inr (), fs2)"
      "is_ok (read_users_unlocked ?A fs2)"
      using i by blast
    then show ?thesis by (simp add: issue_tokens_def Let_def sbind_def sio_def slift_def)
  qed
  moreover have "refresh E d refresh_token now st = issue_tokens E d u key now (st\<lparr>files := fs1\<rparr>)"
    using assms(1) f found e r(1) by (simp add: refresh_def rotate_def sbind_def sread_def sio_def slift_def not_le [symmetric])
  ultimately show ?thesis by simp
qed

text \<open>C30. A client with a live refresh token is never locked out: with a signing secret, the lock free,
  a well-formed tree and distinct accounts, presenting a token whose digest is stored and has not
  expired always yields a new pair.\<close>

theorem live_token_is_exchanged:
  assumes "secret (ae_config E) = Inr key" "\<not> lock_busy (as_repo (ae_store E))" "codec_ok (as_repo (ae_store E))"
    and "tree_ok (files st)" "accounts_ok (stored_users (ae_store E) (files st))"
    and "read_users_unlocked (ae_store E) (files st) = Inr us" "v \<in> set us" "x \<in> set (u_refresh_tokens v)"
    and "rt_hash x = hash_refresh_token (ae_crypto E) refresh_token"
    and "\<forall>v\<in>set us. \<forall>x\<in>set (u_refresh_tokens v). rt_hash x = hash_refresh_token (ae_crypto E) refresh_token \<longrightarrow> now < rt_expires_at x"
  shows "\<exists>tokens st'. refresh E d refresh_token now st = (Inr tokens, st')"
  using exchange_succeeds [OF assms] by blast

section \<open>Roles\<close>

lemma role_of_written:
  assumes "write_grants_unlocked A p g fs = (Inr (), fs')" "codec_ok (as_repo A)"
  shows "role_of A p i fs' = Inr (map_of g i)"
proof -
  obtain q where q: "grant_path A p = Inr q" "write_json (as_repo A) q (Grants_to_value g) fs = (Inr (), fs')"
    using assms(1) by (auto simp: write_grants_unlocked_def write_json_atomically_def obind_olift split: sum.splits)
  have "file_at fs' q = Some (encode (as_repo A) (Grants_to_value g))" by (rule write_json_files(2) [OF q(2)]) simp
  moreover have "prefix (root (as_repo A)) q \<and> q \<noteq> root (as_repo A)"
    using q(1) by (auto simp: grant_path_def grants_dir_def auth_dir_def Let_def rbind_Inr_iff)
  ultimately have "read_confined (root (as_repo A)) q fs' = Inr (encode (as_repo A) (Grants_to_value g))"
    by (simp add: read_confined_file_at)
  with q(1) assms(2) show ?thesis
    by (simp add: role_of_def grants_def read_grants_unlocked_def read_or_default_def codec_ok_def Grants_roundtrip)
qed

text \<open>A role change takes effect with the next check: after a role is set, the guard admits the
  account to the project exactly for what that role covers, and after it is removed it admits the
  account to nothing there; every other account of the project keeps what it had, and an
  administrator always passes.\<close>

theorem role_changes_take_effect:
  assumes "codec_ok (as_repo A)"
  shows "(set_role A p i r fs = (Inr (), fs') \<longrightarrow>
      (require_role A \<lparr>pr_user_id = i, pr_system_admin = False\<rparr> p needed fs' = Inr () \<longleftrightarrow> needed \<le> r)
      \<and> (j \<noteq> i \<longrightarrow> role_of A p j fs' = role_of A p j fs))
    \<and> (remove_role A p i fs = (Inr b, fs') \<longrightarrow>
      require_role A \<lparr>pr_user_id = i, pr_system_admin = False\<rparr> p needed fs' =
        Inl (forbidden (''This account needs the '' @ role_name needed @ '' role in the project''))
      \<and> (j \<noteq> i \<longrightarrow> role_of A p j fs' = role_of A p j fs))
    \<and> require_role A \<lparr>pr_user_id = i, pr_system_admin = True\<rparr> p needed fs' = Inr ()"
proof (intro conjI impI)
  assume "set_role A p i r fs = (Inr (), fs')"
  then obtain g where g: "read_grants_unlocked A p fs = Inr g"
    "write_grants_unlocked A p (obj_insert i r g) fs = (Inr (), fs')"
    by (auto simp: set_role_def locked_def obind_olift obind_oread split: sum.splits)
  note role = role_of_written [OF g(2) assms]
  show "require_role A \<lparr>pr_user_id = i, pr_system_admin = False\<rparr> p needed fs' = Inr () \<longleftrightarrow> needed \<le> r"
    by (simp add: require_role_def role)
  show "role_of A p j fs' = role_of A p j fs" if "j \<noteq> i"
    using that g(1) by (simp add: role) (simp add: role_of_def grants_def)
next
  assume r: "remove_role A p i fs = (Inr b, fs')"
  then obtain g where g: "read_grants_unlocked A p fs = Inr g"
    "map_of g i = None \<and> fs' = fs \<or> write_grants_unlocked A p (obj_remove i g) fs = (Inr (), fs')"
    by (auto simp: remove_role_def locked_def obind_olift obind_oread obind_def olift_def oread_def
        split: sum.splits prod.splits if_splits)
  have role: "role_of A p k fs' = Inr (if k = i then None else map_of g k)" for k
    using g role_of_written [OF _ assms, of p "obj_remove i g" fs fs' k] by (auto simp: role_of_def grants_def)
  show "require_role A \<lparr>pr_user_id = i, pr_system_admin = False\<rparr> p needed fs' =
        Inl (forbidden (''This account needs the '' @ role_name needed @ '' role in the project''))"
    by (simp add: require_role_def role)
  show "role_of A p j fs' = role_of A p j fs" if "j \<noteq> i"
    using that g(1) by (simp add: role) (simp add: role_of_def grants_def)
qed (simp add: require_role_def)

end
