(* ===== verification/Auth_Examples.thy ===== *)
theory Auth_Examples
  imports Session_Laws
begin

text \<open>
  The theorems about accounts and sessions applied to a concrete store: one account \<^verbatim>\<open>u1\<close>, named
  \<^verbatim>\<open>alice\<close>, with a live refresh token, and the sample codec.
\<close>

definition auth_repo :: FileRepository where
  "auth_repo = \<lparr>root = [''data''], lock_busy = False, encode = write_value, decode = read_all, compute_etag = id\<rparr>"

definition auth_store :: AuthStore where
  "auth_store = \<lparr>as_repo = auth_repo, as_shape = (\<lambda>_. ''bad'')\<rparr>"

definition auth_env :: AuthEnv where
  "auth_env = \<lparr>ae_store = auth_store, ae_crypto = sample_crypto,
     ae_argon = \<lparr>parse_phc = Some, argon2_verify = (\<lambda>pw h. pw = h), argon2_hash = (\<lambda>pw salt. Some pw)\<rparr>,
     ae_config = \<lparr>ac_required = True, ac_jwt_secret = Some ''k'', ac_access_ttl = 900, ac_refresh_ttl = 1000,
       ac_bootstrap_username = None, ac_bootstrap_password = None\<rparr>\<rparr>"

definition alice :: User where
  "alice = \<lparr>u_id = ''u1'', u_username = ''alice'', u_password_hash = ''pw'', u_system_admin = False,
     u_created_at = 0, u_refresh_tokens = [\<lparr>rt_id = ''t1'', rt_hash = hash_refresh_token sample_crypto ''r'', rt_expires_at = 500\<rparr>]\<rparr>"

definition auth_fs :: fs where
  "auth_fs = [([''data''], Dir), ([''data'', ''auth''], Dir), ([''data'', ''auth'', ''projects''], Dir),
     ([''data'', ''auth'', ''users.json''], File (write_value (UserFile_to_value [alice])))]"

definition auth_state :: Svc where
  "auth_state = \<lparr>files = auth_fs, derivations = empty_cache\<rparr>"

definition draws :: Draws where
  "draws = \<lparr>dr_jti = ''j'', dr_refresh = ''n'', dr_id = ''t2''\<rparr>"

lemma auth_env_simps [simp]:
  "ae_store auth_env = auth_store" "ae_crypto auth_env = sample_crypto" "as_repo auth_store = auth_repo"
  "files auth_state = auth_fs" "root auth_repo = [''data'']" "lock_busy auth_repo = False"
  "decode auth_repo = read_all" "encode auth_repo = write_value"
  by (simp_all add: auth_env_def auth_store_def auth_state_def auth_repo_def)

lemma auth_codec: "codec_ok (as_repo auth_store)"
  by (simp add: codec_ok_def)

lemma auth_tree: "tree_ok auth_fs"
  by (simp add: tree_ok_def auth_fs_def is_dir_iff lookup_def)

lemma auth_users: "read_users_unlocked auth_store auth_fs = Inr [alice]"
proof -
  have "file_at auth_fs (users_path auth_store) = Some (write_value (UserFile_to_value [alice]))"
    by (simp add: file_at_def lookup_def auth_fs_def users_path_def auth_dir_def)
  then have "read_confined [''data''] (users_path auth_store) auth_fs = Inr (write_value (UserFile_to_value [alice]))"
    using users_path_below [of auth_store] by (simp add: read_confined_file_at)
  then show ?thesis by (simp add: read_users_unlocked_def read_or_default_def UserFile_roundtrip)
qed

lemma auth_stored: "stored_users auth_store auth_fs = [alice]"
  using read_users_stored [OF auth_users] by simp

lemma auth_secret: "secret (ae_config auth_env) = Inr ''k''"
  by (simp add: secret_def auth_env_def)

lemma auth_accounts: "accounts_ok (stored_users auth_store auth_fs)"
  by (simp add: accounts_ok_def auth_stored)

theorem accounts_stay_distinct_witness:
  "accounts_ok (stored_users auth_store (fold (exec_auth auth_store)
     [InsertUser (alice\<lparr>u_id := ''u2'', u_username := ''ALICE''\<rparr>), Revoke ''u1'' ''t1''] auth_fs))"
  using accounts_stay_distinct [OF auth_codec auth_accounts] .

theorem refresh_token_spent_once_witness:
  "true_revocations auth_store (''u1'', ''t1'') [Revoke ''u1'' ''t1'', Prune 3, Revoke ''u1'' ''t1''] auth_fs \<le> 1"
  by (rule refresh_token_spent_once [OF auth_codec]) simp

theorem live_token_is_exchanged_witness:
  "\<exists>tokens st'. refresh auth_env draws ''r'' 100 auth_state = (Inr tokens, st')"
  using live_token_is_exchanged [OF auth_secret, of auth_state "[alice]" alice
      "\<lparr>rt_id = ''t1'', rt_hash = hash_refresh_token sample_crypto ''r'', rt_expires_at = 500\<rparr>" "''r''" 100 draws]
    auth_codec auth_tree auth_users auth_accounts
  by (simp add: alice_def)

theorem refresh_replay_refused_witness:
  "\<exists>tokens st'. refresh auth_env draws ''r'' 100 auth_state = (Inr tokens, st')
     \<and> refresh auth_env draws ''r'' 101 st' = (Inl invalid_refresh_token, st')"
proof -
  obtain tokens st' where r: "refresh auth_env draws ''r'' 100 auth_state = (Inr tokens, st')"
    "is_ok (read_users_unlocked auth_store (files st'))"
    using exchange_succeeds [OF auth_secret, of auth_state "[alice]" alice
      "\<lparr>rt_id = ''t1'', rt_hash = hash_refresh_token sample_crypto ''r'', rt_expires_at = 500\<rparr>" "''r''" 100 draws]
      auth_codec auth_tree auth_users auth_accounts
    by (auto simp: alice_def)
  have k: "holds_hash auth_store (hash_refresh_token sample_crypto ''r'') auth_fs = {(''u1'', ''t1'')}"
    by (auto simp: holds_hash_def auth_stored alice_def)
  have "se_refresh_token tokens = mint_refresh_token sample_crypto ''n''"
    using r(1) by (rule refresh_ok) (simp add: draws_def)
  then have h: "hash_refresh_token sample_crypto (se_refresh_token tokens) \<noteq> hash_refresh_token sample_crypto ''r''"
    by (simp add: hash_refresh_token_def hex_byte_def mint_refresh_token_def REFRESH_TOKEN_BYTES_def sample_crypto_def)
  show ?thesis
    using refresh_replay_refused [OF r(1), of "(''u1'', ''t1'')" draws 101] auth_codec auth_accounts k h r by auto
qed

lemma auth_file: "file_at auth_fs (users_path auth_store) \<noteq> None"
  by (simp add: file_at_def lookup_def auth_fs_def users_path_def auth_dir_def)

lemma auth_login: "\<exists>tokens st'. login auth_env draws ''Alice'' ''pw'' 100 auth_state = (Inr tokens, st')"
proof -
  have "eq_ignore_ascii_case (u_username alice) ''Alice''" by code_simp
  then have u: "user_by_username auth_store ''Alice'' auth_fs = Inr (Some alice)"
    by (simp add: user_by_username_def users_def auth_users)
  have p: "prune_expired_refresh_tokens auth_store 100 auth_fs = (Inr 0, auth_fs)"
    by (simp add: prune_expired_refresh_tokens_def locked_def acquire_lock_def guard_def oread_def obind_def
        olift_def auth_users Let_def alice_def)
  obtain fs where "insert_refresh_token auth_store (u_id alice) \<lparr>rt_id = dr_id draws,
      rt_hash = hash_refresh_token sample_crypto (mint_refresh_token sample_crypto (dr_refresh draws)),
      rt_expires_at = saturating_add 100 (ac_refresh_ttl (ae_config auth_env))\<rparr> auth_fs = (Inr (), fs)"
    using insert_token_succeeds [OF _ auth_tree auth_users _ auth_file auth_codec, of "u_id alice"] by auto
  with u p auth_secret show ?thesis
    by (simp add: login_def Let_def issue_tokens_def sbind_def sread_def sio_def slift_def verify_password_def)
      (simp add: auth_env_def alice_def)
qed


theorem login_refusal_uniform_witness:
  "fst (login auth_env draws ''bob'' ''pw'' 100 auth_state) = Inl invalid_credentials"
proof -
  have "\<not> eq_ignore_ascii_case (u_username alice) ''bob''" by code_simp
  then have u: "user_by_username auth_store ''bob'' auth_fs = Inr None"
    by (simp add: user_by_username_def users_def auth_users)
  show ?thesis
    using login_refusal_uniform [OF auth_secret, of "''bob''" auth_state None draws "''pw''" 100] u by simp
qed

theorem role_changes_take_effect_witness:
  "\<exists>fs'. set_role auth_store ''p.json'' ''u1'' Editor [([''data''], Dir)] = (Inr (), fs')
     \<and> require_role auth_store \<lparr>pr_user_id = ''u1'', pr_system_admin = False\<rparr> ''p.json'' Viewer fs' = Inr ()
     \<and> require_role auth_store \<lparr>pr_user_id = ''u1'', pr_system_admin = False\<rparr> ''p.json'' Owner fs' \<noteq> Inr ()"
proof -
  let ?s = "set_role auth_store ''p.json'' ''u1'' Editor [([''data''], Dir)]"
  have "is_ok (fst ?s)" by code_simp
  then obtain fs' where s: "?s = (Inr (), fs')" by (cases ?s; cases "fst ?s") auto
  have "Viewer \<le> Editor" "\<not> Owner \<le> Editor" by (simp_all add: less_eq_Role_def)
  with role_changes_take_effect [OF auth_codec, of "''p.json''" "''u1''" Editor "[([''data''], Dir)]" fs'] s
  show ?thesis by blast
qed

end
