(* ===== verification/Access.thy ===== *)
theory Access
  imports Session Case_Service
begin

text \<open>
  Authentication and authorization on the request path (\<^verbatim>\<open>src/api/auth.rs\<close>, \<^verbatim>\<open>src/api/access.rs\<close>).

  An \<open>AppState\<close> pairs the service with the authentication material; a guard is a function of the file
  system that answers or refuses. The value of the \<^verbatim>\<open>Authorization\<close> header, when the request has one
  that is visible ASCII, is an argument, and so are the clock and the draws of a session. A
  \<^verbatim>\<open>BTreeSet\<close> of projects is the ascending list of its elements.
\<close>

section \<open>State and callers\<close>

record AppState =
  service :: TestService
  auth :: AuthEnv

abbreviation repo :: "AppState \<Rightarrow> FileRepository" where
  "repo X \<equiv> repository (service X)"

definition auth_required :: "AppState \<Rightarrow> bool" where
  "auth_required X = ac_required (ae_config (auth X))"

definition btree_set :: "string list \<Rightarrow> string list" where
  "btree_set xs = remdups_adj (sort xs)"

definition authorize :: "AppState \<Rightarrow> Principal \<Rightarrow> string \<Rightarrow> Role \<Rightarrow> fs \<Rightarrow> unit result" where
  "authorize X p project_id required fs =
     (if \<not> auth_required X then Inr ()
      else require_role (ae_store (auth X)) p project_id required fs)"

definition bearer_token :: "string option \<Rightarrow> string option" where
  "bearer_token header =
     Option.bind header (\<lambda>value.
     Option.bind (split_once (CHR '' '') value) (\<lambda>(scheme, token).
       if eq_ignore_ascii_case scheme ''bearer'' \<and> trim token \<noteq> [] then Some (trim token) else None))"

definition anonymous :: Principal where
  "anonymous = \<lparr>pr_user_id = [], pr_system_admin = False\<rparr>"

definition from_request_parts :: "AppState \<Rightarrow> string option \<Rightarrow> 64 word \<Rightarrow> Principal result" where
  "from_request_parts X header now =
     (if \<not> auth_required X then Inr anonymous
      else rbind (ok_or missing_token (bearer_token header)) (\<lambda>token.
        authenticate (auth X) token now))"

section \<open>Session endpoints\<close>

definition LoginRequest_from_value :: "json \<Rightarrow> (string \<times> string) option" where
  "LoginRequest_from_value v = do {
     look \<leftarrow> struct_view True [''username'', ''password''] v;
     username \<leftarrow> req dec_str (look ''username'');
     password \<leftarrow> req dec_str (look ''password'');
     Some (username, password)}"

definition RefreshRequest_from_value :: "json \<Rightarrow> string option" where
  "RefreshRequest_from_value v = do {
     look \<leftarrow> struct_view True [''refreshToken''] v;
     req dec_str (look ''refreshToken'')}"

definition LogoutRequest_from_value :: "json \<Rightarrow> string option" where
  "LogoutRequest_from_value v = do {
     look \<leftarrow> struct_view True [''refreshToken''] v;
     req dec_str (look ''refreshToken'')}"

definition rejected_body :: DomainError where
  "rejected_body = invalid_request ''Invalid request body''"

definition SessionResponse :: "AuthConfig \<Rightarrow> SessionTokens \<Rightarrow> json" where
  "SessionResponse cfg tokens = struct_obj
     [(''accessToken'', Some (Str (se_access_token tokens))),
      (''refreshToken'', Some (Str (se_refresh_token tokens))),
      (''tokenType'', Some (Str ''Bearer'')),
      (''expiresIn'', Some (enc_u64 (ac_access_ttl cfg)))]"

text \<open>The body is what the JSON extractor parsed, or nothing when it refused the request.\<close>

definition login_handler :: "AppState \<Rightarrow> Draws \<Rightarrow> 64 word \<Rightarrow> json option \<Rightarrow> json sop" where
  "login_handler X d now body =
     sbind (slift (ok_or rejected_body (Option.bind body LoginRequest_from_value))) (\<lambda>(username, password).
     sbind (login (auth X) d username password now) (\<lambda>tokens.
       slift (Inr (SessionResponse (ae_config (auth X)) tokens))))"

definition refresh_handler :: "AppState \<Rightarrow> Draws \<Rightarrow> 64 word \<Rightarrow> json option \<Rightarrow> json sop" where
  "refresh_handler X d now body =
     sbind (slift (ok_or rejected_body (Option.bind body RefreshRequest_from_value))) (\<lambda>token.
     sbind (refresh (auth X) d token now) (\<lambda>tokens.
       slift (Inr (SessionResponse (ae_config (auth X)) tokens))))"

definition logout_handler :: "AppState \<Rightarrow> Principal \<Rightarrow> json option \<Rightarrow> json sop" where
  "logout_handler X p body =
     sbind (slift (ok_or rejected_body (Option.bind body LogoutRequest_from_value))) (\<lambda>token.
     sbind (logout (auth X) p token) (\<lambda>_.
       slift (Inr (Obj [(''message'', Str ''Signed out'')]))))"

text \<open>The role of each project the caller holds one in.\<close>

fun held_roles :: "AuthStore \<Rightarrow> string \<Rightarrow> string list \<Rightarrow> fs \<Rightarrow> (string \<times> json) list io_result" where
  "held_roles A user_id [] fs = Inr []"
| "held_roles A user_id (project # ps) fs =
     rbind (role_of A project user_id fs) (\<lambda>held.
     rbind (held_roles A user_id ps fs) (\<lambda>rest.
       Inr (case held of Some r \<Rightarrow> (project, Str (role_name r)) # rest | None \<Rightarrow> rest)))"

definition me_handler :: "AppState \<Rightarrow> Principal \<Rightarrow> fs \<Rightarrow> json result" where
  "me_handler X p fs =
     (let A = ae_store (auth X) in
      rbind (map_err from_io (user A (pr_user_id p) fs)) (\<lambda>found.
      rbind (ok_or invalid_token found) (\<lambda>account.
      rbind (map_err from_io (projects_for_user A (pr_user_id p) fs)) (\<lambda>projects.
      rbind (map_err from_io (held_roles A (pr_user_id p) projects fs)) (\<lambda>roles.
        Inr (struct_obj
          [(''id'', Some (Str (u_id account))), (''username'', Some (Str (u_username account))),
           (''systemAdmin'', Some (JBool (pr_system_admin p))),
           (''roles'', Some (Obj roles))]))))))"

section \<open>What a request reaches\<close>

definition scope :: "AppState \<Rightarrow> Principal \<Rightarrow> fs \<Rightarrow> string list option result" where
  "scope X p fs =
     (if \<not> auth_required X \<or> pr_system_admin p then Inr None
      else rbind (map_err from_io (projects_for_user (ae_store (auth X)) (pr_user_id p) fs)) (\<lambda>ps.
        Inr (Some (btree_set ps))))"

definition allowed :: "string list option \<Rightarrow> string \<Rightarrow> bool" where
  "allowed reachable project = (case reachable of None \<Rightarrow> True | Some ps \<Rightarrow> project \<in> set ps)"

definition require_admin :: "AppState \<Rightarrow> Principal \<Rightarrow> unit result" where
  "require_admin X p =
     (if \<not> auth_required X \<or> pr_system_admin p then Inr ()
      else Inl (forbidden ''This account needs the system administrator role''))"

definition project_ids :: "json option \<Rightarrow> string list" where
  "project_ids value = (case Option.bind value as_array of
       None \<Rightarrow> []
     | Some vs \<Rightarrow> btree_set (List.map_filter (\<lambda>entry. get_str entry ''projectId'') vs))"

definition string_array :: "json option \<Rightarrow> string list" where
  "string_array value = (case Option.bind value as_array of
       None \<Rightarrow> []
     | Some vs \<Rightarrow> List.map_filter as_str vs)"

definition or_else :: "'a option \<Rightarrow> 'a option \<Rightarrow> 'a option" where
  "or_else a b = (case a of None \<Rightarrow> b | Some _ \<Rightarrow> a)"

definition effective_ids :: "json \<Rightarrow> json \<Rightarrow> string \<Rightarrow> string list" where
  "effective_ids v body field = string_array (or_else (get body field) (get v field))"

definition effective_run_projects :: "json \<Rightarrow> json \<Rightarrow> string list" where
  "effective_run_projects v body = project_ids (or_else (get body ''projects'') (get v ''projects''))"

fun missing_message :: "Resource \<Rightarrow> string" where
  "missing_message Projects = ''Project not found''"
| "missing_message Suites = ''Test suite not found''"
| "missing_message Cases = ''Test case not found''"
| "missing_message Runs = ''Test run not found''"
| "missing_message Milestones = ''Milestone not found''"
| "missing_message Configurations = ''Test configuration not found''"
| "missing_message Workflows = ''Workflow not found''"

definition suite_reference_projects :: "AppState \<Rightarrow> string \<Rightarrow> fs \<Rightarrow> string \<Rightarrow> string list" where
  "suite_reference_projects X home fs suite =
     (case document_in (repo X) Suites (ProjectParent home) suite (missing_message Suites) fs of
        Inr _ \<Rightarrow> [home]
      | Inl _ \<Rightarrow> (case project_of (repo X) Suites suite (missing_message Suites) fs of
            Inr project \<Rightarrow> [project]
          | Inl _ \<Rightarrow> []))"

definition run_reference_projects :: "AppState \<Rightarrow> string \<Rightarrow> fs \<Rightarrow> string \<Rightarrow> string list" where
  "run_reference_projects X home fs run =
     (case (case document_in (repo X) Runs (ProjectParent home) run (missing_message Runs) fs of
              Inr v \<Rightarrow> Inr v
            | Inl _ \<Rightarrow> service_document (repo X) Runs run fs) of
        Inr v \<Rightarrow> project_ids (get v ''projects'')
      | Inl _ \<Rightarrow> [])"

definition milestone_projects :: "AppState \<Rightarrow> string \<Rightarrow> string list \<Rightarrow> string list \<Rightarrow> fs \<Rightarrow> string list" where
  "milestone_projects X home suites runs fs =
     btree_set (concat (map (suite_reference_projects X home fs) suites) @ concat (map (run_reference_projects X home fs) runs))"

definition with_home :: "string \<Rightarrow> string list \<Rightarrow> string list" where
  "with_home home projects = (if home \<in> set projects then projects else projects @ [home])"

definition references :: "AppState \<Rightarrow> Resource \<Rightarrow> string \<Rightarrow> json \<Rightarrow> fs \<Rightarrow> string list" where
  "references X r home v fs =
     (if r = Runs then project_ids (get v ''projects'')
      else milestone_projects X home (string_array (get v ''testSuiteIds'')) (string_array (get v ''testRunIds'')) fs)"

definition reachable_projects :: "AppState \<Rightarrow> Resource \<Rightarrow> string \<Rightarrow> fs \<Rightarrow> string list result" where
  "reachable_projects X r rid fs =
     rbind (project_of (repo X) r rid (missing_message r) fs) (\<lambda>home.
     rbind (service_document (repo X) r rid fs) (\<lambda>v.
       Inr (with_home home (references X r home v fs))))"

definition all_within :: "string list \<Rightarrow> string list \<Rightarrow> bool" where
  "all_within projects reachable = list_all (\<lambda>p. p \<in> set reachable) projects"

definition projects_of :: "AppState \<Rightarrow> Resource \<Rightarrow> string \<Rightarrow> fs \<Rightarrow> string list result" where
  "projects_of X r rid fs =
     (if r = Projects then Inr [rid]
      else if r = Runs \<or> r = Milestones then reachable_projects X r rid fs
      else rbind (project_of (repo X) r rid (missing_message r) fs) (\<lambda>project. Inr [project]))"

fun authorize_each :: "AppState \<Rightarrow> Principal \<Rightarrow> string list \<Rightarrow> Role \<Rightarrow> fs \<Rightarrow> unit result" where
  "authorize_each X p [] required fs = Inr ()"
| "authorize_each X p (project # ps) required fs =
     rbind (authorize X p project required fs) (\<lambda>_. authorize_each X p ps required fs)"

definition require_every :: "AppState \<Rightarrow> Principal \<Rightarrow> string list \<Rightarrow> Role \<Rightarrow> fs \<Rightarrow> unit result" where
  "require_every X p projects required fs =
     (if \<not> auth_required X then Inr () else authorize_each X p projects required fs)"

fun write_role :: "Resource \<Rightarrow> Role" where
  "write_role Projects = Owner"
| "write_role Milestones = Owner"
| "write_role _ = Editor"

fun source_field :: "Resource \<Rightarrow> string option" where
  "source_field Suites = Some ''suiteId''"
| "source_field Cases = Some ''testCaseId''"
| "source_field _ = None"

section \<open>Guards\<close>

definition guard_get ::
  "AppState \<Rightarrow> Principal \<Rightarrow> Resource \<Rightarrow> string \<Rightarrow> ChildExpansion \<Rightarrow> fs \<Rightarrow> (json \<times> string) result" where
  "guard_get X p r rid expansion fs =
     (let not_found = (if auth_required X \<and> r \<noteq> Projects then missing_message r else ''Resource not found'') in
      rbind (if auth_required X \<and> r = Projects then require_every X p [rid] Viewer fs else Inr ()) (\<lambda>_.
      rbind (resolve_home (repo X) r rid not_found fs) (\<lambda>home.
      rbind (get_and_etag (repo X) r rid home not_found expansion fs) (\<lambda>outcome.
      if \<not> auth_required X then Inr outcome
      else rbind (if r = Projects then Inr [rid]
                  else if r = Runs \<or> r = Milestones then projects_of X r rid fs
                  else Inr [parent_project (the home)]) (\<lambda>projects.
           rbind (require_every X p projects Viewer fs) (\<lambda>_. Inr outcome))))))"

definition guard_create :: "AppState \<Rightarrow> Principal \<Rightarrow> Resource \<Rightarrow> json \<Rightarrow> unit result" where
  "guard_create X p r body =
     (if \<not> auth_required X then Inr ()
      else if r = Projects then require_admin X p else Inr ())"

definition guard_project_create ::
  "AppState \<Rightarrow> Principal \<Rightarrow> Resource \<Rightarrow> string \<Rightarrow> json \<Rightarrow> fs \<Rightarrow> unit result" where
  "guard_project_create X p r project body fs =
     (if \<not> auth_required X then Inr ()
      else rbind (authorize X p project (write_role r) fs) (\<lambda>_.
        require_every X p
          (if r = Runs then project_ids (get body ''projects'')
           else if r = Milestones then milestone_projects X project
             (string_array (get body ''testSuiteIds'')) (string_array (get body ''testRunIds'')) fs
           else []) (write_role r) fs))"

definition guard_update :: "AppState \<Rightarrow> Principal \<Rightarrow> Resource \<Rightarrow> string \<Rightarrow> json \<Rightarrow> fs \<Rightarrow> unit result" where
  "guard_update X p r rid body fs =
     (if \<not> auth_required X then Inr ()
      else if r = Runs then
        rbind (project_of (repo X) r rid (missing_message r) fs) (\<lambda>home.
        rbind (service_document (repo X) r rid fs) (\<lambda>v.
          require_every X p (with_home home (effective_run_projects v body)) Editor fs))
      else if r = Milestones then
        rbind (project_of (repo X) r rid (missing_message r) fs) (\<lambda>home.
        rbind (service_document (repo X) r rid fs) (\<lambda>v.
          require_every X p (with_home home (milestone_projects X home
            (effective_ids v body ''testSuiteIds'') (effective_ids v body ''testRunIds'') fs)) Owner fs))
      else rbind (projects_of X r rid fs) (\<lambda>projects. require_every X p projects (write_role r) fs))"

definition guard_delete :: "AppState \<Rightarrow> Principal \<Rightarrow> Resource \<Rightarrow> string \<Rightarrow> fs \<Rightarrow> unit result" where
  "guard_delete X p r rid fs =
     (if \<not> auth_required X then Inr ()
      else rbind (projects_of X r rid fs) (\<lambda>projects. require_every X p projects (write_role r) fs))"

definition guard_duplicate :: "AppState \<Rightarrow> Principal \<Rightarrow> Resource \<Rightarrow> string \<Rightarrow> fs \<Rightarrow> unit result" where
  "guard_duplicate X p r rid fs =
     (if \<not> auth_required X then Inr ()
      else if r = Projects then require_admin X p
      else rbind (projects_of X r rid fs) (\<lambda>projects. require_every X p projects (write_role r) fs))"

definition guard_composition ::
  "AppState \<Rightarrow> Principal \<Rightarrow> Resource \<Rightarrow> string \<Rightarrow> json \<Rightarrow> Role \<Rightarrow> fs \<Rightarrow> unit result" where
  "guard_composition X p r target body required fs =
     (if \<not> auth_required X then Inr ()
      else rbind (authorize X p target required fs) (\<lambda>_.
        case Option.bind (source_field r) (get_str body) of
          None \<Rightarrow> Inr ()
        | Some rid \<Rightarrow> (case project_of (repo X) r rid (missing_message r) fs of
              Inr project \<Rightarrow> authorize X p project required fs
            | Inl (NotFound _) \<Rightarrow> Inr ()
            | Inl e \<Rightarrow> Inl e)))"

definition authorize_item :: "AppState \<Rightarrow> Principal \<Rightarrow> Resource \<Rightarrow> string \<Rightarrow> Role \<Rightarrow> fs \<Rightarrow> unit result" where
  "authorize_item X p r rid required fs =
     rbind (project_of (repo X) r rid (missing_message r) fs) (\<lambda>project. authorize X p project required fs)"

definition guard_removal :: "AppState \<Rightarrow> Principal \<Rightarrow> Resource \<Rightarrow> string \<Rightarrow> Role \<Rightarrow> fs \<Rightarrow> unit result" where
  "guard_removal X p r rid required fs =
     (if \<not> auth_required X then Inr () else authorize_item X p r rid required fs)"

definition require_run :: "AppState \<Rightarrow> Principal \<Rightarrow> string \<Rightarrow> Role \<Rightarrow> fs \<Rightarrow> unit result" where
  "require_run X p run_id required fs =
     (if \<not> auth_required X then Inr ()
      else rbind (reachable_projects X Runs run_id fs) (\<lambda>projects. require_every X p projects required fs))"

definition require_run_source ::
  "AppState \<Rightarrow> Principal \<Rightarrow> string \<Rightarrow> Resource \<Rightarrow> string option \<Rightarrow> Role \<Rightarrow> fs \<Rightarrow> unit result" where
  "require_run_source X p run_id r source_id required fs =
     (if \<not> auth_required X then Inr ()
      else rbind (require_run X p run_id required fs) (\<lambda>_. case source_id of
        None \<Rightarrow> Inr ()
      | Some sid \<Rightarrow>
          rbind (project_of (repo X) r sid (missing_message r) fs) (\<lambda>project.
            authorize X p project required fs)))"

definition require_run_configuration ::
  "AppState \<Rightarrow> Principal \<Rightarrow> string \<Rightarrow> string option \<Rightarrow> Role \<Rightarrow> fs \<Rightarrow> unit result" where
  "require_run_configuration X p run_id config_id required fs =
     (if \<not> auth_required X then Inr ()
      else rbind (require_run X p run_id required fs) (\<lambda>_. case config_id of
        None \<Rightarrow> Inr ()
      | Some cid \<Rightarrow>
          rbind (project_of (repo X) Runs run_id (missing_message Runs) fs) (\<lambda>home.
          rbind (case document_in (repo X) Configurations (ProjectParent home) cid (missing_message Configurations) fs of
                   Inr _ \<Rightarrow> Inr home
                 | Inl _ \<Rightarrow> project_of (repo X) Configurations cid (missing_message Configurations) fs) (\<lambda>project.
            authorize X p project required fs))))"

section \<open>Listings\<close>

text \<open>Consecutive rows of one identifier, with its distinct homes in the order they appear.\<close>

definition add_home :: "(string \<times> Parent option list) list \<Rightarrow> string \<times> Parent option \<Rightarrow> (string \<times> Parent option list) list" where
  "add_home groups row = (case row of (rid, home) \<Rightarrow> (case groups of
       (rid0, homes) # rest \<Rightarrow>
         if rid0 = rid then (if home \<in> set homes then groups else (rid0, homes @ [home]) # rest)
         else (rid, [home]) # groups
     | [] \<Rightarrow> [(rid, [home])]))"

definition homes_of :: "(string \<times> Parent option) list \<Rightarrow> (string \<times> Parent option list) list" where
  "homes_of rows = rev (foldl add_home [] rows)"

definition keep_listed :: "AppState \<Rightarrow> Resource \<Rightarrow> string list \<Rightarrow> fs \<Rightarrow> string \<times> Parent option list \<Rightarrow> bool" where
  "keep_listed X r reachable fs row = (case row of (rid, homes) \<Rightarrow>
     if r = Projects then rid \<in> set reachable
     else (case homes of
       [Some home] \<Rightarrow>
         if r = Runs \<or> r = Milestones then
           (case document_at (repo X) r rid (Some home) fs of
              Inl _ \<Rightarrow> False
            | Inr v \<Rightarrow> all_within (with_home (parent_project home)
                  (references X r (parent_project home) v fs)) reachable)
         else allowed (Some reachable) (parent_project home)
     | _ \<Rightarrow> False))"

definition filter_list ::
  "AppState \<Rightarrow> Resource \<Rightarrow> (string \<times> Parent option) list \<Rightarrow> string list option \<Rightarrow> fs \<Rightarrow> string list" where
  "filter_list X r items reachable fs =
     (let rows = sort_key fst items in
      case reachable of
        None \<Rightarrow> remdups_adj (sort (map fst rows))
      | Some ps \<Rightarrow> map fst (filter (keep_listed X r ps fs) (homes_of rows)))"

definition revoke_project_grants :: "AppState \<Rightarrow> string \<Rightarrow> unit sop" where
  "revoke_project_grants X project_id =
     sbind (sio from_io (remove_project_grants (ae_store (auth X)) project_id)) (\<lambda>_. slift (Inr ()))"

end
