(* ===== verification/Responses.thy ===== *)
theory Responses
  imports Access Report_Service
begin

text \<open>
  What leaves the service: the error envelope (\<^verbatim>\<open>src/api/error.rs\<close>), the response bodies the handlers
  share and the \<^verbatim>\<open>If-Match\<close> header (\<^verbatim>\<open>src/api/crud.rs\<close>), and the blocking pool's answer to a panic
  (\<^verbatim>\<open>src/api/mod.rs\<close>). A response has a status, the headers the handler sets and a body; the
  identifier of the request, when there is one, is an argument.
\<close>

section \<open>Responses\<close>

datatype Body = JsonBody json | BytesBody string

record Response =
  rs_status :: nat
  rs_headers :: "(string \<times> string) list"
  rs_body :: Body

abbreviation json_response :: "nat \<Rightarrow> json \<Rightarrow> Response" where
  "json_response status v \<equiv> \<lparr>rs_status = status, rs_headers = [], rs_body = JsonBody v\<rparr>"

definition quoted :: "string \<Rightarrow> string" where
  "quoted s = [CHR 0x22] @ s @ [CHR 0x22]"

text \<open>\<^verbatim>\<open>HeaderValue::from_str\<close> accepts tabs and bytes from space on, except delete.\<close>

definition header_value :: "string \<Rightarrow> string option" where
  "header_value s = (if list_all (\<lambda>c. byte c = 9 \<or> 32 \<le> byte c \<and> byte c \<noteq> 127) s then Some s else None)"

definition etag_header :: "string \<Rightarrow> (string \<times> string) list" where
  "etag_header tag = (case header_value (quoted tag) of Some v \<Rightarrow> [(''etag'', v)] | None \<Rightarrow> [])"

section \<open>Errors\<close>

definition challenge :: "string \<Rightarrow> string" where
  "challenge c =
     (if c = ''invalid_token'' \<or> c = ''token_expired''
      then ''Bearer realm='' @ quoted ''TatuTest API'' @ '', error='' @ quoted ''invalid_token''
      else ''Bearer realm='' @ quoted ''TatuTest API'')"

definition envelope :: "string option \<Rightarrow> nat \<Rightarrow> string \<Rightarrow> string \<Rightarrow> Response" where
  "envelope request_id status c message = json_response status
     (struct_obj [(''error'', Some (struct_obj
        [(''code'', Some (Str c)), (''message'', Some (Str message)),
         (''requestId'', map_option Str request_id)]))])"

definition human_size :: "nat \<Rightarrow> string" where
  "human_size n =
     (if n = 0 then show_nat n @ '' bytes''
      else if n mod (1024 * 1024) = 0 then show_nat (n div (1024 * 1024)) @ '' MiB''
      else show_nat n @ '' bytes'')"

fun into_response :: "string option \<Rightarrow> DomainError \<Rightarrow> Response" where
  "into_response i (NotFound message) = envelope i 404 ''not_found'' message"
| "into_response i (InvalidRequest c message) = envelope i 400 c message"
| "into_response i (Conflict message) = envelope i 409 ''conflict'' message"
| "into_response i (PreconditionFailed current_etag) =
     (envelope i 412 ''conflict'' ''The document was modified by another request. Re-read and retry.'')
       \<lparr>rs_headers := etag_header current_etag\<rparr>"
| "into_response i (PayloadTooLarge limit) =
     envelope i 413 ''payload_too_large'' (''Attachment exceeds '' @ human_size limit)"
| "into_response i (Internal message) = envelope i 500 ''storage_error'' message"
| "into_response i Storage = envelope i 500 ''storage_error'' ''Storage operation failed''"
| "into_response i (StorageWithCause cause) = envelope i 500 ''storage_error'' ''Storage operation failed''"
| "into_response i LockTimeout =
     (envelope i 503 ''lock_timeout'' ''The server is busy processing another write. Please retry.'')
       \<lparr>rs_headers := [(''retry-after'', ''1'')]\<rparr>"
| "into_response i (Unauthenticated c message) =
     (envelope i 401 c message)\<lparr>rs_headers := [(''www-authenticate'', challenge c)]\<rparr>"
| "into_response i (Forbidden message) = envelope i 403 ''forbidden'' message"

text \<open>The answer of a handler, and of a request whose caller the extractor resolves first.\<close>

definition answer :: "string option \<Rightarrow> Response sop \<Rightarrow> Svc \<Rightarrow> Response \<times> Svc" where
  "answer request_id h st = (case h st of
       (Inl e, st') \<Rightarrow> (into_response request_id e, st')
     | (Inr r, st') \<Rightarrow> (r, st'))"

definition with_principal :: "AppState \<Rightarrow> string option \<Rightarrow> 64 word \<Rightarrow> (Principal \<Rightarrow> Response sop) \<Rightarrow> Response sop" where
  "with_principal X header now h = sbind (slift (from_request_parts X header now)) h"

text \<open>\<^verbatim>\<open>on_blocking\<close>: a panic, here \<^const>\<open>None\<close>, answers as an internal error; nothing it did is undone.\<close>

definition on_blocking :: "(Svc \<Rightarrow> ('a result \<times> Svc) option) \<Rightarrow> 'a sop" where
  "on_blocking work st = (case work st of
       Some outcome \<Rightarrow> outcome
     | None \<Rightarrow> (Inl (Internal ''Storage operation failed''), st))"

section \<open>Shared bodies\<close>

definition message :: "string \<Rightarrow> json" where
  "message m = Obj [(''message'', Str m)]"

definition message_id :: "string \<Rightarrow> string \<Rightarrow> Response" where
  "message_id m i = json_response 201 (Obj [(''id'', Str i), (''message'', Str m)])"

definition duplicated :: "DuplicateSpec \<Rightarrow> string \<Rightarrow> Response" where
  "duplicated spec new_id = message_id (ds_duplicated_message spec) new_id"

definition created_response :: "string \<Rightarrow> string \<Rightarrow> Response" where
  "created_response noun i = message_id (noun @ '' created'') i"

definition composed_response :: "Composed \<Rightarrow> string \<Rightarrow> Response" where
  "composed_response composed noun = message_id (composed_message composed noun) (composed_id composed)"

definition strings :: "string list \<Rightarrow> json" where
  "strings xs = Arr (map Str xs)"

definition if_match_header :: "string option \<Rightarrow> string" where
  "if_match_header header = (case header of
       None \<Rightarrow> []
     | Some s \<Rightarrow> rev (dropWhile (\<lambda>c. c = CHR 0x22) (rev (dropWhile (\<lambda>c. c = CHR 0x22) s))))"

definition expected_etag :: "string \<Rightarrow> string option" where
  "expected_etag if_match = (if if_match = [] then None else Some if_match)"

end
