(* ===== verification/Handlers.thy ===== *)
theory Handlers
  imports Responses Run_Service
begin

text \<open>
  The resource handlers of the HTTP layer: the five operations every resource shares and duplication
  (\<^verbatim>\<open>src/api/crud.rs\<close>, whose macros are functions of the resource here), and what suites, milestones,
  configurations, reports and workflows add (\<^verbatim>\<open>src/api/suites.rs\<close>, \<^verbatim>\<open>milestones.rs\<close>,
  \<^verbatim>\<open>configurations.rs\<close>, \<^verbatim>\<open>reports.rs\<close>, \<^verbatim>\<open>workflows.rs\<close>). A handler receives the caller the extractor
  resolved and the values extracted from the request. A retired flat creation route is the shared
  create handler, which only explains.
\<close>

section \<open>Shared handlers\<close>

definition list_handler :: "AppState \<Rightarrow> Resource \<Rightarrow> Principal \<Rightarrow> ListQuery \<Rightarrow> Response sop" where
  "list_handler X r p query =
     sbind (sread (scope X p)) (\<lambda>reachable.
     sbind (sread (service_list_homes (service X) r query)) (\<lambda>items.
       sread (\<lambda>fs. Inr (json_response 200 (strings (filter_list X r items reachable fs))))))"

definition get_handler :: "AppState \<Rightarrow> Resource \<Rightarrow> Principal \<Rightarrow> string \<Rightarrow> string option \<Rightarrow> Response sop" where
  "get_handler X r p rid expand =
     sbind (sread (guard_get X p r rid (expansion_from_query expand))) (\<lambda>(v, tag).
       slift (Inr ((json_response 200 v)\<lparr>rs_headers := etag_header tag\<rparr>)))"

definition create_handler :: "AppState \<Rightarrow> Resource \<Rightarrow> Principal \<Rightarrow> json \<Rightarrow> Response sop" where
  "create_handler X r p body =
     sbind (slift (guard_create X p r body)) (\<lambda>_.
     sbind (service_create (service X) r body) (\<lambda>rid.
       slift (Inr (message_id ''Resource created'' rid))))"

definition updated_response :: "json \<Rightarrow> Response" where
  "updated_response v = json_response 200
     (Obj [(''document'', v), (''message'', Str ''Resource updated'')])"

definition update_handler ::
  "AppState \<Rightarrow> Resource \<Rightarrow> Principal \<Rightarrow> string \<Rightarrow> string option \<Rightarrow> json \<Rightarrow> Response sop" where
  "update_handler X r p rid if_match body =
     sbind (sread (guard_update X p r rid body)) (\<lambda>_.
     sbind (update_with_etag (service X) r rid body (expected_etag (if_match_header if_match))) (\<lambda>v.
       slift (Inr (updated_response v))))"

definition delete_handler :: "AppState \<Rightarrow> Resource \<Rightarrow> Principal \<Rightarrow> string \<Rightarrow> Response sop" where
  "delete_handler X r p rid =
     sbind (sread (guard_delete X p r rid)) (\<lambda>_.
     sbind (if r = Projects then revoke_project_grants X rid else slift (Inr ())) (\<lambda>_.
     sbind (service_delete (service X) r rid) (\<lambda>_.
       slift (Inr (json_response 200 (message ''Resource deleted''))))))"

definition duplicate_handler :: "AppState \<Rightarrow> DuplicateSpec \<Rightarrow> Principal \<Rightarrow> string \<Rightarrow> json \<Rightarrow> Response sop" where
  "duplicate_handler X spec p rid body =
     sbind (sread (guard_duplicate X p (ds_resource spec) rid)) (\<lambda>_.
     sbind (duplicate (service X) spec rid body) (\<lambda>new_id.
       slift (Inr (duplicated spec new_id))))"

section \<open>Handlers scoped to a project\<close>

text \<open>The listing, creation and deletion several resources repeat, each with its own resource, role and
  noun; a listing without a query is the one for milestones and configurations.\<close>

definition list_in_project :: "AppState \<Rightarrow> Resource \<Rightarrow> Principal \<Rightarrow> string \<Rightarrow> ListQuery \<Rightarrow> Response sop" where
  "list_in_project X r p project query =
     sbind (sread (authorize X p project Viewer)) (\<lambda>_.
     sbind (sread (list_children_matching (service X) (ProjectParent project) r query)) (\<lambda>items.
       slift (Inr (json_response 200 (strings items)))))"

definition list_all_in_project :: "AppState \<Rightarrow> Resource \<Rightarrow> Principal \<Rightarrow> string \<Rightarrow> Response sop" where
  "list_all_in_project X r p project =
     sbind (sread (authorize X p project Viewer)) (\<lambda>_.
     sbind (sread (service_list_children (service X) (ProjectParent project) r)) (\<lambda>items.
       slift (Inr (json_response 200 (strings items)))))"

definition create_in_project :: "AppState \<Rightarrow> Resource \<Rightarrow> string \<Rightarrow> Principal \<Rightarrow> string \<Rightarrow> json \<Rightarrow> Response sop" where
  "create_in_project X r noun p project body =
     sbind (sread (guard_project_create X p r project body)) (\<lambda>_.
     sbind (create_in (service X) r (ProjectParent project) body) (\<lambda>rid.
       slift (Inr (created_response noun rid))))"

definition compose_in_project :: "AppState \<Rightarrow> Resource \<Rightarrow> string \<Rightarrow> Principal \<Rightarrow> string \<Rightarrow> json \<Rightarrow> Response sop" where
  "compose_in_project X r noun p project body =
     sbind (sread (guard_composition X p r project body Editor)) (\<lambda>_.
     sbind (compose (service X) r (ProjectParent project) body) (\<lambda>composed.
       slift (Inr (composed_response composed noun))))"

definition delete_in_project ::
  "AppState \<Rightarrow> Resource \<Rightarrow> Role \<Rightarrow> string \<Rightarrow> Principal \<Rightarrow> string \<Rightarrow> string \<Rightarrow> Response sop" where
  "delete_in_project X r role noun p project rid =
     sbind (sread (authorize X p project role)) (\<lambda>_.
     sbind (delete_in (service X) r (ProjectParent project) rid) (\<lambda>_.
       slift (Inr (json_response 200 (message (noun @ '' deleted''))))))"

section \<open>Suites\<close>

definition list_project_suites :: "AppState \<Rightarrow> Principal \<Rightarrow> string \<Rightarrow> ListQuery \<Rightarrow> Response sop" where
  "list_project_suites X p project query = list_in_project X Suites p project query"

definition create_project_suite :: "AppState \<Rightarrow> Principal \<Rightarrow> string \<Rightarrow> json \<Rightarrow> Response sop" where
  "create_project_suite X p project body = compose_in_project X Suites ''Test suite'' p project body"

definition delete_project_suite :: "AppState \<Rightarrow> Principal \<Rightarrow> string \<Rightarrow> string \<Rightarrow> Response sop" where
  "delete_project_suite X p project suite_id = delete_in_project X Suites Editor ''Test suite'' p project suite_id"

definition list_suite_cases :: "AppState \<Rightarrow> Principal \<Rightarrow> string \<Rightarrow> Response sop" where
  "list_suite_cases X p rid =
     sbind (sread (suite_parent (repo X) rid)) (\<lambda>parent.
     sbind (sread (authorize X p (parent_project parent) Viewer)) (\<lambda>_.
     sbind (sread (service_list_children (service X) parent Cases)) (\<lambda>items.
       slift (Inr (json_response 200 (strings items))))))"

definition add_case_to_suite_handler :: "AppState \<Rightarrow> Principal \<Rightarrow> string \<Rightarrow> json \<Rightarrow> Response sop" where
  "add_case_to_suite_handler X p rid body =
     sbind (sread (suite_parent (repo X) rid)) (\<lambda>parent.
     sbind (sread (guard_composition X p Cases (parent_project parent) body Editor)) (\<lambda>_.
     sbind (compose (service X) Cases parent body) (\<lambda>composed.
       slift (Inr (composed_response composed ''Test case'')))))"

definition remove_case_from_suite_handler :: "AppState \<Rightarrow> Principal \<Rightarrow> string \<Rightarrow> string \<Rightarrow> Response sop" where
  "remove_case_from_suite_handler X p rid case_id =
     sbind (sread (guard_removal X p Suites rid Editor)) (\<lambda>_.
     sbind (remove_case_from_suite (service X) rid case_id) (\<lambda>_.
       slift (Inr (json_response 200 (message ''Test case removed from suite'')))))"

section \<open>Milestones and configurations\<close>

definition list_project_milestones :: "AppState \<Rightarrow> Principal \<Rightarrow> string \<Rightarrow> Response sop" where
  "list_project_milestones X p project = list_all_in_project X Milestones p project"

definition create_project_milestone :: "AppState \<Rightarrow> Principal \<Rightarrow> string \<Rightarrow> json \<Rightarrow> Response sop" where
  "create_project_milestone X p project body = create_in_project X Milestones ''Milestone'' p project body"

definition delete_project_milestone :: "AppState \<Rightarrow> Principal \<Rightarrow> string \<Rightarrow> string \<Rightarrow> Response sop" where
  "delete_project_milestone X p project rid = delete_in_project X Milestones Owner ''Milestone'' p project rid"

definition get_milestone_progress :: "AppState \<Rightarrow> (rat \<Rightarrow> rat) \<Rightarrow> Principal \<Rightarrow> string \<Rightarrow> Response sop" where
  "get_milestone_progress X rnd p rid =
     sbind (sread (guard_get X p Milestones rid Full)) (\<lambda>_.
     sbind (milestone_progress (service X) rnd rid) (\<lambda>progress.
       slift (Inr (json_response 200 (MilestoneProgress_to_value progress)))))"

definition list_releases :: "AppState \<Rightarrow> Principal \<Rightarrow> Response sop" where
  "list_releases X p =
     sbind (sread (scope X p)) (\<lambda>reachable.
     sbind (release_names (service X) reachable) (\<lambda>names.
       slift (Inr (json_response 200 (strings names)))))"

definition list_project_configurations :: "AppState \<Rightarrow> Principal \<Rightarrow> string \<Rightarrow> Response sop" where
  "list_project_configurations X p project = list_all_in_project X Configurations p project"

definition create_project_configuration :: "AppState \<Rightarrow> Principal \<Rightarrow> string \<Rightarrow> json \<Rightarrow> Response sop" where
  "create_project_configuration X p project body =
     create_in_project X Configurations ''Test configuration'' p project body"

definition delete_project_configuration :: "AppState \<Rightarrow> Principal \<Rightarrow> string \<Rightarrow> string \<Rightarrow> Response sop" where
  "delete_project_configuration X p project rid =
     delete_in_project X Configurations Editor ''Test configuration'' p project rid"

definition list_environments :: "AppState \<Rightarrow> Principal \<Rightarrow> Response sop" where
  "list_environments X p =
     sbind (sread (scope X p)) (\<lambda>reachable.
     sbind (environment_names (service X) reachable) (\<lambda>names.
       slift (Inr (json_response 200 (strings names)))))"

section \<open>Reports\<close>

definition get_coverage :: "AppState \<Rightarrow> Principal \<Rightarrow> string option \<Rightarrow> CoverageReport sop" where
  "get_coverage X p project_id =
     sbind (sread (scope X p)) (\<lambda>reachable.
     sbind (case (project_id, reachable) of
              (Some i, None) \<Rightarrow> slift (Inr (InProject i))
            | (Some i, Some _) \<Rightarrow> sbind (sread (authorize X p i Viewer)) (\<lambda>_. slift (Inr (InProject i)))
            | (None, None) \<Rightarrow> slift (Inr AllProjects)
            | (None, Some ps) \<Rightarrow> slift (Inr (InProjects ps))) (\<lambda>sc.
       sread (coverage_report (repo X) sc)))"

definition get_summary :: "AppState \<Rightarrow> (rat \<Rightarrow> rat) \<Rightarrow> Principal \<Rightarrow> SummaryFilters \<Rightarrow> SummaryReport sop" where
  "get_summary X rnd p filters =
     sbind (sread (scope X p)) (\<lambda>reachable.
     sbind (case (sf_project_id filters, reachable) of
              (Some i, Some _) \<Rightarrow> sread (authorize X p i Viewer)
            | _ \<Rightarrow> slift (Inr ())) (\<lambda>_.
       summary_report (service X) rnd filters reachable))"

definition get_last_results :: "AppState \<Rightarrow> Principal \<Rightarrow> string option \<Rightarrow> LastResultsReport sop" where
  "get_last_results X p project_id =
     sbind (sread (scope X p)) (\<lambda>reachable.
     sbind (case project_id of
              Some i \<Rightarrow> sbind (if reachable \<noteq> None then sread (authorize X p i Viewer) else slift (Inr ()))
                          (\<lambda>_. slift (Inr (InProject i)))
            | None \<Rightarrow> (case reachable of
                  None \<Rightarrow> slift (Inr AllProjects)
                | Some ps \<Rightarrow> slift (Inr (InProjects ps)))) (\<lambda>sc.
       last_results_report (service X) sc reachable))"

end
