(* ===== verification/Case_Handlers.thy ===== *)
theory Case_Handlers
  imports Handlers
begin

text \<open>
  The handlers of \<^verbatim>\<open>src/api/cases.rs\<close>: cases inside a project, attachments of a case and of a step,
  updates and history. A case is addressed by its bare identifier or from the parent a route names;
  both ways end in the same call once the parent is known. The first part of a multipart body is a
  value of \<open>Multipart\<close>: none, unreadable, or a part with its file name, when it has one, and its
  contents, when they can be read.
\<close>

section \<open>Cases of a project\<close>

definition list_project_cases :: "AppState \<Rightarrow> Principal \<Rightarrow> string \<Rightarrow> ListQuery \<Rightarrow> Response sop" where
  "list_project_cases X p project query = list_in_project X Cases p project query"

definition create_project_case :: "AppState \<Rightarrow> Principal \<Rightarrow> string \<Rightarrow> json \<Rightarrow> Response sop" where
  "create_project_case X p project body = compose_in_project X Cases ''Test case'' p project body"

definition delete_project_case :: "AppState \<Rightarrow> Principal \<Rightarrow> string \<Rightarrow> string \<Rightarrow> Response sop" where
  "delete_project_case X p project case_id = delete_in_project X Cases Editor ''Test case'' p project case_id"

section \<open>Addressing a case\<close>

definition case_in :: "AppState \<Rightarrow> Principal \<Rightarrow> Parent \<Rightarrow> string \<Rightarrow> Role \<Rightarrow> fs \<Rightarrow> Parent result" where
  "case_in X p parent case_id required fs =
     rbind (authorize X p (parent_project parent) required fs) (\<lambda>_.
     rbind (document_in (repo X) Cases parent case_id ''Test case not found'' fs) (\<lambda>_. Inr parent))"

definition case_in_project :: "AppState \<Rightarrow> Principal \<Rightarrow> string \<Rightarrow> string \<Rightarrow> Role \<Rightarrow> fs \<Rightarrow> Parent result" where
  "case_in_project X p project case_id required fs = case_in X p (ProjectParent project) case_id required fs"

definition case_in_suite :: "AppState \<Rightarrow> Principal \<Rightarrow> string \<Rightarrow> string \<Rightarrow> Role \<Rightarrow> fs \<Rightarrow> Parent result" where
  "case_in_suite X p suite case_id required fs =
     rbind (suite_parent (repo X) suite fs) (\<lambda>parent. case_in X p parent case_id required fs)"

text \<open>The two calls every bare-identifier route makes first.\<close>

definition case_by_id :: "AppState \<Rightarrow> Principal \<Rightarrow> string \<Rightarrow> Role \<Rightarrow> fs \<Rightarrow> Parent result" where
  "case_by_id X p rid required fs =
     rbind (require_test_case (repo X) rid fs) (\<lambda>parent.
     rbind (authorize X p (parent_project parent) required fs) (\<lambda>_. Inr parent))"

section \<open>Reading an upload\<close>

datatype Multipart = NoField | BadField | Field "string option" "string option"

definition invalid_multipart :: "string \<Rightarrow> DomainError" where
  "invalid_multipart m = InvalidRequest ''invalid_multipart'' m"

definition missing_file :: DomainError where
  "missing_file = InvalidRequest ''missing_file'' ''No file uploaded''"

definition uploaded_file :: "Multipart \<Rightarrow> (string \<times> string) result" where
  "uploaded_file multipart = (case multipart of
       NoField \<Rightarrow> Inl missing_file
     | BadField \<Rightarrow> Inl (invalid_multipart ''Invalid multipart request'')
     | Field file_name contents \<Rightarrow>
         rbind (ok_or missing_file file_name) (\<lambda>original.
         rbind (ok_or (invalid_multipart ''Unable to read uploaded file'') contents) (\<lambda>bytes.
           if MAX_ATTACHMENT_BYTES < length bytes then Inl (PayloadTooLarge MAX_ATTACHMENT_BYTES)
           else Inr (original, bytes))))"

definition parse_step_index :: "string \<Rightarrow> nat result" where
  "parse_step_index value =
     ok_or (invalid_request (''Step index `'' @ value @ ''` is not a non-negative integer'')) (parse_u64 value)"

definition parse_version :: "string \<Rightarrow> 64 word result" where
  "parse_version value = (case parse_u64 value of
       Some version \<Rightarrow> if 1 \<le> version then Inr (word_of_nat version)
         else Inl (invalid_request (''Version `'' @ value @ ''` is not a positive integer''))
     | None \<Rightarrow> Inl (invalid_request (''Version `'' @ value @ ''` is not a positive integer'')))"

section \<open>Bodies of the attachment routes\<close>

definition upload_response :: "StoredAttachment \<Rightarrow> Response" where
  "upload_response stored = json_response 201 (struct_obj
     [(''message'', Some (Str ''File uploaded successfully'')), (''filename'', Some (Str (sa_filename stored))),
      (''originalName'', Some (Str (sa_original_name stored))),
      (''size'', Some (Num (PosInt (word_of_nat (sa_size stored)))))])"

definition deleted_response :: Response where
  "deleted_response = json_response 200 (message ''File deleted successfully'')"

definition ATTACHMENT_MEDIA_TYPE :: string where
  "ATTACHMENT_MEDIA_TYPE = ''application/octet-stream''"

definition bytes_response :: "string \<Rightarrow> string \<Rightarrow> Response" where
  "bytes_response contents filename =
     \<lparr>rs_status = 200,
      rs_headers = [(''content-type'', ATTACHMENT_MEDIA_TYPE), (''content-disposition'', content_disposition filename)],
      rs_body = BytesBody contents\<rparr>"

definition upload_case_attachment :: "AppState \<Rightarrow> Parent \<Rightarrow> string \<Rightarrow> Multipart \<Rightarrow> Response sop" where
  "upload_case_attachment X parent case_id multipart =
     sbind (slift (uploaded_file multipart)) (\<lambda>(original, contents).
     sbind (store_attachment (service X) parent case_id original contents) (\<lambda>stored.
       slift (Inr (upload_response stored))))"

definition upload_step_file :: "AppState \<Rightarrow> Parent \<Rightarrow> string \<Rightarrow> string \<Rightarrow> Multipart \<Rightarrow> Response sop" where
  "upload_step_file X parent case_id step_index multipart =
     sbind (slift (uploaded_file multipart)) (\<lambda>(original, contents).
     sbind (slift (parse_step_index step_index)) (\<lambda>i.
     sbind (store_step_attachment (service X) parent case_id i original contents) (\<lambda>stored.
       slift (Inr (upload_response stored)))))"

definition attachment_response :: "AppState \<Rightarrow> Parent \<Rightarrow> string \<Rightarrow> string \<Rightarrow> Response sop" where
  "attachment_response X parent case_id filename =
     sbind (sread (service_read_attachment (repo X) parent case_id filename)) (\<lambda>contents.
       slift (Inr (bytes_response contents filename)))"

definition delete_case_attachment :: "AppState \<Rightarrow> Parent \<Rightarrow> string \<Rightarrow> string \<Rightarrow> Response sop" where
  "delete_case_attachment X parent case_id filename =
     sbind (service_delete_attachment (service X) parent case_id filename) (\<lambda>_.
       slift (Inr deleted_response))"

definition list_step_files :: "AppState \<Rightarrow> Parent \<Rightarrow> string \<Rightarrow> string \<Rightarrow> Response sop" where
  "list_step_files X parent case_id step_index =
     sbind (slift (parse_step_index step_index)) (\<lambda>i.
     sbind (sread (list_step_attachments (repo X) parent case_id i)) (\<lambda>items.
       slift (Inr (json_response 200 (Arr items)))))"

definition download_step_file :: "AppState \<Rightarrow> Parent \<Rightarrow> string \<Rightarrow> string \<Rightarrow> string \<Rightarrow> Response sop" where
  "download_step_file X parent case_id step_index filename =
     sbind (slift (parse_step_index step_index)) (\<lambda>i.
     sbind (sread (service_read_step_attachment (repo X) parent case_id i filename)) (\<lambda>contents.
       slift (Inr (bytes_response contents filename))))"

definition delete_step_file :: "AppState \<Rightarrow> Parent \<Rightarrow> string \<Rightarrow> string \<Rightarrow> string \<Rightarrow> Response sop" where
  "delete_step_file X parent case_id step_index filename =
     sbind (slift (parse_step_index step_index)) (\<lambda>i.
     sbind (service_delete_step_attachment (service X) parent case_id i filename) (\<lambda>_.
       slift (Inr deleted_response)))"

section \<open>Attachment routes\<close>

definition upload_attachment_handler :: "AppState \<Rightarrow> Principal \<Rightarrow> string \<Rightarrow> Multipart \<Rightarrow> Response sop" where
  "upload_attachment_handler X p rid multipart =
     sbind (sread (case_by_id X p rid Editor)) (\<lambda>parent. upload_case_attachment X parent rid multipart)"

definition upload_project_case_attachment :: "AppState \<Rightarrow> Principal \<Rightarrow> string \<Rightarrow> string \<Rightarrow> Multipart \<Rightarrow> Response sop" where
  "upload_project_case_attachment X p project case_id multipart =
     sbind (sread (case_in_project X p project case_id Editor)) (\<lambda>parent.
       upload_case_attachment X parent case_id multipart)"

definition upload_suite_case_attachment :: "AppState \<Rightarrow> Principal \<Rightarrow> string \<Rightarrow> string \<Rightarrow> Multipart \<Rightarrow> Response sop" where
  "upload_suite_case_attachment X p suite case_id multipart =
     sbind (sread (case_in_suite X p suite case_id Editor)) (\<lambda>parent.
       upload_case_attachment X parent case_id multipart)"

definition download_attachment :: "AppState \<Rightarrow> Principal \<Rightarrow> string \<Rightarrow> string \<Rightarrow> Response sop" where
  "download_attachment X p rid filename =
     sbind (sread (case_by_id X p rid Viewer)) (\<lambda>parent. attachment_response X parent rid filename)"

definition download_project_case_attachment :: "AppState \<Rightarrow> Principal \<Rightarrow> string \<Rightarrow> string \<Rightarrow> string \<Rightarrow> Response sop" where
  "download_project_case_attachment X p project case_id filename =
     sbind (sread (case_in_project X p project case_id Viewer)) (\<lambda>parent.
       attachment_response X parent case_id filename)"

definition download_suite_case_attachment :: "AppState \<Rightarrow> Principal \<Rightarrow> string \<Rightarrow> string \<Rightarrow> string \<Rightarrow> Response sop" where
  "download_suite_case_attachment X p suite case_id filename =
     sbind (sread (case_in_suite X p suite case_id Viewer)) (\<lambda>parent.
       attachment_response X parent case_id filename)"

definition delete_attachment_handler :: "AppState \<Rightarrow> Principal \<Rightarrow> string \<Rightarrow> string \<Rightarrow> Response sop" where
  "delete_attachment_handler X p rid filename =
     sbind (sread (case_by_id X p rid Editor)) (\<lambda>parent. delete_case_attachment X parent rid filename)"

definition delete_project_case_attachment :: "AppState \<Rightarrow> Principal \<Rightarrow> string \<Rightarrow> string \<Rightarrow> string \<Rightarrow> Response sop" where
  "delete_project_case_attachment X p project case_id filename =
     sbind (sread (case_in_project X p project case_id Editor)) (\<lambda>parent.
       delete_case_attachment X parent case_id filename)"

definition delete_suite_case_attachment :: "AppState \<Rightarrow> Principal \<Rightarrow> string \<Rightarrow> string \<Rightarrow> string \<Rightarrow> Response sop" where
  "delete_suite_case_attachment X p suite case_id filename =
     sbind (sread (case_in_suite X p suite case_id Editor)) (\<lambda>parent.
       delete_case_attachment X parent case_id filename)"

section \<open>Step attachment routes\<close>

definition list_step_attachments_handler :: "AppState \<Rightarrow> Principal \<Rightarrow> string \<Rightarrow> string \<Rightarrow> Response sop" where
  "list_step_attachments_handler X p rid step_index =
     sbind (sread (case_by_id X p rid Viewer)) (\<lambda>parent. list_step_files X parent rid step_index)"

definition list_project_case_step_attachments :: "AppState \<Rightarrow> Principal \<Rightarrow> string \<Rightarrow> string \<Rightarrow> string \<Rightarrow> Response sop" where
  "list_project_case_step_attachments X p project case_id step_index =
     sbind (sread (case_in_project X p project case_id Viewer)) (\<lambda>parent.
       list_step_files X parent case_id step_index)"

definition list_suite_case_step_attachments :: "AppState \<Rightarrow> Principal \<Rightarrow> string \<Rightarrow> string \<Rightarrow> string \<Rightarrow> Response sop" where
  "list_suite_case_step_attachments X p suite case_id step_index =
     sbind (sread (case_in_suite X p suite case_id Viewer)) (\<lambda>parent.
       list_step_files X parent case_id step_index)"

definition download_step_attachment :: "AppState \<Rightarrow> Principal \<Rightarrow> string \<Rightarrow> string \<Rightarrow> string \<Rightarrow> Response sop" where
  "download_step_attachment X p rid step_index filename =
     sbind (sread (case_by_id X p rid Viewer)) (\<lambda>parent.
       download_step_file X parent rid step_index filename)"

definition upload_step_attachment :: "AppState \<Rightarrow> Principal \<Rightarrow> string \<Rightarrow> string \<Rightarrow> Multipart \<Rightarrow> Response sop" where
  "upload_step_attachment X p rid step_index multipart =
     sbind (sread (case_by_id X p rid Editor)) (\<lambda>parent.
       upload_step_file X parent rid step_index multipart)"

definition upload_project_case_step_attachment ::
  "AppState \<Rightarrow> Principal \<Rightarrow> string \<Rightarrow> string \<Rightarrow> string \<Rightarrow> Multipart \<Rightarrow> Response sop" where
  "upload_project_case_step_attachment X p project case_id step_index multipart =
     sbind (sread (case_in_project X p project case_id Editor)) (\<lambda>parent.
       upload_step_file X parent case_id step_index multipart)"

definition upload_suite_case_step_attachment ::
  "AppState \<Rightarrow> Principal \<Rightarrow> string \<Rightarrow> string \<Rightarrow> string \<Rightarrow> Multipart \<Rightarrow> Response sop" where
  "upload_suite_case_step_attachment X p suite case_id step_index multipart =
     sbind (sread (case_in_suite X p suite case_id Editor)) (\<lambda>parent.
       upload_step_file X parent case_id step_index multipart)"

definition delete_step_attachment_handler :: "AppState \<Rightarrow> Principal \<Rightarrow> string \<Rightarrow> string \<Rightarrow> string \<Rightarrow> Response sop" where
  "delete_step_attachment_handler X p rid step_index filename =
     sbind (sread (case_by_id X p rid Editor)) (\<lambda>parent.
       delete_step_file X parent rid step_index filename)"

definition delete_project_case_step_attachment ::
  "AppState \<Rightarrow> Principal \<Rightarrow> string \<Rightarrow> string \<Rightarrow> string \<Rightarrow> string \<Rightarrow> Response sop" where
  "delete_project_case_step_attachment X p project case_id step_index filename =
     sbind (sread (case_in_project X p project case_id Editor)) (\<lambda>parent.
       delete_step_file X parent case_id step_index filename)"

definition delete_suite_case_step_attachment ::
  "AppState \<Rightarrow> Principal \<Rightarrow> string \<Rightarrow> string \<Rightarrow> string \<Rightarrow> string \<Rightarrow> Response sop" where
  "delete_suite_case_step_attachment X p suite case_id step_index filename =
     sbind (sread (case_in_suite X p suite case_id Editor)) (\<lambda>parent.
       delete_step_file X parent case_id step_index filename)"

section \<open>Updates and history\<close>

definition update_case_in :: "AppState \<Rightarrow> Parent \<Rightarrow> string \<Rightarrow> string \<Rightarrow> json \<Rightarrow> Response sop" where
  "update_case_in X parent case_id if_match body =
     sbind (update_in (service X) Cases parent case_id body (expected_etag if_match)) (\<lambda>v.
       slift (Inr (updated_response v)))"

definition update_project_case ::
  "AppState \<Rightarrow> Principal \<Rightarrow> string \<Rightarrow> string \<Rightarrow> string option \<Rightarrow> json \<Rightarrow> Response sop" where
  "update_project_case X p project case_id if_match body =
     sbind (sread (case_in_project X p project case_id Editor)) (\<lambda>parent.
       update_case_in X parent case_id (if_match_header if_match) body)"

definition update_suite_case ::
  "AppState \<Rightarrow> Principal \<Rightarrow> string \<Rightarrow> string \<Rightarrow> string option \<Rightarrow> json \<Rightarrow> Response sop" where
  "update_suite_case X p suite case_id if_match body =
     sbind (sread (case_in_suite X p suite case_id Editor)) (\<lambda>parent.
       update_case_in X parent case_id (if_match_header if_match) body)"

text \<open>The tail of the history and revision routes.\<close>

definition history_response :: "AppState \<Rightarrow> Parent \<Rightarrow> string \<Rightarrow> CaseHistoryEntry list sop" where
  "history_response X parent case_id = sread (list_case_history (repo X) parent case_id)"

definition revision_response :: "AppState \<Rightarrow> Parent \<Rightarrow> string \<Rightarrow> string \<Rightarrow> Response sop" where
  "revision_response X parent case_id version =
     sbind (slift (parse_version version)) (\<lambda>n.
     sbind (sread (read_case_revision (repo X) parent case_id n)) (\<lambda>v.
       slift (Inr (json_response 200 v))))"

definition list_case_history_handler :: "AppState \<Rightarrow> Principal \<Rightarrow> string \<Rightarrow> CaseHistoryEntry list sop" where
  "list_case_history_handler X p rid =
     sbind (sread (case_by_id X p rid Viewer)) (\<lambda>parent. history_response X parent rid)"

definition read_case_revision_handler :: "AppState \<Rightarrow> Principal \<Rightarrow> string \<Rightarrow> string \<Rightarrow> Response sop" where
  "read_case_revision_handler X p rid version =
     sbind (sread (case_by_id X p rid Viewer)) (\<lambda>parent. revision_response X parent rid version)"

definition list_project_case_history :: "AppState \<Rightarrow> Principal \<Rightarrow> string \<Rightarrow> string \<Rightarrow> CaseHistoryEntry list sop" where
  "list_project_case_history X p project case_id =
     sbind (sread (case_in_project X p project case_id Viewer)) (\<lambda>parent. history_response X parent case_id)"

definition list_suite_case_history :: "AppState \<Rightarrow> Principal \<Rightarrow> string \<Rightarrow> string \<Rightarrow> CaseHistoryEntry list sop" where
  "list_suite_case_history X p suite case_id =
     sbind (sread (case_in_suite X p suite case_id Viewer)) (\<lambda>parent. history_response X parent case_id)"

definition read_project_case_revision :: "AppState \<Rightarrow> Principal \<Rightarrow> string \<Rightarrow> string \<Rightarrow> string \<Rightarrow> Response sop" where
  "read_project_case_revision X p project case_id version =
     sbind (sread (case_in_project X p project case_id Viewer)) (\<lambda>parent.
       revision_response X parent case_id version)"

definition read_suite_case_revision :: "AppState \<Rightarrow> Principal \<Rightarrow> string \<Rightarrow> string \<Rightarrow> string \<Rightarrow> Response sop" where
  "read_suite_case_revision X p suite case_id version =
     sbind (sread (case_in_suite X p suite case_id Viewer)) (\<lambda>parent.
       revision_response X parent case_id version)"

end
