(* ===== verification/Run_Handlers.thy ===== *)
theory Run_Handlers
  imports Handlers
begin

text \<open>
  The handlers of \<^verbatim>\<open>src/api/runs.rs\<close> (runs of a project, composition, recorded results, defect links,
  imports and linked configurations) and of \<^verbatim>\<open>src/api/workflows.rs\<close>. The XML and JSON readers of the
  import routes are parameters, as in theory \<open>Run_Service\<close>; a body that is not UTF-8 is \<^const>\<open>None\<close>.
\<close>

section \<open>Runs of a project\<close>

definition list_project_runs :: "AppState \<Rightarrow> Principal \<Rightarrow> string \<Rightarrow> ListQuery \<Rightarrow> Response sop" where
  "list_project_runs X p project query = list_in_project X Runs p project query"

definition create_project_run :: "AppState \<Rightarrow> Principal \<Rightarrow> string \<Rightarrow> json \<Rightarrow> Response sop" where
  "create_project_run X p project body = create_in_project X Runs ''Test run'' p project body"

definition delete_project_run :: "AppState \<Rightarrow> Principal \<Rightarrow> string \<Rightarrow> string \<Rightarrow> Response sop" where
  "delete_project_run X p project run_id = delete_in_project X Runs Editor ''Test run'' p project run_id"

section \<open>Composition and results\<close>

definition add_suite_to_run_handler :: "AppState \<Rightarrow> Principal \<Rightarrow> string \<Rightarrow> json \<Rightarrow> Response sop" where
  "add_suite_to_run_handler X p rid body =
     sbind (sread (require_run_source X p rid Suites (get_str body ''suiteId'') Editor)) (\<lambda>_.
     sbind (add_suite_to_run (service X) rid body) (\<lambda>_.
       slift (Inr (json_response 200 (message ''Test suite added to test run'')))))"

definition add_case_to_run_handler :: "AppState \<Rightarrow> Principal \<Rightarrow> string \<Rightarrow> json \<Rightarrow> Response sop" where
  "add_case_to_run_handler X p rid body =
     sbind (sread (require_run_source X p rid Cases (get_str body ''testCaseId'') Editor)) (\<lambda>_.
     sbind (add_case_to_run (service X) rid body) (\<lambda>_.
       slift (Inr (json_response 200 (message ''Test case added to test run'')))))"

definition result_response :: "string \<Rightarrow> TestCaseResult \<Rightarrow> Response" where
  "result_response m stored = json_response 200
     (Obj [(''message'', Str m), (''result'', TestCaseResult_to_value stored)])"

definition record_run_result_handler :: "AppState \<Rightarrow> Principal \<Rightarrow> string \<Rightarrow> json \<Rightarrow> Response sop" where
  "record_run_result_handler X p rid body =
     sbind (sread (require_run X p rid Editor)) (\<lambda>_.
     sbind (record_run_result (service X) rid body) (\<lambda>stored.
       slift (Inr (result_response ''Test result recorded in run'' stored))))"

definition replace_run_result_handler :: "AppState \<Rightarrow> Principal \<Rightarrow> string \<Rightarrow> string \<Rightarrow> json \<Rightarrow> Response sop" where
  "replace_run_result_handler X p rid case_id body =
     sbind (sread (require_run X p rid Editor)) (\<lambda>_.
     sbind (replace_run_result (service X) rid case_id body) (\<lambda>stored.
       slift (Inr (result_response ''Test result replaced in run'' stored))))"

definition delete_run_result_handler :: "AppState \<Rightarrow> Principal \<Rightarrow> string \<Rightarrow> string \<Rightarrow> Response sop" where
  "delete_run_result_handler X p rid case_id =
     sbind (sread (require_run X p rid Editor)) (\<lambda>_.
     sbind (delete_run_result (service X) rid case_id) (\<lambda>_.
       slift (Inr (json_response 200 (message ''Test result removed from run'')))))"

section \<open>Defects of a result\<close>

text \<open>What the three defect routes share: the run and then the project of the case must be in view.\<close>

definition defect_case :: "AppState \<Rightarrow> Principal \<Rightarrow> string \<Rightarrow> string \<Rightarrow> Role \<Rightarrow> fs \<Rightarrow> Parent result" where
  "defect_case X p rid case_id required fs =
     rbind (require_run X p rid required fs) (\<lambda>_.
     rbind (resolve_result_case (repo X) rid case_id fs) (\<lambda>parent.
     rbind (authorize X p (parent_project parent) required fs) (\<lambda>_. Inr parent)))"

definition list_result_defects :: "AppState \<Rightarrow> Principal \<Rightarrow> string \<Rightarrow> string \<Rightarrow> Response sop" where
  "list_result_defects X p rid case_id =
     sbind (sread (defect_case X p rid case_id Viewer)) (\<lambda>parent.
     sbind (sread (case_defects (repo X) parent case_id)) (\<lambda>links.
       slift (Inr (json_response 200 (Obj [(''defects'', enc_vec DefectLink_to_value links)])))))"

definition link_result_defect :: "AppState \<Rightarrow> Principal \<Rightarrow> string \<Rightarrow> string \<Rightarrow> json \<Rightarrow> Response sop" where
  "link_result_defect X p rid case_id body =
     sbind (sread (defect_case X p rid case_id Editor)) (\<lambda>parent.
     sbind (on_blocking (link_defect_to_case (service X) parent case_id body)) (\<lambda>link.
       slift (Inr (message_id ''Defect linked to test result'' (dl_link_id link)))))"

definition unlink_result_defect :: "AppState \<Rightarrow> Principal \<Rightarrow> string \<Rightarrow> string \<Rightarrow> string \<Rightarrow> Response sop" where
  "unlink_result_defect X p rid case_id link_id =
     sbind (sread (defect_case X p rid case_id Editor)) (\<lambda>parent.
     sbind (unlink_defect_from_case (service X) parent case_id link_id) (\<lambda>_.
       slift (Inr (json_response 200 (message ''Defect unlinked from test result'')))))"

section \<open>Imports and configurations\<close>

definition import_junit_handler ::
  "AppState \<Rightarrow> (string \<Rightarrow> xml_node list option) \<Rightarrow> Principal \<Rightarrow> string \<Rightarrow> string option \<Rightarrow> ImportSummary sop" where
  "import_junit_handler X parse_xml p rid body =
     sbind (sread (require_run X p rid Editor)) (\<lambda>_.
     sbind (slift (ok_or (invalid_request ''JUnit XML must be valid UTF-8'') body)) (\<lambda>xml.
       import_junit_results (service X) parse_xml rid xml))"

definition import_json_handler ::
  "AppState \<Rightarrow> (string \<Rightarrow> json option) \<Rightarrow> Principal \<Rightarrow> string \<Rightarrow> string \<Rightarrow> ImportSummary sop" where
  "import_json_handler X parse_slice p rid body =
     sbind (sread (require_run X p rid Editor)) (\<lambda>_. import_json_results (service X) parse_slice rid body)"

definition link_run_configuration :: "AppState \<Rightarrow> Principal \<Rightarrow> string \<Rightarrow> json \<Rightarrow> Response sop" where
  "link_run_configuration X p rid body =
     sbind (sread (require_run_configuration X p rid (get_str body ''configId'') Editor)) (\<lambda>_.
     sbind (link_configuration_to_run (service X) rid body) (\<lambda>_.
       slift (Inr (json_response 200 (message ''Test configuration linked to test run'')))))"

definition unlink_run_configuration :: "AppState \<Rightarrow> Principal \<Rightarrow> string \<Rightarrow> string \<Rightarrow> Response sop" where
  "unlink_run_configuration X p rid config_id =
     sbind (sread (require_run X p rid Editor)) (\<lambda>_.
     sbind (unlink_configuration_from_run (service X) rid config_id) (\<lambda>_.
       slift (Inr (json_response 200 (message ''Test configuration unlinked from test run'')))))"

section \<open>Workflows\<close>

definition held_case :: "AppState \<Rightarrow> string \<Rightarrow> string list \<Rightarrow> string \<Rightarrow> fs \<Rightarrow> bool" where
  "held_case X project suites case_id fs =
     (is_ok (document_in (repo X) Cases (ProjectParent project) case_id [] fs)
      \<or> list_ex (\<lambda>suite. is_ok (document_in (repo X) Cases (SuiteParent project suite) case_id [] fs)) suites)"

definition check_step :: "AppState \<Rightarrow> string \<Rightarrow> string list \<Rightarrow> nat \<Rightarrow> json \<Rightarrow> fs \<Rightarrow> unit result" where
  "check_step X project suites i step fs = (case step of
       Obj m \<Rightarrow> (case (get_str step ''testCaseId'', get_str step ''suiteId'') of
           (Some case_id, None) \<Rightarrow> guard (held_case X project suites case_id fs)
             (invalid_request (''Step '' @ show_nat i @ '' names case `'' @ case_id
                @ ''` which is not reachable from project `'' @ project @ ''`''))
         | (None, Some suite) \<Rightarrow>
             rbind (document_in (repo X) Suites (ProjectParent project) suite ''Test suite not found'' fs) (\<lambda>_. Inr ())
         | (Some _, Some _) \<Rightarrow> Inl (invalid_request (''Step '' @ show_nat i
                @ '' names both a case and a suite; exactly one is required''))
         | (None, None) \<Rightarrow> Inl (invalid_request (''Step '' @ show_nat i
                @ '' names neither a case nor a suite; exactly one is required'')))
     | _ \<Rightarrow> Inl (invalid_request (''Step '' @ show_nat i @ '' is not an object'')))"

fun check_steps :: "AppState \<Rightarrow> string \<Rightarrow> string list \<Rightarrow> nat \<Rightarrow> json list \<Rightarrow> fs \<Rightarrow> unit result" where
  "check_steps X project suites i [] fs = Inr ()"
| "check_steps X project suites i (step # steps) fs =
     rbind (check_step X project suites i step fs) (\<lambda>_. check_steps X project suites (Suc i) steps fs)"

definition validate_workflow_steps :: "AppState \<Rightarrow> string \<Rightarrow> json \<Rightarrow> fs \<Rightarrow> unit result" where
  "validate_workflow_steps X project body fs = (case Option.bind (get body ''steps'') as_array of
       None \<Rightarrow> Inr ()
     | Some steps \<Rightarrow>
         rbind (service_list_children (service X) (ProjectParent project) Suites fs) (\<lambda>suites.
           check_steps X project suites 0 steps fs))"

definition create_project_workflow :: "AppState \<Rightarrow> Principal \<Rightarrow> string \<Rightarrow> json \<Rightarrow> Response sop" where
  "create_project_workflow X p project body =
     sbind (slift (guard_create X p Workflows body)) (\<lambda>_.
     sbind (sread (validate_workflow_steps X project body)) (\<lambda>_.
     sbind (compose (service X) Workflows (ProjectParent project) body) (\<lambda>composed.
       slift (Inr (composed_response composed ''Workflow created'')))))"

definition delete_project_workflow :: "AppState \<Rightarrow> Principal \<Rightarrow> string \<Rightarrow> string \<Rightarrow> Response sop" where
  "delete_project_workflow X p project workflow_id =
     delete_in_project X Workflows Editor ''Workflow'' p project workflow_id"

text \<open>The cases a plan names, each at its first position, and the suites of the other steps.\<close>

definition step_case :: "json \<Rightarrow> string option" where
  "step_case step = (case step of Obj m \<Rightarrow> get_str step ''testCaseId'' | _ \<Rightarrow> None)"

definition step_suite :: "json \<Rightarrow> string option" where
  "step_suite step = (case step of
       Obj m \<Rightarrow> if get_str step ''testCaseId'' = None then get_str step ''suiteId'' else None
     | _ \<Rightarrow> None)"

definition first_positions :: "string list \<Rightarrow> string list" where
  "first_positions xs = foldl (\<lambda>seen x. if x \<in> set seen then seen else seen @ [x]) [] xs"

definition workflow_run_body :: "string \<Rightarrow> string \<Rightarrow> json list \<Rightarrow> json \<Rightarrow> json" where
  "workflow_run_body name workflow_id steps projects = struct_obj
     [(''name'', Some (Str name)),
      (''testCases'', Some (Arr (map (\<lambda>c. Obj [(''testCaseId'', Str c)])
         (first_positions (List.map_filter step_case steps))))),
      (''testSuites'', Some (Arr (map (\<lambda>s. Obj [(''suiteId'', Str s)]) (List.map_filter step_suite steps)))),
      (''sourceWorkflowId'', Some (Str workflow_id)),
      (''projects'', Some projects)]"

definition snapshot_of :: "string \<Rightarrow> json \<Rightarrow> json" where
  "snapshot_of project v = Arr [struct_obj
     [(''projectId'', Some (Str project)),
      (''name'', Some (Str (case get_str v ''name'' of Some n \<Rightarrow> n | None \<Rightarrow> project))),
      (''testSuites'', Some (Arr []))]]"

definition run_from_workflow :: "AppState \<Rightarrow> Principal \<Rightarrow> string \<Rightarrow> string \<Rightarrow> json \<Rightarrow> Response sop" where
  "run_from_workflow X p project workflow_id body =
     sbind (sread (authorize X p project Editor)) (\<lambda>_.
     sbind (sread (document_in (repo X) Workflows (ProjectParent project) workflow_id ''Workflow not found'')) (\<lambda>workflow.
     sbind (slift (ok_or (invalid_request ''Workflow has no steps'')
              (Option.bind (get workflow ''steps'') as_array))) (\<lambda>steps.
     sbind (case get body ''projects'' of
              Some projects \<Rightarrow> slift (Inr projects)
            | None \<Rightarrow> sbind (sread (service_document (repo X) Projects project)) (\<lambda>v.
                slift (Inr (snapshot_of project v)))) (\<lambda>projects.
     sbind (create_in (service X) Runs (ProjectParent project)
              (workflow_run_body (case get_str body ''name'' of Some n \<Rightarrow> n | None \<Rightarrow> workflow_id)
                 workflow_id steps projects)) (\<lambda>rid.
       slift (Inr (message_id ''Run created from workflow'' rid)))))))"

end
