(* ===== verification/Access_Laws.thy ===== *)
theory Access_Laws
  imports Case_Handlers Run_Handlers Session_Laws
begin

text \<open>
  What the guards of the HTTP layer promise of the routes that write: each is mediated by the role of the
  caller in the projects that govern the request. The locale states what a mediated route is; reads and
  listings are in \<open>Reach_Laws\<close>.
\<close>

section \<open>Roles\<close>

definition holds :: "AppState \<Rightarrow> Principal \<Rightarrow> Role \<Rightarrow> fs \<Rightarrow> string \<Rightarrow> bool" where
  "holds X p required fs project \<longleftrightarrow> pr_system_admin p \<or>
     (case role_of (ae_store (auth X)) project (pr_user_id p) fs of
        Inr (Some held) \<Rightarrow> required \<le> held
      | _ \<Rightarrow> False)"

lemma authorize_iff:
  assumes "auth_required X"
  shows "authorize X p project required fs = Inr u \<longleftrightarrow> holds X p required fs project"
  using assms by (auto simp: authorize_def require_role_def holds_def rbind_Inr_iff split: sum.splits option.splits if_splits)

lemma require_every_iff:
  assumes "auth_required X"
  shows "require_every X p projects required fs = Inr u \<longleftrightarrow> list_all (holds X p required fs) projects"
proof -
  have "authorize_each X p projects required fs = Inr u \<longleftrightarrow> list_all (holds X p required fs) projects"
    by (induction projects) (simp_all add: rbind_Inr_iff authorize_iff [OF assms])
  with assms show ?thesis by (simp add: require_every_def)
qed

lemma require_admin_iff: "auth_required X \<Longrightarrow> require_admin X p = Inr u \<longleftrightarrow> pr_system_admin p"
  by (simp add: require_admin_def)

lemmas role_iffs = authorize_iff require_every_iff require_admin_iff

lemma holds_admin [simp]: "pr_system_admin p \<Longrightarrow> holds X p required fs = (\<lambda>_. True)"
  by (simp add: holds_def fun_eq_iff)

lemma set_with_home [simp]: "set (with_home home ps) = insert home (set ps)"
  by (auto simp: with_home_def)

lemma set_btree_set [simp]: "set (btree_set xs) = set xs"
  by (simp add: btree_set_def)

section \<open>Mediated routes\<close>

text \<open>A route is mediated by a check when a refusal of the check is its answer and changes nothing.\<close>

locale mediated =
  fixes check :: "fs \<Rightarrow> 'c result" and handler :: "'a sop"
  assumes refuses: "check (files st) = Inl e \<Longrightarrow> handler st = (Inl e, st)"
begin

lemma passed_if_changed: "handler st = (res, st') \<Longrightarrow> st' \<noteq> st \<Longrightarrow> \<exists>c. check (files st) = Inr c"
  using refuses [of st] by (cases "check (files st)") auto

lemma passed_if_answered: "handler st = (Inr x, st') \<Longrightarrow> \<exists>c. check (files st) = Inr c"
  using refuses [of st] by (cases "check (files st)") auto

end

lemma mediated_first: "mediated g (sbind (sread g) f)"
  by (unfold_locales) (simp add: sbind_sread)

lemma mediated_second: "mediated (\<lambda>fs. rbind (g fs) (\<lambda>x. h x fs)) (sbind (sread g) (\<lambda>x. sbind (sread (h x)) (f x)))"
  by (unfold_locales) (auto simp: sbind_sread rbind_Inl_iff split: sum.splits)

text \<open>The routes that write on behalf of a caller, but for workflow creation and the session routes.\<close>

datatype Address = ById | OfProject string | OfSuite string

datatype Route =
    UpdateDoc Resource string "string option" json
  | DeleteDoc Resource string
  | DuplicateDoc DuplicateSpec string json
  | CreateInProject Resource string string json
  | ComposeInProject Resource string string json
  | DeleteInProject Resource Role string string string
  | AddCaseToSuite string json
  | RemoveCaseFromSuite string string
  | Upload Address string Multipart
  | RemoveUpload Address string string
  | UploadStep Address string string Multipart
  | RemoveStepUpload Address string string string
  | UpdateProjectCase string string "string option" json
  | UpdateSuiteCase string string "string option" json
  | AddSuiteToRun string json
  | AddCaseToRun string json
  | RecordResult string json
  | ReplaceResult string string json
  | DeleteResult string string
  | LinkDefect string string json
  | UnlinkDefect string string string
  | ImportJUnit "string \<Rightarrow> xml_node list option" string "string option"
  | ImportJson "string \<Rightarrow> json option" string string
  | LinkConfiguration string json
  | UnlinkConfiguration string string
  | RunFromWorkflow string string json

definition forget :: "'a sop \<Rightarrow> unit sop" where
  "forget h = sbind h (\<lambda>_. slift (Inr ()))"

fun perform :: "AppState \<Rightarrow> Principal \<Rightarrow> Route \<Rightarrow> unit sop" where
  "perform X p (UpdateDoc r rid im body) = forget (update_handler X r p rid im body)"
| "perform X p (DeleteDoc r rid) = forget (delete_handler X r p rid)"
| "perform X p (DuplicateDoc spec rid body) = forget (duplicate_handler X spec p rid body)"
| "perform X p (CreateInProject r noun project body) = forget (create_in_project X r noun p project body)"
| "perform X p (ComposeInProject r noun project body) = forget (compose_in_project X r noun p project body)"
| "perform X p (DeleteInProject r role noun project rid) = forget (delete_in_project X r role noun p project rid)"
| "perform X p (AddCaseToSuite rid body) = forget (add_case_to_suite_handler X p rid body)"
| "perform X p (RemoveCaseFromSuite rid case_id) = forget (remove_case_from_suite_handler X p rid case_id)"
| "perform X p (Upload a rid m) = forget (case a of
       ById \<Rightarrow> upload_attachment_handler X p rid m
     | OfProject project \<Rightarrow> upload_project_case_attachment X p project rid m
     | OfSuite suite \<Rightarrow> upload_suite_case_attachment X p suite rid m)"
| "perform X p (RemoveUpload a rid f) = forget (case a of
       ById \<Rightarrow> delete_attachment_handler X p rid f
     | OfProject project \<Rightarrow> delete_project_case_attachment X p project rid f
     | OfSuite suite \<Rightarrow> delete_suite_case_attachment X p suite rid f)"
| "perform X p (UploadStep a rid i m) = forget (case a of
       ById \<Rightarrow> upload_step_attachment X p rid i m
     | OfProject project \<Rightarrow> upload_project_case_step_attachment X p project rid i m
     | OfSuite suite \<Rightarrow> upload_suite_case_step_attachment X p suite rid i m)"
| "perform X p (RemoveStepUpload a rid i f) = forget (case a of
       ById \<Rightarrow> delete_step_attachment_handler X p rid i f
     | OfProject project \<Rightarrow> delete_project_case_step_attachment X p project rid i f
     | OfSuite suite \<Rightarrow> delete_suite_case_step_attachment X p suite rid i f)"
| "perform X p (UpdateProjectCase project rid im body) = forget (update_project_case X p project rid im body)"
| "perform X p (UpdateSuiteCase suite rid im body) = forget (update_suite_case X p suite rid im body)"
| "perform X p (AddSuiteToRun rid body) = forget (add_suite_to_run_handler X p rid body)"
| "perform X p (AddCaseToRun rid body) = forget (add_case_to_run_handler X p rid body)"
| "perform X p (RecordResult rid body) = forget (record_run_result_handler X p rid body)"
| "perform X p (ReplaceResult rid case_id body) = forget (replace_run_result_handler X p rid case_id body)"
| "perform X p (DeleteResult rid case_id) = forget (delete_run_result_handler X p rid case_id)"
| "perform X p (LinkDefect rid case_id body) = forget (link_result_defect X p rid case_id body)"
| "perform X p (UnlinkDefect rid case_id link_id) = forget (unlink_result_defect X p rid case_id link_id)"
| "perform X p (ImportJUnit parse_xml rid body) = forget (import_junit_handler X parse_xml p rid body)"
| "perform X p (ImportJson parse_slice rid body) = forget (import_json_handler X parse_slice p rid body)"
| "perform X p (LinkConfiguration rid body) = forget (link_run_configuration X p rid body)"
| "perform X p (UnlinkConfiguration rid config_id) = forget (unlink_run_configuration X p rid config_id)"
| "perform X p (RunFromWorkflow project wid body) = forget (run_from_workflow X p project wid body)"

text \<open>The projects that govern a route: the one its path names, or the home of the document it
  addresses, with every project a deleted, copied or executed run or milestone reaches and every
  project a created run names.\<close>

fun governing :: "AppState \<Rightarrow> Route \<Rightarrow> fs \<Rightarrow> string list result" where
  "governing X (UpdateDoc r rid im body) fs =
     (if r = Runs \<or> r = Milestones
      then rbind (project_of (repo X) r rid (missing_message r) fs) (\<lambda>home. Inr [home])
      else projects_of X r rid fs)"
| "governing X (DeleteDoc r rid) fs = projects_of X r rid fs"
| "governing X (DuplicateDoc spec rid body) fs = projects_of X (ds_resource spec) rid fs"
| "governing X (CreateInProject r noun project body) fs =
     Inr (project # (if r = Runs then project_ids (get body ''projects'') else []))"
| "governing X (ComposeInProject r noun project body) fs = Inr [project]"
| "governing X (DeleteInProject r role noun project rid) fs = Inr [project]"
| "governing X (AddCaseToSuite rid body) fs = projects_of X Suites rid fs"
| "governing X (RemoveCaseFromSuite rid case_id) fs = projects_of X Suites rid fs"
| "governing X (Upload a rid m) fs = (case a of
       ById \<Rightarrow> projects_of X Cases rid fs | OfProject project \<Rightarrow> Inr [project] | OfSuite suite \<Rightarrow> projects_of X Suites suite fs)"
| "governing X (RemoveUpload a rid f) fs = (case a of
       ById \<Rightarrow> projects_of X Cases rid fs | OfProject project \<Rightarrow> Inr [project] | OfSuite suite \<Rightarrow> projects_of X Suites suite fs)"
| "governing X (UploadStep a rid i m) fs = (case a of
       ById \<Rightarrow> projects_of X Cases rid fs | OfProject project \<Rightarrow> Inr [project] | OfSuite suite \<Rightarrow> projects_of X Suites suite fs)"
| "governing X (RemoveStepUpload a rid i f) fs = (case a of
       ById \<Rightarrow> projects_of X Cases rid fs | OfProject project \<Rightarrow> Inr [project] | OfSuite suite \<Rightarrow> projects_of X Suites suite fs)"
| "governing X (UpdateProjectCase project rid im body) fs = Inr [project]"
| "governing X (UpdateSuiteCase suite rid im body) fs = projects_of X Suites suite fs"
| "governing X (RunFromWorkflow project wid body) fs = Inr [project]"
| "governing X (AddSuiteToRun rid body) fs = projects_of X Runs rid fs"
| "governing X (AddCaseToRun rid body) fs = projects_of X Runs rid fs"
| "governing X (RecordResult rid body) fs = projects_of X Runs rid fs"
| "governing X (ReplaceResult rid case_id body) fs = projects_of X Runs rid fs"
| "governing X (DeleteResult rid case_id) fs = projects_of X Runs rid fs"
| "governing X (LinkDefect rid case_id body) fs = projects_of X Runs rid fs"
| "governing X (UnlinkDefect rid case_id link_id) fs = projects_of X Runs rid fs"
| "governing X (ImportJUnit parse_xml rid body) fs = projects_of X Runs rid fs"
| "governing X (ImportJson parse_slice rid body) fs = projects_of X Runs rid fs"
| "governing X (LinkConfiguration rid body) fs = projects_of X Runs rid fs"
| "governing X (UnlinkConfiguration rid config_id) fs = projects_of X Runs rid fs"

fun needed_role :: "Route \<Rightarrow> Role" where
  "needed_role (UpdateDoc r rid im body) = write_role r"
| "needed_role (DeleteDoc r rid) = write_role r"
| "needed_role (DuplicateDoc spec rid body) = write_role (ds_resource spec)"
| "needed_role (CreateInProject r noun project body) = write_role r"
| "needed_role (DeleteInProject r role noun project rid) = role"
| "needed_role _ = Editor"

lemma forget_changed: "forget h st = (res, st') \<Longrightarrow> \<exists>res'. h st = (res', st')"
  by (auto simp: forget_def sbind_def split: prod.splits sum.splits)

lemma first_passed: "sbind (sread g) f st = (res, st') \<Longrightarrow> st' \<noteq> st \<Longrightarrow> \<exists>c. g (files st) = Inr c"
  by (rule mediated.passed_if_changed [OF mediated_first])

lemma second_passed:
  "sbind (sread g) (\<lambda>x. sbind (sread (h x)) (f x)) st = (res, st') \<Longrightarrow> st' \<noteq> st \<Longrightarrow>
     \<exists>x c. g (files st) = Inr x \<and> h x (files st) = Inr c"
  by (drule mediated.passed_if_changed [OF mediated_second]) (auto simp: rbind_Inr_iff)

lemma case_by_id_ok:
  assumes "auth_required X" "case_by_id X p rid required fs = Inr parent"
  shows "\<exists>ps. projects_of X Cases rid fs = Inr ps \<and> list_all (holds X p required fs) ps"
  using assms by (auto simp: case_by_id_def require_test_case_def projects_of_def project_of_def rbind_Inr_iff role_iffs)

lemma case_in_project_ok:
  "auth_required X \<Longrightarrow> case_in_project X p project rid required fs = Inr parent \<Longrightarrow> holds X p required fs project"
  by (auto simp: case_in_project_def case_in_def rbind_Inr_iff role_iffs)

lemma suite_parent_projects:
  "suite_parent (repo X) suite fs = Inr parent \<Longrightarrow> projects_of X Suites suite fs = Inr [parent_project parent]"
  by (auto simp: suite_parent_def projects_of_def project_of_def rbind_Inr_iff)

lemma case_in_suite_ok:
  assumes "auth_required X" "case_in_suite X p suite rid required fs = Inr parent"
  shows "\<exists>ps. projects_of X Suites suite fs = Inr ps \<and> list_all (holds X p required fs) ps"
  using assms by (auto simp: case_in_suite_def case_in_def rbind_Inr_iff role_iffs dest!: suite_parent_projects)

lemma require_run_ok:
  assumes "auth_required X" "require_run X p rid required fs = Inr u"
  shows "\<exists>ps. projects_of X Runs rid fs = Inr ps \<and> list_all (holds X p required fs) ps"
  using assms by (auto simp: require_run_def projects_of_def rbind_Inr_iff role_iffs)

lemma run_guards_ok:
  assumes "auth_required X"
  shows "require_run_source X p rid r source_id required fs = Inr u \<Longrightarrow> require_run X p rid required fs = Inr ()"
    "require_run_configuration X p rid config_id required fs = Inr u \<Longrightarrow> require_run X p rid required fs = Inr ()"
    "defect_case X p rid case_id required fs = Inr parent \<Longrightarrow> require_run X p rid required fs = Inr ()"
  using assms by (auto simp: require_run_source_def require_run_configuration_def defect_case_def rbind_Inr_iff)

lemma guard_update_ok:
  assumes "auth_required X" "guard_update X p r rid body fs = Inr u"
  shows "\<exists>ps. governing X (UpdateDoc r rid im body) fs = Inr ps \<and> list_all (holds X p (write_role r) fs) ps"
  using assms by (auto simp: guard_update_def rbind_Inr_iff role_iffs list_all_iff split: if_splits)

lemma guard_delete_ok:
  assumes "auth_required X" "guard_delete X p r rid fs = Inr u"
  shows "\<exists>ps. projects_of X r rid fs = Inr ps \<and> list_all (holds X p (write_role r) fs) ps"
  using assms by (auto simp: guard_delete_def rbind_Inr_iff role_iffs)

lemma guard_duplicate_ok:
  assumes "auth_required X" "guard_duplicate X p r rid fs = Inr u"
  shows "\<exists>ps. projects_of X r rid fs = Inr ps \<and> list_all (holds X p (write_role r) fs) ps"
  using assms by (auto simp: guard_duplicate_def projects_of_def rbind_Inr_iff role_iffs split: if_splits)

lemma guard_project_create_ok:
  assumes "auth_required X" "guard_project_create X p r project body fs = Inr u"
  shows "list_all (holds X p (write_role r) fs) (project # (if r = Runs then project_ids (get body ''projects'') else []))"
  using assms by (auto simp: guard_project_create_def rbind_Inr_iff role_iffs split: if_splits)

lemma guard_composition_ok:
  "auth_required X \<Longrightarrow> guard_composition X p r target body required fs = Inr u \<Longrightarrow> holds X p required fs target"
  by (auto simp: guard_composition_def rbind_Inr_iff role_iffs)

lemma guard_removal_ok:
  assumes "auth_required X" "guard_removal X p Suites rid required fs = Inr u"
  shows "\<exists>ps. projects_of X Suites rid fs = Inr ps \<and> list_all (holds X p required fs) ps"
  using assms by (auto simp: guard_removal_def authorize_item_def projects_of_def rbind_Inr_iff role_iffs)

lemmas case_routes =
  upload_attachment_handler_def upload_project_case_attachment_def upload_suite_case_attachment_def
  delete_attachment_handler_def delete_project_case_attachment_def delete_suite_case_attachment_def
  upload_step_attachment_def upload_project_case_step_attachment_def upload_suite_case_step_attachment_def
  delete_step_attachment_handler_def delete_project_case_step_attachment_def delete_suite_case_step_attachment_def
  update_project_case_def update_suite_case_def

lemmas run_routes =
  add_suite_to_run_handler_def add_case_to_run_handler_def record_run_result_handler_def
  replace_run_result_handler_def delete_run_result_handler_def link_result_defect_def unlink_result_defect_def
  import_junit_handler_def import_json_handler_def link_run_configuration_def unlink_run_configuration_def


lemmas shared_routes =
  update_handler_def delete_handler_def duplicate_handler_def create_in_project_def compose_in_project_def
  delete_in_project_def remove_case_from_suite_handler_def run_from_workflow_def

text \<open>Complete mediation: with authentication enforced, a write route changes anything at all only
  when the projects that govern it resolve and the caller administers the server or holds, in every
  one of them, at least the role the route needs.\<close>

theorem every_write_is_mediated:
  assumes "auth_required X" "perform X p rt st = (res, st')" "st' \<noteq> st"
  shows "\<exists>ps. governing X rt (files st) = Inr ps \<and> list_all (holds X p (needed_role rt) (files st)) ps"
proof -
  note passed = forget_changed first_passed [OF _ assms(3)]
  note granted = role_iffs [OF assms(1)]
  note ok = guard_update_ok guard_delete_ok guard_duplicate_ok guard_project_create_ok guard_composition_ok
    guard_removal_ok case_by_id_ok case_in_project_ok case_in_suite_ok run_guards_ok require_run_ok
  show ?thesis
  proof (cases rt)
    case (AddCaseToSuite rid body)
    with assms(2) show ?thesis
      by (auto simp: add_case_to_suite_handler_def
          dest!: forget_changed second_passed [OF _ assms(3)] suite_parent_projects guard_composition_ok [OF assms(1)])
  qed (insert assms(2), (force simp: shared_routes case_routes run_routes granted split: Address.splits
        dest!: passed dest: ok [OF assms(1)])+)
qed

end
