(* ===== verification/Reach_Laws.thy ===== *)
theory Reach_Laws
  imports Access_Laws
begin

text \<open>
  What a caller can see: a read answers only within the caller's reach, a refused read of a project
  says nothing about the project, a listing shows exactly the identifiers in reach, and deleting a
  project leaves no grant behind. The last section proves where the guards fall short of the policy
  \<^verbatim>\<open>src/api/access.rs\<close> states.
\<close>

section \<open>Reads\<close>

lemma guard_get_reach:
  assumes "auth_required X" "guard_get X p r rid expansion fs = Inr outcome"
  shows "\<exists>ps. projects_of X r rid fs = Inr ps \<and> ps \<noteq> [] \<and> list_all (holds X p Viewer fs) ps"
proof (cases "r = Projects")
  case True
  with assms show ?thesis by (auto simp: guard_get_def Let_def projects_of_def rbind_Inr_iff role_iffs)
next
  case False
  with assms obtain home ps where
    h: "resolve_home (repo X) r rid (missing_message r) fs = Inr home"
    and ps: "(if r = Runs \<or> r = Milestones then projects_of X r rid fs else Inr [parent_project (the home)]) = Inr ps"
    and held: "list_all (holds X p Viewer fs) ps"
    by (auto simp: guard_get_def Let_def rbind_Inr_iff role_iffs)
  have "projects_of X r rid fs = Inr ps"
    using ps h False by (auto simp: projects_of_def project_of_def resolve_home_def rbind_Inr_iff split: if_splits)
  moreover from this have "ps \<noteq> []"
    using False by (auto simp: projects_of_def reachable_projects_def with_home_def rbind_Inr_iff split: if_splits)
  ultimately show ?thesis using held by blast
qed

interpretation reading: mediated "guard_get X p r rid (expansion_from_query expand)" "get_handler X r p rid expand"
  for X p r rid expand
  unfolding get_handler_def by (rule mediated_first)

text \<open>C9. A document is served only to a caller who administers the server or holds a role in every
  project that governs it: its home, and for a run or a milestone every project its references
  reach. Serving it changes nothing.\<close>

theorem read_needs_reach:
  assumes "auth_required X" "get_handler X r p rid expand st = (Inr resp, st')"
  shows "st' = st \<and> (\<exists>ps. projects_of X r rid (files st) = Inr ps \<and> ps \<noteq> []
    \<and> list_all (holds X p Viewer (files st)) ps)"
proof
  show "st' = st" using assms(2) by (auto simp: get_handler_def sbind_Inr_iff)
  obtain outcome where "guard_get X p r rid (expansion_from_query expand) (files st) = Inr outcome"
    using reading.passed_if_answered [OF assms(2)] by blast
  from guard_get_reach [OF assms(1) this]
  show "\<exists>ps. projects_of X r rid (files st) = Inr ps \<and> ps \<noteq> [] \<and> list_all (holds X p Viewer (files st)) ps" .
qed

text \<open>A caller without a role in a project gets the same refusal from two servers that differ in
  everything but the caller's missing role: whether the project exists, and what it holds, makes no
  difference.\<close>

theorem refused_read_tells_nothing:
  assumes "auth_required X" "\<not> pr_system_admin p"
    "role_of (ae_store (auth X)) rid (pr_user_id p) (files st1) = Inr None"
    "role_of (ae_store (auth X)) rid (pr_user_id p) (files st2) = Inr None"
  shows "fst (get_handler X Projects p rid expand st1) = fst (get_handler X Projects p rid expand st2)
    \<and> fst (get_handler X Projects p rid expand st1) =
        Inl (forbidden ''This account needs the viewer role in the project'')"
  using assms by (simp add: get_handler_def guard_get_def require_every_def authorize_def require_role_def
      sbind_sread)

section \<open>Listings\<close>

text \<open>The groups built from rows in ascending order: one per identifier, with exactly its homes.\<close>

lemma foldl_add_home:
  assumes "sorted (map fst rows)"
  shows "sorted_wrt (>) (map fst (foldl add_home [] rows)) \<and> fst ` set (foldl add_home [] rows) = fst ` set rows
    \<and> (rows \<noteq> [] \<longrightarrow> foldl add_home [] rows \<noteq> [] \<and> fst (hd (foldl add_home [] rows)) = fst (last rows))
    \<and> (\<forall>(rid, homes) \<in> set (foldl add_home [] rows). distinct homes \<and> set homes = {h. (rid, h) \<in> set rows})"
  using assms
proof (induction rows rule: rev_induct)
  case (snoc row rows)
  obtain rid h where row: "row = (rid, h)" by (cases row)
  let ?g = "foldl add_home [] rows"
  from snoc.prems have sorted: "sorted (map fst rows)" and above: "\<forall>k \<in> fst ` set rows. k \<le> rid"
    by (auto simp: sorted_append row)
  note IH = snoc.IH [OF sorted]
  show ?case
  proof (cases ?g)
    case Nil
    with IH have "rows = []" by auto
    then show ?thesis by (simp add: row add_home_def)
  next
    case (Cons top rest)
    obtain k homes where top: "top = (k, homes)" by (cases top)
    have "k \<in> fst ` set ?g" by (simp add: Cons top)
    with IH above have k: "k \<le> rid" by auto
    note IH' = IH [unfolded Cons top]
    have others: "\<forall>(k', hs) \<in> set rest. k' < k" using IH' by auto
    have step: "foldl add_home [] (rows @ [row]) =
        (if k = rid then (k, if h \<in> set homes then homes else homes @ [h]) # rest else (rid, [h]) # (k, homes) # rest)"
      by (simp add: row Cons top add_home_def)
    show ?thesis
    proof (cases "k = rid")
      case True
      then show ?thesis unfolding step using IH' others by (auto simp: row)
    next
      case False
      with k have less: "k < rid" by simp
      have keys: "insert k (fst ` set rest) = fst ` set rows" using IH' by simp
      have below: "\<forall>x \<in> fst ` set rest. x < rid" using others less by (auto dest: less_trans)
      then have "rid \<notin> fst ` set rows" unfolding keys [symmetric] using less by auto
      have low: "\<forall>x \<in> set rows. fst x < rid" using below less keys by (metis image_eqI insertE)
      from \<open>rid \<notin> fst ` set rows\<close> have none: "{h'. (rid, h') \<in> set rows} = {}" by force
      have "\<forall>(x, hs) \<in> set ((k, homes) # rest). distinct hs \<and> set hs = {h'. (x, h') \<in> set (rows @ [row])}"
        using IH' below less by (auto simp: row)
      with False less below none keys IH' show ?thesis unfolding step
        by (simp add: row low)
    qed
  qed
qed simp

lemma homes_of_sort:
  fixes items :: "(string \<times> Parent option) list"
  defines "groups \<equiv> homes_of (sort_key fst items)"
  shows "sorted_wrt (<) (map fst groups)" "fst ` set groups = fst ` set items"
    "(rid, homes) \<in> set groups \<Longrightarrow> distinct homes \<and> set homes = {h. (rid, h) \<in> set items}"
  using foldl_add_home [of "sort_key fst items"]
  by (auto simp: groups_def homes_of_def rev_map [symmetric] sorted_wrt_rev)

lemma single_home: "distinct homes \<Longrightarrow> set homes = {h} \<longleftrightarrow> homes = [h]"
  by (cases homes; cases "tl homes") auto

text \<open>The identifiers in reach, as \<^verbatim>\<open>access.rs\<close> states them.\<close>

definition in_reach :: "AppState \<Rightarrow> Resource \<Rightarrow> string list \<Rightarrow> fs \<Rightarrow> (string \<times> Parent option) list \<Rightarrow> string \<Rightarrow> bool" where
  "in_reach X r ps fs items rid \<longleftrightarrow> rid \<in> fst ` set items \<and>
     (if r = Projects then rid \<in> set ps
      else \<exists>home. {h. (rid, h) \<in> set items} = {Some home} \<and>
        (if r = Runs \<or> r = Milestones
         then \<exists>v. document_at (repo X) r rid (Some home) fs = Inr v \<and>
           insert (parent_project home) (set (references X r (parent_project home) v fs)) \<subseteq> set ps
         else parent_project home \<in> set ps))"

lemma keep_listed_iff:
  assumes "(rid, homes) \<in> set (homes_of (sort_key fst items))"
  shows "keep_listed X r ps fs (rid, homes) \<longleftrightarrow> in_reach X r ps fs items rid"
proof -
  note g = homes_of_sort(3) [OF assms]
  let ?P = "\<lambda>home. if r = Runs \<or> r = Milestones
         then \<exists>v. document_at (repo X) r rid (Some home) fs = Inr v \<and>
           insert (parent_project home) (set (references X r (parent_project home) v fs)) \<subseteq> set ps
         else parent_project home \<in> set ps"
  have inner: "(if r = Runs \<or> r = Milestones then
           (case document_at (repo X) r rid (Some home) fs of
              Inl _ \<Rightarrow> False
            | Inr v \<Rightarrow> all_within (with_home (parent_project home)
                  (references X r (parent_project home) v fs)) ps)
         else allowed (Some ps) (parent_project home)) \<longleftrightarrow> ?P home" for home
    by (cases "document_at (repo X) r rid (Some home) fs") (auto simp: all_within_def list_all_iff allowed_def)
  have shape: "(case homes of [Some home] \<Rightarrow> P home | _ \<Rightarrow> False) \<longleftrightarrow> (\<exists>home. homes = [Some home] \<and> P home)"
    for P :: "Parent \<Rightarrow> bool" by (cases homes; cases "hd homes"; cases "tl homes") auto
  have "rid \<in> fst ` set items" using assms homes_of_sort(2) [of items] by force
  then show ?thesis
    unfolding keep_listed_def in_reach_def prod.case inner shape g [THEN conjunct2, symmetric]
      single_home [OF g [THEN conjunct1]] by simp
qed

text \<open>C23. A restricted listing shows, in ascending order and without repetition, exactly the identifiers
  of the walk that are in the caller's reach: those whose one home, and for a run or a milestone every
  project its references reach, lie within the caller's projects; an identifier that two parents
  hold is dropped. An unrestricted listing shows every identifier of the walk.\<close>

theorem listing_shows_exactly_the_reach:
  "sorted_wrt (<) (filter_list X r items (Some ps) fs)
    \<and> set (filter_list X r items (Some ps) fs) = {rid. in_reach X r ps fs items rid}
    \<and> set (filter_list X r items None fs) = fst ` set items"
proof (intro conjI)
  let ?groups = "homes_of (sort_key fst items)"
  have listed: "filter_list X r items (Some ps) fs = map fst (filter (keep_listed X r ps fs) ?groups)"
    by (simp add: filter_list_def Let_def)
  show "sorted_wrt (<) (filter_list X r items (Some ps) fs)"
    unfolding listed using homes_of_sort(1) [of items] by (simp add: sorted_wrt_map sorted_wrt_filter)
  show "set (filter_list X r items (Some ps) fs) = {rid. in_reach X r ps fs items rid}"
  proof (rule set_eqI)
    fix rid
    have "rid \<in> set (filter_list X r items (Some ps) fs) \<longleftrightarrow>
        (\<exists>homes. (rid, homes) \<in> set ?groups \<and> in_reach X r ps fs items rid)"
      unfolding listed using keep_listed_iff by force
    moreover have "in_reach X r ps fs items rid \<Longrightarrow> \<exists>homes. (rid, homes) \<in> set ?groups"
      using homes_of_sort(2) [of items] by (force simp: in_reach_def)
    ultimately show "rid \<in> set (filter_list X r items (Some ps) fs) \<longleftrightarrow> rid \<in> {rid. in_reach X r ps fs items rid}"
      by blast
  qed
qed (simp add: filter_list_def Let_def)

section \<open>Deleted projects\<close>

definition absent :: "fs \<Rightarrow> path \<Rightarrow> bool" where
  "absent fs q \<longleftrightarrow> lookup fs q = None \<and> \<not> list_ex (is_file fs) (butlast (prefixes q))"

lemma absent_removed: "absent fs q \<Longrightarrow> absent (fs_remove p fs) q"
  by (auto simp: absent_def list_ex_iff is_file_iff split: if_splits)

lemma absent_read: "absent fs q \<Longrightarrow> prefix d q \<Longrightarrow> q \<noteq> d \<Longrightarrow>
    read_confined d q fs = Inl (io_err KNotFound ''No such file or directory'')"
  by (simp add: absent_def read_confined_def missing_error_def)

lemma remove_file_absent:
  assumes "remove_file q fs = (res, fs')" "tree_ok fs" "q \<noteq> []"
    "res = Inr () \<or> (\<exists>e. res = Inl e \<and> io_kind e = KNotFound)"
  shows "absent fs' q"
proof (cases "lookup fs q")
  case None
  with assms show ?thesis
    by (auto simp: absent_def remove_file_def missing_error_def split: if_splits)
next
  case (Some n)
  with assms obtain b where b: "lookup fs q = Some (File b)" and fs': "fs' = fs_remove q fs"
    by (cases n) (auto simp: remove_file_def)
  obtain d c where q: "q = d @ [c]" using assms(3) by (metis rev_exhaust)
  have "lookup fs x = Some Dir" if "prefix x d" for x
  proof -
    from that obtain zs where "d = x @ zs" by (auto simp: prefix_def)
    with b show ?thesis using tree_ok_prefix [OF assms(2), of x "zs @ [c]"] by (simp add: q)
  qed
  then show ?thesis unfolding absent_def fs'
    by (auto simp: q prefixes_snoc list_ex_iff is_file_iff split: if_splits)
qed

lemma revoked_grants_absent:
  assumes "remove_project_grants A project fs = (Inr b, fs')" "tree_ok fs"
  obtains q where "grant_path A project = Inr q" "absent fs' q"
proof -
  obtain q where q: "grant_path A project = Inr q"
    and r: "(case remove_file q fs of (Inr _, fs') \<Rightarrow> (Inr True, fs')
         | (Inl e, fs') \<Rightarrow> if io_kind e = KNotFound then (Inr False, fs') else (Inl e, fs')) = (Inr b, fs')"
    using assms(1) by (auto simp: remove_project_grants_def locked_def obind_olift split: sum.splits if_splits)
  obtain res fs1 where f: "remove_file q fs = (res, fs1)" by (cases "remove_file q fs")
  have "fs1 = fs'" "res = Inr () \<or> (\<exists>e. res = Inl e \<and> io_kind e = KNotFound)"
    using r f by (auto split: sum.splits if_splits)
  moreover have "q \<noteq> []"
    using q by (auto simp: grant_path_def Let_def rbind_Inr_iff)
  ultimately show ?thesis using that q remove_file_absent [OF f assms(2)] by blast
qed

lemma role_of_absent:
  assumes "grant_path A project = Inr q" "absent fs q"
  shows "role_of A project i fs = Inr None"
proof -
  have "prefix (root (as_repo A)) q" "q \<noteq> root (as_repo A)"
    using assms(1) by (auto simp: grant_path_def grants_dir_def auth_dir_def Let_def rbind_Inr_iff)
  with assms show ?thesis
    by (simp add: role_of_def grants_def read_grants_unlocked_def read_or_default_def absent_read)
qed

lemma sread_InrD: "sread g st = (Inr x, st') \<Longrightarrow> g (files st) = Inr x \<and> st' = st"
  by simp

text \<open>C35. Deleting a project forgets its grants: after a successful deletion no account holds a role
  under the project's identifier, so a project created again under it is reachable by nobody but an
  administrator until it is granted anew.\<close>

theorem deleted_project_leaves_no_grant:
  assumes "delete_handler X Projects p rid st = (Inr resp, st')" "tree_ok (files st)"
  shows "role_of (ae_store (auth X)) rid i (files st') = Inr None
    \<and> (holds X q Viewer (files st') rid \<longleftrightarrow> pr_system_admin q)"
proof -
  obtain b fs1 where g: "remove_project_grants (ae_store (auth X)) rid (files st) = (Inr b, fs1)"
    and d: "service_delete (service X) Projects rid (st\<lparr>files := fs1\<rparr>) = (Inr (), st')"
    using assms(1)
    by (auto simp: delete_handler_def revoke_project_grants_def sbind_Inr_iff sio_Inr_iff simp del: sread_iff dest!: sread_InrD)
  obtain path where path: "grant_path (ae_store (auth X)) rid = Inr path" "absent fs1 path"
    by (rule revoked_grants_absent [OF g assms(2)])
  obtain dir where "files st' = fs_remove dir fs1"
    using d by (auto simp: service_delete_def owner_for_write_def sbind_Inr_iff invalidating_Inr_iff
        sio_Inr_iff delete_at_def locked_def obind_olift remove_dir_all_def
        split: sum.splits if_splits option.splits node.splits)
  with path(2) have "absent (files st') path" by (simp add: absent_removed)
  from role_of_absent [OF path(1) this] show ?thesis by (simp add: holds_def)
qed

section \<open>Where the guards fall short\<close>

text \<open>Creating a workflow is not authorised: whoever the caller is, and without a role in the project
  or anywhere, the request succeeds as soon as its steps are valid and the service accepts the body.
  The answer says the workflow was ``created created''.\<close>

theorem workflow_creation_is_open:
  assumes "validate_workflow_steps X project body (files st) = Inr ()"
    "compose (service X) Workflows (ProjectParent project) body st = (Inr (CreatedEntity rid), st')"
  shows "create_project_workflow X p project body st =
    (Inr (message_id ''Workflow created created'' rid), st')"
  using assms by (simp add: create_project_workflow_def guard_create_def composed_response_def sbind_sread)

text \<open>An update that sends the projects of a run as null is authorised by the home alone, although
  the merge keeps the stored projects: the caller needs no role in the projects the run keeps
  naming.\<close>

theorem null_projects_escape_the_guard:
  assumes "auth_required X" "project_of (repo X) Runs rid (missing_message Runs) fs = Inr home"
    "service_document (repo X) Runs rid fs = Inr (Obj s)" "holds X p Editor fs home"
    "map_of b ''projects'' = Some Null" "obj_sorted b"
  shows "guard_update X p Runs rid (Obj b) fs = Inr ()
    \<and> (\<forall>m. merged_document (Obj s) (Obj b) = Inr m \<longrightarrow> get m ''projects'' = map_of s ''projects'')"
proof
  have "effective_run_projects (Obj s) (Obj b) = []"
    using assms(5) by (simp add: effective_run_projects_def or_else_def project_ids_def as_array_def)
  then show "guard_update X p Runs rid (Obj b) fs = Inr ()"
    using assms by (simp add: guard_update_def role_iffs with_home_def)
  show "\<forall>m. merged_document (Obj s) (Obj b) = Inr m \<longrightarrow> get m ''projects'' = map_of s ''projects''"
    using assms(5,6) by (simp add: merged_document_def map_of_merged_fields)
qed

end
