(* ===== verification/Access_Examples.thy ===== *)
theory Access_Examples
  imports Reach_Laws
begin

text \<open>
  The theorems about access applied to a concrete server: project \<^verbatim>\<open>p.json\<close> holds the run \<^verbatim>\<open>r.json\<close>, which
  names project \<^verbatim>\<open>q.json\<close> too; account \<^verbatim>\<open>u1\<close> is an editor of \<^verbatim>\<open>p.json\<close> and nothing else. The JSON
  writer and reader are a table of the documents that occur.
\<close>

definition run_doc :: json where
  "run_doc = Obj [(''name'', Str ''r''), (''projects'', Arr [Obj [(''name'', Str ''q''), (''projectId'', Str ''q.json''),
     (''testSuites'', Arr [])]]), (''testRunId'', Str ''r.json''), (''timestamp'', Str ''0'')]"

definition project_doc :: json where
  "project_doc = Obj [(''name'', Str ''p''), (''projectId'', Str ''p.json''), (''testSuites'', Arr [])]"

definition acc_repo :: FileRepository where
  "acc_repo = \<lparr>root = [''data''], lock_busy = False,
     encode = (\<lambda>d. if d = run_doc then ''R'' else if d = project_doc then ''P'' else ''W''),
     decode = (\<lambda>b. Inr (if b = ''R'' then run_doc else if b = ''P'' then project_doc
        else if b = ''G'' then Grants_to_value [(''u1'', Editor)] else Null)),
     compute_etag = id\<rparr>"

definition acc_app :: AppState where
  "acc_app = \<lparr>service = \<lparr>repository = acc_repo, iso_now = ''now'', secs_now = ''0'', instant_now = 0,
       suffix_now = 7, to_lowercase = id, serde_text = (\<lambda>_. ''bad'')\<rparr>,
     auth = \<lparr>ae_store = \<lparr>as_repo = acc_repo, as_shape = (\<lambda>_. ''bad'')\<rparr>, ae_crypto = sample_crypto,
       ae_argon = \<lparr>parse_phc = Some, argon2_verify = (\<lambda>pw h. pw = h), argon2_hash = (\<lambda>pw salt. Some pw)\<rparr>,
       ae_config = \<lparr>ac_required = True, ac_jwt_secret = Some ''k'', ac_access_ttl = 900, ac_refresh_ttl = 1000,
         ac_bootstrap_username = None, ac_bootstrap_password = None\<rparr>\<rparr>\<rparr>"

definition acc_fs :: fs where
  "acc_fs = [([''data''], Dir), ([''data'', ''projects''], Dir),
     ([''data'', ''projects'', ''p''], Dir), ([''data'', ''projects'', ''p'', ''project.json''], File ''P''),
     ([''data'', ''projects'', ''p'', ''test_runs''], Dir),
     ([''data'', ''projects'', ''p'', ''test_runs'', ''r.json''], File ''R''),
     ([''data'', ''auth''], Dir), ([''data'', ''auth'', ''projects''], Dir),
     ([''data'', ''auth'', ''projects'', ''p.json''], File ''G'')]"

definition acc_state :: Svc where
  "acc_state = \<lparr>files = acc_fs, derivations = empty_cache\<rparr>"

definition u1 :: Principal where
  "u1 = \<lparr>pr_user_id = ''u1'', pr_system_admin = False\<rparr>"

definition root_user :: Principal where
  "root_user = \<lparr>pr_user_id = ''u0'', pr_system_admin = True\<rparr>"

lemma acc_selectors [simp]: "files acc_state = acc_fs" "pr_user_id u1 = ''u1''" "\<not> pr_system_admin u1"
  by (simp_all add: acc_state_def u1_def)

lemma acc_required: "auth_required acc_app"
  by code_simp

lemma acc_tree: "tree_ok acc_fs"
  by code_simp

theorem every_write_is_mediated_witness:
  "\<exists>ps. governing acc_app (DeleteInProject Runs Editor ''Test run'' ''p.json'' ''r.json'') acc_fs = Inr ps
     \<and> list_all (holds acc_app u1 Editor acc_fs) ps"
proof -
  let ?rt = "DeleteInProject Runs Editor ''Test run'' ''p.json'' ''r.json''"
  obtain res st' where r: "perform acc_app u1 ?rt acc_state = (res, st')" by fastforce
  have "length (files (snd (perform acc_app u1 ?rt acc_state))) \<noteq> length acc_fs" by code_simp
  then have "st' \<noteq> acc_state" using r by auto
  from every_write_is_mediated [OF acc_required r this] show ?thesis by simp
qed

theorem read_needs_reach_witness:
  "\<exists>resp. get_handler acc_app Projects u1 ''p.json'' None acc_state = (Inr resp, acc_state)
     \<and> (\<exists>ps. projects_of acc_app Projects ''p.json'' acc_fs = Inr ps \<and> ps \<noteq> [] \<and> list_all (holds acc_app u1 Viewer acc_fs) ps)"
proof -
  let ?g = "get_handler acc_app Projects u1 ''p.json'' None acc_state"
  have "is_ok (fst ?g)" by code_simp
  then obtain resp st' where g: "?g = (Inr resp, st')" by (cases ?g; cases "fst ?g") auto
  from read_needs_reach [OF acc_required g] g show ?thesis by auto
qed

theorem refused_read_tells_nothing_witness:
  "fst (get_handler acc_app Projects u1 ''q.json'' None acc_state) =
     fst (get_handler acc_app Projects u1 ''q.json'' None (acc_state\<lparr>files :=
       ([''data'', ''projects'', ''q''], Dir) # acc_fs\<rparr>))"
proof -
  have "role_of (ae_store (auth acc_app)) ''q.json'' ''u1'' acc_fs = Inr None"
    "role_of (ae_store (auth acc_app)) ''q.json'' ''u1'' (([''data'', ''projects'', ''q''], Dir) # acc_fs) = Inr None"
    by code_simp+
  then show ?thesis
    using refused_read_tells_nothing [OF acc_required, of u1 "''q.json''" acc_state
        "acc_state\<lparr>files := ([''data'', ''projects'', ''q''], Dir) # acc_fs\<rparr>" None] by simp
qed

theorem deleted_project_leaves_no_grant_witness:
  "\<exists>resp st'. delete_handler acc_app Projects root_user ''p.json'' acc_state = (Inr resp, st')
     \<and> role_of (ae_store (auth acc_app)) ''p.json'' ''u1'' (files st') = Inr None"
proof -
  let ?d = "delete_handler acc_app Projects root_user ''p.json'' acc_state"
  have "is_ok (fst ?d)" by code_simp
  then obtain resp st' where d: "?d = (Inr resp, st')" by (cases ?d; cases "fst ?d") auto
  with deleted_project_leaves_no_grant [OF d] acc_tree show ?thesis by auto
qed

theorem workflow_creation_is_open_witness:
  "\<exists>st'. create_project_workflow acc_app u1 ''p.json''
       (Obj [(''name'', Str ''w''), (''steps'', Arr []), (''workflowId'', Str ''w.json'')]) acc_state =
     (Inr (message_id ''Workflow created created'' ''w.json''), st')"
proof -
  let ?b = "Obj [(''name'', Str ''w''), (''steps'', Arr []), (''workflowId'', Str ''w.json'')]"
  let ?c = "compose (service acc_app) Workflows (ProjectParent ''p.json'') ?b acc_state"
  have v: "validate_workflow_steps acc_app ''p.json'' ?b (files acc_state) = Inr ()" by code_simp
  have "fst ?c = Inr (CreatedEntity ''w.json'')" by code_simp
  then have "?c = (Inr (CreatedEntity ''w.json''), snd ?c)" by (metis prod.collapse)
  from workflow_creation_is_open [OF v this, of u1] show ?thesis by blast
qed

theorem null_projects_escape_the_guard_witness:
  "guard_update acc_app u1 Runs ''r.json'' (Obj [(''projects'', Null)]) acc_fs = Inr ()
     \<and> is_ok (fst (update_handler acc_app Runs u1 ''r.json'' None (Obj [(''projects'', Null)]) acc_state))"
proof -
  obtain s where s: "run_doc = Obj s" by (simp add: run_doc_def)
  have "project_of (repo acc_app) Runs ''r.json'' (missing_message Runs) acc_fs = Inr ''p.json''"
    "service_document (repo acc_app) Runs ''r.json'' acc_fs = Inr run_doc"
    "holds acc_app u1 Editor acc_fs ''p.json''" "obj_sorted [(''projects'', Null)]"
    by code_simp+
  moreover have "is_ok (fst (update_handler acc_app Runs u1 ''r.json'' None (Obj [(''projects'', Null)]) acc_state))"
    by code_simp
  ultimately show ?thesis
    using null_projects_escape_the_guard [OF acc_required, of "''r.json''" acc_fs "''p.json''" s u1 "[(''projects'', Null)]"]
    by (simp add: s)
qed

end
