(* ===== verification/Publish.thy ===== *)
theory Publish
  imports Repository_Laws
begin

text \<open>
  The atomic write under crashes: \<^verbatim>\<open>write_json\<close> of \<^verbatim>\<open>src/storage/fs/mod.rs\<close> and \<^verbatim>\<open>write_json_atomically\<close> of
  \<^verbatim>\<open>src/auth/store.rs\<close>, the same protocol twice, step by step: a temporary file beside the destination is
  created, written, synced, renamed over the destination, and the directory is synced as far as the
  platform lets it. Elsewhere a write is one step (\<^const>\<open>write_json\<close>); here it may fail at any step, and the
  machine may lose power between any two.

  A disk keeps names and contents apart. Contents are safe once synced. A name is an entry of a
  directory; edits of entries reach the device when the directory is synced, and before that any of
  them may or may not have. What is read after a loss of power is the surviving entries, with arbitrary
  contents where those were not safe.
\<close>

section \<open>Disks\<close>

datatype edit = Link path nat | Unlink path | Rename path path

fun apply_edit :: "edit \<Rightarrow> (path \<rightharpoonup> nat) \<Rightarrow> path \<rightharpoonup> nat" where
  "apply_edit (Link p j) m = m(p \<mapsto> j)"
| "apply_edit (Unlink p) m = m(p := None)"
| "apply_edit (Rename a b) m = (case m a of Some j \<Rightarrow> m(a := None, b \<mapsto> j) | None \<Rightarrow> m)"

record Disk =
  contents :: "nat \<Rightarrow> string"
  safe :: "nat \<Rightarrow> bool"
  names :: "path \<rightharpoonup> nat"
  device :: "path \<rightharpoonup> nat"
  unsynced :: "edit list"

text \<open>What a running process reads, and what may be read after power was lost.\<close>

definition view :: "Disk \<Rightarrow> path \<Rightarrow> string option" where
  "view D p = map_option (contents D) (names D p)"

definition after_crash :: "Disk \<Rightarrow> (path \<Rightarrow> string option) \<Rightarrow> bool" where
  "after_crash D t \<longleftrightarrow> (\<exists>kept\<in>set (subseqs (unsynced D)). \<forall>p.
     case fold apply_edit kept (device D) p of
       None \<Rightarrow> t p = None
     | Some j \<Rightarrow> safe D j \<longrightarrow> t p = Some (contents D j))"

definition quiet :: "Disk \<Rightarrow> bool" where
  "quiet D \<longleftrightarrow> unsynced D = [] \<and> device D = names D \<and> (\<forall>p j. names D p = Some j \<longrightarrow> safe D j)"

section \<open>Steps that may fail\<close>

text \<open>A traced step answers and lists the disks it passed through, the last being where it ended.\<close>

type_synonym 'a traced = "Disk \<Rightarrow> 'a io_result \<times> Disk list"

definition current :: "Disk \<Rightarrow> Disk list \<Rightarrow> Disk" where
  "current D ds = (if ds = [] then D else last ds)"

definition tbind :: "'a traced \<Rightarrow> ('a \<Rightarrow> 'b traced) \<Rightarrow> 'b traced" where
  "tbind m f D = (case m D of
       (Inl e, ds) \<Rightarrow> (Inl e, ds)
     | (Inr x, ds) \<Rightarrow> (case f x (current D ds) of (r, ds') \<Rightarrow> (r, ds @ ds')))"

definition tstep :: "io_error option \<Rightarrow> (Disk \<Rightarrow> Disk) \<Rightarrow> unit traced" where
  "tstep fault g D = (case fault of Some e \<Rightarrow> (Inl e, []) | None \<Rightarrow> (Inr (), [g D]))"

definition do_edit :: "edit \<Rightarrow> Disk \<Rightarrow> Disk" where
  "do_edit e D = D\<lparr>names := apply_edit e (names D), unsynced := unsynced D @ [e]\<rparr>"

definition append_to :: "nat \<Rightarrow> string \<Rightarrow> Disk \<Rightarrow> Disk" where
  "append_to i s D = D\<lparr>contents := (contents D)(i := contents D i @ s), safe := (safe D)(i := False)\<rparr>"

definition sync_file :: "nat \<Rightarrow> Disk \<Rightarrow> Disk" where
  "sync_file i D = D\<lparr>safe := (safe D)(i := True)\<rparr>"

definition sync_directory :: "Disk \<Rightarrow> Disk" where
  "sync_directory D = D\<lparr>device := names D, unsynced := []\<rparr>"

text \<open>Where a write can go wrong; a failing write of a chunk may have written a part of it.\<close>

record Faults =
  at_create :: "io_error option"
  at_mode :: "io_error option"
  at_chunk :: "nat \<Rightarrow> (io_error \<times> nat) option"
  at_sync :: "io_error option"
  at_rename :: "io_error option"
  cleanup_fails :: bool
  directory_syncs :: bool

definition create_new :: "io_error option \<Rightarrow> path \<Rightarrow> nat \<Rightarrow> unit traced" where
  "create_new fault p i D =
     (if names D p \<noteq> None then (Inl (io_err KAlreadyExists ''File exists''), [])
      else tstep fault (\<lambda>D. do_edit (Link p i) (D\<lparr>contents := (contents D)(i := []), safe := (safe D)(i := False)\<rparr>)) D)"

fun write_chunks :: "(nat \<Rightarrow> (io_error \<times> nat) option) \<Rightarrow> nat \<Rightarrow> nat \<Rightarrow> string list \<Rightarrow> unit traced" where
  "write_chunks fault i k [] D = (Inr (), [])"
| "write_chunks fault i k (s # ss) D = (case fault k of
       Some (e, n) \<Rightarrow> (Inl e, [append_to i (take n s) D])
     | None \<Rightarrow> tbind (tstep None (append_to i s)) (\<lambda>_. write_chunks fault i (Suc k) ss) D)"

definition cleaning :: "bool \<Rightarrow> path \<Rightarrow> unit traced \<Rightarrow> unit traced" where
  "cleaning fails p m D = (case m D of
       (Inr x, ds) \<Rightarrow> (Inr x, ds)
     | (Inl e, ds) \<Rightarrow> (Inl e, if fails then ds else ds @ [do_edit (Unlink p) (current D ds)]))"

definition publish :: "Faults \<Rightarrow> path \<Rightarrow> path \<Rightarrow> nat \<Rightarrow> string list \<Rightarrow> unit traced" where
  "publish F temporary destination i chunks =
     tbind (create_new (at_create F) temporary i) (\<lambda>_.
     tbind (tstep (at_mode F) (\<lambda>D. D)) (\<lambda>_.
       cleaning (cleanup_fails F) temporary (
         tbind (write_chunks (at_chunk F) i 0 chunks) (\<lambda>_.
         tbind (tstep (at_sync F) (sync_file i)) (\<lambda>_.
         tbind (tstep (at_rename F) (do_edit (Rename temporary destination))) (\<lambda>_.
           tstep None (if directory_syncs F then sync_directory else (\<lambda>D. D))))))))"

section \<open>Stages of a write\<close>

text \<open>What the protocol keeps of the disk it started on, and the four shapes a disk has on the way.\<close>

definition framed :: "Disk \<Rightarrow> nat \<Rightarrow> Disk \<Rightarrow> bool" where
  "framed D0 i D \<longleftrightarrow> (\<forall>j. j \<noteq> i \<longrightarrow> contents D j = contents D0 j \<and> safe D j = safe D0 j)"

definition opened :: "Disk \<Rightarrow> path \<Rightarrow> nat \<Rightarrow> Disk \<Rightarrow> bool" where
  "opened D0 t i D \<longleftrightarrow> framed D0 i D \<and> device D = names D0 \<and> unsynced D = [Link t i] \<and> names D = (names D0)(t \<mapsto> i)"

definition abandoned :: "Disk \<Rightarrow> path \<Rightarrow> nat \<Rightarrow> Disk \<Rightarrow> bool" where
  "abandoned D0 t i D \<longleftrightarrow> framed D0 i D \<and> device D = names D0 \<and> unsynced D = [Link t i, Unlink t] \<and> names D = names D0"

definition renamed :: "Disk \<Rightarrow> path \<Rightarrow> path \<Rightarrow> nat \<Rightarrow> string \<Rightarrow> Disk \<Rightarrow> bool" where
  "renamed D0 t d i c D \<longleftrightarrow> framed D0 i D \<and> device D = names D0 \<and> unsynced D = [Link t i, Rename t d]
     \<and> names D = (names D0)(d \<mapsto> i) \<and> safe D i \<and> contents D i = c"

definition published :: "Disk \<Rightarrow> path \<Rightarrow> nat \<Rightarrow> string \<Rightarrow> Disk \<Rightarrow> bool" where
  "published D0 d i c D \<longleftrightarrow> framed D0 i D \<and> device D = names D \<and> unsynced D = []
     \<and> names D = (names D0)(d \<mapsto> i) \<and> safe D i \<and> contents D i = c"

lemmas stage_defs = framed_def opened_def abandoned_def renamed_def published_def

definition fresh :: "Disk \<Rightarrow> path \<Rightarrow> nat \<Rightarrow> bool" where
  "fresh D t i \<longleftrightarrow> names D t = None \<and> (\<forall>p. names D p \<noteq> Some i)"

text \<open>What a crash may leave: every name but the temporary one as it was, the destination old or new.\<close>

definition old_or_new :: "Disk \<Rightarrow> path \<Rightarrow> path \<Rightarrow> string \<Rightarrow> (path \<Rightarrow> string option) \<Rightarrow> bool" where
  "old_or_new D0 t d c v \<longleftrightarrow> (\<forall>p. p \<noteq> t \<and> p \<noteq> d \<longrightarrow> v p = view D0 p) \<and> (v d = view D0 d \<or> v d = Some c)"

definition stage :: "Disk \<Rightarrow> path \<Rightarrow> path \<Rightarrow> nat \<Rightarrow> string \<Rightarrow> Disk \<Rightarrow> bool" where
  "stage D0 t d i c D \<longleftrightarrow> D = D0 \<or> opened D0 t i D \<or> abandoned D0 t i D \<or> renamed D0 t d i c D \<or> published D0 d i c D"

lemma surviving_names:
  assumes "stage D0 t d i c D" "quiet D0" "fresh D0 t i" "t \<noteq> d" "kept \<in> set (subseqs (unsynced D))"
    and "p \<noteq> t"
  shows "fold apply_edit kept (device D) p = names D0 p
    \<or> p = d \<and> fold apply_edit kept (device D) p = Some i \<and> safe D i \<and> contents D i = c"
proof -
  from assms(1) consider "D = D0" | "opened D0 t i D" | "abandoned D0 t i D" | "renamed D0 t d i c D" | "published D0 d i c D"
    by (auto simp: stage_def)
  then show ?thesis
  proof cases
    case 1
    then show ?thesis using assms(2,5) by (simp add: quiet_def)
  next
    case 2
    then have "kept = [Link t i] \<or> kept = []" using assms(5) by (simp add: opened_def)
    then show ?thesis using 2 assms(6) by (auto simp: opened_def)
  next
    case 3
    then have "kept = [Link t i, Unlink t] \<or> kept = [Link t i] \<or> kept = [Unlink t] \<or> kept = []"
      using assms(5) by (auto simp: abandoned_def)
    then show ?thesis using 3 assms(6) by (auto simp: abandoned_def)
  next
    case 4
    then have "kept = [Link t i, Rename t d] \<or> kept = [Link t i] \<or> kept = [Rename t d] \<or> kept = []"
      using assms(5) by (auto simp: renamed_def)
    then show ?thesis using 4 assms(3,6) by (auto simp: renamed_def fresh_def split: if_splits)
  next
    case 5
    then show ?thesis using assms(5) by (auto simp: published_def)
  qed
qed

lemma stage_framed: "stage D0 t d i c D \<Longrightarrow> framed D0 i D"
  by (auto simp: stage_def stage_defs)

lemma stage_crash:
  assumes st: "stage D0 t d i c D" and q: "quiet D0" and f: "fresh D0 t i" and "t \<noteq> d" "after_crash D v"
  shows "old_or_new D0 t d c v"
proof -
  obtain kept where kept: "kept \<in> set (subseqs (unsynced D))" and v: "\<And>p. case fold apply_edit kept (device D) p of
       None \<Rightarrow> v p = None | Some j \<Rightarrow> safe D j \<longrightarrow> v p = Some (contents D j)"
    using assms(5) unfolding after_crash_def by blast
  have same: "v p = view D0 p" if "fold apply_edit kept (device D) p = names D0 p" for p
  proof (cases "names D0 p")
    case None
    then show ?thesis using v [of p] that by (simp add: view_def)
  next
    case (Some j)
    then have "j \<noteq> i" "safe D0 j" using f q by (auto simp: fresh_def quiet_def)
    then have "safe D j" "contents D j = contents D0 j" using stage_framed [OF st] by (simp_all add: framed_def)
    then show ?thesis using v [of p] that Some by (simp add: view_def)
  qed
  have "v p = view D0 p \<or> p = d \<and> v p = Some c" if "p \<noteq> t" for p
    using surviving_names [OF st q f assms(4) kept that] same [of p] v [of p] by auto
  from this [of d] this assms(4) show ?thesis unfolding old_or_new_def by metis
qed

section \<open>The protocol passes through these stages only\<close>

lemma current_simps [simp]: "current D [] = D" "current D (ds @ [E]) = E" "current D [E] = E"
  by (simp_all add: current_def)

lemma current_append: "current D (ds @ es) = current (current D ds) es"
  by (simp add: current_def)

lemma opened_append: "opened D0 t i D \<Longrightarrow> opened D0 t i (append_to i s D)"
  by (simp add: opened_def framed_def append_to_def)

lemma opened_sync: "opened D0 t i D \<Longrightarrow> opened D0 t i (sync_file i D)"
  by (simp add: opened_def framed_def sync_file_def)

lemma write_chunks_opened:
  assumes "write_chunks fault i k ss D = (r, ds)" "opened D0 t i D"
  shows "(\<forall>E\<in>set ds. opened D0 t i E) \<and> (\<forall>x. r = Inr x \<longrightarrow> contents (current D ds) i = contents D i @ concat ss)"
  using assms
proof (induction ss arbitrary: k D r ds)
  case (Cons s ss)
  show ?case
  proof (cases "fault k")
    case (Some en)
    then show ?thesis using Cons.prems opened_append by (cases en) auto
  next
    case None
    obtain r' ds' where w: "write_chunks fault i (Suc k) ss (append_to i s D) = (r', ds')" by force
    from Cons.IH [OF this opened_append [OF Cons.prems(2)]] Cons.prems None w opened_append [OF Cons.prems(2)]
    show ?thesis by (auto simp: tbind_def tstep_def current_def append_to_def split: sum.splits)
  qed
qed simp

lemma rename_stage:
  assumes "opened D0 t i D" "fresh D0 t i" "t \<noteq> d"
  shows "renamed D0 t d i (contents D i) (do_edit (Rename t d) (sync_file i D))"
  using assms by (auto simp: renamed_def opened_def framed_def do_edit_def sync_file_def fresh_def)

lemma sync_directory_stage: "renamed D0 t d i c D \<Longrightarrow> published D0 d i c (sync_directory D)"
  by (simp add: renamed_def published_def framed_def sync_directory_def)

definition filling :: "Faults \<Rightarrow> path \<Rightarrow> path \<Rightarrow> nat \<Rightarrow> string list \<Rightarrow> unit traced" where
  "filling F t d i chunks =
     tbind (write_chunks (at_chunk F) i 0 chunks) (\<lambda>_.
     tbind (tstep (at_sync F) (sync_file i)) (\<lambda>_.
     tbind (tstep (at_rename F) (do_edit (Rename t d))) (\<lambda>_.
       tstep None (if directory_syncs F then sync_directory else (\<lambda>D. D)))))"

lemma filling_stages:
  assumes "filling F t d i chunks D = (r, ds)" "opened D0 t i D" "contents D i = []" "fresh D0 t i" "t \<noteq> d"
  defines "c \<equiv> concat chunks"
  shows "(\<forall>E\<in>set ds. stage D0 t d i c E)
    \<and> (\<forall>e. r = Inl e \<longrightarrow> opened D0 t i (current D ds))
    \<and> (\<forall>x. r = Inr x \<longrightarrow> (if directory_syncs F then published D0 d i c (current D ds) else renamed D0 t d i c (current D ds)))"
proof -
  obtain r1 ds1 where w: "write_chunks (at_chunk F) i 0 chunks D = (r1, ds1)" by force
  note after = write_chunks_opened [OF w assms(2)]
  let ?D1 = "current D ds1"
  have o1: "opened D0 t i ?D1" using after assms(2) by (auto simp: current_def)
  have opened_stage: "stage D0 t d i c E" if "opened D0 t i E" for E using that by (simp add: stage_def)
  show ?thesis
  proof (cases r1)
    case (Inl e)
    then show ?thesis using assms(1) w o1 after opened_stage by (auto simp: filling_def tbind_def)
  next
    case (Inr x)
    then have c: "contents ?D1 i = c" using after assms(3) by (simp add: c_def)
    have ren: "renamed D0 t d i c (do_edit (Rename t d) (sync_file i ?D1))" using rename_stage [OF o1 assms(4,5)] c by simp
    note facts = assms(1) w Inr after o1 opened_stage opened_sync [OF o1] ren sync_directory_stage [OF ren]
    show ?thesis
    proof (cases "at_sync F")
      case None
      note sync = None
      show ?thesis
      proof (cases "at_rename F")
        case None
        then show ?thesis using facts sync by (auto simp: filling_def tbind_def tstep_def stage_def current_def)
      next
        case (Some e)
        then show ?thesis using facts sync by (auto simp: filling_def tbind_def tstep_def current_def)
      qed
    next
      case (Some e)
      then show ?thesis using facts by (auto simp: filling_def tbind_def tstep_def current_def)
    qed
  qed
qed

lemma publish_cases:
  assumes "publish F t d i chunks D0 = (r, ds)" "fresh D0 t i" "t \<noteq> d" "quiet D0"
  defines "c \<equiv> concat chunks"
  shows "(\<forall>E\<in>set ds. stage D0 t d i c E)
    \<and> (\<forall>e. r = Inl e \<longrightarrow> current D0 ds = D0 \<or> abandoned D0 t i (current D0 ds)
          \<or> opened D0 t i (current D0 ds) \<and> (cleanup_fails F \<or> at_mode F \<noteq> None))
    \<and> (\<forall>x. r = Inr x \<longrightarrow> (if directory_syncs F then published D0 d i c (current D0 ds) else renamed D0 t d i c (current D0 ds)))"
proof (cases "at_create F")
  case (Some e)
  then show ?thesis using assms(1,2) by (auto simp: publish_def create_new_def tbind_def tstep_def fresh_def)
next
  case None
  let ?D1 = "do_edit (Link t i) (D0\<lparr>contents := (contents D0)(i := []), safe := (safe D0)(i := False)\<rparr>)"
  have create: "create_new (at_create F) t i D0 = (Inr (), [?D1])"
    using None assms(2) by (simp add: create_new_def tstep_def fresh_def)
  have o1: "opened D0 t i ?D1" "contents ?D1 i = []"
    using assms(4) by (simp_all add: opened_def framed_def do_edit_def quiet_def)
  show ?thesis
  proof (cases "at_mode F")
    case (Some e)
    then show ?thesis using assms(1) create o1(1) by (auto simp: publish_def tbind_def tstep_def stage_def)
  next
    case None
    obtain r2 ds2 where f: "filling F t d i chunks ?D1 = (r2, ds2)" by force
    note fill = filling_stages [OF f o1 assms(2,3), folded c_def]
    have un: "abandoned D0 t i (do_edit (Unlink t) E)" if "opened D0 t i E" for E
      using that assms(2) by (auto simp: abandoned_def opened_def framed_def do_edit_def fresh_def)
    have eq: "publish F t d i chunks D0 = (case cleaning (cleanup_fails F) t (filling F t d i chunks) ?D1 of (r, es) \<Rightarrow> (r, [?D1, ?D1] @ es))"
      using create None by (simp add: publish_def filling_def tbind_def tstep_def split: prod.splits)
    show ?thesis
    proof (cases r2)
      case (Inl e)
      then show ?thesis using assms(1) eq f fill un [of "current ?D1 ds2"] o1(1)
        by (auto simp: cleaning_def current_def stage_def split: if_splits)
    next
      case (Inr x)
      then show ?thesis using assms(1) eq f fill o1(1) by (auto simp: cleaning_def current_def stage_def)
    qed
  qed
qed

section \<open>Crashes and failures\<close>

lemma unlinked_view: "framed D0 i D \<Longrightarrow> fresh D0 t i \<Longrightarrow> names D p = names D0 p \<Longrightarrow> view D p = view D0 p"
  by (cases "names D0 p") (auto simp: view_def framed_def fresh_def)

lemma renamed_view:
  assumes "framed D0 i D" "fresh D0 t i" "names D = (names D0)(d \<mapsto> i)" "contents D i = c"
  shows "view D = (view D0)(d \<mapsto> c)"
proof
  fix p
  show "view D p = ((view D0)(d \<mapsto> c)) p"
    using assms unlinked_view [OF assms(1,2), of p] by (simp add: view_def)
qed

lemma quiet_crash:
  assumes "quiet D" "after_crash D v"
  shows "v = view D"
proof
  fix p
  have "case names D p of None \<Rightarrow> v p = None | Some j \<Rightarrow> safe D j \<longrightarrow> v p = Some (contents D j)"
    using assms by (simp add: quiet_def after_crash_def)
  then show "v p = view D p" using assms(1) by (cases "names D p") (auto simp: view_def quiet_def)
qed

lemma published_quiet: "published D0 d i c D \<Longrightarrow> quiet D0 \<Longrightarrow> fresh D0 t i \<Longrightarrow> quiet D"
  by (auto simp: published_def quiet_def framed_def fresh_def split: if_splits)

text \<open>C7. A write is atomic across failures and loss of power. Whatever step fails and wherever the machine
  stops, what is read afterwards has the destination as it was or with the whole new document, never a
  part of it, and every other stored name as it was. A write that answers success shows exactly the
  new document, and after its directory was synced no crash takes it back; a write that answers an error has
  changed no name but the temporary one, and not that either when the mode could be set and the
  clean-up worked.\<close>

theorem write_survives_crashes:
  assumes "publish F temporary destination i chunks D0 = (r, ds)"
    "quiet D0" "fresh D0 temporary i" "temporary \<noteq> destination"
  shows "(\<forall>D\<in>set (D0 # ds). \<forall>v. after_crash D v \<longrightarrow> old_or_new D0 temporary destination (concat chunks) v)
    \<and> (r = Inr () \<longrightarrow> view (current D0 ds) = (view D0)(destination \<mapsto> concat chunks)
         \<and> (directory_syncs F \<longrightarrow> (\<forall>v. after_crash (current D0 ds) v \<longrightarrow> v = (view D0)(destination \<mapsto> concat chunks))))
    \<and> (\<forall>e. r = Inl e \<longrightarrow> (\<forall>p. p \<noteq> temporary \<longrightarrow> view (current D0 ds) p = view D0 p)
         \<and> (at_mode F = None \<and> \<not> cleanup_fails F \<longrightarrow> view (current D0 ds) = view D0))"
proof -
  let ?c = "concat chunks" and ?D = "current D0 ds"
  note cases = publish_cases [OF assms(1,3,4,2)]
  have "stage D0 temporary destination i ?c D" if "D \<in> set (D0 # ds)" for D
    using that cases by (auto simp: stage_def)
  then have crash: "\<forall>D\<in>set (D0 # ds). \<forall>v. after_crash D v \<longrightarrow> old_or_new D0 temporary destination ?c v"
    using stage_crash [OF _ assms(2,3,4)] by blast
  have new: "view ?D = (view D0)(destination \<mapsto> ?c)" if "r = Inr ()"
    using that cases renamed_view [OF _ assms(3), of ?D destination ?c] by (auto simp: renamed_def published_def split: if_splits)
  have durable: "v = (view D0)(destination \<mapsto> ?c)" if "r = Inr ()" "directory_syncs F" "after_crash ?D v" for v
    using that cases new quiet_crash published_quiet [OF _ assms(2,3)] by metis
  have old: "view ?D p = view D0 p" if "r = Inl e" "p \<noteq> temporary \<or> at_mode F = None \<and> \<not> cleanup_fails F" for e p
    using that cases unlinked_view [OF _ assms(3), of ?D p] by (auto simp: abandoned_def opened_def)
  from crash new durable old show ?thesis by (auto simp: fun_eq_iff)
qed

text \<open>The protocol refines the one-step write of the repository: on the same files a successful run of
  either leaves the same files.\<close>

lemma publish_refines_write_json:
  assumes "write_json R destination v fs = (Inr (), fs')" "\<forall>q. file_at fs q = view D0 q"
    and "publish F temporary destination i chunks D0 = (Inr (), ds)" "concat chunks = encode R v"
    and "quiet D0" "fresh D0 temporary i" "temporary \<noteq> destination"
  shows "\<forall>q. file_at fs' q = view (current D0 ds) q"
proof -
  note cases = publish_cases [OF assms(3,6,7,5)]
  have "view (current D0 ds) = (view D0)(destination \<mapsto> encode R v)"
    using cases assms(4) renamed_view [OF _ assms(6), of "current D0 ds" destination "encode R v"]
    by (auto simp: renamed_def published_def split: if_splits)
  then show ?thesis
    using assms(2) write_json_files(1,2) [OF assms(1)] by auto
qed

text \<open>A failure to set the mode returns before the clean-up is in place and leaves an empty temporary
  file.\<close>

lemma mode_failure_leaves_temporary:
  assumes "at_create F = None" "at_mode F = Some e" "fresh D0 temporary i"
  shows "\<exists>ds. publish F temporary destination i chunks D0 = (Inl e, ds) \<and> view (current D0 ds) temporary = Some []"
  using assms by (simp add: publish_def create_new_def tbind_def tstep_def fresh_def view_def do_edit_def)

section \<open>Example\<close>

definition sample_disk :: Disk where
  "sample_disk = \<lparr>contents = (\<lambda>_. ''old''), safe = (\<lambda>_. True), names = [[''p'', ''doc''] \<mapsto> 0],
     device = [[''p'', ''doc''] \<mapsto> 0], unsynced = []\<rparr>"

definition sample_faults :: Faults where
  "sample_faults = \<lparr>at_create = None, at_mode = None, at_chunk = (\<lambda>_. None), at_sync = None, at_rename = None,
     cleanup_fails = False, directory_syncs = True\<rparr>"

theorem write_survives_crashes_witness:
  "\<exists>ds. publish sample_faults [''p'', ''tmp''] [''p'', ''doc''] 1 [''ne'', ''w''] sample_disk = (Inr (), ds)
     \<and> view (current sample_disk ds) = (view sample_disk)([''p'', ''doc''] \<mapsto> ''new'')"
proof -
  have q: "quiet sample_disk" "fresh sample_disk [''p'', ''tmp''] 1"
    by (auto simp: quiet_def fresh_def sample_disk_def)
  have "fst (publish sample_faults [''p'', ''tmp''] [''p'', ''doc''] 1 [''ne'', ''w''] sample_disk) = Inr ()"
    by code_simp
  then obtain ds where p: "publish sample_faults [''p'', ''tmp''] [''p'', ''doc''] 1 [''ne'', ''w''] sample_disk = (Inr (), ds)"
    by (metis prod.collapse)
  from write_survives_crashes [OF p q] p show ?thesis by auto
qed

end
