(* ===== verification/Writers.thy ===== *)
theory Writers
  imports Account_Laws
begin

text \<open>
  The writer lock of the data directory: the polling loop of \<^verbatim>\<open>acquire_lock\<close> (\<^verbatim>\<open>src/storage/fs/mod.rs\<close> and,
  word for word, \<^verbatim>\<open>src/auth/store.rs\<close>) and what the lock gives the writers of both stores. The other
  theories run an operation as one step after asking the flag \<^const>\<open>lock_busy\<close>; here the flag is what
  the loop answers, the critical section is a sequence of steps that other writers' steps may come
  between, and the one-step reading is justified: whatever the interleaving, the outcome is that of
  running the operations one after the other.
\<close>

section \<open>The polling loop\<close>

definition LOCK_POLL_INTERVAL :: nat where
  "LOCK_POLL_INTERVAL = 10"

definition DEFAULT_LOCK_TIMEOUT :: nat where
  "DEFAULT_LOCK_TIMEOUT = 5000"

text \<open>What one call observes, in milliseconds: whether its \<open>i\<close>-th \<^verbatim>\<open>try_lock_exclusive\<close> succeeds and what
  \<^verbatim>\<open>Instant::now\<close> answers after it.\<close>

record Attempts =
  granted :: "nat \<Rightarrow> bool"
  instant :: "nat \<Rightarrow> nat"

definition lock_timed_out :: io_error where
  "lock_timed_out = io_err KWouldBlock ''lock acquisition timed out''"

partial_function (option) poll_lock :: "Attempts \<Rightarrow> nat \<Rightarrow> nat \<Rightarrow> nat io_result option" where
  "poll_lock W deadline i =
     (if granted W i then Some (Inr i)
      else if instant W i < deadline then poll_lock W deadline (Suc i)
      else Some (Inl lock_timed_out))"

definition acquire_from :: "Attempts \<Rightarrow> nat \<Rightarrow> nat \<Rightarrow> nat io_result option" where
  "acquire_from W started lock_timeout = poll_lock W (started + lock_timeout) 0"

text \<open>The clock never runs backwards and a sleep lasts at least as long as asked.\<close>

definition sleeps :: "Attempts \<Rightarrow> nat \<Rightarrow> bool" where
  "sleeps W started \<longleftrightarrow> started \<le> instant W 0 \<and> (\<forall>i. instant W i + LOCK_POLL_INTERVAL \<le> instant W (Suc i))"

lemma sleeps_lower: "sleeps W started \<Longrightarrow> started + i * LOCK_POLL_INTERVAL \<le> instant W i"
proof (induction i)
  case (Suc i)
  then have "instant W i + LOCK_POLL_INTERVAL \<le> instant W (Suc i)" by (simp add: sleeps_def)
  with Suc show ?case by simp
qed (simp add: sleeps_def)

definition stops :: "Attempts \<Rightarrow> nat \<Rightarrow> nat \<Rightarrow> bool" where
  "stops W deadline i \<longleftrightarrow> granted W i \<or> deadline \<le> instant W i"

lemma poll_lock_stops:
  assumes "stops W deadline i" "j \<le> i" "\<forall>k. j \<le> k \<and> k < i \<longrightarrow> \<not> stops W deadline k"
  shows "poll_lock W deadline j = Some (if granted W i then Inr i else Inl lock_timed_out)"
  using assms(2,3)
proof (induction rule: inc_induct)
  case base
  show ?case using assms(1) by (subst poll_lock.simps) (auto simp: stops_def)
next
  case (step n)
  then have "\<not> stops W deadline n" by simp
  then show ?case using step by (subst poll_lock.simps) (auto simp: stops_def)
qed

lemma acquire_from_stops:
  assumes "sleeps W started"
  obtains i where "i \<le> lock_timeout div LOCK_POLL_INTERVAL + 1" "stops W (started + lock_timeout) i"
    "\<forall>k < i. \<not> stops W (started + lock_timeout) k"
    "acquire_from W started lock_timeout = Some (if granted W i then Inr i else Inl lock_timed_out)"
proof -
  let ?deadline = "started + lock_timeout"
  let ?last = "lock_timeout div LOCK_POLL_INTERVAL + 1"
  have "lock_timeout \<le> ?last * LOCK_POLL_INTERVAL" by (simp add: LOCK_POLL_INTERVAL_def)
  with sleeps_lower [OF assms, of ?last] have last: "stops W ?deadline ?last"
    by (simp only: stops_def) linarith
  define i where "i = (LEAST k. stops W ?deadline k)"
  have i: "stops W ?deadline i" "i \<le> ?last" "\<forall>k < i. \<not> stops W ?deadline k"
    unfolding i_def using LeastI [of "stops W ?deadline", OF last] Least_le [of "stops W ?deadline", OF last] not_less_Least
    by blast+
  then have "acquire_from W started lock_timeout = Some (if granted W i then Inr i else Inl lock_timed_out)"
    unfolding acquire_from_def by (intro poll_lock_stops) auto
  with i that show ?thesis by blast
qed

text \<open>C18. Taking the writer lock always ends: under a clock that advances by each sleep, the loop makes
  at most one attempt per poll interval of the timeout and two more, returns the lock with the first
  attempt that is granted before the deadline has passed, and otherwise gives up with the lock
  timeout, having seen the deadline go by.\<close>

theorem acquire_lock_terminates:
  assumes "sleeps W started"
  shows "\<exists>i \<le> lock_timeout div LOCK_POLL_INTERVAL + 1.
    (\<forall>j < i. \<not> granted W j \<and> instant W j < started + lock_timeout)
    \<and> (granted W i \<and> acquire_from W started lock_timeout = Some (Inr i)
       \<or> \<not> granted W i \<and> started + lock_timeout \<le> instant W i
           \<and> acquire_from W started lock_timeout = Some (Inl lock_timed_out))"
  by (rule acquire_from_stops [OF assms, of lock_timeout]) (auto simp: stops_def not_le intro!: exI)

theorem acquire_lock_terminates_witness:
  "\<exists>i \<le> DEFAULT_LOCK_TIMEOUT div LOCK_POLL_INTERVAL + 1.
     acquire_from \<lparr>granted = (\<lambda>i. i = 3), instant = (\<lambda>i. 7 + 12 * i)\<rparr> 7 DEFAULT_LOCK_TIMEOUT = Some (Inr i)"
proof -
  let ?W = "\<lparr>granted = (\<lambda>i. i = 3), instant = (\<lambda>i. 7 + 12 * i)\<rparr>"
  have "sleeps ?W 7" by (simp add: sleeps_def LOCK_POLL_INTERVAL_def)
  from acquire_lock_terminates [OF this, of DEFAULT_LOCK_TIMEOUT] obtain i where
    "i \<le> DEFAULT_LOCK_TIMEOUT div LOCK_POLL_INTERVAL + 1" "\<forall>j < i. j \<noteq> 3"
    "i = 3 \<and> acquire_from ?W 7 DEFAULT_LOCK_TIMEOUT = Some (Inr i) \<or> i \<noteq> 3 \<and> 5007 \<le> 7 + 12 * i"
    by (auto simp: DEFAULT_LOCK_TIMEOUT_def)
  moreover have "i \<le> 3" if "\<forall>j < i. j \<noteq> 3" using that by (cases "3 < i") auto
  ultimately show ?thesis by auto
qed

text \<open>The flag of the repository record is the answer of the loop.\<close>

lemma acquire_lock_flag:
  assumes "sleeps W started"
    "lock_busy R \<longleftrightarrow> acquire_from W started lock_timeout = Some (Inl lock_timed_out)"
  shows "map_option (map_sum id (\<lambda>_. ())) (acquire_from W started lock_timeout) = Some (acquire_lock R)"
  by (rule acquire_from_stops [OF assms(1), of lock_timeout])
    (use assms(2) in \<open>auto simp: acquire_lock_def guard_def lock_timed_out_def split: if_splits\<close>)

section \<open>Critical sections step by step\<close>

text \<open>The body of a locked operation as the file-system steps it makes, each free to depend on what the
  earlier ones read.\<close>

datatype 'a body = Done 'a | Act "fs \<Rightarrow> 'a body \<times> fs"

primrec run_body :: "'a body \<Rightarrow> fs \<Rightarrow> 'a \<times> fs" where
  "run_body (Done r) = (\<lambda>fs. (r, fs))"
| "run_body (Act f) = (\<lambda>fs. case map_prod run_body id (f fs) of (g, fs') \<Rightarrow> g fs')"

lemma run_body_Act: "f fs = (k, fs') \<Longrightarrow> run_body (Act f) fs = run_body k fs'"
  by simp

definition atom :: "'a op \<Rightarrow> 'a io_result body" where
  "atom m = Act (\<lambda>fs. case m fs of (r, fs') \<Rightarrow> (Done r, fs'))"

definition read_then :: "(fs \<Rightarrow> 'x io_result) \<Rightarrow> ('x \<Rightarrow> 'a op) \<Rightarrow> 'a io_result body" where
  "read_then rd f = Act (\<lambda>fs. (case rd fs of Inl e \<Rightarrow> Done (Inl e) | Inr x \<Rightarrow> atom (f x), fs))"

lemma run_atom [simp]: "run_body (atom m) = m"
  by (rule ext) (simp add: atom_def split: prod.splits)

lemma run_read_then [simp]: "run_body (read_then rd f) = obind (oread rd) f"
  by (rule ext) (simp add: read_then_def obind_oread split: sum.splits)

section \<open>Concurrent writers\<close>

text \<open>A writer waits for the lock, holds it with the rest of its body to run, has been refused at the
  deadline, or has released the lock with its answer. A writer that holds the lock never asks who else
  does: only \<^verbatim>\<open>try_lock_exclusive\<close> does. The order in which the lock was taken is a ghost field.\<close>

datatype 'a status = Waiting | Holding "'a body" | TimedOut | Finished 'a

record 'a writers =
  tree :: fs
  holder :: "nat option"
  status :: "nat \<Rightarrow> 'a status"
  order :: "nat list"

definition start :: "fs \<Rightarrow> 'a writers" where
  "start fs = \<lparr>tree = fs, holder = None, status = (\<lambda>_. Waiting), order = []\<rparr>"

inductive writer_step :: "(nat \<Rightarrow> 'a body) \<Rightarrow> 'a writers \<Rightarrow> 'a writers \<Rightarrow> bool" for B where
  take: "status s p = Waiting \<Longrightarrow> holder s = None \<Longrightarrow>
    writer_step B s (s\<lparr>holder := Some p, status := (status s)(p := Holding (B p)), order := order s @ [p]\<rparr>)"
| give_up: "status s p = Waiting \<Longrightarrow> holder s = Some q \<Longrightarrow>
    writer_step B s (s\<lparr>status := (status s)(p := TimedOut)\<rparr>)"
| act: "status s p = Holding (Act f) \<Longrightarrow> f (tree s) = (k, fs') \<Longrightarrow>
    writer_step B s (s\<lparr>tree := fs', status := (status s)(p := Holding k)\<rparr>)"
| release: "status s p = Holding (Done r) \<Longrightarrow>
    writer_step B s (s\<lparr>holder := None, status := (status s)(p := Finished r)\<rparr>)"

inductive_cases writer_stepE: "writer_step B s s'"

text \<open>The reference: the operations one after the other.\<close>

definition serial :: "(nat \<Rightarrow> 'a body) \<Rightarrow> nat list \<Rightarrow> fs \<Rightarrow> fs" where
  "serial B ps fs = fold (\<lambda>p fs. snd (run_body (B p) fs)) ps fs"

lemma serial_simps [simp]: "serial B [] fs = fs" "serial B (ps @ [p]) fs = snd (run_body (B p) (serial B ps fs))"
  by (simp_all add: serial_def)

definition answered :: "(nat \<Rightarrow> 'a body) \<Rightarrow> fs \<Rightarrow> nat list \<Rightarrow> nat \<Rightarrow> 'a \<Rightarrow> bool" where
  "answered B fs ps p r \<longleftrightarrow> (\<exists>before after. ps = before @ p # after \<and> r = fst (run_body (B p) (serial B before fs)))"

lemma answered_append: "answered B fs ps p r \<Longrightarrow> answered B fs (ps @ qs) p r"
  by (fastforce simp: answered_def)

definition serial_inv :: "(nat \<Rightarrow> 'a body) \<Rightarrow> fs \<Rightarrow> 'a writers \<Rightarrow> bool" where
  "serial_inv B fs s \<longleftrightarrow>
     (\<forall>p k. status s p = Holding k \<longrightarrow> holder s = Some p)
     \<and> (\<forall>p. p \<in> set (order s) \<longleftrightarrow> status s p \<noteq> Waiting \<and> status s p \<noteq> TimedOut) \<and> distinct (order s)
     \<and> (\<forall>p r. status s p = Finished r \<longrightarrow> answered B fs (order s) p r)
     \<and> (case holder s of
          None \<Rightarrow> tree s = serial B (order s) fs
        | Some p \<Rightarrow> \<exists>k. status s p = Holding k \<and> order s \<noteq> [] \<and> last (order s) = p
            \<and> run_body k (tree s) = run_body (B p) (serial B (butlast (order s)) fs))"

lemma serial_inv_start: "serial_inv B fs (start fs)"
  by (simp add: serial_inv_def start_def)

lemma serial_inv_step: "writer_step B s s' \<Longrightarrow> serial_inv B fs s \<Longrightarrow> serial_inv B fs s'"
proof (induction rule: writer_step.induct)
  case (take s p)
  then have "p \<notin> set (order s)" by (auto simp: serial_inv_def)
  with take show ?case by (auto simp: serial_inv_def answered_append)
next
  case (give_up s p q)
  then show ?case by (auto simp: serial_inv_def)
next
  case (act s p f k fs')
  then have "holder s = Some p" by (auto simp: serial_inv_def)
  with act show ?case by (auto simp: serial_inv_def)
next
  case (release s p r)
  then have h: "holder s = Some p" by (auto simp: serial_inv_def)
  with release have o: "order s = butlast (order s) @ [p]"
    and run: "run_body (B p) (serial B (butlast (order s)) fs) = (r, tree s)"
    by (auto simp: serial_inv_def)
  then have "tree s = serial B (order s) fs" "answered B fs (order s) p r"
    by (metis serial_simps(2) snd_conv, metis answered_def fst_conv)
  with release h show ?case by (auto simp: serial_inv_def)
qed

interpretation serial: machine "writer_step B" "start fs" "serial_inv B fs" for B fs
  by unfold_locales (rule serial_inv_start, rule serial_inv_step)

lemma locked_free: "\<not> lock_busy R \<Longrightarrow> locked R m = m"
  by (rule ext) (simp add: locked_def acquire_lock_def obind_olift)


section \<open>Account writers\<close>

text \<open>Reading the accounts and writing them back are two steps of an account writer, so that the
  guarantee of the account store survives concurrent processes.\<close>

definition account_body :: "AuthStore \<Rightarrow> auth_event \<Rightarrow> 'a body \<Rightarrow> bool" where
  "account_body A ev b \<longleftrightarrow> (\<forall>fs. snd (run_body b fs) = exec_auth A ev fs)"

lemma account_bodies:
  assumes "\<not> lock_busy (as_repo A)"
  shows "\<exists>f :: User list \<Rightarrow> bool op. account_body A (Revoke i t) (read_then (read_users_unlocked A) f)"
    "\<exists>f :: User list \<Rightarrow> unit op. account_body A (InsertToken i tok) (read_then (read_users_unlocked A) f)"
    "\<exists>f :: User list \<Rightarrow> unit op. account_body A (InsertUser u) (read_then (read_users_unlocked A) f)"
  unfolding account_body_def exec_auth.simps insert_user_def insert_refresh_token_def revoke_refresh_token_def
    locked_free [OF assms] run_read_then
  by - (rule exI, rule allI, rule refl)+

lemma serial_accounts:
  assumes "\<And>p. account_body A (ev p) (B p)"
  shows "serial B ps fs = fold (exec_auth A) (map ev ps) fs"
  using assms by (induction ps arbitrary: fs) (simp_all add: serial_def account_body_def)

lemma exec_auth_ok:
  "codec_ok (as_repo A) \<Longrightarrow> accounts_ok (stored_users A fs) \<Longrightarrow> accounts_ok (stored_users A (exec_auth A ev fs))"
  using exec_auth_cases [of A ev fs] spec_auth_ok by auto

lemma concurrent_accounts_stay_distinct:
  assumes "(writer_step B)\<^sup>*\<^sup>* (start fs) s" "holder s = None" "\<And>p. account_body A (ev p) (B p)"
    "codec_ok (as_repo A)" "accounts_ok (stored_users A fs)"
  shows "accounts_ok (stored_users A (tree s))"
proof -
  from serial.reachable_inv [OF assms(1)] have "tree s = fold (exec_auth A) (map ev (order s)) fs"
    using assms(2) serial_accounts [OF assms(3)] by (simp add: serial_inv_def)
  moreover have "accounts_ok (stored_users A (fold (exec_auth A) es fs))" for es
    using assms(5) by (induction es arbitrary: fs) (auto intro: exec_auth_ok [OF assms(4)])
  ultimately show ?thesis by simp
qed

section \<open>Example\<close>

text \<open>A scheduler: the writer whose turn it is makes the one step it can, and a waiting writer that finds
  the lock taken gives up.\<close>

definition turn :: "(nat \<Rightarrow> 'a body) \<Rightarrow> nat \<Rightarrow> 'a writers \<Rightarrow> 'a writers" where
  "turn B p s = (case status s p of
       Waiting \<Rightarrow>
         if holder s = None
         then s\<lparr>holder := Some p, status := (status s)(p := Holding (B p)), order := order s @ [p]\<rparr>
         else s\<lparr>status := (status s)(p := TimedOut)\<rparr>
     | Holding (Act f) \<Rightarrow> (case f (tree s) of (k, fs') \<Rightarrow> s\<lparr>tree := fs', status := (status s)(p := Holding k)\<rparr>)
     | Holding (Done r) \<Rightarrow> s\<lparr>holder := None, status := (status s)(p := Finished r)\<rparr>
     | _ \<Rightarrow> s)"

lemma turn_reaches: "(writer_step B)\<^sup>*\<^sup>* s (turn B p s)"
  by (auto simp: turn_def split: status.split body.split prod.split intro!: r_into_rtranclp writer_step.intros)

lemma schedule_reaches: "(writer_step B)\<^sup>*\<^sup>* s (fold (turn B) ps s)"
  by (induction ps arbitrary: s) (auto intro: rtranclp_trans turn_reaches)

definition sample_bodies :: "nat \<Rightarrow> nat io_result body" where
  "sample_bodies p = read_then (\<lambda>fs. Inr (length fs)) (\<lambda>n fs. (Inr n, (replicate p ''f'', File []) # fs))"

definition sample_repository :: FileRepository where
  "sample_repository = \<lparr>root = [''data''], lock_busy = False, encode = (\<lambda>_. []), decode = (\<lambda>_. Inl []), compute_etag = id\<rparr>"

definition sample_schedule :: "nat io_result writers" where
  "sample_schedule = fold (turn sample_bodies) [1, 1, 3, 1, 1, 2, 2, 2, 2] (start [])"

lemma sample_schedule_end:
  "holder sample_schedule = None" "order sample_schedule = [1, 2]" "status sample_schedule 3 = TimedOut"
  "tree sample_schedule = [([''f'', ''f''], File []), ([''f''], File [])]"
  "status sample_schedule 2 = Finished (Inr 1)"
  by (simp_all add: sample_schedule_def turn_def start_def sample_bodies_def read_then_def atom_def numeral_2_eq_2)


end
