(* ===== verification/Provision.thy ===== *)
theory Provision
  imports Session
begin

text \<open>
  The accounts a deployment starts with (\<^verbatim>\<open>src/auth/bootstrap.rs\<close>) and the demo accounts the seed
  dataset needs (\<^verbatim>\<open>src/auth/seed.rs\<close>), both written through the account store. Draws, salts and the
  clock are arguments; the texts of the reports render a name with \<open>debug_str\<close>, the \<^verbatim>\<open>{:?}\<close> of a string
  without characters the formatter escapes by code point.
\<close>

section \<open>Steps that fail with an error of their own\<close>

type_synonym ('e, 'a) step = "fs \<Rightarrow> ('e + 'a) \<times> fs"

definition ebind :: "('e, 'a) step \<Rightarrow> ('a \<Rightarrow> ('e, 'b) step) \<Rightarrow> ('e, 'b) step" where
  "ebind m f fs = (case m fs of (Inl e, fs') \<Rightarrow> (Inl e, fs') | (Inr x, fs') \<Rightarrow> f x fs')"

definition elift :: "'e + 'a \<Rightarrow> ('e, 'a) step" where
  "elift r fs = (r, fs)"

definition eio :: "(io_error \<Rightarrow> 'e) \<Rightarrow> 'a op \<Rightarrow> ('e, 'a) step" where
  "eio err m fs = (case m fs of (r, fs') \<Rightarrow> (map_err err r, fs'))"

definition debug_str :: "string \<Rightarrow> string" where
  "debug_str s = [CHR 0x22] @ concat (map (\<lambda>c.
     if c = CHR 0x22 \<or> c = CHR 0x5C then [CHR 0x5C, c]
     else if c = CHR 0x0A then [CHR 0x5C, CHR ''n'']
     else if c = CHR 0x0D then [CHR 0x5C, CHR ''r'']
     else if c = CHR 0x09 then [CHR 0x5C, CHR ''t'']
     else [c]) s) @ [CHR 0x22]"

section \<open>The first account\<close>

datatype BootstrapError = BootstrapHash | BootstrapStorage io_error | MissingCredentials

fun bootstrap_display :: "BootstrapError \<Rightarrow> string" where
  "bootstrap_display BootstrapHash = ''cannot hash the bootstrap password: credential could not be hashed''"
| "bootstrap_display (BootstrapStorage e) = ''cannot prepare the bootstrap account: '' @ io_message e"
| "bootstrap_display MissingCredentials = ''TATU_AUTH_REQUIRED is set and no accounts exist, so TATU_BOOTSTRAP_USERNAME and TATU_BOOTSTRAP_PASSWORD must be too''"

definition ensure_bootstrap_user ::
  "AuthEnv \<Rightarrow> string \<Rightarrow> string \<Rightarrow> 64 word \<Rightarrow> (BootstrapError, string option) step" where
  "ensure_bootstrap_user E fresh_id salt now =
     ebind (eio BootstrapStorage (oread (users (ae_store E)))) (\<lambda>us.
     if us \<noteq> [] then elift (Inr None)
     else case (ac_bootstrap_username (ae_config E), ac_bootstrap_password (ae_config E)) of
       (Some username, Some password) \<Rightarrow>
         ebind (elift (ok_or BootstrapHash (hash_password (ae_argon E) salt password))) (\<lambda>hash.
         ebind (eio BootstrapStorage (insert_user (ae_store E)
             \<lparr>u_id = fresh_id, u_username = username, u_password_hash = hash, u_system_admin = True,
              u_created_at = now, u_refresh_tokens = []\<rparr>)) (\<lambda>_.
           elift (Inr (Some username))))
     | _ \<Rightarrow> if ac_required (ae_config E) then elift (Inl MissingCredentials) else elift (Inr None))"

section \<open>Seeding\<close>

datatype SeedError = SeedStorage io_error | SeedHash | UnknownRole string

record AccountSpec =
  sp_username :: string
  sp_password :: string
  sp_system_admin :: bool
  sp_grants :: "(string \<times> string) list"

record SeededAccount =
  sd_id :: string
  sd_username :: string
  sd_created :: bool
  sd_grants_added :: "(string \<times> string) list"

definition parse_role :: "string \<Rightarrow> SeedError + Role" where
  "parse_role name = ok_or (UnknownRole name) (role_of_str (map to_ascii_lowercase (trim name)))"

text \<open>The loop over the requested grants.\<close>

fun seed_grants :: "AuthStore \<Rightarrow> string \<Rightarrow> (string \<times> string) list \<Rightarrow> (SeedError, (string \<times> string) list) step" where
  "seed_grants A i [] = elift (Inr [])"
| "seed_grants A i ((project_id, name) # gs) =
     ebind (elift (parse_role name)) (\<lambda>role.
     ebind (eio SeedStorage (oread (role_of A project_id i))) (\<lambda>held.
       if held \<noteq> Some role
       then ebind (eio SeedStorage (set_role A project_id i role)) (\<lambda>_.
            ebind (seed_grants A i gs) (\<lambda>rest.
              elift (Inr ((project_id, map to_ascii_lowercase (trim name)) # rest))))
       else seed_grants A i gs))"

definition seed_account ::
  "AuthEnv \<Rightarrow> string \<Rightarrow> string \<Rightarrow> 64 word \<Rightarrow> AccountSpec \<Rightarrow> (SeedError, SeededAccount) step" where
  "seed_account E fresh_id salt now spec =
     ebind (eio SeedStorage (oread (user_by_username (ae_store E) (sp_username spec)))) (\<lambda>found.
     ebind (case found of
              Some existing \<Rightarrow> elift (Inr (u_id existing, u_username existing, False))
            | None \<Rightarrow>
                ebind (elift (ok_or SeedHash (hash_password (ae_argon E) salt (sp_password spec)))) (\<lambda>hash.
                ebind (eio SeedStorage (insert_user (ae_store E)
                    \<lparr>u_id = fresh_id, u_username = sp_username spec, u_password_hash = hash,
                     u_system_admin = sp_system_admin spec, u_created_at = now, u_refresh_tokens = []\<rparr>)) (\<lambda>_.
                  elift (Inr (fresh_id, sp_username spec, True))))) (\<lambda>(i, username, created).
     ebind (seed_grants (ae_store E) i (sp_grants spec)) (\<lambda>added.
       elift (Inr \<lparr>sd_id = i, sd_username = username, sd_created = created, sd_grants_added = added\<rparr>))))"

section \<open>Teardown\<close>

record UnseedSpec =
  un_username :: string
  un_grants :: "string list"
  un_remove_account :: bool

record UnseededAccount =
  ud_username :: string
  ud_id :: "string option"
  ud_account_removed :: bool
  ud_account_kept :: "string option"
  ud_grants_removed :: "(string \<times> string) list"
  ud_grants_kept :: "(string \<times> string) list"
  ud_grants_absent :: "string list"

definition NO_SUCH_ACCOUNT :: string where
  "NO_SUCH_ACCOUNT = ''no account named''"

definition is_missing_account_reason :: "string \<Rightarrow> bool" where
  "is_missing_account_reason reason \<longleftrightarrow> prefix NO_SUCH_ACCOUNT reason"

fun unseed_grants :: "AuthStore \<Rightarrow> string \<Rightarrow> string list \<Rightarrow> (SeedError, (string \<times> string) list \<times> string list) step" where
  "unseed_grants A i [] = elift (Inr ([], []))"
| "unseed_grants A i (project_id # ps) =
     ebind (eio SeedStorage (oread (role_of A project_id i))) (\<lambda>held. case held of
       Some role \<Rightarrow>
         ebind (eio SeedStorage (remove_role A project_id i)) (\<lambda>_.
         ebind (unseed_grants A i ps) (\<lambda>(removed, absent).
           elift (Inr ((project_id, role_name role) # removed, absent))))
     | None \<Rightarrow>
         ebind (unseed_grants A i ps) (\<lambda>(removed, absent). elift (Inr (removed, project_id # absent))))"

definition kept_reason :: "bool \<Rightarrow> Role \<Rightarrow> string" where
  "kept_reason removed role =
     (if removed then ''the account was removed, so nothing answers for this '' @ role_name role @ '' grant any more''
      else ''the account still holds this '' @ role_name role @ '' grant and this call did not name it'')"

fun kept_grants :: "AuthStore \<Rightarrow> string \<Rightarrow> bool \<Rightarrow> string list \<Rightarrow> (SeedError, (string \<times> string) list) step" where
  "kept_grants A i removed [] = elift (Inr [])"
| "kept_grants A i removed (project_id # ps) =
     ebind (eio SeedStorage (oread (role_of A project_id i))) (\<lambda>held.
     ebind (kept_grants A i removed ps) (\<lambda>rest.
       elift (Inr (case held of
         None \<Rightarrow> rest
       | Some role \<Rightarrow> (project_id, kept_reason removed role) # rest))))"

definition unseed_account :: "AuthStore \<Rightarrow> UnseedSpec \<Rightarrow> (SeedError, UnseededAccount) step" where
  "unseed_account A spec =
     ebind (eio SeedStorage (oread (user_by_username A (un_username spec)))) (\<lambda>found. case found of
       None \<Rightarrow> elift (Inr \<lparr>ud_username = un_username spec, ud_id = None, ud_account_removed = False,
           ud_account_kept = Some (NO_SUCH_ACCOUNT @ '' '' @ debug_str (un_username spec) @ '' exists, so nothing was removed''),
           ud_grants_removed = [], ud_grants_kept = [], ud_grants_absent = []\<rparr>)
     | Some account \<Rightarrow>
         if u_system_admin account \<and> un_remove_account spec
         then elift (Inl (SeedStorage (io_err KInvalidInput (''account '' @ debug_str (u_username account)
             @ '' administers the server; teardown removes only the seed's own accounts and leaves the bootstrap account alone''))))
         else
           ebind (unseed_grants A (u_id account) (un_grants spec)) (\<lambda>(removed, absent).
           ebind (if un_remove_account spec then eio SeedStorage (remove_user A (u_id account)) else elift (Inr False)) (\<lambda>gone.
           ebind (eio SeedStorage (oread (projects_for_user A (u_id account)))) (\<lambda>projects.
           ebind (kept_grants A (u_id account) gone projects) (\<lambda>kept.
             elift (Inr \<lparr>ud_username = u_username account, ud_id = Some (u_id account), ud_account_removed = gone,
               ud_account_kept =
                 (if un_remove_account spec
                  then if gone then None else Some ''the account vanished while it was being removed''
                  else Some ''--keep-account was requested''),
               ud_grants_removed = removed, ud_grants_kept = kept, ud_grants_absent = absent\<rparr>))))))"

section \<open>Reporting\<close>

record AccountReport =
  rp_username :: string
  rp_present :: bool
  rp_system_admin :: bool
  rp_grants_present :: "(string \<times> string) list"
  rp_grants_absent :: "string list"
  rp_orphans :: "(string \<times> string \<times> string) list"

fun held_grants :: "AuthStore \<Rightarrow> string \<Rightarrow> string list \<Rightarrow> (SeedError, (string \<times> string) list \<times> string list) step" where
  "held_grants A i [] = elift (Inr ([], []))"
| "held_grants A i (project_id # ps) =
     ebind (eio SeedStorage (oread (role_of A project_id i))) (\<lambda>held.
     ebind (held_grants A i ps) (\<lambda>(here, absent).
       elift (Inr (case held of
         Some role \<Rightarrow> ((project_id, role_name role) # here, absent)
       | None \<Rightarrow> (here, project_id # absent)))))"

definition report_account :: "AuthStore \<Rightarrow> string \<Rightarrow> string list \<Rightarrow> (SeedError, AccountReport) step" where
  "report_account A username projects =
     ebind (eio SeedStorage (orphan_grants A)) (\<lambda>rows.
     let orphans = map (\<lambda>(p, i, r). (p, i, role_name r)) rows in
     ebind (eio SeedStorage (oread (user_by_username A username))) (\<lambda>found. case found of
       None \<Rightarrow> elift (Inr \<lparr>rp_username = username, rp_present = False, rp_system_admin = False,
           rp_grants_present = [], rp_grants_absent = projects, rp_orphans = orphans\<rparr>)
     | Some account \<Rightarrow>
         ebind (held_grants A (u_id account) projects) (\<lambda>(here, absent).
           elift (Inr \<lparr>rp_username = u_username account, rp_present = True,
             rp_system_admin = u_system_admin account, rp_grants_present = here,
             rp_grants_absent = absent, rp_orphans = orphans\<rparr>))))"

end
