(* ===== verification/Settings.thy ===== *)
theory Settings
  imports Provision
begin

text \<open>
  The configuration file and its encrypted secrets (\<^verbatim>\<open>src/config/mod.rs\<close>, \<^verbatim>\<open>src/config/secret.rs\<close>) and the
  settings of authentication (\<^verbatim>\<open>src/auth/config.rs\<close>). All of it is a function of an environment
  lookup, a file reader and the parameters below: \<^verbatim>\<open>serde_json\<close>, AES-256-GCM and base64, none of which
  is source of the repository.

  \<open>Reader\<close> gives what \<^verbatim>\<open>serde_json::from_str\<close> makes of a text (an error text or a value), whether a
  struct of the schema repeats a field in it, which only the typed parse refuses, and the line and
  column the typed parse stops at. The typed parse itself is the derived decoder below.
\<close>

record Reader =
  json_of :: "string \<Rightarrow> string + json"
  repeats_field :: "string \<Rightarrow> bool"
  stops_at :: "string \<Rightarrow> nat \<times> nat"

record Aead =
  seal :: "string \<Rightarrow> string \<Rightarrow> string \<Rightarrow> string option"
  unseal :: "string \<Rightarrow> string \<Rightarrow> string \<Rightarrow> string option"
  url_encode :: "string \<Rightarrow> string"
  url_decode :: "string \<Rightarrow> string option"
  std_decode :: "string \<Rightarrow> string option"
  is_utf8 :: "string \<Rightarrow> bool"

section \<open>Encrypted values\<close>

definition ENVELOPE_VERSION :: "32 word" where
  "ENVELOPE_VERSION = 1"

definition ENVELOPE_ALGORITHM :: string where
  "ENVELOPE_ALGORITHM = ''aes-256-gcm''"

definition KEY_LENGTH :: nat where
  "KEY_LENGTH = 32"

definition NONCE_LENGTH :: nat where
  "NONCE_LENGTH = 12"

definition CONFIG_KEY_FILE_ENV :: string where
  "CONFIG_KEY_FILE_ENV = ''TATU_CONFIG_KEY_FILE''"

datatype SecretError = UnsupportedEnvelope "32 word" | UnsupportedAlgorithm string | UnknownKeyId string
  | DecryptionFailed | MalformedEnvelope | UnreadableKeyFile | MalformedKeyFile | InvalidKeyLength

fun secret_display :: "SecretError \<Rightarrow> string" where
  "secret_display (UnsupportedEnvelope found) = ''an encrypted value declares envelope version '' @ show_nat (unat found)
     @ ''; this build implements version '' @ show_nat (unat ENVELOPE_VERSION)"
| "secret_display (UnsupportedAlgorithm found) = ''an encrypted value declares algorithm '' @ debug_str found
     @ ''; this build implements '' @ debug_str ENVELOPE_ALGORITHM"
| "secret_display (UnknownKeyId found) = ''an encrypted value names key '' @ debug_str found @ '', which is not in the key ring''"
| "secret_display DecryptionFailed = ''an encrypted configuration value could not be decrypted: the ciphertext is corrupted or the key is wrong''"
| "secret_display MalformedEnvelope = ''an encrypted value in the configuration file is not a valid envelope''"
| "secret_display UnreadableKeyFile = CONFIG_KEY_FILE_ENV @ '' names a key file that cannot be read''"
| "secret_display MalformedKeyFile = ''the key file named by '' @ CONFIG_KEY_FILE_ENV @ '' is not a valid document''"
| "secret_display InvalidKeyLength = ''a key in the key file is not '' @ show_nat KEY_LENGTH
     @ '' bytes; AES-256-GCM requires exactly '' @ show_nat KEY_LENGTH @ '' bytes''"

record EncryptedEnvelope =
  ee_version :: "32 word"
  ee_key_id :: string
  ee_algorithm :: string
  ee_nonce :: string
  ee_ciphertext :: string

definition dec_u32 :: "json \<Rightarrow> 32 word option" where
  "dec_u32 v = Option.bind (as_u64 v) (\<lambda>n. if unat n < 2 ^ 32 then Some (ucast n) else None)"

definition EncryptedEnvelope_from_value :: "json \<Rightarrow> EncryptedEnvelope option" where
  "EncryptedEnvelope_from_value v = do {
     look \<leftarrow> struct_view False [''version'', ''key_id'', ''algorithm'', ''nonce'', ''ciphertext''] v;
     x0 \<leftarrow> req dec_u32 (look ''version'');
     x1 \<leftarrow> req dec_str (look ''key_id'');
     x2 \<leftarrow> req dec_str (look ''algorithm'');
     x3 \<leftarrow> req dec_str (look ''nonce'');
     x4 \<leftarrow> req dec_str (look ''ciphertext'');
     Some \<lparr>ee_version = x0, ee_key_id = x1, ee_algorithm = x2, ee_nonce = x3, ee_ciphertext = x4\<rparr>}"

definition validate_envelope :: "EncryptedEnvelope \<Rightarrow> SecretError + unit" where
  "validate_envelope e =
     (if ee_version e \<noteq> ENVELOPE_VERSION then Inl (UnsupportedEnvelope (ee_version e))
      else if ee_algorithm e \<noteq> ENVELOPE_ALGORITHM then Inl (UnsupportedAlgorithm (ee_algorithm e))
      else Inr ())"

text \<open>A key is a byte string of \<open>KEY_LENGTH\<close>, the type the source gives it.\<close>

definition decrypt :: "Aead \<Rightarrow> string \<Rightarrow> EncryptedEnvelope \<Rightarrow> SecretError + string" where
  "decrypt C key e =
     rbind (ok_or DecryptionFailed (url_decode C (ee_nonce e))) (\<lambda>nonce.
     rbind (guard (length nonce = NONCE_LENGTH) DecryptionFailed) (\<lambda>_.
     rbind (ok_or DecryptionFailed (url_decode C (ee_ciphertext e))) (\<lambda>ciphertext.
       ok_or DecryptionFailed (unseal C key nonce ciphertext))))"

text \<open>\<^verbatim>\<open>encrypt_value\<close> with the nonce drawn as an argument, missing when the draw fails.\<close>

definition encrypt_value :: "Aead \<Rightarrow> string option \<Rightarrow> string \<Rightarrow> string \<Rightarrow> string \<Rightarrow> SecretError + EncryptedEnvelope" where
  "encrypt_value C drawn plaintext key key_id =
     rbind (ok_or DecryptionFailed drawn) (\<lambda>nonce.
     rbind (ok_or DecryptionFailed (seal C key nonce plaintext)) (\<lambda>ciphertext.
       Inr \<lparr>ee_version = ENVELOPE_VERSION, ee_key_id = key_id, ee_algorithm = ENVELOPE_ALGORITHM,
         ee_nonce = url_encode C nonce, ee_ciphertext = url_encode C ciphertext\<rparr>))"

datatype SecretValue = Plain string | Encrypted EncryptedEnvelope

definition SecretValue_from_value :: "json \<Rightarrow> SecretValue option" where
  "SecretValue_from_value v = (case v of
       Str s \<Rightarrow> Some (Plain s)
     | _ \<Rightarrow> map_option Encrypted (EncryptedEnvelope_from_value v))"

definition is_encrypted :: "SecretValue \<Rightarrow> bool" where
  "is_encrypted v = (case v of Encrypted _ \<Rightarrow> True | Plain _ \<Rightarrow> False)"

type_synonym KeyRing = "(string \<times> string) list"

definition ring_get :: "KeyRing \<Rightarrow> string \<Rightarrow> string option" where
  "ring_get ring i = map_option snd (find (\<lambda>(kid, _). kid = i) ring)"

definition resolve_secret :: "Aead \<Rightarrow> KeyRing option \<Rightarrow> SecretValue \<Rightarrow> SecretError + string" where
  "resolve_secret C keys value = (case value of
       Plain s \<Rightarrow> Inr s
     | Encrypted e \<Rightarrow>
         rbind (validate_envelope e) (\<lambda>_.
         rbind (ok_or (UnknownKeyId (ee_key_id e)) keys) (\<lambda>ring.
         rbind (ok_or (UnknownKeyId (ee_key_id e)) (ring_get ring (ee_key_id e))) (\<lambda>key.
         rbind (decrypt C key e) (\<lambda>plaintext.
           if is_utf8 C plaintext then Inr plaintext else Inl DecryptionFailed)))))"

section \<open>The key file\<close>

definition KeyFileEntry_from_value :: "json \<Rightarrow> (string \<times> string) option" where
  "KeyFileEntry_from_value v = do {
     look \<leftarrow> struct_view False [''id'', ''key''] v;
     i \<leftarrow> req dec_str (look ''id'');
     k \<leftarrow> req dec_str (look ''key'');
     Some (i, k)}"

definition KeyFileDocument_from_value :: "json \<Rightarrow> (string \<times> string) list option" where
  "KeyFileDocument_from_value v = do {
     look \<leftarrow> struct_view False [''keys''] v;
     req (dec_vec KeyFileEntry_from_value) (look ''keys'')}"

definition decode_key :: "Aead \<Rightarrow> string \<times> string \<Rightarrow> SecretError + (string \<times> string)" where
  "decode_key C entry = (case entry of (i, k) \<Rightarrow>
     rbind (ok_or MalformedKeyFile (case url_decode C k of Some raw \<Rightarrow> Some raw | None \<Rightarrow> std_decode C k)) (\<lambda>raw.
       if length raw \<noteq> KEY_LENGTH then Inl InvalidKeyLength else Inr (i, raw)))"

definition parse_key_ring :: "Reader \<Rightarrow> Aead \<Rightarrow> string \<Rightarrow> SecretError + KeyRing" where
  "parse_key_ring J C text =
     rbind (ok_or MalformedKeyFile (if repeats_field J text then None
              else Option.bind (ok_opt (json_of J text)) KeyFileDocument_from_value)) (\<lambda>rows.
       rmap (decode_key C) rows)"

definition load_key_ring_from_lookup ::
  "Reader \<Rightarrow> Aead \<Rightarrow> (string \<Rightarrow> string io_result) \<Rightarrow> (string \<Rightarrow> string option) \<Rightarrow> SecretError + KeyRing option" where
  "load_key_ring_from_lookup J C read_file env = (case env CONFIG_KEY_FILE_ENV of
       None \<Rightarrow> Inr None
     | Some path \<Rightarrow>
         rbind (map_err (\<lambda>_. UnreadableKeyFile) (read_file path)) (\<lambda>text.
         rbind (parse_key_ring J C text) (\<lambda>ring. Inr (Some ring))))"

section \<open>The configuration file\<close>

definition CONFIG_FILE_ENV :: string where
  "CONFIG_FILE_ENV = ''TATU_CONFIG_FILE''"

definition CONFIG_VERSION :: "32 word" where
  "CONFIG_VERSION = 1"

definition MAX_DETAIL_BYTES :: nat where
  "MAX_DETAIL_BYTES = 200"

datatype FileConfigError = UnreadableFile io_error | Malformed_config string | UnsupportedVersion "32 word"
  | ConfigDecryption SecretError | ConfigKeyRing SecretError

fun config_display :: "FileConfigError \<Rightarrow> string" where
  "config_display (UnreadableFile e) = CONFIG_FILE_ENV @ '' names a configuration file that cannot be read: '' @ io_message e"
| "config_display (Malformed_config detail) = ''the configuration file named by '' @ CONFIG_FILE_ENV @ '' is not valid: '' @ detail"
| "config_display (UnsupportedVersion found) = ''the configuration file named by '' @ CONFIG_FILE_ENV @ '' declares version ''
     @ show_nat (unat found) @ ''; this build implements version '' @ show_nat (unat CONFIG_VERSION)"
| "config_display (ConfigDecryption e) = ''the configuration file contains an encrypted value that cannot be decrypted: '' @ secret_display e"
| "config_display (ConfigKeyRing e) = ''the key ring cannot be loaded: '' @ secret_display e"

record ConfigFile =
  cf_version :: "32 word"
  cf_auth_required :: "bool option"
  cf_jwt_secret :: "SecretValue option"
  cf_jwt_secret_file :: "string option"
  cf_access_token_ttl :: "string option"
  cf_refresh_token_ttl :: "string option"
  cf_bootstrap_username :: "string option"
  cf_bootstrap_password :: "SecretValue option"

definition KNOWN_KEYS :: "string list" where
  "KNOWN_KEYS = [''version'', ''auth_required'', ''jwt_secret'', ''jwt_secret_file'', ''access_token_ttl'',
     ''refresh_token_ttl'', ''bootstrap_username'', ''bootstrap_password'']"

definition ConfigFile_from_value :: "json \<Rightarrow> ConfigFile option" where
  "ConfigFile_from_value v = do {
     look \<leftarrow> struct_view True KNOWN_KEYS v;
     x0 \<leftarrow> req dec_u32 (look ''version'');
     x1 \<leftarrow> opt dec_bool (look ''auth_required'');
     x2 \<leftarrow> opt SecretValue_from_value (look ''jwt_secret'');
     x3 \<leftarrow> opt dec_str (look ''jwt_secret_file'');
     x4 \<leftarrow> opt dec_str (look ''access_token_ttl'');
     x5 \<leftarrow> opt dec_str (look ''refresh_token_ttl'');
     x6 \<leftarrow> opt dec_str (look ''bootstrap_username'');
     x7 \<leftarrow> opt SecretValue_from_value (look ''bootstrap_password'');
     Some \<lparr>cf_version = x0, cf_auth_required = x1, cf_jwt_secret = x2, cf_jwt_secret_file = x3,
       cf_access_token_ttl = x4, cf_refresh_token_ttl = x5, cf_bootstrap_username = x6,
       cf_bootstrap_password = x7\<rparr>}"

definition ELLIPSIS :: string where
  "ELLIPSIS = [CHR 0xE2, CHR 0x80, CHR 0xA6]"

fun boundary_before :: "string \<Rightarrow> nat \<Rightarrow> nat" where
  "boundary_before s n = (if is_char_boundary s n \<or> n = 0 then n else boundary_before s (n - 1))"

declare boundary_before.simps [simp del]

definition truncate_detail :: "string \<Rightarrow> string" where
  "truncate_detail detail =
     (if length detail \<le> MAX_DETAIL_BYTES then detail
      else take (boundary_before detail (MAX_DETAIL_BYTES - length ELLIPSIS)) detail @ ELLIPSIS)"

fun type_name :: "json \<Rightarrow> string" where
  "type_name Null = ''null''"
| "type_name (JBool _) = ''a boolean''"
| "type_name (Num _) = ''a number''"
| "type_name (Str _) = ''a string''"
| "type_name (Arr _) = ''an array''"
| "type_name (Obj _) = ''an object''"

definition wrong_type :: "string \<Rightarrow> string \<Rightarrow> json \<Rightarrow> FileConfigError" where
  "wrong_type key expected value = Malformed_config
     (''key `'' @ key @ ''` must be '' @ expected @ '', but the file provides '' @ type_name value)"

definition check_field ::
  "json btree \<Rightarrow> string \<Rightarrow> string \<Rightarrow> (json \<Rightarrow> bool) \<Rightarrow> FileConfigError + unit" where
  "check_field obj key expected accept = (case map_of obj key of
       None \<Rightarrow> Inr ()
     | Some value \<Rightarrow> if value = Null \<or> accept value then Inr () else Inl (wrong_type key expected value))"

definition is_boolean :: "json \<Rightarrow> bool" where
  "is_boolean v = (case v of JBool _ \<Rightarrow> True | _ \<Rightarrow> False)"

definition is_secret :: "json \<Rightarrow> bool" where
  "is_secret v = (is_string v \<or> (case v of Obj _ \<Rightarrow> True | _ \<Rightarrow> False))"

definition expected_keys :: string where
  "expected_keys = tl (tl (concat (map (\<lambda>key. '', `'' @ key @ ''`'') KNOWN_KEYS)))"

definition check_version :: "json btree \<Rightarrow> FileConfigError + unit" where
  "check_version obj = (case map_of obj ''version'' of
       None \<Rightarrow> Inl (Malformed_config ''the required key `version` is missing'')
     | Some version \<Rightarrow>
         if (case as_u64 version of Some n \<Rightarrow> unat n \<le> 2 ^ 32 - 1 | None \<Rightarrow> False) then Inr ()
         else Inl (wrong_type ''version'' ''an unsigned integer'' version))"

definition check_shape :: "json \<Rightarrow> FileConfigError + unit" where
  "check_shape value = (case value of
       Obj obj \<Rightarrow>
         (case find (\<lambda>key. key \<notin> set KNOWN_KEYS) (obj_keys obj) of
            Some key \<Rightarrow> Inl (Malformed_config (''unknown key '' @ debug_str key @ ''; expected one of '' @ expected_keys))
          | None \<Rightarrow>
              rbind (check_version obj) (\<lambda>_.
              rbind (check_field obj ''auth_required'' ''a boolean'' is_boolean) (\<lambda>_.
              rbind (check_field obj ''jwt_secret_file'' ''a string'' is_string) (\<lambda>_.
              rbind (check_field obj ''access_token_ttl'' ''a string'' is_string) (\<lambda>_.
              rbind (check_field obj ''refresh_token_ttl'' ''a string'' is_string) (\<lambda>_.
              rbind (check_field obj ''bootstrap_username'' ''a string'' is_string) (\<lambda>_.
              rbind (check_field obj ''jwt_secret'' ''a string or an encrypted envelope'' is_secret) (\<lambda>_.
                check_field obj ''bootstrap_password'' ''a string or an encrypted envelope'' is_secret))))))))
     | _ \<Rightarrow> Inl (Malformed_config (''the document must be a JSON object, not '' @ type_name value)))"

definition parse_config :: "Reader \<Rightarrow> string \<Rightarrow> FileConfigError + ConfigFile" where
  "parse_config J text =
     rbind (map_err (\<lambda>e. Malformed_config (truncate_detail e)) (json_of J text)) (\<lambda>value.
     rbind (check_shape value) (\<lambda>_.
     rbind (ok_or (Malformed_config (''the document does not match the configuration schema (at line ''
              @ show_nat (fst (stops_at J text)) @ '' column '' @ show_nat (snd (stops_at J text)) @ '')''))
              (if repeats_field J text then None else ConfigFile_from_value value)) (\<lambda>file.
       if cf_version file \<noteq> CONFIG_VERSION then Inl (UnsupportedVersion (cf_version file)) else Inr file)))"

definition resolve_field :: "Aead \<Rightarrow> KeyRing option \<Rightarrow> SecretValue option \<Rightarrow> FileConfigError + SecretValue option" where
  "resolve_field C keys field = (case field of
       Some value \<Rightarrow>
         if is_encrypted value
         then rbind (map_err ConfigDecryption (resolve_secret C keys value)) (\<lambda>s. Inr (Some (Plain s)))
         else Inr field
     | None \<Rightarrow> Inr field)"

definition resolve_secrets :: "Aead \<Rightarrow> KeyRing option \<Rightarrow> ConfigFile \<Rightarrow> FileConfigError + ConfigFile" where
  "resolve_secrets C keys file =
     rbind (resolve_field C keys (cf_jwt_secret file)) (\<lambda>jwt.
     rbind (resolve_field C keys (cf_bootstrap_password file)) (\<lambda>password.
       Inr (file\<lparr>cf_jwt_secret := jwt, cf_bootstrap_password := password\<rparr>)))"

definition load_config ::
  "Reader \<Rightarrow> Aead \<Rightarrow> (string \<Rightarrow> string io_result) \<Rightarrow> (string \<Rightarrow> string option) \<Rightarrow> KeyRing option
     \<Rightarrow> FileConfigError + ConfigFile option" where
  "load_config J C read_file env keys = (case env CONFIG_FILE_ENV of
       None \<Rightarrow> Inr None
     | Some path \<Rightarrow>
         rbind (map_err UnreadableFile (read_file path)) (\<lambda>text.
         rbind (parse_config J text) (\<lambda>file.
         rbind (resolve_secrets C keys file) (\<lambda>resolved. Inr (Some resolved)))))"

definition load_from_env ::
  "Reader \<Rightarrow> Aead \<Rightarrow> (string \<Rightarrow> string io_result) \<Rightarrow> (string \<Rightarrow> string option) \<Rightarrow> FileConfigError + ConfigFile option" where
  "load_from_env J C read_file env =
     rbind (map_err ConfigKeyRing (load_key_ring_from_lookup J C read_file env)) (\<lambda>ring.
       load_config J C read_file env ring)"

datatype Source = Environment | FromFile | BuiltIn

fun source_display :: "Source \<Rightarrow> string" where
  "source_display Environment = ''the environment''"
| "source_display FromFile = ''the configuration file''"
| "source_display BuiltIn = ''the built-in default''"

record 'a Setting =
  set_value :: 'a
  set_source :: Source

definition resolve_setting ::
  "(string \<Rightarrow> string option) \<Rightarrow> string \<Rightarrow> string option \<Rightarrow> (string \<Rightarrow> FileConfigError + 'a) \<Rightarrow> 'a
     \<Rightarrow> FileConfigError + 'a Setting" where
  "resolve_setting env key from_file parser fallback = (case env key of
       Some raw \<Rightarrow> rbind (parser raw) (\<lambda>v. Inr \<lparr>set_value = v, set_source = Environment\<rparr>)
     | None \<Rightarrow> (case from_file of
         Some raw \<Rightarrow> rbind (parser raw) (\<lambda>v. Inr \<lparr>set_value = v, set_source = FromFile\<rparr>)
       | None \<Rightarrow> Inr \<lparr>set_value = fallback, set_source = BuiltIn\<rparr>))"

section \<open>The settings of authentication\<close>

definition MIN_SECRET_BYTES :: nat where
  "MIN_SECRET_BYTES = 32"

definition DEFAULT_ACCESS_TTL :: "64 word" where
  "DEFAULT_ACCESS_TTL = 15 * 60"

definition DEFAULT_REFRESH_TTL :: "64 word" where
  "DEFAULT_REFRESH_TTL = 14 * 24 * 60 * 60"

datatype AuthConfigError = InvalidBool string | InvalidTtl string string | SecretSourcesConflict | MissingSecret
  | ShortSecret nat | SecretFile string io_error | IncompleteBootstrap

fun auth_config_display :: "AuthConfigError \<Rightarrow> string" where
  "auth_config_display (InvalidBool v) = ''TATU_AUTH_REQUIRED must be true or false, not '' @ debug_str v"
| "auth_config_display (InvalidTtl key v) = key @ '' is not a duration: '' @ debug_str v"
| "auth_config_display SecretSourcesConflict = ''set either TATU_JWT_SECRET or TATU_JWT_SECRET_FILE, not both''"
| "auth_config_display MissingSecret = ''TATU_AUTH_REQUIRED is set, so TATU_JWT_SECRET or TATU_JWT_SECRET_FILE must be too''"
| "auth_config_display (ShortSecret n) = ''the JWT signing secret is '' @ show_nat n @ '' bytes; at least ''
     @ show_nat MIN_SECRET_BYTES @ '' are required''"
| "auth_config_display (SecretFile p e) = ''cannot read TATU_JWT_SECRET_FILE '' @ debug_str p @ '': '' @ io_message e"
| "auth_config_display IncompleteBootstrap = ''set TATU_BOOTSTRAP_USERNAME and TATU_BOOTSTRAP_PASSWORD together''"

definition as_plain :: "SecretValue \<Rightarrow> string option" where
  "as_plain v = (case v of Plain s \<Rightarrow> Some s | Encrypted _ \<Rightarrow> None)"

definition parse_bool :: "string \<Rightarrow> AuthConfigError + bool" where
  "parse_bool raw =
     (let s = map to_ascii_lowercase (trim raw) in
      if s \<in> set [''true'', ''1'', ''yes'', ''on''] then Inr True
      else if s \<in> set [''false'', ''0'', ''no'', ''off''] then Inr False
      else Inl (InvalidBool raw))"

definition ttl_scale :: "char \<Rightarrow> nat option" where
  "ttl_scale c = (if c = CHR ''s'' then Some 1 else if c = CHR ''m'' then Some 60
     else if c = CHR ''h'' then Some 3600 else if c = CHR ''d'' then Some 86400 else None)"

definition checked_mul :: "nat \<Rightarrow> nat \<Rightarrow> nat option" where
  "checked_mul a b = (if a * b < 2 ^ 64 then Some (a * b) else None)"

definition parse_duration :: "string \<Rightarrow> string \<Rightarrow> AuthConfigError + 64 word" where
  "parse_duration raw key =
     (let trimmed = trim raw in
      if trimmed = [] then Inl (InvalidTtl key raw)
      else
        (let (digits, scale) = (case ttl_scale (last trimmed) of
               Some k \<Rightarrow> (butlast trimmed, k)
             | None \<Rightarrow> (trimmed, 1))
         in rbind (ok_or (InvalidTtl key raw) (parse_u64 (trim digits))) (\<lambda>n.
            if n = 0 then Inl (InvalidTtl key raw)
            else rbind (ok_or (InvalidTtl key raw) (checked_mul n scale)) (\<lambda>secs.
              Inr (word_of_nat secs)))))"

definition is_ascii_whitespace :: "char \<Rightarrow> bool" where
  "is_ascii_whitespace c \<longleftrightarrow> byte c \<in> {9, 10, 12, 13, 32}"

definition trim_ascii :: "string \<Rightarrow> string" where
  "trim_ascii s = rev (dropWhile is_ascii_whitespace (rev (dropWhile is_ascii_whitespace s)))"

definition read_secret_file :: "(string \<Rightarrow> string io_result) \<Rightarrow> string \<Rightarrow> AuthConfigError + string" where
  "read_secret_file read_file path =
     rbind (map_err (SecretFile path) (read_file path)) (\<lambda>contents. Inr (trim_ascii contents))"

definition file_lookup :: "ConfigFile option \<Rightarrow> string \<Rightarrow> string option" where
  "file_lookup file key = Option.bind file (\<lambda>f.
     if key = ''TATU_AUTH_REQUIRED'' then map_option (\<lambda>b. if b then ''true'' else ''false'') (cf_auth_required f)
     else if key = ''TATU_JWT_SECRET'' then Option.bind (cf_jwt_secret f) as_plain
     else if key = ''TATU_JWT_SECRET_FILE'' then cf_jwt_secret_file f
     else if key = ''TATU_ACCESS_TOKEN_TTL'' then cf_access_token_ttl f
     else if key = ''TATU_REFRESH_TOKEN_TTL'' then cf_refresh_token_ttl f
     else if key = ''TATU_BOOTSTRAP_USERNAME'' then cf_bootstrap_username f
     else if key = ''TATU_BOOTSTRAP_PASSWORD'' then Option.bind (cf_bootstrap_password f) as_plain
     else None)"

definition ttl_setting :: "(string \<Rightarrow> string option) \<Rightarrow> string \<Rightarrow> 64 word \<Rightarrow> AuthConfigError + 64 word" where
  "ttl_setting find_key key fallback = (case find_key key of
       Some raw \<Rightarrow> parse_duration raw key
     | None \<Rightarrow> Inr fallback)"

definition secret_setting ::
  "(string \<Rightarrow> string io_result) \<Rightarrow> (string \<Rightarrow> string option) \<Rightarrow> AuthConfigError + string option" where
  "secret_setting read_file find_key = (case (find_key ''TATU_JWT_SECRET'', find_key ''TATU_JWT_SECRET_FILE'') of
       (Some _, Some _) \<Rightarrow> Inl SecretSourcesConflict
     | (Some inline, None) \<Rightarrow> Inr (Some inline)
     | (None, Some path) \<Rightarrow> rbind (read_secret_file read_file path) (\<lambda>s. Inr (Some s))
     | (None, None) \<Rightarrow> Inr None)"

definition check_secret :: "bool \<Rightarrow> string option \<Rightarrow> AuthConfigError + unit" where
  "check_secret required jwt = (case jwt of
       Some s \<Rightarrow> if length s < MIN_SECRET_BYTES then Inl (ShortSecret (length s)) else Inr ()
     | None \<Rightarrow> if required then Inl MissingSecret else Inr ())"

definition from_single_lookup ::
  "(string \<Rightarrow> string io_result) \<Rightarrow> (string \<Rightarrow> string option) \<Rightarrow> AuthConfigError + AuthConfig" where
  "from_single_lookup read_file find_key =
     rbind (case find_key ''TATU_AUTH_REQUIRED'' of Some raw \<Rightarrow> parse_bool raw | None \<Rightarrow> Inr False) (\<lambda>required.
     rbind (ttl_setting find_key ''TATU_ACCESS_TOKEN_TTL'' DEFAULT_ACCESS_TTL) (\<lambda>access_ttl.
     rbind (ttl_setting find_key ''TATU_REFRESH_TOKEN_TTL'' DEFAULT_REFRESH_TTL) (\<lambda>refresh_ttl.
     rbind (secret_setting read_file find_key) (\<lambda>jwt.
     rbind (check_secret required jwt) (\<lambda>_.
     let username = find_key ''TATU_BOOTSTRAP_USERNAME''; password = find_key ''TATU_BOOTSTRAP_PASSWORD'' in
     if (username \<noteq> None) \<noteq> (password \<noteq> None) then Inl IncompleteBootstrap
     else Inr \<lparr>ac_required = required, ac_jwt_secret = jwt, ac_access_ttl = access_ttl, ac_refresh_ttl = refresh_ttl,
       ac_bootstrap_username = username, ac_bootstrap_password = password\<rparr>)))))"

definition from_lookup_and_file ::
  "(string \<Rightarrow> string io_result) \<Rightarrow> (string \<Rightarrow> string option) \<Rightarrow> ConfigFile option \<Rightarrow> AuthConfigError + AuthConfig" where
  "from_lookup_and_file read_file env file =
     from_single_lookup read_file (\<lambda>key. case env key of Some v \<Rightarrow> Some v | None \<Rightarrow> file_lookup file key)"

end
