(* ===== verification/Settings_Laws.thy ===== *)
theory Settings_Laws
  imports Settings
begin

text \<open>
  What start-up guarantees: settings that resolve are usable, a lifetime is the exact number of
  seconds it spells, a refusal of the configuration file never depends on the values in it, and a
  sealed secret opens under every ring that holds its key.
\<close>

section \<open>Lifetimes\<close>

lemma ttl_scale_bounds: "ttl_scale c = Some k \<Longrightarrow> 0 < k \<and> k \<le> 86400"
  by (auto simp: ttl_scale_def split: if_splits)

lemma parse_duration_Inr:
  assumes "parse_duration raw key = Inr w"
  obtains n k where "0 < n" "0 < k" "unat w = n * k" "n * k < 2 ^ 64"
proof -
  let ?t = "trim raw"
  obtain ds k where dk: "(case ttl_scale (last ?t) of Some k \<Rightarrow> (butlast ?t, k) | None \<Rightarrow> (?t, 1)) = (ds, k)"
    by fastforce
  have k: "0 < k" using dk ttl_scale_bounds by (auto split: option.splits)
  from assms dk obtain n where n: "0 < n" "n * k < 2 ^ 64" "w = word_of_nat (n * k)"
    by (auto simp: parse_duration_def Let_def checked_mul_def rbind_Inr_iff split: if_splits)
  then show ?thesis using that [of n k] k by (simp del: of_nat_mult add: unat_of_nat)
qed

lemma parse_duration_positive: "parse_duration raw key = Inr w \<Longrightarrow> 0 < unat w"
  by (erule parse_duration_Inr) simp

text \<open>Decimal digits with a unit are read back as the exact product, and refused when it is zero or does
  not fit.\<close>

lemma show_nat_graphic: "list_all is_ascii_graphic (show_nat n)"
  using show_nat_digits by (fastforce simp: list_all_iff is_ascii_digit_def is_ascii_graphic_def)

lemma unit_graphic: "ttl_scale u = Some k \<Longrightarrow> is_ascii_graphic u"
  by (auto simp: ttl_scale_def is_ascii_graphic_def split: if_splits)

lemma parse_duration_unit:
  assumes "ttl_scale u = Some k" "n < 2 ^ 64"
  shows "parse_duration (show_nat n @ [u]) key =
    (if 0 < n \<and> n * k < 2 ^ 64 then Inr (word_of_nat (n * k)) else Inl (InvalidTtl key (show_nat n @ [u])))"
proof -
  have "trim (show_nat n @ [u]) = show_nat n @ [u]"
    by (rule trim_graphic) (simp add: show_nat_graphic unit_graphic [OF assms(1)])
  then show ?thesis using assms
    by (simp add: parse_duration_def Let_def checked_mul_def trim_graphic show_nat_graphic del: of_nat_mult)
qed

section \<open>Settings that resolve\<close>

lemma ttl_setting_positive:
  "ttl_setting find_key key fallback = Inr w \<Longrightarrow> 0 < unat fallback \<Longrightarrow> 0 < unat w"
  by (auto simp: ttl_setting_def dest: parse_duration_positive split: option.splits)

lemma from_lookup_sound:
  assumes "from_lookup_and_file read_file env file = Inr cfg"
  shows "0 < unat (ac_access_ttl cfg) \<and> 0 < unat (ac_refresh_ttl cfg)
    \<and> (ac_required cfg \<longrightarrow> (\<exists>key. secret cfg = Inr key))
    \<and> (\<forall>key. ac_jwt_secret cfg = Some key \<longrightarrow> 32 \<le> length key)
    \<and> (ac_bootstrap_username cfg = None \<longleftrightarrow> ac_bootstrap_password cfg = None)
    \<and> (\<forall>raw. env ''TATU_AUTH_REQUIRED'' = Some raw \<longrightarrow> parse_bool raw = Inr (ac_required cfg))
    \<and> (\<forall>name. env ''TATU_BOOTSTRAP_USERNAME'' = Some name \<longrightarrow> ac_bootstrap_username cfg = Some name)"
proof -
  let ?find = "\<lambda>key. case env key of Some v \<Rightarrow> Some v | None \<Rightarrow> file_lookup file key"
  obtain required access refresh jwt where
    f: "(case ?find ''TATU_AUTH_REQUIRED'' of Some raw \<Rightarrow> parse_bool raw | None \<Rightarrow> Inr False) = Inr required"
    and a: "ttl_setting ?find ''TATU_ACCESS_TOKEN_TTL'' DEFAULT_ACCESS_TTL = Inr access"
    and r: "ttl_setting ?find ''TATU_REFRESH_TOKEN_TTL'' DEFAULT_REFRESH_TTL = Inr refresh"
    and s: "check_secret required jwt = Inr ()"
    and b: "(?find ''TATU_BOOTSTRAP_USERNAME'' \<noteq> None) = (?find ''TATU_BOOTSTRAP_PASSWORD'' \<noteq> None)"
    and cfg: "cfg = \<lparr>ac_required = required, ac_jwt_secret = jwt, ac_access_ttl = access, ac_refresh_ttl = refresh,
       ac_bootstrap_username = ?find ''TATU_BOOTSTRAP_USERNAME'', ac_bootstrap_password = ?find ''TATU_BOOTSTRAP_PASSWORD''\<rparr>"
    using assms unfolding from_lookup_and_file_def from_single_lookup_def Let_def rbind_Inr_iff
    by (auto split: if_splits)
  have "0 < unat access" "0 < unat refresh"
    using ttl_setting_positive [OF a] ttl_setting_positive [OF r] by (simp_all add: DEFAULT_ACCESS_TTL_def DEFAULT_REFRESH_TTL_def)
  then show ?thesis using f s b
    by (auto simp: cfg check_secret_def secret_def MIN_SECRET_BYTES_def split: option.splits if_splits)
qed


section \<open>Refusals of the file\<close>

text \<open>What a refusal may depend on: the keys, the JSON type of each value and the version.\<close>

definition outline :: "json \<Rightarrow> string \<times> (string \<times> string \<times> json option) list" where
  "outline v = (type_name v, case v of
       Obj m \<Rightarrow> map (\<lambda>(k, x). (k, type_name x, if k = ''version'' then Some x else None)) m
     | _ \<Rightarrow> [])"

lemma map_of_outline:
  "map_of (map (\<lambda>(k, x). (k, type_name x, if k = ''version'' then Some x else None)) m) k =
     map_option (\<lambda>x. (type_name x, if k = ''version'' then Some x else None)) (map_of m k)"
  by (induction m) auto

lemma type_decides:
  "type_name v = type_name v' \<Longrightarrow> is_boolean v = is_boolean v' \<and> is_string v = is_string v'
     \<and> is_secret v = is_secret v' \<and> (v = Null) = (v' = Null)"
  by (cases v; cases v') (simp_all add: is_boolean_def is_secret_def)

lemma check_field_outline:
  assumes "map_option type_name (map_of m k) = map_option type_name (map_of m' k)"
    "accept = is_boolean \<or> accept = is_string \<or> accept = is_secret"
  shows "check_field m k expected accept = check_field m' k expected accept"
proof (cases "map_of m k")
  case None
  with assms(1) show ?thesis by (simp add: check_field_def)
next
  case (Some v)
  with assms(1) obtain v' where v': "map_of m' k = Some v'" and t: "type_name v = type_name v'"
    by (cases "map_of m' k") auto
  from assms(2) type_decides [OF t] have "accept v = accept v'" "(v = Null) = (v' = Null)" by metis+
  with t show ?thesis by (simp add: check_field_def wrong_type_def Some v')
qed

text \<open>A refusal of the configuration file says nothing about the values in it: two documents with
  the same keys, the same JSON types and the same version get the same answer from the shape check,
  whatever secrets they hold.\<close>

theorem shape_refusal_is_value_free:
  assumes "outline v = outline v'"
  shows "check_shape v = check_shape v'"
proof (cases "(v, v')")
  case (Pair a b)
  show ?thesis
  proof (cases "\<exists>m m'. v = Obj m \<and> v' = Obj m'")
    case False
    with assms show ?thesis by (cases v; cases v') (auto simp: outline_def check_shape_def)
  next
    case True
    then obtain m m' where m: "v = Obj m" "v' = Obj m'" by blast
    let ?o = "map (\<lambda>(k, x). (k, type_name x, if k = ''version'' then Some x else None))"
    have o: "?o m = ?o m'" using assms by (simp add: m outline_def)
    have "map fst (?o m) = map fst (?o m')" by (simp only: o)
    then have keys: "obj_keys m = obj_keys m'" by (simp add: obj_keys_def comp_def case_prod_beta)
    have look: "map_option (\<lambda>x. (type_name x, if k = ''version'' then Some x else None)) (map_of m k) =
        map_option (\<lambda>x. (type_name x, if k = ''version'' then Some x else None)) (map_of m' k)" for k
      unfolding map_of_outline [symmetric] by (simp only: o)
    have types: "map_option type_name (map_of m k) = map_option type_name (map_of m' k)" for k
      using look [of k] by (cases "map_of m k"; cases "map_of m' k") auto
    have "map_of m ''version'' = map_of m' ''version''"
      using look [of "''version''"] by (cases "map_of m ''version''"; cases "map_of m' ''version''") auto
    then have "check_version m = check_version m'" by (simp add: check_version_def)
    moreover have "check_field m k expected is_boolean = check_field m' k expected is_boolean"
      "check_field m k expected is_string = check_field m' k expected is_string"
      "check_field m k expected is_secret = check_field m' k expected is_secret" for k expected
      by (simp_all add: check_field_outline [OF types])
    ultimately show ?thesis by (simp only: m check_shape_def json.case keys)
  qed
qed

text \<open>The typed parse behind the shape check does refuse documents the check accepted, although its
  comment expects that never to happen.\<close>

lemma typed_parse_still_refuses:
  "check_shape (Obj [(''jwt_secret'', Obj []), (''version'', Num (PosInt 1))]) = Inr ()"
  "ConfigFile_from_value (Obj [(''jwt_secret'', Obj []), (''version'', Num (PosInt 1))]) = None"
proof -
  show "check_shape (Obj [(''jwt_secret'', Obj []), (''version'', Num (PosInt 1))]) = Inr ()"
    by (simp add: check_shape_def check_version_def check_field_def is_secret_def obj_keys_def KNOWN_KEYS_def)
  have "SecretValue_from_value (Obj []) = None"
    by (simp add: SecretValue_from_value_def EncryptedEnvelope_from_value_def struct_view_def)
  then show "ConfigFile_from_value (Obj [(''jwt_secret'', Obj []), (''version'', Num (PosInt 1))]) = None"
    by (simp add: ConfigFile_from_value_def struct_view_def KNOWN_KEYS_def opt_def bind_eq_None_conv)
qed

lemma boundary_before_le: "boundary_before s n \<le> n"
proof (induction n rule: less_induct)
  case (less n)
  then show ?case
    by (subst boundary_before.simps) (use less.IH [of "n - 1"] in \<open>cases n; simp add: le_SucI\<close>)
qed

lemma truncate_detail_bound: "length (truncate_detail s) \<le> MAX_DETAIL_BYTES"
  using boundary_before_le [of s "MAX_DETAIL_BYTES - length ELLIPSIS"]
  by (auto simp: truncate_detail_def MAX_DETAIL_BYTES_def ELLIPSIS_def min_def)

section \<open>Sealed secrets\<close>

text \<open>What the code relies on of AES-GCM and base64: what is sealed opens under the same key and nonce,
  and what is encoded decodes.\<close>

definition aead_ok :: "Aead \<Rightarrow> bool" where
  "aead_ok C \<longleftrightarrow>
     (\<forall>key nonce plaintext sealed. seal C key nonce plaintext = Some sealed \<longrightarrow> unseal C key nonce sealed = Some plaintext)
     \<and> (\<forall>bytes. url_decode C (url_encode C bytes) = Some bytes)"

lemma ring_get_append: "ring_get (r1 @ r2) i = (case ring_get r1 i of Some k \<Rightarrow> Some k | None \<Rightarrow> ring_get r2 i)"
  by (induction r1) (auto simp: ring_get_def)

lemma ring_get_None: "i \<notin> fst ` set ring \<Longrightarrow> ring_get ring i = None"
  by (force simp: ring_get_def find_None_iff)

text \<open>C34. A sealed value opens to its plaintext under every ring that gives its key identifier that key,
  so each step of a rotation reads: keys added after it, and keys of other identifiers added before
  it, change nothing. Without the key, or without a ring, the value is refused by its identifier.\<close>

theorem sealed_secret_survives_rotation:
  assumes "aead_ok C" "encrypt_value C (Some nonce) plaintext key kid = Inr e" "length nonce = NONCE_LENGTH"
    "is_utf8 C plaintext" "ring_get ring kid = Some key" "kid \<notin> fst ` set newer"
  shows "resolve_secret C (Some (newer @ ring @ older)) (Encrypted e) = Inr plaintext
    \<and> resolve_secret C (Some newer) (Encrypted e) = Inl (UnknownKeyId kid)
    \<and> resolve_secret C None (Encrypted e) = Inl (UnknownKeyId kid)"
proof -
  obtain sealed where s: "seal C key nonce plaintext = Some sealed"
    and e: "e = \<lparr>ee_version = ENVELOPE_VERSION, ee_key_id = kid, ee_algorithm = ENVELOPE_ALGORITHM,
         ee_nonce = url_encode C nonce, ee_ciphertext = url_encode C sealed\<rparr>"
    using assms(2) by (auto simp: encrypt_value_def rbind_Inr_iff)
  have "decrypt C key e = Inr plaintext"
    using assms(1,3) s by (simp add: e decrypt_def aead_ok_def)
  then show ?thesis
    using assms(4-6) by (simp add: resolve_secret_def validate_envelope_def ring_get_append ring_get_None e)
qed

section \<open>Examples\<close>

definition sample_secret :: string where
  "sample_secret = replicate 32 (CHR ''k'')"

definition sample_settings :: "string \<Rightarrow> string option" where
  "sample_settings = map_of [(''TATU_AUTH_REQUIRED'', ''on''), (''TATU_ACCESS_TOKEN_TTL'', ''5m''),
     (''TATU_JWT_SECRET'', sample_secret)]"

lemma sample_reads: "parse_bool ''on'' = Inr True" "parse_duration ''5m'' key = Inr 300"
proof -
  have "trim ''on'' = ''on''" by (rule trim_graphic) (simp add: is_ascii_graphic_def)
  then show "parse_bool ''on'' = Inr True" by (simp add: parse_bool_def to_ascii_lowercase_def)
  have "show_nat 5 = ''5''" by code_simp
  then show "parse_duration ''5m'' key = Inr 300"
    using parse_duration_unit [of "CHR ''m''" 60 5 key] by (simp add: ttl_scale_def)
qed

lemma sample_settings_resolve:
  "from_lookup_and_file (\<lambda>_. Inr []) sample_settings None = Inr
     \<lparr>ac_required = True, ac_jwt_secret = Some sample_secret, ac_access_ttl = 300, ac_refresh_ttl = DEFAULT_REFRESH_TTL,
      ac_bootstrap_username = None, ac_bootstrap_password = None\<rparr>"
  by (simp add: from_lookup_and_file_def from_single_lookup_def sample_settings_def ttl_setting_def
    secret_setting_def check_secret_def file_lookup_def sample_reads)
    (simp add: sample_secret_def MIN_SECRET_BYTES_def)


definition sample_file :: "string \<Rightarrow> json" where
  "sample_file pw = Obj [(''jwt_secret'', Str pw), (''version'', Num (PosInt 1)), (''access_token_ttl'', JBool True)]"

theorem shape_refusal_is_value_free_witness:
  "outline (sample_file ''one'') = outline (sample_file ''two'')
     \<and> check_shape (sample_file ''one'') = check_shape (sample_file ''two'')"
  using shape_refusal_is_value_free [of "sample_file ''one''" "sample_file ''two''"]
  by (simp add: outline_def sample_file_def)

definition sample_aead :: Aead where
  "sample_aead = \<lparr>seal = (\<lambda>key nonce p. Some (key @ nonce @ p)),
     unseal = (\<lambda>key nonce c. if take (length key) c = key \<and> take (length nonce) (drop (length key) c) = nonce
        then Some (drop (length nonce) (drop (length key) c)) else None),
     url_encode = (\<lambda>s. s), url_decode = Some, std_decode = Some, is_utf8 = (\<lambda>_. True)\<rparr>"

theorem sealed_secret_survives_rotation_witness:
  "\<exists>e. encrypt_value sample_aead (Some (replicate 12 (CHR ''n''))) ''pw'' ''old'' ''k1'' = Inr e
     \<and> resolve_secret sample_aead (Some ([(''k2'', ''new'')] @ [(''k1'', ''old'')] @ [])) (Encrypted e) = Inr ''pw''"
proof -
  obtain e where e: "encrypt_value sample_aead (Some (replicate 12 (CHR ''n''))) ''pw'' ''old'' ''k1'' = Inr e"
    by (simp add: encrypt_value_def sample_aead_def)
  have "aead_ok sample_aead" by (auto simp: aead_ok_def sample_aead_def)
  from sealed_secret_survives_rotation [OF this e, of "[(''k1'', ''old'')]" "[(''k2'', ''new'')]" "[]"] e
  show ?thesis by (auto simp: NONCE_LENGTH_def sample_aead_def ring_get_def)
qed

end
