(* ===== verification/Middleware.thy ===== *)
theory Middleware
  imports Responses
begin

text \<open>
  What every request passes through: log redaction (\<^verbatim>\<open>src/api/redact.rs\<close>), request identifiers
  (\<^verbatim>\<open>src/api/request_id.rs\<close>), counters (\<^verbatim>\<open>src/api/metrics.rs\<close>), the time and concurrency limits
  (\<^verbatim>\<open>src/api/guardrails.rs\<close>), the acting subject and the order of the layers (\<^verbatim>\<open>src/api/mod.rs\<close>), and the audit
  line of a write (\<^verbatim>\<open>src/domain/service/audit.rs\<close>).

  A header map is the list of its lines with lower-case names, several values of a name being several
  lines. What the route itself does is a parameter of the layers around it.
\<close>

section \<open>Redaction\<close>

definition REDACTED :: string where
  "REDACTED = ''[redacted]''"

definition SECRET_HEADERS :: "string list" where
  "SECRET_HEADERS = [''authorization'', ''cookie'', ''set-cookie'', ''x-api-key'', ''proxy-authorization'', ''x-auth-token'']"

definition SECRET_QUERY_KEYS :: "string list" where
  "SECRET_QUERY_KEYS = [''token'', ''api_key'', ''apikey'', ''access_token'', ''refresh_token'', ''password'', ''secret'', ''key'']"

definition is_secret_header :: "string \<Rightarrow> bool" where
  "is_secret_header name = list_ex (eq_ignore_ascii_case name) SECRET_HEADERS"

definition is_secret_query_key :: "string \<Rightarrow> bool" where
  "is_secret_query_key key = list_ex (eq_ignore_ascii_case key) SECRET_QUERY_KEYS"

definition redact_value :: "string \<Rightarrow> string \<Rightarrow> string" where
  "redact_value name v = (if is_secret_header name \<or> is_secret_query_key name then REDACTED else v)"

type_synonym HeaderMap = "(string \<times> string) list"

definition redact_headers :: "HeaderMap \<Rightarrow> string" where
  "redact_headers hs = join_with '',''
     (map (\<lambda>name. if is_secret_header name then name @ ''='' @ REDACTED else name) (sort (remdups (map fst hs))))"

definition redact_pair :: "string \<Rightarrow> string" where
  "redact_pair pair = (case split_once (CHR ''='') pair of
       Some (key, _) \<Rightarrow> if is_secret_query_key key then key @ ''='' @ REDACTED else pair
     | None \<Rightarrow> pair)"

definition redact_query :: "string \<Rightarrow> string" where
  "redact_query raw = join_with ''&'' (map redact_pair (split_on (\<lambda>c. c = CHR ''&'') raw))"

section \<open>Request identifiers\<close>

definition REQUEST_ID_HEADER :: string where
  "REQUEST_ID_HEADER = ''x-request-id''"

definition header_get :: "HeaderMap \<Rightarrow> string \<Rightarrow> string option" where
  "header_get hs name = map_of hs name"

definition header_insert :: "string \<Rightarrow> string \<Rightarrow> HeaderMap \<Rightarrow> HeaderMap" where
  "header_insert name v hs = filter (\<lambda>(n, _). n \<noteq> name) hs @ [(name, v)]"

text \<open>\<^verbatim>\<open>HeaderValue::to_str\<close> accepts tabs and visible ASCII.\<close>

definition header_text :: "string \<Rightarrow> string option" where
  "header_text v = (if list_all (\<lambda>c. byte c = 9 \<or> 32 \<le> byte c \<and> byte c < 127) v then Some v else None)"

definition lower_hex :: "nat \<Rightarrow> char" where
  "lower_hex n = char_of (if n < 10 then 48 + n else 87 + n)"

text \<open>The minted identifier of a hash the process draws.\<close>

definition mint :: "64 word \<Rightarrow> string" where
  "mint h = map (\<lambda>i. lower_hex (unat h div 16 ^ i mod 16)) (rev [0..<16])"

definition inbound :: "HeaderMap \<Rightarrow> (string \<times> string) option" where
  "inbound hs = Option.bind (header_get hs REQUEST_ID_HEADER) (\<lambda>v.
     if v = [] then None else map_option (\<lambda>text. (text, v)) (header_text v))"

definition request_id_of :: "64 word \<Rightarrow> HeaderMap \<Rightarrow> string \<times> string" where
  "request_id_of h hs = (case inbound hs of Some ie \<Rightarrow> ie | None \<Rightarrow> (mint h, mint h))"

definition propagate :: "64 word \<Rightarrow> HeaderMap \<Rightarrow> (string \<Rightarrow> (Response \<times> 's) option) \<Rightarrow> (Response \<times> 's) option" where
  "propagate h hs serve = (case request_id_of h hs of (request_id, echo) \<Rightarrow>
     map_option (\<lambda>(r, s). (r\<lparr>rs_headers := header_insert REQUEST_ID_HEADER echo (rs_headers r)\<rparr>, s)) (serve request_id))"

section \<open>Counters\<close>

type_synonym HttpMetrics = "((string \<times> string \<times> string) \<times> 64 word) list"

definition status_class :: "nat \<Rightarrow> string" where
  "status_class status =
     (if status div 100 = 1 then ''1xx'' else if status div 100 = 2 then ''2xx''
      else if status div 100 = 3 then ''3xx'' else if status div 100 = 4 then ''4xx'' else ''5xx'')"

fun bump :: "'k :: linorder \<Rightarrow> ('k \<times> 64 word) list \<Rightarrow> ('k \<times> 64 word) list" where
  "bump k [] = [(k, 1)]"
| "bump k ((k', n) # m) =
     (if k < k' then (k, 1) # (k', n) # m else if k = k' then (k', n + 1) # m else (k', n) # bump k m)"

definition record_count :: "string \<Rightarrow> string \<Rightarrow> nat \<Rightarrow> HttpMetrics \<Rightarrow> HttpMetrics" where
  "record_count method resource status m = bump (method, resource, status_class status) m"

definition resource_label :: "string option \<Rightarrow> string" where
  "resource_label matched = (case Option.bind matched (\<lambda>m.
       let segment = hd (split_on (\<lambda>c. c = CHR ''/'') (dropWhile (\<lambda>c. c = CHR ''/'') m))
       in if segment = [] then None else Some segment) of
     Some segment \<Rightarrow> segment
   | None \<Rightarrow> ''unmatched'')"

definition render_metrics :: "HttpMetrics \<Rightarrow> string" where
  "render_metrics m =
     ''# HELP tatu_http_requests_total Requests served, by method, resource and status class.'' @ [CHR 0x0A]
     @ ''# TYPE tatu_http_requests_total counter'' @ [CHR 0x0A]
     @ concat (map (\<lambda>((method, resource, class), count).
         ''tatu_http_requests_total{method='' @ quoted method @ '',resource='' @ quoted resource @ '',status=''
         @ quoted class @ ''} '' @ show_nat (unat count) @ [CHR 0x0A]) m)"

definition track :: "string \<Rightarrow> string option \<Rightarrow> HttpMetrics \<Rightarrow> Response \<times> 's \<Rightarrow> Response \<times> 's \<times> HttpMetrics" where
  "track method matched m served = (case served of (r, s) \<Rightarrow>
     (r, s, record_count method (resource_label matched) (rs_status r) m))"

section \<open>Limits\<close>

definition DEFAULT_REQUEST_TIMEOUT_MS :: "64 word" where
  "DEFAULT_REQUEST_TIMEOUT_MS = 300000"

definition DEFAULT_MAX_CONCURRENCY :: nat where
  "DEFAULT_MAX_CONCURRENCY = 128"

record Guardrails =
  max_body_bytes :: nat
  request_timeout :: "64 word option"
  max_concurrency :: "nat option"

definition default_guardrails :: Guardrails where
  "default_guardrails = \<lparr>max_body_bytes = MAX_ATTACHMENT_BYTES, request_timeout = Some DEFAULT_REQUEST_TIMEOUT_MS,
     max_concurrency = Some DEFAULT_MAX_CONCURRENCY\<rparr>"

definition UNCAPPED_IN_FLIGHT :: nat where
  "UNCAPPED_IN_FLIGHT = 2 ^ 60"

record GuardrailState =
  limits :: Guardrails
  semaphore :: nat

definition guardrail_state :: "Guardrails \<Rightarrow> GuardrailState" where
  "guardrail_state g = \<lparr>limits = g,
     semaphore = (case max_concurrency g of Some n \<Rightarrow> n | None \<Rightarrow> UNCAPPED_IN_FLIGHT)\<rparr>"

text \<open>What the layers inside have answered when the limit elapses, \<^const>\<open>None\<close> being no answer by then, or no
  answer ever where there is no limit.\<close>

definition timeout :: "Guardrails \<Rightarrow> string \<Rightarrow> Response option \<Rightarrow> Response option" where
  "timeout g request_id inner =
     (if request_timeout g = None then inner
      else case inner of
        Some r \<Rightarrow> Some r
      | None \<Rightarrow> Some (envelope (Some request_id) 504 ''request_timeout''
          ''The request exceeded the configured timeout. Please retry.''))"

definition saturated :: "string \<Rightarrow> Response" where
  "saturated request_id = (envelope (Some request_id) 503 ''service_unavailable''
     ''The server is at its request concurrency limit. Please retry.'')\<lparr>rs_headers := [(''retry-after'', ''1'')]\<rparr>"

text \<open>\<^verbatim>\<open>try_acquire_owned\<close> and the drop of the permit.\<close>

definition try_acquire :: "GuardrailState \<Rightarrow> GuardrailState option" where
  "try_acquire G = (if semaphore G = 0 then None else Some (G\<lparr>semaphore := semaphore G - 1\<rparr>))"

definition release_permit :: "GuardrailState \<Rightarrow> GuardrailState" where
  "release_permit G = G\<lparr>semaphore := semaphore G + 1\<rparr>"

definition concurrency_admits :: "GuardrailState \<Rightarrow> bool" where
  "concurrency_admits G \<longleftrightarrow> max_concurrency (limits G) = None \<or> try_acquire G \<noteq> None"

section \<open>The acting subject and the audit line\<close>

definition ANONYMOUS_ACTOR :: string where
  "ANONYMOUS_ACTOR = ''-''"

definition audit_actor :: "AppState \<Rightarrow> string option \<Rightarrow> 64 word \<Rightarrow> string" where
  "audit_actor X header now = (case from_request_parts X header now of
       Inr p \<Rightarrow> if pr_user_id p \<noteq> [] then pr_user_id p else ANONYMOUS_ACTOR
     | Inl _ \<Rightarrow> ANONYMOUS_ACTOR)"

definition ATTACHMENT_RESOURCE :: string where
  "ATTACHMENT_RESOURCE = ''attachment''"

fun resource_noun :: "Resource \<Rightarrow> string" where
  "resource_noun Projects = ''project''"
| "resource_noun Suites = ''test_suite''"
| "resource_noun Cases = ''test_case''"
| "resource_noun Runs = ''test_run''"
| "resource_noun Milestones = ''milestone''"
| "resource_noun Configurations = ''test_configuration''"
| "resource_noun Workflows = ''workflow''"

fun placement_action :: "Placement \<Rightarrow> string" where
  "placement_action Copy = ''copy''"
| "placement_action Move = ''move''"

record AuditLine =
  al_action :: string
  al_resource :: string
  al_id :: string
  al_user :: string
  al_outcome :: string
  al_code :: "string option"

definition audited :: "string \<Rightarrow> string \<Rightarrow> string \<Rightarrow> string \<Rightarrow> 'a sop \<Rightarrow> Svc \<Rightarrow> ('a result \<times> Svc) \<times> AuditLine" where
  "audited actor resource action i operation st =
     (let outcome = operation st in
      (outcome, \<lparr>al_action = action, al_resource = resource, al_id = i, al_user = actor,
        al_outcome = (case fst outcome of Inr _ \<Rightarrow> ''success'' | Inl _ \<Rightarrow> ''failure''),
        al_code = (case fst outcome of Inr _ \<Rightarrow> None | Inl e \<Rightarrow> Some (code e))\<rparr>))"

section \<open>The layers in order\<close>

record Request =
  rq_method :: string
  rq_matched :: "string option"
  rq_headers :: HeaderMap

text \<open>The concurrency layer sits outside the timeout, both inside the layer that names the request and the
  one that counts it. A route that is cut off keeps what it did.\<close>

type_synonym Route_effect = "string \<Rightarrow> Svc \<Rightarrow> Response option \<times> Svc"

definition guarded :: "GuardrailState \<Rightarrow> Route_effect \<Rightarrow> Svc \<Rightarrow> string \<Rightarrow> (Response \<times> Svc) option" where
  "guarded G route st request_id =
     (if concurrency_admits G
      then (case route request_id st of (r, st') \<Rightarrow>
        map_option (\<lambda>x. (x, st')) (timeout (limits G) request_id r))
      else Some (saturated request_id, st))"

definition serve :: "GuardrailState \<Rightarrow> 64 word \<Rightarrow> Request \<Rightarrow> Route_effect \<Rightarrow> Svc \<Rightarrow> HttpMetrics
    \<Rightarrow> (Response \<times> Svc \<times> HttpMetrics) option" where
  "serve G h rq route st m =
     map_option (track (rq_method rq) (rq_matched rq) m) (propagate h (rq_headers rq) (guarded G route st))"

end
