(* ===== verification/Middleware_Laws.thy ===== *)
theory Middleware_Laws
  imports Middleware
begin

text \<open>
  What the layers around every request guarantee: nothing of a credential reaches a log line, every
  answer names its request and is counted, whether a route or a limit gave it, and the requests in
  flight never exceed the configured number, whatever order they come and go in.
\<close>

section \<open>Redaction\<close>

lemma split_join:
  assumes "\<forall>x\<in>set xs. d \<notin> set x" "xs \<noteq> []"
  shows "split_on (\<lambda>c. c = d) (join_with [d] xs) = xs"
  using assms
proof (induction xs rule: induct_list012)
  case (2 x)
  then show ?case using split_on_none [of x "\<lambda>c. c = d"] by auto
next
  case (3 x y ys)
  then have "\<forall>c\<in>set x. \<not> c = d" by auto
  from split_on_append [OF this refl] 3 show ?case by auto
qed simp

text \<open>A query as the pairs it is made of: each a key with a value, or a bare flag.\<close>

fun pair_text :: "string \<times> string option \<Rightarrow> string" where
  "pair_text (k, Some v) = k @ ''='' @ v"
| "pair_text (k, None) = k"

definition pair_ok :: "string \<times> string option \<Rightarrow> bool" where
  "pair_ok kv \<longleftrightarrow> CHR ''='' \<notin> set (fst kv) \<and> CHR ''&'' \<notin> set (pair_text kv)"

definition hide :: "string \<times> string option \<Rightarrow> string \<times> string option" where
  "hide kv = (fst kv, if is_secret_query_key (fst kv) then map_option (\<lambda>_. REDACTED) (snd kv) else snd kv)"

lemma redact_pair_text: "pair_ok kv \<Longrightarrow> redact_pair (pair_text kv) = pair_text (hide kv)"
  by (cases kv rule: pair_text.cases)
    (auto simp: pair_ok_def redact_pair_def hide_def split_once_append split_once_None_iff [THEN iffD2])

text \<open>A logged query keeps its shape and loses its credentials: every pair is there in its place under
  its key, an ordinary value or flag is verbatim, and the value of a credential key is the
  replacement, so two requests that differ only in such values are logged alike.\<close>

theorem redact_query_exact:
  assumes "list_all pair_ok kvs" "kvs \<noteq> []"
  shows "redact_query (join_with ''&'' (map pair_text kvs)) = join_with ''&'' (map pair_text (map hide kvs))
    \<and> (\<forall>kvs'. list_all pair_ok kvs' \<and> map hide kvs' = map hide kvs \<longrightarrow>
         redact_query (join_with ''&'' (map pair_text kvs')) = redact_query (join_with ''&'' (map pair_text kvs)))"
proof -
  have exact: "redact_query (join_with ''&'' (map pair_text xs)) = join_with ''&'' (map pair_text (map hide xs))"
    if "list_all pair_ok xs" "xs \<noteq> []" for xs
  proof -
    have "split_on (\<lambda>c. c = CHR ''&'') (join_with ''&'' (map pair_text xs)) = map pair_text xs"
      using that by (intro split_join) (auto simp: list_all_iff pair_ok_def)
    moreover have "map redact_pair (map pair_text xs) = map pair_text (map hide xs)"
      using that by (auto simp: list_all_iff redact_pair_text)
    ultimately show ?thesis by (simp only: redact_query_def)
  qed
  with assms show ?thesis by (metis Nil_is_map_conv)
qed

section \<open>Answers\<close>

lemma header_get_insert: "header_get (header_insert name v hs) name = Some v"
proof -
  have "map_of (filter (\<lambda>(n, _). n \<noteq> name) hs) name = None" by (induction hs) auto
  then show ?thesis by (simp add: header_get_def header_insert_def map_add_def)
qed

lemma header_get_insert_other: "n \<noteq> name \<Longrightarrow> header_get (header_insert name v hs) n = header_get hs n"
proof -
  assume "n \<noteq> name"
  then have "map_of (filter (\<lambda>(n, _). n \<noteq> name) hs) n = map_of hs n" by (induction hs) auto
  with \<open>n \<noteq> name\<close> show ?thesis by (simp add: header_get_def header_insert_def map_add_def split: option.splits)
qed

lemma bump_value:
  "sorted_wrt (<) (map fst m) \<Longrightarrow> map_of (bump k m) k' =
     (if k' = k then Some (case map_of m k of Some n \<Rightarrow> n + 1 | None \<Rightarrow> 1) else map_of m k')"
proof (induction k m rule: bump.induct)
  case (2 k l n m)
  have "map_of m k = None" if "k < l"
    using that 2(2) by (force simp: map_of_eq_None_iff)
  with 2 show ?case by auto
qed simp

lemma bump_keys: "fst ` set (bump k m) = insert k (fst ` set m)"
  by (induction k m rule: bump.induct) auto

lemma bump_sorted: "sorted_wrt (<) (map fst m) \<Longrightarrow> sorted_wrt (<) (map fst (bump k m))"
proof (induction k m rule: bump.induct)
  case (2 k k' n m)
  then show ?case
    using bump_keys [of k m] by (auto simp: image_iff dest!: equalityD1 [THEN subsetD] intro: order.strict_trans)
qed simp

lemma mint_visible: "header_text (mint h) = Some (mint h) \<and> mint h \<noteq> [] \<and> length (mint h) = 16"
proof -
  have "32 \<le> byte (lower_hex (n mod 16)) \<and> byte (lower_hex (n mod 16)) < 127" for n
    by (simp add: lower_hex_def) presburger
  then show ?thesis by (auto simp: header_text_def mint_def list_all_iff)
qed

text \<open>C31. Every answer names its request and is counted once, whether a route gave it, the request outlived
  the timeout or the server was at its limit: it carries one \<^verbatim>\<open>X-Request-Id\<close>, the inbound one when that
  is usable and a minted one of sixteen characters otherwise, a refusal repeats that identifier in its
  envelope and changes nothing, and exactly the counter of its method, resource and status class
  moves, by one.\<close>

theorem answers_are_named_and_counted:
  assumes "serve G h rq route st m = Some (r, st', m')" "sorted_wrt (<) (map fst m)"
  defines "i \<equiv> fst (request_id_of h (rq_headers rq))"
  defines "k \<equiv> (rq_method rq, resource_label (rq_matched rq), status_class (rs_status r))"
  shows "header_get (rs_headers r) REQUEST_ID_HEADER = Some i
    \<and> (\<forall>v. header_get (rq_headers rq) REQUEST_ID_HEADER = Some v \<and> v \<noteq> [] \<and> header_text v \<noteq> None \<longrightarrow> i = v)
    \<and> (inbound (rq_headers rq) = None \<longrightarrow> i = mint h \<and> length i = 16)
    \<and> (\<not> concurrency_admits G \<longrightarrow> st' = st \<and> rs_status r = 503 \<and> rs_body r = rs_body (saturated i)
         \<and> header_get (rs_headers r) ''retry-after'' = Some ''1'')
    \<and> (concurrency_admits G \<and> fst (route i st) = None \<longrightarrow> request_timeout (limits G) \<noteq> None \<and> rs_status r = 504)
    \<and> sorted_wrt (<) (map fst m')
    \<and> (\<forall>k'. map_of m' k' = (if k' = k then Some (case map_of m k of Some n \<Rightarrow> n + 1 | None \<Rightarrow> 1) else map_of m k'))"
proof -
  have echo: "snd (request_id_of h (rq_headers rq)) = i"
    by (auto simp: i_def request_id_of_def inbound_def header_text_def bind_eq_Some_conv split: option.splits if_splits)
  obtain r0 where g: "guarded G route st i = Some (r0, st')"
    and r: "r = r0\<lparr>rs_headers := header_insert REQUEST_ID_HEADER i (rs_headers r0)\<rparr>"
    and m': "m' = bump k m"
    using assms(1) echo unfolding i_def k_def
    by (auto simp: serve_def propagate_def track_def record_count_def split: prod.splits)
  have "header_get (rs_headers r) REQUEST_ID_HEADER = Some i" by (simp add: r header_get_insert)
  moreover have "i = v" if "header_get (rq_headers rq) REQUEST_ID_HEADER = Some v" "v \<noteq> []" "header_text v \<noteq> None" for v
    using that by (auto simp: i_def request_id_of_def inbound_def header_text_def split: if_splits)
  moreover have "inbound (rq_headers rq) = None \<longrightarrow> i = mint h \<and> length i = 16"
    using mint_visible [of h] by (simp add: i_def request_id_of_def)
  moreover have "st' = st \<and> rs_status r = 503 \<and> rs_body r = rs_body (saturated i)
      \<and> header_get (rs_headers r) ''retry-after'' = Some ''1''" if "\<not> concurrency_admits G"
    using that g by (auto simp: guarded_def r saturated_def envelope_def header_get_insert_other REQUEST_ID_HEADER_def)
      (simp_all add: header_get_def)
  moreover have "request_timeout (limits G) \<noteq> None \<and> rs_status r = 504" if "concurrency_admits G" "fst (route i st) = None"
    using that g by (auto simp: guarded_def timeout_def envelope_def r split: prod.splits if_splits)
  moreover have "sorted_wrt (<) (map fst m')"
    "\<forall>k'. map_of m' k' = (if k' = k then Some (case map_of m k of Some n \<Rightarrow> n + 1 | None \<Rightarrow> 1) else map_of m k')"
    using assms(2) by (simp_all add: m' bump_value bump_sorted)
  ultimately show ?thesis by blast
qed

section \<open>Requests in flight\<close>

record Server =
  sv_guard :: GuardrailState
  sv_running :: "nat set"

definition boot :: "Guardrails \<Rightarrow> Server" where
  "boot g = \<lparr>sv_guard = guardrail_state g, sv_running = {}\<rparr>"

text \<open>A request is admitted or refused by the concurrency layer; an admitted one leaves when it is answered,
  cut off or abandoned by its client, each of which drops the permit its future owns.\<close>

inductive request_step :: "Server \<Rightarrow> Server \<Rightarrow> bool" where
  admit: "try_acquire (sv_guard S) = Some G \<Longrightarrow> max_concurrency (limits (sv_guard S)) \<noteq> None \<Longrightarrow> i \<notin> sv_running S \<Longrightarrow>
    request_step S (S\<lparr>sv_guard := G, sv_running := insert i (sv_running S)\<rparr>)"
| admit_uncapped: "max_concurrency (limits (sv_guard S)) = None \<Longrightarrow> i \<notin> sv_running S \<Longrightarrow>
    request_step S (S\<lparr>sv_running := insert i (sv_running S)\<rparr>)"
| leave: "max_concurrency (limits (sv_guard S)) \<noteq> None \<Longrightarrow> i \<in> sv_running S \<Longrightarrow>
    request_step S (S\<lparr>sv_guard := release_permit (sv_guard S), sv_running := sv_running S - {i}\<rparr>)"
| leave_uncapped: "max_concurrency (limits (sv_guard S)) = None \<Longrightarrow> i \<in> sv_running S \<Longrightarrow>
    request_step S (S\<lparr>sv_running := sv_running S - {i}\<rparr>)"

inductive_cases request_stepE: "request_step S S'"

definition permits_ok :: "nat \<Rightarrow> Server \<Rightarrow> bool" where
  "permits_ok n S \<longleftrightarrow> max_concurrency (limits (sv_guard S)) = Some n \<and> finite (sv_running S)
     \<and> semaphore (sv_guard S) + card (sv_running S) = n"

lemma permits_ok_step: "request_step S S' \<Longrightarrow> permits_ok n S \<Longrightarrow> permits_ok n S'"
proof (induction rule: request_step.induct)
  case (leave S i)
  then have "0 < card (sv_running S)" by (auto simp: permits_ok_def card_gt_0_iff)
  with leave show ?case by (simp add: permits_ok_def release_permit_def card_Diff_singleton)
qed (auto simp: permits_ok_def try_acquire_def split: if_splits)

interpretation permits: machine request_step "boot g" "\<lambda>S. \<forall>n. max_concurrency g = Some n \<longrightarrow> permits_ok n S" for g
  by unfold_locales (simp add: boot_def guardrail_state_def permits_ok_def, blast intro: permits_ok_step)

text \<open>C32. The cap holds and no permit leaks: whatever order requests come, finish, time out and hang up in,
  at most the configured number is in flight, a new one is refused exactly when that many are, and
  when all have left every permit is back.\<close>

theorem in_flight_bounded:
  assumes "request_step\<^sup>*\<^sup>* (boot g) S" "max_concurrency g = Some n"
  shows "finite (sv_running S) \<and> card (sv_running S) \<le> n
    \<and> (concurrency_admits (sv_guard S) \<longleftrightarrow> card (sv_running S) < n)
    \<and> (sv_running S = {} \<longrightarrow> semaphore (sv_guard S) = n)"
proof -
  have "permits_ok n S" using permits.reachable_inv [OF assms(1)] assms(2) by simp
  then show ?thesis by (auto simp: permits_ok_def concurrency_admits_def try_acquire_def)
qed

section \<open>Examples\<close>

theorem redact_query_exact_witness:
  "redact_query (join_with ''&'' (map pair_text [(''page'', Some ''2''), (''TOKEN'', Some ''abc''), (''verbose'', None)]))
     = ''page=2&TOKEN=[redacted]&verbose''"
proof -
  let ?kvs = "[(''page'', Some ''2''), (''TOKEN'', Some ''abc''), (''verbose'', None)]"
  have "list_all pair_ok ?kvs" by (simp add: pair_ok_def)
  moreover have "\<not> is_secret_query_key ''page''" "is_secret_query_key ''TOKEN''" by code_simp+
  ultimately show ?thesis using redact_query_exact [of ?kvs] by (simp add: hide_def REDACTED_def)
qed

definition busy_guard :: GuardrailState where
  "busy_guard = \<lparr>limits = default_guardrails, semaphore = 0\<rparr>"

definition ping :: Request where
  "ping = \<lparr>rq_method = ''GET'', rq_matched = Some ''/projects/{id}'', rq_headers = [(''x-request-id'', ''abc'')]\<rparr>"

theorem answers_are_named_and_counted_witness:
  "\<exists>r st' m'. serve busy_guard 7 ping (\<lambda>_ st. (None, st)) \<lparr>files = [], derivations = empty_cache\<rparr> [] = Some (r, st', m')
     \<and> rs_status r = 503 \<and> header_get (rs_headers r) ''x-request-id'' = Some ''abc''"
proof -
  let ?st = "\<lparr>files = [], derivations = empty_cache\<rparr>"
  have full: "\<not> concurrency_admits busy_guard"
    by (simp add: concurrency_admits_def busy_guard_def default_guardrails_def try_acquire_def)
  then obtain r st' m' where s: "serve busy_guard 7 ping (\<lambda>_ st. (None, st)) ?st [] = Some (r, st', m')"
    by (cases "request_id_of 7 (rq_headers ping)") (auto simp: serve_def propagate_def guarded_def track_def)
  have "fst (request_id_of 7 (rq_headers ping)) = ''abc''"
    by (simp add: ping_def request_id_of_def inbound_def header_get_def REQUEST_ID_HEADER_def header_text_def)
  with answers_are_named_and_counted [OF s] full s show ?thesis by (simp add: REQUEST_ID_HEADER_def)
qed

theorem in_flight_bounded_witness:
  "\<exists>S. request_step\<^sup>*\<^sup>* (boot \<lparr>max_body_bytes = 1, request_timeout = None, max_concurrency = Some 1\<rparr>) S
     \<and> sv_running S = {4} \<and> \<not> concurrency_admits (sv_guard S)"
proof -
  let ?g = "\<lparr>max_body_bytes = 1, request_timeout = None, max_concurrency = Some 1\<rparr>"
  let ?S = "(boot ?g)\<lparr>sv_guard := (guardrail_state ?g)\<lparr>semaphore := 0\<rparr>, sv_running := insert 4 (sv_running (boot ?g))\<rparr>"
  have "request_step (boot ?g) ?S"
    by (rule admit) (simp_all add: boot_def guardrail_state_def try_acquire_def)
  then have reach: "request_step\<^sup>*\<^sup>* (boot ?g) ?S" by (rule r_into_rtranclp)
  from in_flight_bounded [OF this, of 1] reach show ?thesis by (intro exI [of _ ?S]) (auto simp: boot_def)
qed

end
