(* ===== verification/Probes.thy ===== *)
theory Probes
  imports Responses
begin

text \<open>
  Readiness and diagnostics: the probe of the data volume (\<^verbatim>\<open>src/storage/fs/probe.rs\<close>, the helpers of
  \<^verbatim>\<open>src/storage/fs/mod.rs\<close> and \<^verbatim>\<open>StorageProbe\<close> of \<^verbatim>\<open>src/storage/mod.rs\<close>) and the three unguarded endpoints that
  answer from it (\<^verbatim>\<open>src/api/mod.rs\<close>).

  A \<open>Volume\<close> is a file system with the modification time of each node in seconds since the epoch,
  whether an entry can be added to the data root and written, and what the operating system answers
  about the lock file. Adding or removing an entry stamps the directory that holds it, as POSIX has it.
\<close>

datatype lock_answer = LockFree | LockHeld | LockUnopenable | LockBroken

record Volume =
  vol_fs :: fs
  vol_mtime :: "path \<Rightarrow> nat option"
  vol_addable :: bool
  vol_full :: bool
  vol_lock :: lock_answer

record StorageProbe =
  exists_probe :: bool
  writable :: bool
  lockable :: bool
  lock_held :: bool
  last_write_unix :: "nat option"

definition UNREACHABLE :: StorageProbe where
  "UNREACHABLE = \<lparr>exists_probe = False, writable = False, lockable = False, lock_held = False, last_write_unix = None\<rparr>"

definition probe_ready :: "StorageProbe \<Rightarrow> bool" where
  "probe_ready p \<longleftrightarrow> exists_probe p \<and> writable p \<and> lockable p"

definition touch :: "path \<Rightarrow> nat \<Rightarrow> Volume \<Rightarrow> Volume" where
  "touch p now V = V\<lparr>vol_mtime := (vol_mtime V)(p \<mapsto> now)\<rparr>"

text \<open>The scratch file is created, written and removed, which stamps the root and leaves no entry.\<close>

definition probe_writable :: "path \<Rightarrow> string \<Rightarrow> nat \<Rightarrow> Volume \<Rightarrow> bool \<times> Volume" where
  "probe_writable data_root unique now V =
     (let scratch = data_root @ [''.tatu-'' @ unique @ ''.tmp''] in
      if vol_addable V \<and> \<not> path_exists (vol_fs V) scratch
      then (\<not> vol_full V, touch data_root now V)
      else (False, V))"

definition lock_path :: "path \<Rightarrow> path" where
  "lock_path data_root = data_root @ [''.tatu.lock'']"

definition open_lock :: "path \<Rightarrow> nat \<Rightarrow> Volume \<Rightarrow> Volume option" where
  "open_lock data_root now V =
     (if vol_lock V = LockUnopenable then None
      else if path_exists (vol_fs V) (lock_path data_root) then Some V
      else if vol_addable V
        then Some (touch data_root now (touch (lock_path data_root) now (V\<lparr>vol_fs := (lock_path data_root, File []) # vol_fs V\<rparr>)))
        else None)"

definition probe_lock :: "path \<Rightarrow> nat \<Rightarrow> Volume \<Rightarrow> (bool \<times> bool) \<times> Volume" where
  "probe_lock data_root now V = (case open_lock data_root now V of
       None \<Rightarrow> ((False, False), V)
     | Some V' \<Rightarrow> (case vol_lock V of
         LockFree \<Rightarrow> (True, False)
       | LockHeld \<Rightarrow> (True, True)
       | _ \<Rightarrow> (False, False), V'))"

definition newest_mtime :: "path \<Rightarrow> Volume \<Rightarrow> nat option" where
  "newest_mtime data_root V =
     (let seen = List.map_filter (\<lambda>x. x)
        (vol_mtime V data_root # map (\<lambda>(p, _). vol_mtime V p) (filter (\<lambda>(p, _). p \<noteq> [] \<and> butlast p = data_root) (vol_fs V)))
      in if seen = [] then None else Some (foldl max (hd seen) (tl seen)))"

definition probe_readiness :: "path \<Rightarrow> string \<Rightarrow> nat \<Rightarrow> Volume \<Rightarrow> StorageProbe \<times> Volume" where
  "probe_readiness data_root unique now V =
     (if \<not> is_dir (vol_fs V) data_root then (UNREACHABLE, V)
      else
        (let newest = newest_mtime data_root V;
             ((lock_ok, held), V1) = probe_lock data_root now V;
             (wrote, V2) = probe_writable data_root unique now V1
         in (\<lparr>exists_probe = True, writable = wrote, lockable = lock_ok, lock_held = held, last_write_unix = newest\<rparr>, V2)))"

section \<open>The endpoints\<close>

definition health :: Response where
  "health = json_response 200 (Obj [(''status'', Str ''ok''), (''storage'', Str ''filesystem'')])"

definition not_ready_reason :: "StorageProbe \<Rightarrow> string" where
  "not_ready_reason p =
     (if \<not> exists_probe p then ''the data directory is missing''
      else if \<not> writable p then ''the data directory is not writable''
      else ''the storage lock cannot be taken'')"

text \<open>A probe worker that dies has no probe to answer from.\<close>

definition ready_endpoint :: "string option \<Rightarrow> StorageProbe option \<Rightarrow> Response" where
  "ready_endpoint request_id probe = (case probe of
       Some p \<Rightarrow>
         if probe_ready p then json_response 200 (Obj [(''status'', Str ''ready''), (''storage'', Str ''filesystem'')])
         else envelope request_id 503 ''not_ready'' (''storage is not ready: '' @ not_ready_reason p)
     | None \<Rightarrow> envelope request_id 503 ''not_ready'' ''storage is not ready: the readiness probe worker failed'')"

definition probe_json :: "StorageProbe \<Rightarrow> json" where
  "probe_json p = Obj [(''exists'', JBool (exists_probe p)),
     (''lastWriteUnix'', case last_write_unix p of Some n \<Rightarrow> Num (PosInt (word_of_nat n)) | None \<Rightarrow> Null),
     (''lockHeld'', JBool (lock_held p)), (''lockable'', JBool (lockable p)), (''ready'', JBool (probe_ready p)),
     (''storage'', Str ''filesystem''), (''writable'', JBool (writable p))]"

definition diagnostics :: "StorageProbe option \<Rightarrow> Response" where
  "diagnostics probe = json_response 200 (probe_json (case probe of Some p \<Rightarrow> p | None \<Rightarrow> UNREACHABLE))"

section \<open>What a probe leaves behind\<close>

lemma foldl_max_ge: "x \<le> foldl max (x :: nat) xs \<and> (\<forall>y\<in>set xs. y \<le> foldl max x xs)"
  by (induction xs arbitrary: x) (auto, (meson dual_order.trans max.cobounded1 max.cobounded2)+)

lemma newest_mtime_root: "vol_mtime V p = Some t \<Longrightarrow> \<exists>n. newest_mtime p V = Some n \<and> t \<le> n"
  using foldl_max_ge by (auto simp: newest_mtime_def Let_def List.map_filter_def)

lemma probe_keeps:
  assumes "probe_readiness data_root unique now V = (p, V')"
  shows "\<forall>q. q \<noteq> lock_path data_root \<longrightarrow> lookup (vol_fs V') q = lookup (vol_fs V) q"
    "is_dir (vol_fs V) data_root \<Longrightarrow> is_dir (vol_fs V') data_root"
    "writable p \<Longrightarrow> vol_mtime V' data_root = Some now"
  using assms
  by (auto simp: probe_readiness_def probe_writable_def probe_lock_def open_lock_def touch_def UNREACHABLE_def
      lookup_def is_dir_iff lock_path_def Let_def split: if_splits option.splits prod.splits)

text \<open>A probe changes no stored document, only the lock file may appear. But a store that is only ever
  polled does look busy, against what the probe's comment says: its scratch file stamps the data
  directory, so the next probe reports the time of the one before as a write.\<close>

theorem polled_store_looks_busy:
  assumes "probe_readiness data_root s1 t1 V = (p1, V1)" "writable p1"
    "probe_readiness data_root s2 t2 V1 = (p2, V2)"
  shows "(\<forall>q. q \<noteq> lock_path data_root \<longrightarrow> lookup (vol_fs V2) q = lookup (vol_fs V) q)
    \<and> (\<exists>n. last_write_unix p2 = Some n \<and> t1 \<le> n)"
proof -
  have "is_dir (vol_fs V) data_root"
    using assms(1,2) by (auto simp: probe_readiness_def UNREACHABLE_def split: if_splits)
  then have "is_dir (vol_fs V1) data_root" by (rule probe_keeps(2) [OF assms(1)])
  then have "last_write_unix p2 = newest_mtime data_root V1"
    using assms(3) by (auto simp: probe_readiness_def Let_def split: prod.splits)
  then show ?thesis
    using newest_mtime_root [OF probe_keeps(3) [OF assms(1,2)]] probe_keeps(1) [OF assms(1)] probe_keeps(1) [OF assms(3)]
    by simp
qed

definition sample_volume :: Volume where
  "sample_volume = \<lparr>vol_fs = [([''data''], Dir)], vol_mtime = (\<lambda>_. Some 5), vol_addable = True, vol_full = False, vol_lock = LockFree\<rparr>"

theorem polled_store_looks_busy_witness:
  "\<exists>n. last_write_unix (fst (probe_readiness [''data''] ''2'' 200 (snd (probe_readiness [''data''] ''1'' 100 sample_volume)))) = Some n
     \<and> 100 \<le> n"
proof -
  have "writable (fst (probe_readiness [''data''] ''1'' 100 sample_volume))"
    by (simp add: probe_readiness_def sample_volume_def probe_lock_def open_lock_def probe_writable_def touch_def
        is_dir_iff lookup_def path_exists_def lock_path_def Let_def)
  from polled_store_looks_busy [OF surjective_pairing this surjective_pairing] show ?thesis by blast
qed

end
