(* ===== verification/Cli.thy ===== *)
theory Cli
  imports Settings Middleware
begin

text \<open>
  The process entry point (\<^verbatim>\<open>src/main.rs\<close>): the bounds it reads from the environment, the two
  subcommands that write accounts, and the order in which a server comes up. A refusal is the text the
  process prints before it exits with a failure; a panic of a setting is such a text as well. The
  log-directive parser, the user the process runs as and what \<^verbatim>\<open>FileRepository::new\<close> and the rest need are
  arguments; the listener and the signals are left out.
\<close>

section \<open>Bounds from the environment\<close>

definition non_blank :: "string option \<Rightarrow> string option" where
  "non_blank raw = Option.bind raw (\<lambda>s. if trim s = [] then None else Some (trim s))"

definition parse_setting :: "string \<Rightarrow> string \<Rightarrow> string + nat" where
  "parse_setting var raw = ok_or (var @ '' is not a valid u64: '' @ debug_str raw) (parse_u64 raw)"

definition DEFAULT_LOCK_TIMEOUT_MS :: nat where
  "DEFAULT_LOCK_TIMEOUT_MS = 5000"

definition lock_timeout_from :: "string option \<Rightarrow> string + nat" where
  "lock_timeout_from raw = (case non_blank raw of
       None \<Rightarrow> Inr DEFAULT_LOCK_TIMEOUT_MS
     | Some s \<Rightarrow> parse_setting ''TATU_LOCK_TIMEOUT_MS'' s)"

definition max_body_bytes_from :: "string option \<Rightarrow> string + nat" where
  "max_body_bytes_from raw = (case non_blank raw of
       None \<Rightarrow> Inr MAX_ATTACHMENT_BYTES
     | Some s \<Rightarrow> rbind (parse_setting ''TATU_MAX_BODY_BYTES'' s) (\<lambda>n.
         if n > 0 then Inr n else Inl ''TATU_MAX_BODY_BYTES must be a positive byte count''))"

definition request_timeout_from :: "string option \<Rightarrow> string + 64 word option" where
  "request_timeout_from raw = (case non_blank raw of
       None \<Rightarrow> Inr (Some DEFAULT_REQUEST_TIMEOUT_MS)
     | Some s \<Rightarrow> rbind (parse_setting ''TATU_REQUEST_TIMEOUT_MS'' s) (\<lambda>n.
         Inr (if n > 0 then Some (word_of_nat n) else None)))"

definition max_concurrency_from :: "string option \<Rightarrow> string + nat option" where
  "max_concurrency_from raw = (case non_blank raw of
       None \<Rightarrow> Inr (Some DEFAULT_MAX_CONCURRENCY)
     | Some s \<Rightarrow> rbind (parse_setting ''TATU_MAX_CONCURRENCY'' s) (\<lambda>n.
         Inr (if n > 0 then Some n else None)))"

definition DEFAULT_LOG_FILTER :: string where
  "DEFAULT_LOG_FILTER = ''info''"

datatype LogFormat = Compact | JsonFormat

text \<open>\<open>directives\<close> is the filter parser of \<^verbatim>\<open>tracing-subscriber\<close>: an error text or the filter.\<close>

definition log_filter_from :: "(string \<Rightarrow> string + 'f) \<Rightarrow> string option \<Rightarrow> string + 'f" where
  "log_filter_from directives raw =
     (let ds = (case non_blank raw of Some s \<Rightarrow> s | None \<Rightarrow> DEFAULT_LOG_FILTER) in
      map_err (\<lambda>e. ''TATU_LOG is not a valid filter directive set: '' @ debug_str ds @ '' ('' @ e @ '')'') (directives ds))"

definition log_format_from :: "string option \<Rightarrow> string + LogFormat" where
  "log_format_from raw = (case non_blank raw of
       None \<Rightarrow> Inr Compact
     | Some s \<Rightarrow>
         if s = ''compact'' then Inr Compact
         else if s = ''json'' then Inr JsonFormat
         else Inl (''TATU_LOG_FORMAT is neither `compact` nor `json`: '' @ debug_str s))"

definition guardrails_from :: "(string \<Rightarrow> string option) \<Rightarrow> string + Guardrails" where
  "guardrails_from env =
     rbind (max_body_bytes_from (env ''TATU_MAX_BODY_BYTES'')) (\<lambda>body.
     rbind (request_timeout_from (env ''TATU_REQUEST_TIMEOUT_MS'')) (\<lambda>limit.
     rbind (max_concurrency_from (env ''TATU_MAX_CONCURRENCY'')) (\<lambda>cap.
       Inr \<lparr>max_body_bytes = body, request_timeout = limit, max_concurrency = cap\<rparr>)))"

section \<open>Seeding from the command line\<close>

fun seed_display :: "SeedError \<Rightarrow> string" where
  "seed_display (SeedStorage e) = ''cannot write the seeded account: '' @ io_message e"
| "seed_display SeedHash = ''cannot hash the seeded password: credential could not be hashed''"
| "seed_display (UnknownRole role) = ''unknown role '' @ debug_str role @ '': expected one of viewer, editor, owner''"

record SeedArgs =
  sa_username :: "string option"
  sa_password :: "string option"
  sa_grants :: "(string \<times> string) list"

fun parse_seed_args :: "string list \<Rightarrow> SeedArgs \<Rightarrow> string + SeedArgs" where
  "parse_seed_args [] a = Inr a"
| "parse_seed_args [flag] a = Inl (flag @ '' needs a value'')"
| "parse_seed_args (flag # val # rest) a =
     (if flag = ''--username'' then parse_seed_args rest (a\<lparr>sa_username := Some val\<rparr>)
      else if flag = ''--password'' then parse_seed_args rest (a\<lparr>sa_password := Some val\<rparr>)
      else if flag = ''--grant'' then
        (case split_once (CHR ''='') val of
           None \<Rightarrow> Inl (''--grant expects <project>=<role>, got '' @ debug_str val)
         | Some (project, role) \<Rightarrow>
             if project = [] then Inl (''--grant names no project: '' @ debug_str val)
             else (case parse_role role of
                 Inl e \<Rightarrow> Inl (seed_display e)
               | Inr _ \<Rightarrow> parse_seed_args rest (a\<lparr>sa_grants := sa_grants a @ [(project, role)]\<rparr>)))
      else Inl (''unknown option '' @ debug_str flag @ ''; expected --username, --password or --grant''))"

definition seed_spec :: "string list \<Rightarrow> string + AccountSpec" where
  "seed_spec args =
     rbind (parse_seed_args args \<lparr>sa_username = None, sa_password = None, sa_grants = []\<rparr>) (\<lambda>a.
     rbind (ok_or ''seed-auth needs --username'' (sa_username a)) (\<lambda>username.
     rbind (ok_or ''seed-auth needs --password'' (sa_password a)) (\<lambda>password.
       Inr \<lparr>sp_username = username, sp_password = password, sp_system_admin = False, sp_grants = sa_grants a\<rparr>)))"

definition mapping_error :: "('e \<Rightarrow> 'e2) \<Rightarrow> ('e, 'a) step \<Rightarrow> ('e2, 'a) step" where
  "mapping_error err m fs = (case m fs of (r, fs') \<Rightarrow> (map_err err r, fs'))"

definition seed_report :: "SeededAccount \<Rightarrow> string list" where
  "seed_report s =
     (''seed-auth: account '' @ sd_username s @ '' '' @ (if sd_created s then ''created'' else ''already present''))
     # map (\<lambda>(project, role). ''seed-auth: granted '' @ role @ '' on '' @ project) (sd_grants_added s)"

definition seed_auth :: "AuthEnv \<Rightarrow> string \<Rightarrow> string \<Rightarrow> 64 word \<Rightarrow> string list \<Rightarrow> (string, string list) step" where
  "seed_auth E fresh_id salt now args =
     ebind (elift (seed_spec args)) (\<lambda>spec.
     ebind (eio io_message (new_store (ae_store E))) (\<lambda>_.
     ebind (mapping_error seed_display (seed_account E fresh_id salt now spec)) (\<lambda>seeded.
       elift (Inr (seed_report seeded)))))"

section \<open>Teardown from the command line\<close>

record UnseedArgs =
  ua_username :: "string option"
  ua_grants :: "string list"
  ua_remove :: bool
  ua_check :: bool

fun parse_unseed_args :: "string list \<Rightarrow> UnseedArgs \<Rightarrow> string + UnseedArgs" where
  "parse_unseed_args [] a = Inr a"
| "parse_unseed_args (flag # rest) a =
     (if flag = ''--keep-account'' then parse_unseed_args rest (a\<lparr>ua_remove := False\<rparr>)
      else if flag = ''--check'' then parse_unseed_args rest (a\<lparr>ua_check := True\<rparr>)
      else (case rest of
          [] \<Rightarrow> Inl (flag @ '' needs a value'')
        | val # rest' \<Rightarrow>
            if flag = ''--username'' then parse_unseed_args rest' (a\<lparr>ua_username := Some val\<rparr>)
            else if flag = ''--grant'' then
              (if val = [] then Inl ''--grant names no project''
               else parse_unseed_args rest' (a\<lparr>ua_grants := ua_grants a @ [val]\<rparr>))
            else Inl (''unknown option '' @ debug_str flag @ ''; expected --username, --grant, --keep-account or --check'')))"

definition unseed_request :: "string list \<Rightarrow> string + (bool \<times> UnseedSpec)" where
  "unseed_request args =
     rbind (parse_unseed_args args \<lparr>ua_username = None, ua_grants = [], ua_remove = True, ua_check = False\<rparr>) (\<lambda>a.
     rbind (ok_or ''unseed-auth needs --username'' (ua_username a)) (\<lambda>username.
     if ua_grants a = []
     then Inl ''unseed-auth needs at least one --grant <project>: it removes only the grants it is told about, never every grant an account holds''
     else if ua_check a \<and> \<not> ua_remove a
     then Inl ''--check reads the account and writes nothing, so --keep-account changes nothing; ask for one or the other''
     else Inr (ua_check a, \<lparr>un_username = username, un_grants = ua_grants a, un_remove_account = ua_remove a\<rparr>)))"

definition show_bool :: "bool \<Rightarrow> string" where
  "show_bool b = (if b then ''true'' else ''false'')"

definition check_report :: "string \<Rightarrow> AccountReport \<Rightarrow> string list" where
  "check_report username r =
     (if rp_present r
      then (''unseed-auth: check account '' @ rp_username r @ '' is present''
             @ (if rp_system_admin r then '' and administers the server'' else []))
        # map (\<lambda>(project, role). ''unseed-auth: check holds the '' @ role @ '' grant on '' @ project) (rp_grants_present r)
        @ map (\<lambda>project. ''unseed-auth: check holds no grant on '' @ project) (rp_grants_absent r)
      else [''unseed-auth: check account '' @ username @ '' is absent''])
     @ map (\<lambda>(project, i, role). ''unseed-auth: check found a '' @ role @ '' grant on '' @ project @ '' for account '' @ i
          @ '', which no account answers for'') (rp_orphans r)
     @ [''unseed-auth: check account='' @ (if rp_present r then ''present'' else ''absent'')
          @ '' system_admin='' @ show_bool (rp_system_admin r)
          @ '' grants_present='' @ show_nat (length (rp_grants_present r))
          @ '' grants_absent='' @ show_nat (length (rp_grants_absent r))
          @ '' orphans='' @ show_nat (length (rp_orphans r))]"

definition unseed_report :: "UnseededAccount \<Rightarrow> string list" where
  "unseed_report u =
     (if ud_account_removed u then [''unseed-auth: removed account '' @ ud_username u]
      else case ud_account_kept u of
          Some reason \<Rightarrow> [''unseed-auth: kept account '' @ ud_username u @ '' ('' @ reason @ '')'']
        | None \<Rightarrow> [])
     @ map (\<lambda>(project, role). ''unseed-auth: removed the '' @ role @ '' grant on '' @ project) (ud_grants_removed u)
     @ map (\<lambda>(project, reason). ''unseed-auth: kept the grant on '' @ project @ '' ('' @ reason @ '')'') (ud_grants_kept u)
     @ map (\<lambda>project. ''unseed-auth: no grant on '' @ project @ '' to remove'') (ud_grants_absent u)
     @ [''unseed-auth: account='' @ (if ud_account_removed u then ''removed''
            else if (case ud_account_kept u of Some reason \<Rightarrow> is_missing_account_reason reason | None \<Rightarrow> False) then ''absent''
            else ''kept'')
          @ '' grants_removed='' @ show_nat (length (ud_grants_removed u))
          @ '' grants_kept='' @ show_nat (length (ud_grants_kept u))]"

definition unseed_auth :: "AuthStore \<Rightarrow> string list \<Rightarrow> (string, string list) step" where
  "unseed_auth A args =
     ebind (elift (unseed_request args)) (\<lambda>(check, spec).
     ebind (eio io_message (new_store A)) (\<lambda>_.
     if check
     then ebind (mapping_error seed_display (report_account A (un_username spec) (un_grants spec))) (\<lambda>r.
       elift (Inr (check_report (un_username spec) r)))
     else ebind (mapping_error seed_display (unseed_account A spec)) (\<lambda>u.
       elift (Inr (unseed_report u)))))"

section \<open>Coming up\<close>

definition startup_failure :: "nat \<Rightarrow> string \<Rightarrow> string \<Rightarrow> io_error \<Rightarrow> string" where
  "startup_failure uid action dir e = ''could not '' @ action @ '' at '' @ dir @ '' as uid '' @ show_nat uid
     @ '' '' @ [CHR 0xE2, CHR 0x80, CHR 0x94] @ '' for a container reading a bind-mounted volume, check the host directory is writable by this uid: ''
     @ io_message e"

text \<open>What the process finds: the two parsers, the files it may read, its environment, its user and the
  data directory as it prints.\<close>

record Host =
  ho_reader :: Reader
  ho_aead :: Aead
  ho_read :: "string \<Rightarrow> string io_result"
  ho_env :: "string \<Rightarrow> string option"
  ho_uid :: nat
  ho_data_dir :: string
  ho_directives :: "string \<Rightarrow> string + unit"

definition start_up ::
  "Host \<Rightarrow> FileRepository \<Rightarrow> AuthEnv \<Rightarrow> string \<Rightarrow> string \<Rightarrow> 64 word \<Rightarrow> (string, AuthConfig \<times> Guardrails) step" where
  "start_up H R E fresh_id salt now =
     ebind (elift (log_filter_from (ho_directives H) (ho_env H ''TATU_LOG''))) (\<lambda>_.
     ebind (elift (log_format_from (ho_env H ''TATU_LOG_FORMAT''))) (\<lambda>_.
     ebind (elift (map_err config_display (load_from_env (ho_reader H) (ho_aead H) (ho_read H) (ho_env H)))) (\<lambda>file.
     ebind (elift (lock_timeout_from (ho_env H ''TATU_LOCK_TIMEOUT_MS''))) (\<lambda>_.
     ebind (eio (startup_failure (ho_uid H) ''prepare the data directory'' (ho_data_dir H)) (new_repository R)) (\<lambda>_.
     ebind (elift (map_err auth_config_display (from_lookup_and_file (ho_read H) (ho_env H) file))) (\<lambda>cfg.
     ebind (eio (startup_failure (ho_uid H) ''prepare the account store below the data directory'' (ho_data_dir H))
              (new_store (ae_store E))) (\<lambda>_.
     ebind (mapping_error (\<lambda>e. ''could not ensure the bootstrap account below '' @ ho_data_dir H @ '' as uid ''
              @ show_nat (ho_uid H) @ '': '' @ bootstrap_display e)
              (ensure_bootstrap_user (E\<lparr>ae_config := cfg\<rparr>) fresh_id salt now)) (\<lambda>_.
     ebind (elift (guardrails_from (ho_env H))) (\<lambda>g.
       elift (Inr (cfg, g)))))))))))"

datatype Command = Serve | SeedAuth "string list" | UnseedAuth "string list"

definition command_of :: "string list \<Rightarrow> string + Command" where
  "command_of args = (case args of
       [] \<Rightarrow> Inr Serve
     | command # rest \<Rightarrow>
         if command = ''seed-auth'' then Inr (SeedAuth rest)
         else if command = ''unseed-auth'' then Inr (UnseedAuth rest)
         else Inl (''unknown command '' @ debug_str command
           @ '': the binary serves the API with no arguments, seeds the demo accounts with `seed-auth`, or removes them again with `unseed-auth`''))"

end
