(* ===== verification/Provision_Laws.thy ===== *)
theory Provision_Laws
  imports Provision Auth_Examples
begin

text \<open>
  The first account and the seeded ones: the bootstrap creates one administrator and only on an empty
  store, and seeding an account again changes nothing.
\<close>

lemma ebind_Inr_iff: "ebind m f fs = (Inr y, fs') \<longleftrightarrow> (\<exists>x fs1. m fs = (Inr x, fs1) \<and> f x fs1 = (Inr y, fs'))"
  by (auto simp: ebind_def split: prod.splits sum.splits)

lemma elift_eq [simp]: "elift r fs = (r', fs') \<longleftrightarrow> r = r' \<and> fs' = fs"
  by (auto simp: elift_def)

lemma eio_Inr_iff: "eio err m fs = (Inr x, fs') \<longleftrightarrow> m fs = (Inr x, fs')"
  by (auto simp: eio_def map_err_def split: prod.splits sum.splits)

lemma oread_Inr_iff: "oread g fs = (Inr x, fs') \<longleftrightarrow> g fs = Inr x \<and> fs' = fs"
  by (auto simp: oread_def)

lemmas step_simps = ebind_Inr_iff eio_Inr_iff oread_Inr_iff

section \<open>The first account\<close>

lemma insert_user_done:
  assumes "insert_user A u fs = (Inr (), fs')" "codec_ok (as_repo A)"
  shows "read_users_unlocked A fs' = Inr (stored_users A fs @ [u])"
proof -
  have "write_users_unlocked A (stored_users A fs @ [u]) fs = (Inr (), fs')"
    using assms(1) unfolding insert_user_def
    by (rule locked_users_cases) (auto simp: olift_def split: if_splits)
  then show ?thesis using read_users_after_write [OF _ assms(2)] by blast
qed

lemma bootstrap_result:
  assumes "ensure_bootstrap_user E fresh_id salt now fs = (Inr created, fs')" "codec_ok (as_repo (ae_store E))"
  defines "stored \<equiv> stored_users (ae_store E)"
  shows "(\<forall>name. created = Some name \<longrightarrow> stored fs = [] \<and> ac_bootstrap_username (ae_config E) = Some name
      \<and> (\<exists>hash. stored fs' = [\<lparr>u_id = fresh_id, u_username = name, u_password_hash = hash, u_system_admin = True,
           u_created_at = now, u_refresh_tokens = []\<rparr>]))
    \<and> (created = None \<longrightarrow> fs' = fs)
    \<and> (ac_required (ae_config E) \<longrightarrow> stored fs' \<noteq> [])
    \<and> (stored fs' \<noteq> [] \<longrightarrow> ensure_bootstrap_user E fresh_id' salt' now' fs' = (Inr None, fs'))"
proof -
  let ?A = "ae_store E"
  obtain us where us: "users ?A fs = Inr us" "us = stored fs"
    using assms(1) read_users_stored unfolding ensure_bootstrap_user_def stored_def users_def step_simps by blast
  show ?thesis
  proof (cases "us = []")
    case False
    then have "created = None" "fs' = fs" using assms(1) us
      by (auto simp: ensure_bootstrap_user_def step_simps)
    with False us show ?thesis by (simp add: ensure_bootstrap_user_def ebind_def eio_def oread_def elift_def)
  next
    case True
    show ?thesis
    proof (cases created)
      case None
      then have "fs' = fs" "\<not> ac_required (ae_config E)" using assms(1) us True
        by (auto simp: ensure_bootstrap_user_def step_simps split: option.splits if_splits)
      with None True us show ?thesis by simp
    next
      case (Some name)
      then obtain hash where i: "insert_user ?A \<lparr>u_id = fresh_id, u_username = name, u_password_hash = hash,
            u_system_admin = True, u_created_at = now, u_refresh_tokens = []\<rparr> fs = (Inr (), fs')"
        and n: "ac_bootstrap_username (ae_config E) = Some name"
        using assms(1) us True by (auto simp: ensure_bootstrap_user_def step_simps split: option.splits if_splits)
      from insert_user_done [OF i assms(2)] True us
      have r: "users ?A fs' = Inr [\<lparr>u_id = fresh_id, u_username = name, u_password_hash = hash,
            u_system_admin = True, u_created_at = now, u_refresh_tokens = []\<rparr>]"
        by (simp add: users_def stored_def)
      then have "stored fs' = [\<lparr>u_id = fresh_id, u_username = name, u_password_hash = hash,
            u_system_admin = True, u_created_at = now, u_refresh_tokens = []\<rparr>]"
        using read_users_stored by (fastforce simp: users_def stored_def)
      with r n Some True us show ?thesis
        by (simp add: ensure_bootstrap_user_def ebind_def eio_def oread_def elift_def)
    qed
  qed
qed

text \<open>The bootstrap creates exactly one administrator, and only where there is no account: where it
  answers with a name the store was empty and now holds that one account, which administers the
  server; where it answers with none nothing was written. With authentication enforced a server that
  gets past it has an account, and running it again is a no-op.\<close>

theorem bootstrap_creates_one_administrator:
  assumes "ensure_bootstrap_user E fresh_id salt now fs = (Inr created, fs')" "codec_ok (as_repo (ae_store E))"
  defines "stored \<equiv> stored_users (ae_store E)"
  shows "(\<forall>name. created = Some name \<longrightarrow> stored fs = [] \<and> ac_bootstrap_username (ae_config E) = Some name
      \<and> (\<exists>hash. stored fs' = [\<lparr>u_id = fresh_id, u_username = name, u_password_hash = hash, u_system_admin = True,
           u_created_at = now, u_refresh_tokens = []\<rparr>]))
    \<and> (created = None \<longrightarrow> fs' = fs)
    \<and> (ac_required (ae_config E) \<longrightarrow> stored fs' \<noteq> [])
    \<and> (stored fs' \<noteq> [] \<longrightarrow> ensure_bootstrap_user E fresh_id' salt' now' fs' = (Inr None, fs'))"
  unfolding stored_def using assms(1,2) by (rule bootstrap_result)

section \<open>Seeding again\<close>

definition grant_file :: "AuthStore \<Rightarrow> string \<Rightarrow> fs \<Rightarrow> string option" where
  "grant_file A p fs = (case grant_path A p of Inr q \<Rightarrow> file_at fs q | Inl _ \<Rightarrow> None)"

lemma role_of_frame:
  assumes "role_of A p i fs = Inr (Some r)" "grant_file A p fs' = grant_file A p fs"
  shows "role_of A p i fs' = Inr (Some r)"
proof -
  obtain q where q: "grant_path A p = Inr q"
    using assms(1) by (cases "grant_path A p") (auto simp: role_of_def grants_def read_grants_unlocked_def)
  then have below: "prefix (root (as_repo A)) q \<and> q \<noteq> root (as_repo A)"
    by (auto simp: grant_path_def grants_dir_def auth_dir_def Let_def rbind_Inr_iff)
  obtain b where b: "read_confined (root (as_repo A)) q fs = Inr b"
    using assms(1) q by (auto simp: role_of_def grants_def read_grants_unlocked_def read_or_default_def
        rbind_Inr_iff split: sum.splits if_splits)
  then have "file_at fs q = Some b" using below by (simp add: read_confined_file_at)
  then have "read_confined (root (as_repo A)) q fs' = Inr b"
    using below assms(2) q by (simp add: grant_file_def read_confined_file_at)
  with assms(1) q b show ?thesis
    by (simp add: role_of_def grants_def read_grants_unlocked_def read_or_default_def)
qed

lemma set_role_done:
  assumes "set_role A p i r fs = (Inr (), fs')" "codec_ok (as_repo A)"
  shows "role_of A p i fs' = Inr (Some r)" "file_at fs' (users_path A) = file_at fs (users_path A)"
    "grant_path A p' \<noteq> grant_path A p \<Longrightarrow> grant_file A p' fs' = grant_file A p' fs"
proof -
  obtain g where g: "write_grants_unlocked A p (obj_insert i r g) fs = (Inr (), fs')"
    using assms(1) by (auto simp: set_role_def locked_def obind_olift obind_oread split: sum.splits)
  show "role_of A p i fs' = Inr (Some r)" by (simp add: role_of_written [OF g assms(2)])
  obtain q where q: "grant_path A p = Inr q" "write_json (as_repo A) q (Grants_to_value (obj_insert i r g)) fs = (Inr (), fs')"
    using g by (auto simp: write_grants_unlocked_def write_json_atomically_def obind_olift split: sum.splits)
  have "file_at fs' p2 = file_at fs p2" if "p2 \<noteq> q" for p2
    using write_json_files(1) [OF q(2)] that by simp
  with q(1) grant_path_not_users [OF q(1)] show "file_at fs' (users_path A) = file_at fs (users_path A)"
    "grant_path A p' \<noteq> grant_path A p \<Longrightarrow> grant_file A p' fs' = grant_file A p' fs"
    by (auto simp: grant_file_def split: sum.splits)
qed

lemma seed_grants_done:
  assumes "seed_grants A i gs fs = (Inr added, fs')" "codec_ok (as_repo A)" "distinct (map (\<lambda>(p, _). grant_path A p) gs)"
  shows "(\<forall>(p, n)\<in>set gs. \<exists>r. parse_role n = Inr r \<and> role_of A p i fs' = Inr (Some r))
    \<and> file_at fs' (users_path A) = file_at fs (users_path A)
    \<and> (\<forall>p. grant_path A p \<notin> (\<lambda>(p, _). grant_path A p) ` set gs \<longrightarrow> grant_file A p fs' = grant_file A p fs)"
  using assms(1,3)
proof (induction gs arbitrary: fs added)
  case Nil
  then show ?case by simp
next
  case (Cons g gs)
  obtain p n where g: "g = (p, n)" by force
  from Cons.prems(1) obtain role held where role: "parse_role n = Inr role" and held: "role_of A p i fs = Inr held"
    by (auto simp: g step_simps)
  obtain fs1 added' where rest: "seed_grants A i gs fs1 = (Inr added', fs')" and here: "role_of A p i fs1 = Inr (Some role)"
    and users: "file_at fs1 (users_path A) = file_at fs (users_path A)"
    and other: "\<forall>p'. grant_path A p' \<noteq> grant_path A p \<longrightarrow> grant_file A p' fs1 = grant_file A p' fs"
  proof (cases "held = Some role")
    case True
    then show ?thesis using that [of fs added] Cons.prems(1) role held by (auto simp: g step_simps)
  next
    case False
    then obtain fs1 where "set_role A p i role fs = (Inr (), fs1)" "\<exists>a. seed_grants A i gs fs1 = (Inr a, fs')"
      using Cons.prems(1) role held by (auto simp: g step_simps)
    then show ?thesis using that set_role_done [OF _ assms(2)] by metis
  qed
  from Cons.IH [OF rest] Cons.prems(2) have IH:
    "(\<forall>(p, n)\<in>set gs. \<exists>r. parse_role n = Inr r \<and> role_of A p i fs' = Inr (Some r))"
    "file_at fs' (users_path A) = file_at fs1 (users_path A)"
    "\<forall>p. grant_path A p \<notin> (\<lambda>(p, _). grant_path A p) ` set gs \<longrightarrow> grant_file A p fs' = grant_file A p fs1"
    by simp_all
  have "grant_path A p \<notin> (\<lambda>(p, _). grant_path A p) ` set gs" using Cons.prems(2) by (simp add: g)
  then have "role_of A p i fs' = Inr (Some role)" using role_of_frame [OF here] IH(3) by blast
  with IH role users other show ?case by (simp add: g)
qed

lemma seed_grants_again:
  assumes "\<forall>(p, n)\<in>set gs. \<exists>r. parse_role n = Inr r \<and> role_of A p i fs = Inr (Some r)"
  shows "seed_grants A i gs fs = (Inr [], fs)"
  using assms by (induction gs) (auto simp: ebind_def eio_def oread_def elift_def map_err_def)

lemma users_frame:
  assumes "read_users_unlocked A fs = Inr us" "us \<noteq> []" "file_at fs' (users_path A) = file_at fs (users_path A)"
  shows "read_users_unlocked A fs' = Inr us"
proof -
  obtain b where b: "read_confined (root (as_repo A)) (users_path A) fs = Inr b"
    using assms(1,2) by (auto simp: read_users_unlocked_def read_or_default_def split: sum.splits if_splits)
  then have "file_at fs (users_path A) = Some b" using users_path_below by (simp add: read_confined_file_at)
  then have "read_confined (root (as_repo A)) (users_path A) fs' = Inr b"
    using users_path_below assms(3) by (simp add: read_confined_file_at)
  with assms(1) b show ?thesis by (simp add: read_users_unlocked_def read_or_default_def)
qed

text \<open>Seeding is idempotent: after an account was seeded, it holds every grant asked for, and seeding it
  again, whatever draws and clock the second run has, reports the same account as already present,
  adds no grant and writes nothing. An account that was already there keeps its record.\<close>

theorem seed_account_idempotent:
  assumes "seed_account E id1 salt1 now1 spec fs = (Inr s, fs1)" "codec_ok (as_repo (ae_store E))"
    "distinct (map (\<lambda>(p, _). grant_path (ae_store E) p) (sp_grants spec))"
  shows "seed_account E id2 salt2 now2 spec fs1 = (Inr (s\<lparr>sd_created := False, sd_grants_added := []\<rparr>), fs1)
    \<and> (\<forall>(p, n)\<in>set (sp_grants spec). \<exists>r. parse_role n = Inr r \<and> role_of (ae_store E) p (sd_id s) fs1 = Inr (Some r))
    \<and> (\<not> sd_created s \<longrightarrow> stored_users (ae_store E) fs1 = stored_users (ae_store E) fs)"
proof -
  let ?A = "ae_store E"
  let ?match = "\<lambda>u. eq_ignore_ascii_case (u_username u) (sp_username spec)"
  obtain us where us: "read_users_unlocked ?A fs = Inr us"
    using assms(1) unfolding seed_account_def user_by_username_def users_def step_simps by (auto simp: rbind_Inr_iff)
  have stored: "us = stored_users ?A fs" by (rule read_users_stored [OF us])
  obtain i name us0 fs0 u where
    r0: "read_users_unlocked ?A fs0 = Inr us0" and u: "find ?match us0 = Some u" "u_id u = i" "u_username u = name"
    and gs: "seed_grants ?A i (sp_grants spec) fs0 = (Inr (sd_grants_added s), fs1)"
    and s: "sd_id s = i" "sd_username s = name" and old: "\<not> sd_created s \<Longrightarrow> fs0 = fs"
  proof (cases "find ?match us")
    case (Some u)
    then show ?thesis using that [of fs us u] assms(1) us
      by (auto simp: seed_account_def user_by_username_def users_def step_simps)
  next
    case None
    then obtain hash fs0 where ins: "insert_user ?A \<lparr>u_id = id1, u_username = sp_username spec, u_password_hash = hash,
         u_system_admin = sp_system_admin spec, u_created_at = now1, u_refresh_tokens = []\<rparr> fs = (Inr (), fs0)"
      and rest: "seed_grants ?A id1 (sp_grants spec) fs0 = (Inr (sd_grants_added s), fs1)"
        "sd_id s = id1" "sd_username s = sp_username spec" "sd_created s"
      using assms(1) us by (auto simp: seed_account_def user_by_username_def users_def step_simps)
    from insert_user_done [OF ins assms(2)] None rest show ?thesis
      by (intro that) (auto simp: stored find_user_append eq_ignore_ascii_case_def)
  qed
  note after_grants = seed_grants_done [OF gs assms(2,3)]
  have "us0 \<noteq> []" using u(1) by auto
  then have r1: "read_users_unlocked ?A fs1 = Inr us0" using users_frame [OF r0] after_grants by blast
  have again: "seed_grants ?A i (sp_grants spec) fs1 = (Inr [], fs1)" using after_grants by (intro seed_grants_again) blast
  have "seed_account E id2 salt2 now2 spec fs1 = (Inr (s\<lparr>sd_created := False, sd_grants_added := []\<rparr>), fs1)"
    using r1 u again s
    by (cases s) (simp add: seed_account_def user_by_username_def users_def ebind_def eio_def oread_def elift_def map_err_def)
  moreover have "stored_users ?A fs1 = stored_users ?A fs" if "\<not> sd_created s"
    using old [OF that] after_grants by (auto intro: stored_users_cong)
  ultimately show ?thesis using after_grants s(1) by simp
qed

section \<open>Examples\<close>

lemma insert_user_succeeds:
  assumes "\<not> lock_busy (as_repo A)" "tree_ok fs" "read_users_unlocked A fs = Inr us" "file_at fs (users_path A) = Some b"
    "\<forall>e\<in>set us. u_id e \<noteq> u_id u \<and> \<not> eq_ignore_ascii_case (u_username e) (u_username u)"
  obtains fs' where "insert_user A u fs = (Inr (), fs')"
proof -
  obtain fs' where "write_users_unlocked A (us @ [u]) fs = (Inr (), fs')"
    using write_users_succeeds [OF assms(2,4)] by blast
  with assms have "insert_user A u fs = (Inr (), fs')"
    by (auto simp: insert_user_def locked_def acquire_lock_def obind_olift obind_oread list_ex_iff)
  then show ?thesis by (rule that)
qed

definition empty_accounts :: fs where
  "empty_accounts = [([''data''], Dir), ([''data'', ''auth''], Dir), ([''data'', ''auth'', ''users.json''], File (write_value (UserFile_to_value [])))]"

definition boot_env :: AuthEnv where
  "boot_env = auth_env\<lparr>ae_config := (ae_config auth_env)\<lparr>ac_bootstrap_username := Some ''root'', ac_bootstrap_password := Some ''pw''\<rparr>\<rparr>"

lemma empty_accounts_read: "read_users_unlocked auth_store empty_accounts = Inr []"
  "file_at empty_accounts (users_path auth_store) = Some (write_value (UserFile_to_value []))" "tree_ok empty_accounts"
proof -
  show f: "file_at empty_accounts (users_path auth_store) = Some (write_value (UserFile_to_value []))"
    by (simp add: file_at_def lookup_def empty_accounts_def users_path_def auth_dir_def)
  then have "read_confined [''data''] (users_path auth_store) empty_accounts = Inr (write_value (UserFile_to_value []))"
    using users_path_below [of auth_store] by (simp add: read_confined_file_at)
  then show "read_users_unlocked auth_store empty_accounts = Inr []"
    by (simp add: read_users_unlocked_def read_or_default_def UserFile_roundtrip)
  show "tree_ok empty_accounts" by (simp add: tree_ok_def empty_accounts_def is_dir_iff lookup_def)
qed

theorem bootstrap_creates_one_administrator_witness:
  "\<exists>fs' u. ensure_bootstrap_user boot_env ''a1'' ''s'' 7 empty_accounts = (Inr (Some ''root''), fs')
     \<and> stored_users auth_store fs' = [u] \<and> u_system_admin u"
proof -
  let ?u = "\<lparr>u_id = ''a1'', u_username = ''root'', u_password_hash = ''pw'', u_system_admin = True, u_created_at = 7, u_refresh_tokens = []\<rparr>"
  obtain fs' where "insert_user auth_store ?u empty_accounts = (Inr (), fs')"
    using insert_user_succeeds [of auth_store empty_accounts "[]" _ ?u] empty_accounts_read by auto
  then have e: "ensure_bootstrap_user boot_env ''a1'' ''s'' 7 empty_accounts = (Inr (Some ''root''), fs')"
    using empty_accounts_read(1)
    by (simp add: ensure_bootstrap_user_def boot_env_def users_def ebind_def eio_def oread_def elift_def map_err_def
        hash_password_def auth_env_def)
  have "ae_store boot_env = auth_store" by (simp add: boot_env_def)
  with bootstrap_creates_one_administrator [OF e] auth_codec have "\<exists>u. stored_users auth_store fs' = [u] \<and> u_system_admin u"
    by fastforce
  with e show ?thesis by blast
qed

definition seed_bob :: AccountSpec where
  "seed_bob = \<lparr>sp_username = ''bob'', sp_password = ''pw'', sp_system_admin = False, sp_grants = []\<rparr>"

theorem seed_account_idempotent_witness:
  "\<exists>s fs1. seed_account auth_env ''u9'' ''s'' 7 seed_bob auth_fs = (Inr s, fs1) \<and> sd_created s
     \<and> seed_account auth_env ''u10'' ''t'' 8 seed_bob fs1 = (Inr (s\<lparr>sd_created := False, sd_grants_added := []\<rparr>), fs1)"
proof -
  let ?u = "\<lparr>u_id = ''u9'', u_username = ''bob'', u_password_hash = ''pw'', u_system_admin = False, u_created_at = 7, u_refresh_tokens = []\<rparr>"
  have f: "\<exists>b. file_at auth_fs (users_path auth_store) = Some b"
    by (simp add: file_at_def lookup_def auth_fs_def users_path_def auth_dir_def)
  have no: "\<not> eq_ignore_ascii_case (u_username alice) ''bob''"
    by (auto dest: eq_ignore_ascii_case_length simp: alice_def)
  have hash: "hash_password (ae_argon auth_env) ''s'' ''pw'' = Some ''pw''" by (simp add: hash_password_def auth_env_def)
  obtain fs1 where "insert_user auth_store ?u auth_fs = (Inr (), fs1)"
    using insert_user_succeeds [of auth_store auth_fs "[alice]" _ ?u] auth_tree auth_users f no
    by (auto simp: alice_def)
  then have "seed_account auth_env ''u9'' ''s'' 7 seed_bob auth_fs
      = (Inr \<lparr>sd_id = ''u9'', sd_username = ''bob'', sd_created = True, sd_grants_added = []\<rparr>, fs1)"
    using auth_users no hash
    by (simp add: seed_account_def seed_bob_def user_by_username_def users_def ebind_def eio_def oread_def elift_def map_err_def)
  from seed_account_idempotent [OF this] this auth_codec show ?thesis by (auto simp: seed_bob_def)
qed

end
