(* ===== verification/Cli_Laws.thy ===== *)
theory Cli_Laws
  imports Cli Provision_Laws Settings_Laws
begin

text \<open>
  What the process entry point guarantees: a server that comes up is usable, and the teardown of an
  account touches nothing it was not told about.
\<close>

section \<open>A server that comes up\<close>

lemma mapping_error_Inr_iff: "mapping_error err m fs = (Inr x, fs') \<longleftrightarrow> m fs = (Inr x, fs')"
  by (auto simp: mapping_error_def map_err_def split: prod.splits sum.splits)

lemma map_err_Inr: "map_err f r = Inr x \<longleftrightarrow> r = Inr x"
  by (cases r) (simp_all add: map_err_def)

lemma parse_setting_bound: "parse_setting var raw = Inr n \<Longrightarrow> n < 2 ^ 64"
  by (auto simp: parse_setting_def parse_u64_def ok_or_Inr_iff split: option.splits if_splits)

lemma guardrails_from_usable:
  assumes "guardrails_from env = Inr g"
  shows "0 < max_body_bytes g \<and> request_timeout g \<noteq> Some 0 \<and> concurrency_admits (guardrail_state g)"
proof -
  obtain body limit cap where p: "max_body_bytes_from (env ''TATU_MAX_BODY_BYTES'') = Inr body"
      "request_timeout_from (env ''TATU_REQUEST_TIMEOUT_MS'') = Inr limit"
      "max_concurrency_from (env ''TATU_MAX_CONCURRENCY'') = Inr cap"
    and g: "g = \<lparr>max_body_bytes = body, request_timeout = limit, max_concurrency = cap\<rparr>"
    using assms by (auto simp: guardrails_from_def rbind_Inr_iff)
  have "0 < body" using p(1)
    by (auto simp: max_body_bytes_from_def rbind_Inr_iff MAX_ATTACHMENT_BYTES_def split: option.splits if_splits)
  moreover have "limit \<noteq> Some 0"
    using p(2) by (auto simp: request_timeout_from_def rbind_Inr_iff DEFAULT_REQUEST_TIMEOUT_MS_def word_of_nat_eq_0_iff
        split: option.splits if_splits dest!: parse_setting_bound nat_dvd_not_less)
  moreover have "cap \<noteq> Some 0"
    using p(3) by (auto simp: max_concurrency_from_def rbind_Inr_iff DEFAULT_MAX_CONCURRENCY_def split: option.splits if_splits)
  ultimately show ?thesis
    by (auto simp: g concurrency_admits_def try_acquire_def guardrail_state_def split: option.splits)
qed

text \<open>C22. A server that comes up is usable: with authentication enforced it has a signing key of at least
  32 bytes and an account to sign in with, whatever mix of environment and file configured it, and
  its bounds let a request in: bodies may have bytes, the timeout is not zero and the first request
  finds a permit.\<close>

theorem started_server_is_usable:
  assumes "start_up H R E fresh_id salt now fs = (Inr (cfg, g), fs')" "codec_ok (as_repo (ae_store E))"
  shows "(ac_required cfg \<longrightarrow> (\<exists>key. secret cfg = Inr key \<and> 32 \<le> length key) \<and> stored_users (ae_store E) fs' \<noteq> [])
    \<and> 0 < unat (ac_access_ttl cfg) \<and> 0 < unat (ac_refresh_ttl cfg)
    \<and> 0 < max_body_bytes g \<and> request_timeout g \<noteq> Some 0 \<and> concurrency_admits (guardrail_state g)"
proof -
  obtain doc created fs1 where c: "from_lookup_and_file (ho_read H) (ho_env H) doc = Inr cfg"
    and b: "ensure_bootstrap_user (E\<lparr>ae_config := cfg\<rparr>) fresh_id salt now fs1 = (Inr created, fs')"
    and g: "guardrails_from (ho_env H) = Inr g"
    using assms(1) unfolding start_up_def by (auto simp: step_simps mapping_error_Inr_iff map_err_Inr)
  note sound = from_lookup_sound [OF c]
  have "\<exists>key. secret cfg = Inr key \<and> 32 \<le> length key" if "ac_required cfg"
    using sound that by (auto simp: secret_def split: option.splits)
  moreover have "stored_users (ae_store E) fs' \<noteq> []" if "ac_required cfg"
    using bootstrap_result [OF b] assms(2) that by simp
  ultimately show ?thesis using sound guardrails_from_usable [OF g] by blast
qed

section \<open>Teardown\<close>

text \<open>Everything of the account store but the grants of some projects is kept.\<close>

definition only_grants :: "AuthStore \<Rightarrow> string list \<Rightarrow> fs \<Rightarrow> fs \<Rightarrow> bool" where
  "only_grants A ps fs fs' \<longleftrightarrow> stored_users A fs' = stored_users A fs
     \<and> (\<forall>p. grant_path A p \<notin> grant_path A ` set ps \<longrightarrow> grant_file A p fs' = grant_file A p fs)"

lemma only_grants_refl [simp]: "only_grants A ps fs fs"
  by (simp add: only_grants_def)

lemma only_grants_trans:
  assumes "only_grants A ps fs fs1" "only_grants A qs fs1 fs2" "set ps \<subseteq> set rs" "set qs \<subseteq> set rs"
  shows "only_grants A rs fs fs2"
proof -
  have "grant_file A p fs2 = grant_file A p fs" if "grant_path A p \<notin> grant_path A ` set rs" for p
  proof -
    from that assms(3,4) have "grant_path A p \<notin> grant_path A ` set ps" "grant_path A p \<notin> grant_path A ` set qs" by auto
    with assms(1,2) show ?thesis by (simp add: only_grants_def)
  qed
  with assms(1,2) show ?thesis by (simp add: only_grants_def)
qed

lemma remove_role_only:
  assumes "remove_role A p i fs = (x, fs')"
  shows "only_grants A [p] fs fs'"
proof -
  have w: "grant_file A p' fs2 = grant_file A p' fs"
    if "write_grants_unlocked A p g fs = (y, fs2)" "grant_path A p' \<noteq> grant_path A p" for g y fs2 p'
    using that write_json_files(1)
    by (auto simp: write_grants_unlocked_def write_json_atomically_def obind_olift grant_file_def split: sum.splits)
  have "grant_file A p' fs' = grant_file A p' fs" if "grant_path A p' \<noteq> grant_path A p" for p'
    using assms w [OF _ that]
    by (auto simp: remove_role_def locked_def obind_def olift_def oread_def split: sum.splits prod.splits if_splits)
  moreover have "stored_users A fs' = stored_users A fs"
    using grants_event_stored(2) [of A p i fs] assms by simp
  ultimately show ?thesis by (auto simp: only_grants_def)
qed

lemma unseed_grants_only: "unseed_grants A i ps fs = (x, fs') \<Longrightarrow> only_grants A ps fs fs'"
proof (induction ps arbitrary: fs x fs')
  case (Cons p ps)
  have keep: "only_grants A (p # ps) fs fs2" if "unseed_grants A i ps fs1 = (y, fs2)" "only_grants A [p] fs fs1" for fs1 y fs2
    by (rule only_grants_trans [OF that(2) Cons.IH [OF that(1)]]) auto
  show ?case
  proof (cases "role_of A p i fs")
    case (Inl e)
    then show ?thesis using Cons.prems by (auto simp: ebind_def eio_def oread_def map_err_def)
  next
    case (Inr held)
    show ?thesis
    proof (cases held)
      case None
      then show ?thesis using Cons.prems Inr keep [of fs]
        by (auto simp: ebind_def eio_def oread_def elift_def map_err_def split: prod.splits sum.splits)
    next
      case (Some role)
      obtain y fs1 where r: "remove_role A p i fs = (y, fs1)" by force
      then have o: "only_grants A [p] fs fs1" by (rule remove_role_only)
      then have "only_grants A (p # ps) fs fs1" by (auto simp: only_grants_def)
      with Some show ?thesis using Cons.prems Inr keep [OF _ o] r
        by (auto simp: ebind_def eio_def oread_def elift_def map_err_def split: prod.splits sum.splits)
    qed
  qed
qed simp

lemma kept_grants_frame: "kept_grants A i removed ps fs = (x, fs') \<Longrightarrow> fs' = fs"
  by (induction ps arbitrary: x) (auto simp: ebind_def eio_def oread_def elift_def split: prod.splits sum.splits)

lemma remove_user_only:
  assumes "remove_user A i fs = (x, fs')" "codec_ok (as_repo A)"
  shows "stored_users A fs' = stored_users A fs \<or> stored_users A fs' = filter (\<lambda>u. u_id u \<noteq> i) (stored_users A fs)"
    "grant_file A p fs' = grant_file A p fs"
proof -
  show "stored_users A fs' = stored_users A fs \<or> stored_users A fs' = filter (\<lambda>u. u_id u \<noteq> i) (stored_users A fs)"
    using remove_user_stored [OF assms] by (auto split: sum.splits)
  have w: "file_at fs2 q = file_at fs q" if "write_users_unlocked A us fs = (y, fs2)" "q \<noteq> users_path A" for us y fs2 q
    using that write_json_files(1) by (auto simp: write_users_unlocked_def write_json_atomically_def)
  have "file_at fs' q = file_at fs q" if "q \<noteq> users_path A" for q
    using assms(1) unfolding remove_user_def
    by (rule locked_users_cases)
      (use w [OF _ that] in \<open>auto simp: Let_def olift_def obind_def split: if_splits sum.splits prod.splits\<close>)
  then show "grant_file A p fs' = grant_file A p fs"
    using grant_path_not_users by (auto simp: grant_file_def split: sum.splits)
qed

text \<open>C36. Teardown touches only what it was told about, whether it succeeds, is refused or fails half-way:
  no grant file of an unnamed project changes, no other account is altered or removed, an account
  that administers the server is never removed, and an unknown username changes nothing at all.\<close>

theorem unseed_touches_only_the_named:
  assumes "unseed_account A spec fs = (x, fs')" "codec_ok (as_repo A)"
  defines "named \<equiv> find (\<lambda>u. eq_ignore_ascii_case (u_username u) (un_username spec)) (stored_users A fs)"
  shows "(\<forall>p. grant_path A p \<notin> grant_path A ` set (un_grants spec) \<longrightarrow> grant_file A p fs' = grant_file A p fs)
    \<and> (stored_users A fs' = stored_users A fs
       \<or> un_remove_account spec \<and> (\<exists>u. named = Some u \<and> \<not> u_system_admin u
            \<and> stored_users A fs' = filter (\<lambda>v. u_id v \<noteq> u_id u) (stored_users A fs)))
    \<and> (named = None \<longrightarrow> fs' = fs)"
proof (cases "users A fs")
  case (Inl e)
  then have "fs' = fs" using assms(1) by (auto simp: unseed_account_def user_by_username_def ebind_def eio_def oread_def map_err_def)
  then show ?thesis by simp
next
  case (Inr us)
  then have us: "us = stored_users A fs" by (auto simp: users_def dest: read_users_stored)
  then have look: "user_by_username A (un_username spec) fs = Inr named"
    using Inr by (simp add: user_by_username_def named_def)
  show ?thesis
  proof (cases named)
    case None
    then have "fs' = fs" using assms(1) look by (auto simp: unseed_account_def ebind_def eio_def oread_def elift_def map_err_def)
    then show ?thesis by simp
  next
    case (Some u)
    obtain y fs1 where g: "unseed_grants A (u_id u) (un_grants spec) fs = (y, fs1)" by force
    then have o: "only_grants A (un_grants spec) fs fs1" by (rule unseed_grants_only)
    show ?thesis
    proof (cases "fs' = fs \<or> fs' = fs1")
      case True
      with o Some show ?thesis by (auto simp: only_grants_def)
    next
      case False
      have "un_remove_account spec \<and> \<not> u_system_admin u \<and> snd (remove_user A (u_id u) fs1) = fs'"
        using assms(1) look Some g False
        by (auto simp: unseed_account_def ebind_def eio_def oread_def elift_def map_err_def
            split: prod.splits sum.splits if_splits dest: kept_grants_frame)
      moreover from this remove_user_only(1) [OF surjective_pairing assms(2), of "u_id u" fs1]
        remove_user_only(2) [OF surjective_pairing assms(2), of _ "u_id u" fs1]
      have "stored_users A fs' = stored_users A fs1 \<or> stored_users A fs' = filter (\<lambda>v. u_id v \<noteq> u_id u) (stored_users A fs1)"
        "\<forall>p. grant_file A p fs' = grant_file A p fs1" by auto
      ultimately show ?thesis using o Some by (auto simp: only_grants_def)
    qed
  qed
qed

section \<open>Examples\<close>

theorem unseed_touches_only_the_named_witness:
  "snd (unseed_account auth_store \<lparr>un_username = ''nobody'', un_grants = [''p.json''], un_remove_account = True\<rparr> auth_fs) = auth_fs"
proof -
  have "\<not> eq_ignore_ascii_case (u_username alice) ''nobody''"
    by (auto dest: eq_ignore_ascii_case_length simp: alice_def)
  with unseed_touches_only_the_named [OF surjective_pairing auth_codec,
      of "\<lparr>un_username = ''nobody'', un_grants = [''p.json''], un_remove_account = True\<rparr>" auth_fs]
  show ?thesis by (simp add: auth_stored)
qed

definition sample_host :: Host where
  "sample_host = \<lparr>ho_reader = \<lparr>json_of = (\<lambda>_. Inl []), repeats_field = (\<lambda>_. False), stops_at = (\<lambda>_. (0, 0))\<rparr>,
     ho_aead = sample_aead, ho_read = (\<lambda>_. Inr []), ho_env = sample_settings, ho_uid = 1, ho_data_dir = ''data'',
     ho_directives = (\<lambda>_. Inr ())\<rparr>"

definition host_fs :: fs where
  "host_fs = ([''data'', ''projects''], Dir) # auth_fs"

lemma host_dirs:
  "create_private_dir_all [''data'', ''projects''] host_fs = (Inr (), host_fs)"
  "create_private_dir_all [''data'', ''auth'', ''projects''] host_fs = (Inr (), host_fs)"
  by (simp_all add: create_private_dir_all_def host_fs_def auth_fs_def path_exists_def lookup_def is_file_def prefixes_def)

lemma host_legacy: "refuse_legacy_layout [''data''] host_fs = Inr ()"
  by (simp add: refuse_legacy_layout_def legacy_documents_def RESERVED_PROJECT_CHILDREN_def entries_or_empty_def
      host_fs_def auth_fs_def is_dir_iff lookup_def read_dir_def missing_error_def is_file_def prefixes_def)

theorem started_server_is_usable_witness:
  "\<exists>cfg g fs'. start_up sample_host auth_repo auth_env ''i'' ''s'' 7 host_fs = (Inr (cfg, g), fs')
     \<and> ac_required cfg \<and> (\<exists>key. secret cfg = Inr key \<and> 32 \<le> length key) \<and> 0 < max_body_bytes g"
proof -
  let ?cfg = "\<lparr>ac_required = True, ac_jwt_secret = Some sample_secret, ac_access_ttl = 300, ac_refresh_ttl = DEFAULT_REFRESH_TTL,
      ac_bootstrap_username = None, ac_bootstrap_password = None\<rparr>"
  have env: "sample_settings k = None" if "k \<notin> {''TATU_AUTH_REQUIRED'', ''TATU_ACCESS_TOKEN_TTL'', ''TATU_JWT_SECRET''}" for k
    using that by (auto simp: sample_settings_def)
  have g: "guardrails_from sample_settings = Inr default_guardrails"
    by (simp add: guardrails_from_def max_body_bytes_from_def request_timeout_from_def max_concurrency_from_def
        non_blank_def env default_guardrails_def)
  have users: "read_users_unlocked auth_store host_fs = Inr [alice]"
    by (rule users_frame [OF auth_users]) (simp_all add: host_fs_def file_at_def lookup_def users_path_def auth_dir_def)
  have "start_up sample_host auth_repo auth_env ''i'' ''s'' 7 host_fs = (Inr (?cfg, default_guardrails), host_fs)"
    using sample_settings_resolve g users host_dirs host_legacy
    by (simp add: start_up_def sample_host_def ebind_def elift_def eio_def mapping_error_def map_err_def
        log_format_from_def log_filter_from_def lock_timeout_from_def non_blank_def load_from_env_def
        load_key_ring_from_lookup_def load_config_def env CONFIG_FILE_ENV_def CONFIG_KEY_FILE_ENV_def new_repository_def
        obind_def oread_def new_store_def grants_dir_def auth_dir_def ensure_bootstrap_user_def users_def Let_def)
  from started_server_is_usable [OF this] this auth_codec show ?thesis by fastforce
qed

end
