(* ===== verification/Routes.thy ===== *)
theory Routes
  imports Case_Handlers Run_Handlers Middleware Probes
begin

text \<open>
  The router (\<^verbatim>\<open>router_with_guardrails\<close> of \<^verbatim>\<open>src/api/mod.rs\<close> and the \<^verbatim>\<open>routes\<close> function of every
  module of \<^verbatim>\<open>src/api\<close>): which handler answers which method of which path, and the values the handler
  takes out of the request. A table is the list of the \<^verbatim>\<open>route\<close> calls of one module, in order, each with
  its template and its methods; merging routers appends the tables, and entries of one template are
  one set of methods.

  What \<^verbatim>\<open>axum\<close> hands a handler is a value of the request: the outcome of each body or query extractor,
  on the left the answer of its refusal. The framework's matcher of paths, the answers of its fallbacks,
  the clock, the random draws, the parsers and the probe of the volume are the environment of the
  request. The probe's own writes are in theory \<open>Probes\<close>.
\<close>

section \<open>Requests\<close>

datatype Method = GET | HEAD | POST | PUT | DELETE | OtherMethod string

record Incoming =
  in_method :: Method
  in_path :: string
  in_authorization :: "string option"
  in_if_match :: "string option"
  in_children :: "Response + string option"
  in_list_query :: "Response + ListQuery"
  in_project_query :: "Response + string option"
  in_summary_query :: "Response + SummaryFilters"
  in_json :: "Response + json"
  in_session_json :: "json option"
  in_multipart :: "Response + Multipart"
  in_bytes :: "Response + string"

text \<open>A matcher finds, among the templates of a router, one for a path, with the values of its parameters.\<close>

type_synonym Matcher = "string list \<Rightarrow> string \<Rightarrow> (string \<times> string list) option"

record Env =
  en_match :: Matcher
  en_now :: "64 word"
  en_draws :: Draws
  en_round :: "rat \<Rightarrow> rat"
  en_parse_xml :: "string \<Rightarrow> xml_node list option"
  en_parse_slice :: "string \<Rightarrow> json option"
  en_from_utf8 :: "string \<Rightarrow> string option"
  en_probe :: "StorageProbe option"
  en_metrics :: HttpMetrics
  en_openapi :: string
  en_swagger :: string
  en_decode :: "string \<Rightarrow> string option"
  en_bad_path :: Response
  en_path_arity :: Response
  en_not_found :: Response
  en_method_not_allowed :: "Method list \<Rightarrow> Response"

text \<open>A handler, from the state, the environment, the request, its identifier and the raw path parameters.\<close>

type_synonym Handler = "AppState \<Rightarrow> Env \<Rightarrow> Incoming \<Rightarrow> string option \<Rightarrow> string list \<Rightarrow> Response sop"

section \<open>Extractors\<close>

text \<open>A refused extraction is the answer of the request.\<close>

definition extracting :: "Response + 'a \<Rightarrow> ('a \<Rightarrow> Response sop) \<Rightarrow> Response sop" where
  "extracting outcome k = (case outcome of Inl rejection \<Rightarrow> slift (Inr rejection) | Inr x \<Rightarrow> k x)"

text \<open>\<^verbatim>\<open>Path\<close>: every parameter is percent-decoded; a tuple of another length is refused.\<close>

definition path_params :: "Env \<Rightarrow> string list \<Rightarrow> Response + string list" where
  "path_params E raw = rmap (\<lambda>s. ok_or (en_bad_path E) (en_decode E s)) raw"

definition path1 :: "Env \<Rightarrow> string list \<Rightarrow> (string \<Rightarrow> Response sop) \<Rightarrow> Response sop" where
  "path1 E raw k = extracting (path_params E raw) (\<lambda>ps. case ps of
       [a] \<Rightarrow> k a | _ \<Rightarrow> slift (Inr (en_path_arity E)))"

definition path2 :: "Env \<Rightarrow> string list \<Rightarrow> (string \<Rightarrow> string \<Rightarrow> Response sop) \<Rightarrow> Response sop" where
  "path2 E raw k = extracting (path_params E raw) (\<lambda>ps. case ps of
       [a, b] \<Rightarrow> k a b | _ \<Rightarrow> slift (Inr (en_path_arity E)))"

definition path3 :: "Env \<Rightarrow> string list \<Rightarrow> (string \<Rightarrow> string \<Rightarrow> string \<Rightarrow> Response sop) \<Rightarrow> Response sop" where
  "path3 E raw k = extracting (path_params E raw) (\<lambda>ps. case ps of
       [a, b, c] \<Rightarrow> k a b c | _ \<Rightarrow> slift (Inr (en_path_arity E)))"

definition path4 :: "Env \<Rightarrow> string list \<Rightarrow> (string \<Rightarrow> string \<Rightarrow> string \<Rightarrow> string \<Rightarrow> Response sop) \<Rightarrow> Response sop" where
  "path4 E raw k = extracting (path_params E raw) (\<lambda>ps. case ps of
       [a, b, c, d] \<Rightarrow> k a b c d | _ \<Rightarrow> slift (Inr (en_path_arity E)))"

text \<open>The caller comes first, then the path, then the query, the header or the body.\<close>

definition route0 :: "(AppState \<Rightarrow> Env \<Rightarrow> Incoming \<Rightarrow> Principal \<Rightarrow> Response sop) \<Rightarrow> Handler" where
  "route0 f X E q i raw = with_principal X (in_authorization q) (en_now E) (\<lambda>p. f X E q p)"

definition route1 :: "(AppState \<Rightarrow> Env \<Rightarrow> Incoming \<Rightarrow> Principal \<Rightarrow> string \<Rightarrow> Response sop) \<Rightarrow> Handler" where
  "route1 f X E q i raw = with_principal X (in_authorization q) (en_now E) (\<lambda>p. path1 E raw (f X E q p))"

definition route2 :: "(AppState \<Rightarrow> Env \<Rightarrow> Incoming \<Rightarrow> Principal \<Rightarrow> string \<Rightarrow> string \<Rightarrow> Response sop) \<Rightarrow> Handler" where
  "route2 f X E q i raw = with_principal X (in_authorization q) (en_now E) (\<lambda>p. path2 E raw (f X E q p))"

definition route3 ::
  "(AppState \<Rightarrow> Env \<Rightarrow> Incoming \<Rightarrow> Principal \<Rightarrow> string \<Rightarrow> string \<Rightarrow> string \<Rightarrow> Response sop) \<Rightarrow> Handler" where
  "route3 f X E q i raw = with_principal X (in_authorization q) (en_now E) (\<lambda>p. path3 E raw (f X E q p))"

definition route4 ::
  "(AppState \<Rightarrow> Env \<Rightarrow> Incoming \<Rightarrow> Principal \<Rightarrow> string \<Rightarrow> string \<Rightarrow> string \<Rightarrow> string \<Rightarrow> Response sop) \<Rightarrow> Handler" where
  "route4 f X E q i raw = with_principal X (in_authorization q) (en_now E) (\<lambda>p. path4 E raw (f X E q p))"

text \<open>A handler that answers a value the framework serialises.\<close>

definition as_json :: "('a \<Rightarrow> json) \<Rightarrow> 'a sop \<Rightarrow> Response sop" where
  "as_json enc h = sbind h (\<lambda>x. slift (Inr (json_response 200 (enc x))))"

definition ImportSummary_to_value :: "ImportSummary \<Rightarrow> json" where
  "ImportSummary_to_value s = struct_obj
     [(''imported'', Some (enc_usize (is_imported s))), (''skipped'', Some (enc_usize (is_skipped s))),
      (''errors'', Some (enc_usize (is_errors s))), (''duplicates'', Some (enc_usize (is_duplicates s))),
      (''summary'', Some (struct_obj
        [(''passed'', Some (enc_usize (ic_passed (is_summary s)))), (''failed'', Some (enc_usize (ic_failed (is_summary s)))),
         (''blocked'', Some (enc_usize (ic_blocked (is_summary s))))]))]"

definition CaseHistoryEntry_to_value :: "CaseHistoryEntry \<Rightarrow> json" where
  "CaseHistoryEntry_to_value e = struct_obj
     [(''version'', Some (enc_u64 (che_version e))), (''lastModified'', map_option Str (che_last_modified e)),
      (''changedFields'', Some (strings (che_changed_fields e)))]"

definition SuiteCoverage_to_value :: "SuiteCoverage \<Rightarrow> json" where
  "SuiteCoverage_to_value s = struct_obj
     [(''suiteId'', Some (Str (sc_suite_id s))), (''name'', Some (Str (sc_name s))),
      (''caseCount'', Some (enc_usize (sc_case_count s)))]"

definition CoverageReport_to_value :: "CoverageReport \<Rightarrow> json" where
  "CoverageReport_to_value r = struct_obj
     [(''projectId'', map_option Str (cov_project_id r)), (''totalCases'', Some (enc_usize (cov_total_cases r))),
      (''suites'', Some (enc_vec SuiteCoverage_to_value (cov_suites r)))]"

section \<open>The handlers every resource shares\<close>

definition list_route :: "Resource \<Rightarrow> Handler" where
  "list_route r = route0 (\<lambda>X E q p. extracting (in_list_query q) (list_handler X r p))"

definition get_route :: "Resource \<Rightarrow> Handler" where
  "get_route r = route1 (\<lambda>X E q p rid. extracting (in_children q) (get_handler X r p rid))"

definition create_route :: "Resource \<Rightarrow> Handler" where
  "create_route r = route0 (\<lambda>X E q p. extracting (in_json q) (create_handler X r p))"

definition update_route :: "Resource \<Rightarrow> Handler" where
  "update_route r = route1 (\<lambda>X E q p rid. extracting (in_json q) (update_handler X r p rid (in_if_match q)))"

definition delete_route :: "Resource \<Rightarrow> Handler" where
  "delete_route r = route1 (\<lambda>X E q p rid. delete_handler X r p rid)"

definition duplicate_route :: "DuplicateSpec \<Rightarrow> Handler" where
  "duplicate_route spec = route1 (\<lambda>X E q p rid. extracting (in_json q) (duplicate_handler X spec p rid))"

section \<open>The tables\<close>

type_synonym Table = "(string \<times> (Method \<times> Handler) list) list"

definition text_response :: "string \<Rightarrow> string \<Rightarrow> Response" where
  "text_response media_type body =
     \<lparr>rs_status = 200, rs_headers = [(''content-type'', media_type)], rs_body = BytesBody body\<rparr>"

definition request_metrics :: "HttpMetrics \<Rightarrow> Response" where
  "request_metrics m = text_response ''text/plain; version=0.0.4; charset=utf-8'' (render_metrics m)"

definition openapi :: "string \<Rightarrow> Response" where
  "openapi contract = text_response ''application/json'' contract"

definition swagger_ui :: "string \<Rightarrow> Response" where
  "swagger_ui page = text_response ''text/html; charset=utf-8'' page"

definition own_routes :: Table where
  "own_routes =
     [(''/health'', [(GET, \<lambda>X E q i raw. slift (Inr health))]),
      (''/ready'', [(GET, \<lambda>X E q i raw. slift (Inr (ready_endpoint i (en_probe E))))]),
      (''/diagnostics'', [(GET, \<lambda>X E q i raw. slift (Inr (diagnostics (en_probe E))))]),
      (''/metrics'', [(GET, \<lambda>X E q i raw. slift (Inr (request_metrics (en_metrics E))))]),
      (''/openapi.json'', [(GET, \<lambda>X E q i raw. slift (Inr (openapi (en_openapi E))))]),
      (''/api-docs'', [(GET, \<lambda>X E q i raw. slift (Inr (swagger_ui (en_swagger E))))]),
      (''/api-docs/'', [(GET, \<lambda>X E q i raw. slift (Inr (swagger_ui (en_swagger E))))])]"

definition projects_routes :: Table where
  "projects_routes =
     [(''/projects'', [(GET, list_route Projects), (POST, create_route Projects)]),
      (''/projects/{id}'',
        [(GET, get_route Projects), (PUT, update_route Projects), (DELETE, delete_route Projects)]),
      (''/projects/{id}/duplicate'', [(POST, duplicate_route PROJECT)])]"

definition suites_routes :: Table where
  "suites_routes =
     [(''/test_suites'', [(GET, list_route Suites), (POST, create_route Suites)]),
      (''/test_suites/{id}'', [(GET, get_route Suites), (PUT, update_route Suites), (DELETE, delete_route Suites)]),
      (''/test_suites/{id}/duplicate'', [(POST, duplicate_route SUITE)]),
      (''/test_suites/{id}/test_cases'',
        [(GET, route1 (\<lambda>X E q. list_suite_cases X)),
         (POST, route1 (\<lambda>X E q p rid. extracting (in_json q) (add_case_to_suite_handler X p rid)))]),
      (''/test_suites/{id}/test_cases/{case_id}'', [(DELETE, route2 (\<lambda>X E q. remove_case_from_suite_handler X))]),
      (''/projects/{id}/test_suites'',
        [(GET, route1 (\<lambda>X E q p rid. extracting (in_list_query q) (list_project_suites X p rid))),
         (POST, route1 (\<lambda>X E q p rid. extracting (in_json q) (create_project_suite X p rid)))]),
      (''/projects/{id}/test_suites/{suite_id}'', [(DELETE, route2 (\<lambda>X E q. delete_project_suite X))])]"

definition runs_routes :: Table where
  "runs_routes =
     [(''/test_runs'', [(GET, list_route Runs), (POST, create_route Runs)]),
      (''/test_runs/{id}'', [(GET, get_route Runs), (PUT, update_route Runs), (DELETE, delete_route Runs)]),
      (''/test_runs/{id}/duplicate'', [(POST, duplicate_route RUN)]),
      (''/test_runs/{id}/test_suites'',
        [(POST, route1 (\<lambda>X E q p rid. extracting (in_json q) (add_suite_to_run_handler X p rid)))]),
      (''/test_runs/{id}/test_cases'',
        [(POST, route1 (\<lambda>X E q p rid. extracting (in_json q) (add_case_to_run_handler X p rid)))]),
      (''/test_runs/{id}/results'',
        [(POST, route1 (\<lambda>X E q p rid. extracting (in_json q) (record_run_result_handler X p rid)))]),
      (''/test_runs/{id}/results/{case_id}'',
        [(PUT, route2 (\<lambda>X E q p rid c. extracting (in_json q) (replace_run_result_handler X p rid c))),
         (DELETE, route2 (\<lambda>X E q. delete_run_result_handler X))]),
      (''/test_runs/{id}/results/{case_id}/defects'',
        [(GET, route2 (\<lambda>X E q. list_result_defects X)),
         (POST, route2 (\<lambda>X E q p rid c. extracting (in_json q) (link_result_defect X p rid c)))]),
      (''/test_runs/{id}/results/{case_id}/defects/{link_id}'', [(DELETE, route3 (\<lambda>X E q. unlink_result_defect X))]),
      (''/test_runs/{id}/import/junit'',
        [(POST, route1 (\<lambda>X E q p rid. extracting (in_bytes q) (\<lambda>body. as_json ImportSummary_to_value
           (import_junit_handler X (en_parse_xml E) p rid (en_from_utf8 E body)))))]),
      (''/test_runs/{id}/import/json'',
        [(POST, route1 (\<lambda>X E q p rid. extracting (in_bytes q) (\<lambda>body. as_json ImportSummary_to_value
           (import_json_handler X (en_parse_slice E) p rid body))))]),
      (''/test_runs/{id}/configurations'',
        [(POST, route1 (\<lambda>X E q p rid. extracting (in_json q) (link_run_configuration X p rid)))]),
      (''/test_runs/{id}/configurations/{config_id}'', [(DELETE, route2 (\<lambda>X E q. unlink_run_configuration X))]),
      (''/projects/{id}/test_runs'',
        [(GET, route1 (\<lambda>X E q p rid. extracting (in_list_query q) (list_project_runs X p rid))),
         (POST, route1 (\<lambda>X E q p rid. extracting (in_json q) (create_project_run X p rid)))]),
      (''/projects/{id}/test_runs/{run_id}'', [(DELETE, route2 (\<lambda>X E q. delete_project_run X))])]"

definition cases_routes :: Table where
  "cases_routes =
     [(''/test_cases'', [(GET, list_route Cases), (POST, create_route Cases)]),
      (''/test_cases/{id}'', [(GET, get_route Cases), (PUT, update_route Cases), (DELETE, delete_route Cases)]),
      (''/test_cases/{id}/duplicate'', [(POST, duplicate_route CASE)]),
      (''/test_cases/{id}/attachments'',
        [(POST, route1 (\<lambda>X E q p rid. extracting (in_multipart q) (upload_attachment_handler X p rid)))]),
      (''/test_cases/{id}/attachments/{filename}'',
        [(GET, route2 (\<lambda>X E q. download_attachment X)), (DELETE, route2 (\<lambda>X E q. delete_attachment_handler X))]),
      (''/test_cases/{id}/steps/{step_index}/attachments'',
        [(GET, route2 (\<lambda>X E q. list_step_attachments_handler X)),
         (POST, route2 (\<lambda>X E q p rid n. extracting (in_multipart q) (upload_step_attachment X p rid n)))]),
      (''/test_cases/{id}/steps/{step_index}/attachments/{filename}'',
        [(GET, route3 (\<lambda>X E q. download_step_attachment X)),
         (DELETE, route3 (\<lambda>X E q. delete_step_attachment_handler X))]),
      (''/test_cases/{id}/history'',
        [(GET, route1 (\<lambda>X E q p rid. as_json (enc_vec CaseHistoryEntry_to_value) (list_case_history_handler X p rid)))]),
      (''/test_cases/{id}/history/{version}'', [(GET, route2 (\<lambda>X E q. read_case_revision_handler X))]),
      (''/projects/{id}/test_cases'',
        [(GET, route1 (\<lambda>X E q p rid. extracting (in_list_query q) (list_project_cases X p rid))),
         (POST, route1 (\<lambda>X E q p rid. extracting (in_json q) (create_project_case X p rid)))]),
      (''/projects/{id}/test_cases/{case_id}'',
        [(PUT, route2 (\<lambda>X E q p rid c. extracting (in_json q) (update_project_case X p rid c (in_if_match q)))),
         (DELETE, route2 (\<lambda>X E q. delete_project_case X))]),
      (''/projects/{id}/test_cases/{case_id}/history'',
        [(GET, route2 (\<lambda>X E q p rid c. as_json (enc_vec CaseHistoryEntry_to_value) (list_project_case_history X p rid c)))]),
      (''/projects/{id}/test_cases/{case_id}/history/{version}'', [(GET, route3 (\<lambda>X E q. read_project_case_revision X))]),
      (''/projects/{id}/test_cases/{case_id}/attachments'',
        [(POST, route2 (\<lambda>X E q p rid c. extracting (in_multipart q) (upload_project_case_attachment X p rid c)))]),
      (''/projects/{id}/test_cases/{case_id}/attachments/{filename}'',
        [(GET, route3 (\<lambda>X E q. download_project_case_attachment X)),
         (DELETE, route3 (\<lambda>X E q. delete_project_case_attachment X))]),
      (''/projects/{id}/test_cases/{case_id}/steps/{step_index}/attachments'',
        [(GET, route3 (\<lambda>X E q. list_project_case_step_attachments X)),
         (POST, route3 (\<lambda>X E q p rid c n. extracting (in_multipart q) (upload_project_case_step_attachment X p rid c n)))]),
      (''/projects/{id}/test_cases/{case_id}/steps/{step_index}/attachments/{filename}'',
        [(DELETE, route4 (\<lambda>X E q. delete_project_case_step_attachment X))]),
      (''/test_suites/{id}/test_cases/{case_id}'',
        [(PUT, route2 (\<lambda>X E q p rid c. extracting (in_json q) (update_suite_case X p rid c (in_if_match q))))]),
      (''/test_suites/{id}/test_cases/{case_id}/history'',
        [(GET, route2 (\<lambda>X E q p rid c. as_json (enc_vec CaseHistoryEntry_to_value) (list_suite_case_history X p rid c)))]),
      (''/test_suites/{id}/test_cases/{case_id}/history/{version}'', [(GET, route3 (\<lambda>X E q. read_suite_case_revision X))]),
      (''/test_suites/{id}/test_cases/{case_id}/attachments'',
        [(POST, route2 (\<lambda>X E q p rid c. extracting (in_multipart q) (upload_suite_case_attachment X p rid c)))]),
      (''/test_suites/{id}/test_cases/{case_id}/attachments/{filename}'',
        [(GET, route3 (\<lambda>X E q. download_suite_case_attachment X)),
         (DELETE, route3 (\<lambda>X E q. delete_suite_case_attachment X))]),
      (''/test_suites/{id}/test_cases/{case_id}/steps/{step_index}/attachments'',
        [(GET, route3 (\<lambda>X E q. list_suite_case_step_attachments X)),
         (POST, route3 (\<lambda>X E q p rid c n. extracting (in_multipart q) (upload_suite_case_step_attachment X p rid c n)))]),
      (''/test_suites/{id}/test_cases/{case_id}/steps/{step_index}/attachments/{filename}'',
        [(DELETE, route4 (\<lambda>X E q. delete_suite_case_step_attachment X))])]"

definition milestones_routes :: Table where
  "milestones_routes =
     [(''/milestones'', [(GET, list_route Milestones), (POST, create_route Milestones)]),
      (''/milestones/{id}'',
        [(GET, get_route Milestones), (PUT, update_route Milestones), (DELETE, delete_route Milestones)]),
      (''/milestones/{id}/duplicate'', [(POST, duplicate_route MILESTONE)]),
      (''/milestones/{id}/progress'', [(GET, route1 (\<lambda>X E q. get_milestone_progress X (en_round E)))]),
      (''/releases'', [(GET, route0 (\<lambda>X E q. list_releases X))]),
      (''/projects/{id}/milestones'',
        [(GET, route1 (\<lambda>X E q. list_project_milestones X)),
         (POST, route1 (\<lambda>X E q p rid. extracting (in_json q) (create_project_milestone X p rid)))]),
      (''/projects/{id}/milestones/{milestone_id}'', [(DELETE, route2 (\<lambda>X E q. delete_project_milestone X))])]"

definition reports_routes :: Table where
  "reports_routes =
     [(''/reports/coverage'', [(GET, route0 (\<lambda>X E q p. extracting (in_project_query q) (\<lambda>project.
         as_json CoverageReport_to_value (get_coverage X p project))))]),
      (''/reports/last-results'', [(GET, route0 (\<lambda>X E q p. extracting (in_project_query q) (\<lambda>project.
         as_json LastResultsReport_to_value (get_last_results X p project))))]),
      (''/reports/summary'', [(GET, route0 (\<lambda>X E q p. extracting (in_summary_query q) (\<lambda>filters.
         as_json SummaryReport_to_value (get_summary X (en_round E) p filters))))])]"

definition configurations_routes :: Table where
  "configurations_routes =
     [(''/configurations'', [(GET, list_route Configurations), (POST, create_route Configurations)]),
      (''/configurations/{id}'',
        [(GET, get_route Configurations), (PUT, update_route Configurations), (DELETE, delete_route Configurations)]),
      (''/environments'', [(GET, route0 (\<lambda>X E q. list_environments X))]),
      (''/projects/{id}/configurations'',
        [(GET, route1 (\<lambda>X E q. list_project_configurations X)),
         (POST, route1 (\<lambda>X E q p rid. extracting (in_json q) (create_project_configuration X p rid)))]),
      (''/projects/{id}/configurations/{config_id}'', [(DELETE, route2 (\<lambda>X E q. delete_project_configuration X))])]"

definition workflows_routes :: Table where
  "workflows_routes =
     [(''/workflows'', [(GET, list_route Workflows), (POST, create_route Workflows)]),
      (''/workflows/{id}'',
        [(GET, get_route Workflows), (PUT, update_route Workflows), (DELETE, delete_route Workflows)]),
      (''/workflows/{id}/duplicate'', [(POST, duplicate_route WORKFLOW)]),
      (''/projects/{id}/workflows'',
        [(GET, list_route Workflows),
         (POST, route1 (\<lambda>X E q p rid. extracting (in_json q) (create_project_workflow X p rid)))]),
      (''/projects/{id}/workflows/{workflow_id}'', [(DELETE, route2 (\<lambda>X E q. delete_project_workflow X))]),
      (''/projects/{id}/workflows/{workflow_id}/run'',
        [(POST, route2 (\<lambda>X E q p rid w. extracting (in_json q) (run_from_workflow X p rid w)))])]"

text \<open>The session routes: signing in and refreshing have no caller yet.\<close>

definition auth_routes :: Table where
  "auth_routes =
     [(''/auth/login'', [(POST, \<lambda>X E q i raw.
         as_json (\<lambda>v. v) (login_handler X (en_draws E) (en_now E) (in_session_json q)))]),
      (''/auth/refresh'', [(POST, \<lambda>X E q i raw.
         as_json (\<lambda>v. v) (refresh_handler X (en_draws E) (en_now E) (in_session_json q)))]),
      (''/auth/logout'', [(POST, route0 (\<lambda>X E q p. as_json (\<lambda>v. v) (logout_handler X p (in_session_json q))))]),
      (''/auth/me'', [(GET, route0 (\<lambda>X E q p. as_json (\<lambda>v. v) (sread (me_handler X p))))])]"

definition router :: Table where
  "router = own_routes @ projects_routes @ suites_routes @ runs_routes @ cases_routes @ milestones_routes
     @ reports_routes @ configurations_routes @ workflows_routes @ auth_routes"

section \<open>The declared paths\<close>

definition ROUTES :: "string list" where
  "ROUTES =
     [''/health'', ''/ready'', ''/diagnostics'', ''/metrics'', ''/openapi.json'', ''/api-docs'', ''/api-docs/'',
      ''/projects'', ''/projects/{id}'', ''/projects/{id}/duplicate'', ''/projects/{id}/test_suites'',
      ''/projects/{id}/test_suites/{suite_id}'', ''/projects/{id}/test_cases'',
      ''/projects/{id}/test_cases/{case_id}'', ''/projects/{id}/test_cases/{case_id}/history'',
      ''/projects/{id}/test_cases/{case_id}/history/{version}'', ''/projects/{id}/test_cases/{case_id}/attachments'',
      ''/projects/{id}/test_cases/{case_id}/attachments/{filename}'',
      ''/projects/{id}/test_cases/{case_id}/steps/{step_index}/attachments'',
      ''/projects/{id}/test_cases/{case_id}/steps/{step_index}/attachments/{filename}'', ''/projects/{id}/test_runs'',
      ''/projects/{id}/test_runs/{run_id}'', ''/projects/{id}/milestones'',
      ''/projects/{id}/milestones/{milestone_id}'', ''/projects/{id}/configurations'',
      ''/projects/{id}/configurations/{config_id}'', ''/projects/{id}/workflows'',
      ''/projects/{id}/workflows/{workflow_id}'', ''/projects/{id}/workflows/{workflow_id}/run'', ''/test_suites'',
      ''/test_suites/{id}'', ''/test_suites/{id}/duplicate'', ''/test_suites/{id}/test_cases'',
      ''/test_suites/{id}/test_cases/{case_id}'', ''/test_suites/{id}/test_cases/{case_id}/history'',
      ''/test_suites/{id}/test_cases/{case_id}/history/{version}'',
      ''/test_suites/{id}/test_cases/{case_id}/attachments'',
      ''/test_suites/{id}/test_cases/{case_id}/attachments/{filename}'',
      ''/test_suites/{id}/test_cases/{case_id}/steps/{step_index}/attachments'',
      ''/test_suites/{id}/test_cases/{case_id}/steps/{step_index}/attachments/{filename}'', ''/test_runs'',
      ''/test_runs/{id}'', ''/test_runs/{id}/duplicate'', ''/test_runs/{id}/test_suites'',
      ''/test_runs/{id}/test_cases'', ''/test_runs/{id}/results'', ''/test_runs/{id}/results/{case_id}'',
      ''/test_runs/{id}/results/{case_id}/defects'', ''/test_runs/{id}/results/{case_id}/defects/{link_id}'',
      ''/test_runs/{id}/import/junit'', ''/test_runs/{id}/import/json'', ''/test_runs/{id}/configurations'',
      ''/test_runs/{id}/configurations/{config_id}'', ''/test_cases'', ''/test_cases/{id}'',
      ''/test_cases/{id}/duplicate'', ''/test_cases/{id}/attachments'', ''/test_cases/{id}/attachments/{filename}'',
      ''/test_cases/{id}/steps/{step_index}/attachments'',
      ''/test_cases/{id}/steps/{step_index}/attachments/{filename}'', ''/test_cases/{id}/history'',
      ''/test_cases/{id}/history/{version}'', ''/milestones'', ''/milestones/{id}'', ''/milestones/{id}/duplicate'',
      ''/milestones/{id}/progress'', ''/reports/coverage'', ''/reports/last-results'', ''/reports/summary'',
      ''/releases'', ''/environments'', ''/configurations'', ''/configurations/{id}'', ''/workflows'',
      ''/workflows/{id}'', ''/workflows/{id}/duplicate'', ''/auth/login'', ''/auth/refresh'', ''/auth/logout'',
      ''/auth/me'']"

definition UNDOCUMENTED_ROUTES :: "string list" where
  "UNDOCUMENTED_ROUTES =
     [''/api-docs/'', ''/test_suites'', ''/test_cases'', ''/test_runs'', ''/milestones'', ''/configurations'']"

text \<open>The operations of the published contract, \<^verbatim>\<open>openapi.json\<close>: its paths, each with its methods.\<close>

definition contract_operations :: "(string \<times> Method list) list" where
  "contract_operations =
     [(''/health'', [GET]), (''/openapi.json'', [GET]), (''/api-docs'', [GET]), (''/metrics'', [GET]),
      (''/ready'', [GET]), (''/diagnostics'', [GET]), (''/projects'', [GET, POST]),
      (''/projects/{id}'', [GET, PUT, DELETE]), (''/projects/{id}/duplicate'', [POST]),
      (''/projects/{id}/test_suites'', [GET, POST]), (''/projects/{id}/test_suites/{suite_id}'', [DELETE]),
      (''/projects/{id}/test_cases'', [GET, POST]), (''/projects/{id}/test_cases/{case_id}'', [PUT, DELETE]),
      (''/projects/{id}/test_cases/{case_id}/history'', [GET]),
      (''/projects/{id}/test_cases/{case_id}/history/{version}'', [GET]),
      (''/projects/{id}/test_cases/{case_id}/attachments'', [POST]),
      (''/projects/{id}/test_cases/{case_id}/attachments/{filename}'', [GET, DELETE]),
      (''/projects/{id}/test_cases/{case_id}/steps/{step_index}/attachments'', [GET, POST]),
      (''/projects/{id}/test_cases/{case_id}/steps/{step_index}/attachments/{filename}'', [DELETE]),
      (''/projects/{id}/test_runs'', [GET, POST]), (''/projects/{id}/test_runs/{run_id}'', [DELETE]),
      (''/projects/{id}/milestones'', [GET, POST]), (''/projects/{id}/milestones/{milestone_id}'', [DELETE]),
      (''/projects/{id}/configurations'', [GET, POST]), (''/projects/{id}/configurations/{config_id}'', [DELETE]),
      (''/test_suites/{id}'', [GET, PUT, DELETE]), (''/test_suites/{id}/duplicate'', [POST]),
      (''/test_suites/{id}/test_cases'', [GET, POST]), (''/test_suites/{id}/test_cases/{case_id}'', [PUT, DELETE]),
      (''/test_suites/{id}/test_cases/{case_id}/history'', [GET]),
      (''/test_suites/{id}/test_cases/{case_id}/history/{version}'', [GET]),
      (''/test_suites/{id}/test_cases/{case_id}/attachments'', [POST]),
      (''/test_suites/{id}/test_cases/{case_id}/attachments/{filename}'', [GET, DELETE]),
      (''/test_suites/{id}/test_cases/{case_id}/steps/{step_index}/attachments'', [GET, POST]),
      (''/test_suites/{id}/test_cases/{case_id}/steps/{step_index}/attachments/{filename}'', [DELETE]),
      (''/test_runs/{id}'', [GET, PUT, DELETE]), (''/test_runs/{id}/duplicate'', [POST]),
      (''/test_runs/{id}/test_suites'', [POST]), (''/test_runs/{id}/test_cases'', [POST]),
      (''/test_runs/{id}/results'', [POST]), (''/test_runs/{id}/results/{case_id}'', [PUT, DELETE]),
      (''/test_runs/{id}/results/{case_id}/defects'', [GET, POST]),
      (''/test_runs/{id}/results/{case_id}/defects/{link_id}'', [DELETE]), (''/test_runs/{id}/import/junit'', [POST]),
      (''/test_runs/{id}/import/json'', [POST]), (''/test_runs/{id}/configurations'', [POST]),
      (''/test_runs/{id}/configurations/{config_id}'', [DELETE]), (''/test_cases/{id}'', [GET, PUT, DELETE]),
      (''/test_cases/{id}/duplicate'', [POST]), (''/test_cases/{id}/attachments'', [POST]),
      (''/test_cases/{id}/attachments/{filename}'', [GET, DELETE]),
      (''/test_cases/{id}/steps/{step_index}/attachments'', [GET, POST]),
      (''/test_cases/{id}/steps/{step_index}/attachments/{filename}'', [GET, DELETE]),
      (''/test_cases/{id}/history'', [GET]), (''/test_cases/{id}/history/{version}'', [GET]),
      (''/milestones/{id}'', [GET, PUT, DELETE]), (''/milestones/{id}/duplicate'', [POST]),
      (''/milestones/{id}/progress'', [GET]), (''/releases'', [GET]), (''/reports/coverage'', [GET]),
      (''/reports/last-results'', [GET]), (''/reports/summary'', [GET]), (''/environments'', [GET]),
      (''/configurations/{id}'', [GET, PUT, DELETE]), (''/auth/login'', [POST]), (''/auth/refresh'', [POST]),
      (''/auth/logout'', [POST]), (''/auth/me'', [GET]), (''/workflows'', [GET, POST]),
      (''/workflows/{id}'', [GET, PUT, DELETE]), (''/projects/{id}/workflows'', [GET, POST]),
      (''/projects/{id}/workflows/{workflow_id}'', [DELETE]),
      (''/projects/{id}/workflows/{workflow_id}/run'', [POST]), (''/workflows/{id}/duplicate'', [POST])]"

section \<open>Matching a path\<close>

text \<open>A template fits a path segment by segment: a parameter stands for one segment that is not empty, any
  other segment for itself. The framework documents that a path is answered by a template that fits it,
  with the raw values of its parameters, and by the fallback when none fits (\<open>matcher_ok\<close>); nothing is
  assumed of its choice among several.\<close>

definition segments :: "string \<Rightarrow> string list" where
  "segments path = split_on (\<lambda>c. c = CHR ''/'') path"

definition is_param :: "string \<Rightarrow> bool" where
  "is_param t \<longleftrightarrow> t \<noteq> [] \<and> hd t = CHR ''{'' \<and> last t = CHR ''}''"

fun fits :: "string list \<Rightarrow> string list \<Rightarrow> string list option" where
  "fits [] [] = Some []"
| "fits (t # ts) (s # ss) =
     (if is_param t then (if s = [] then None else map_option ((#) s) (fits ts ss))
      else if t = s then fits ts ss else None)"
| "fits _ _ = None"

definition matcher_ok :: "Matcher \<Rightarrow> bool" where
  "matcher_ok M \<longleftrightarrow> (\<forall>ts path. case M ts path of
       Some (t, raw) \<Rightarrow> t \<in> set ts \<and> fits (segments t) (segments path) = Some raw
     | None \<Rightarrow> (\<forall>t \<in> set ts. fits (segments t) (segments path) = None))"

definition matched :: "Matcher \<Rightarrow> Table \<Rightarrow> string \<Rightarrow> (string \<times> string list) option" where
  "matched M tbl path = M (map fst tbl) path"

definition methods_at :: "Table \<Rightarrow> string \<Rightarrow> (Method \<times> Handler) list" where
  "methods_at tbl t = concat (map snd (filter (\<lambda>(t', _). t' = t) tbl))"

section \<open>Answering a request\<close>

text \<open>A \<^verbatim>\<open>GET\<close> handler also answers \<^verbatim>\<open>HEAD\<close>, without its body.\<close>

definition without_body :: "Response \<times> Svc \<Rightarrow> Response \<times> Svc" where
  "without_body a = (case a of (r, st) \<Rightarrow> (r\<lparr>rs_body := BytesBody []\<rparr>, st))"

definition dispatch :: "AppState \<Rightarrow> Env \<Rightarrow> Incoming \<Rightarrow> string option \<Rightarrow> Svc \<Rightarrow> Response \<times> Svc" where
  "dispatch X E q i st = (case matched (en_match E) router (in_path q) of
       None \<Rightarrow> (en_not_found E, st)
     | Some (t, raw) \<Rightarrow> (case map_of (methods_at router t) (in_method q) of
         Some h \<Rightarrow> answer i (h X E q i raw) st
       | None \<Rightarrow> (case (in_method q, map_of (methods_at router t) GET) of
           (HEAD, Some h) \<Rightarrow> without_body (answer i (h X E q i raw) st)
         | _ \<Rightarrow> (en_method_not_allowed E (map fst (methods_at router t)), st))))"

fun method_name :: "Method \<Rightarrow> string" where
  "method_name GET = ''GET''"
| "method_name HEAD = ''HEAD''"
| "method_name POST = ''POST''"
| "method_name PUT = ''PUT''"
| "method_name DELETE = ''DELETE''"
| "method_name (OtherMethod m) = m"

text \<open>The application: the routes inside the layers of theory \<open>Middleware\<close>. Whether the time limit elapses first is
  the environment's choice, \<open>late\<close>.\<close>

definition application :: "bool \<Rightarrow> GuardrailState \<Rightarrow> 64 word \<Rightarrow> HeaderMap \<Rightarrow> AppState \<Rightarrow> Env \<Rightarrow> Incoming \<Rightarrow> Svc \<Rightarrow> HttpMetrics
    \<Rightarrow> (Response \<times> Svc \<times> HttpMetrics) option" where
  "application late G h headers X E q st m =
     serve G h \<lparr>rq_method = method_name (in_method q), rq_matched = map_option fst (matched (en_match E) router (in_path q)),
         rq_headers = headers\<rparr>
       (\<lambda>request_id st. case dispatch X (E\<lparr>en_metrics := m\<rparr>) q (Some request_id) st of (r, st') \<Rightarrow>
         (if late then None else Some r, st')) st m"

end
