(* ===== verification/Route_Laws.thy ===== *)
theory Route_Laws
  imports Routes Reach_Laws "HOL-Library.Multiset"
begin

text \<open>
  What the router as a whole guarantees. The declared paths form a tree in which a parameter has no
  sibling, so at most one template fits a path and the framework's precedence rules never matter; the
  tables register exactly these paths and, but for the paths declared undocumented, exactly the
  operations of the published contract, each once. Every handler asks for as many path parameters as
  its template binds.
\<close>

section \<open>The paths as a tree\<close>

datatype rtree = Node bool "(string \<times> rtree) list"

abbreviation Leaf :: rtree where
  "Leaf \<equiv> Node True []"

fun walk :: "rtree \<Rightarrow> string list list" where
  "walk (Node e cs) = (if e then [[]] else []) @ concat (map (\<lambda>(s, t). map ((#) s) (walk t)) cs)"

fun wf_tree :: "rtree \<Rightarrow> bool" where
  "wf_tree (Node e cs) \<longleftrightarrow> distinct (map fst cs) \<and> (length cs \<le> 1 \<or> list_all (\<lambda>(s, t). \<not> is_param s) cs)
     \<and> list_all (\<lambda>(s, t). wf_tree t) cs"

lemma in_walk:
  "p \<in> set (walk (Node e cs)) \<longleftrightarrow> e \<and> p = [] \<or> (\<exists>s t p'. (s, t) \<in> set cs \<and> p' \<in> set (walk t) \<and> p = s # p')"
  by force

lemma distinct_prefixed:
  assumes "distinct (map fst cs)" "\<And>s t. (s, t) \<in> set cs \<Longrightarrow> distinct (walk t)"
  shows "distinct (concat (map (\<lambda>(s, t). map ((#) s) (walk t)) cs))"
  using assms by (induction cs) (auto simp: distinct_map image_iff, force)

lemma distinct_walk: "wf_tree t \<Longrightarrow> distinct (walk t)"
proof (induction t rule: wf_tree.induct)
  case (1 e cs)
  have "distinct (concat (map (\<lambda>(s, t). map ((#) s) (walk t)) cs))"
    by (rule distinct_prefixed) (use 1 in \<open>auto simp: list_all_iff\<close>)
  then show ?case by auto
qed

text \<open>In such a tree no two templates fit one path.\<close>

lemma children_agree:
  assumes "wf_tree (Node e cs)" "(s, t) \<in> set cs" "(s', t') \<in> set cs"
    "fits (s # u) (x # p) \<noteq> None" "fits (s' # v) (x # p) \<noteq> None"
  shows "s = s' \<and> t = t'"
proof (cases "length cs \<le> 1")
  case True
  with assms(2,3) show ?thesis by (cases cs) auto
next
  case False
  with assms(1) have "\<not> is_param s" "\<not> is_param s'" using assms(2,3) by (auto simp: list_all_iff)
  with assms(4,5) have "s = s'" by (auto split: if_splits)
  with assms(1-3) show ?thesis by (auto dest: eq_key_imp_eq_value)
qed

lemma fits_unique:
  "wf_tree t \<Longrightarrow> u \<in> set (walk t) \<Longrightarrow> v \<in> set (walk t) \<Longrightarrow> fits u p \<noteq> None \<Longrightarrow> fits v p \<noteq> None \<Longrightarrow> u = v"
proof (induction t arbitrary: u v p rule: wf_tree.induct)
  case (1 e cs)
  show ?case
  proof (cases p)
    case Nil
    with 1(5,6) show ?thesis by (cases u; cases v) auto
  next
    case (Cons x p')
    with 1(3-6) obtain s t u' s' t' v' where st: "(s, t) \<in> set cs" "u' \<in> set (walk t)" "u = s # u'"
      and st': "(s', t') \<in> set cs" "v' \<in> set (walk t')" "v = s' # v'"
      unfolding in_walk by fastforce
    have same: "s = s' \<and> t = t'"
      using children_agree [OF 1(2) st(1) st'(1)] 1(5,6) st(3) st'(3) Cons by blast
    have "fits u' p' \<noteq> None" "fits v' p' \<noteq> None" using 1(5,6) st(3) st'(3) Cons by (auto split: if_splits)
    moreover have "wf_tree t" using 1(2) st(1) by (auto simp: list_all_iff)
    ultimately show ?thesis using 1(1) [OF st(1) refl] st same st' by blast
  qed
qed

definition route_tree :: rtree where
  "route_tree =
     Node False
       [(''health'', Leaf),
        (''ready'', Leaf),
        (''diagnostics'', Leaf),
        (''metrics'', Leaf),
        (''openapi.json'', Leaf),
        (''api-docs'', Node True [('''', Leaf)]),
        (''projects'', Node True
         [(''{id}'', Node True
           [(''duplicate'', Leaf),
            (''test_suites'', Node True [(''{suite_id}'', Leaf)]),
            (''test_cases'', Node True
             [(''{case_id}'', Node True
               [(''history'', Node True [(''{version}'', Leaf)]),
                (''attachments'', Node True [(''{filename}'', Leaf)]),
                (''steps'', Node False
                 [(''{step_index}'', Node False [(''attachments'', Node True [(''{filename}'', Leaf)])])])])]),
            (''test_runs'', Node True [(''{run_id}'', Leaf)]),
            (''milestones'', Node True [(''{milestone_id}'', Leaf)]),
            (''configurations'', Node True [(''{config_id}'', Leaf)]),
            (''workflows'', Node True [(''{workflow_id}'', Node True [(''run'', Leaf)])])])]),
        (''test_suites'', Node True
         [(''{id}'', Node True
           [(''duplicate'', Leaf),
            (''test_cases'', Node True
             [(''{case_id}'', Node True
               [(''history'', Node True [(''{version}'', Leaf)]),
                (''attachments'', Node True [(''{filename}'', Leaf)]),
                (''steps'', Node False
                 [(''{step_index}'', Node False [(''attachments'', Node True [(''{filename}'', Leaf)])])])])])])]),
        (''test_runs'', Node True
         [(''{id}'', Node True
           [(''duplicate'', Leaf),
            (''test_suites'', Leaf),
            (''test_cases'', Leaf),
            (''results'', Node True [(''{case_id}'', Node True [(''defects'', Node True [(''{link_id}'', Leaf)])])]),
            (''import'', Node False [(''junit'', Leaf), (''json'', Leaf)]),
            (''configurations'', Node True [(''{config_id}'', Leaf)])])]),
        (''test_cases'', Node True
         [(''{id}'', Node True
           [(''duplicate'', Leaf),
            (''attachments'', Node True [(''{filename}'', Leaf)]),
            (''steps'', Node False [(''{step_index}'', Node False [(''attachments'', Node True [(''{filename}'', Leaf)])])]),
            (''history'', Node True [(''{version}'', Leaf)])])]),
        (''milestones'', Node True [(''{id}'', Node True [(''duplicate'', Leaf), (''progress'', Leaf)])]),
        (''reports'', Node False [(''coverage'', Leaf), (''last-results'', Leaf), (''summary'', Leaf)]),
        (''releases'', Leaf),
        (''environments'', Leaf),
        (''configurations'', Node True [(''{id}'', Leaf)]),
        (''workflows'', Node True [(''{id}'', Node True [(''duplicate'', Leaf)])]),
        (''auth'', Node False [(''login'', Leaf), (''refresh'', Leaf), (''logout'', Leaf), (''me'', Leaf)])]"

lemma route_tree_wf: "wf_tree route_tree"
  by (simp add: route_tree_def is_param_def)

lemma ROUTES_tree: "map segments ROUTES = map ((#) []) (walk route_tree)"
  by (simp add: ROUTES_def segments_def route_tree_def)

lemma distinct_segments: "distinct (map segments ROUTES)"
  unfolding ROUTES_tree using distinct_walk [OF route_tree_wf] by (simp add: distinct_map)

lemma distinct_ROUTES: "distinct ROUTES"
  using distinct_segments by (simp add: distinct_map)

lemma one_template_fits:
  assumes "t \<in> set ROUTES" "u \<in> set ROUTES" "fits (segments t) p \<noteq> None" "fits (segments u) p \<noteq> None"
  shows "t = u"
proof -
  have "segments t \<in> (#) [] ` set (walk route_tree)" "segments u \<in> (#) [] ` set (walk route_tree)"
    using assms(1,2) ROUTES_tree by (metis image_eqI list.set_map)+
  then obtain t' u' where w: "t' \<in> set (walk route_tree)" "u' \<in> set (walk route_tree)"
    and s: "segments t = [] # t'" "segments u = [] # u'" by auto
  obtain x p' where "p = x # p'" "fits t' p' \<noteq> None" "fits u' p' \<noteq> None"
    using assms(3,4) unfolding s by (cases p) (auto split: if_splits)
  with w have "t' = u'" using fits_unique [OF route_tree_wf] by blast
  with s distinct_segments assms(1,2) show ?thesis by (auto simp: distinct_map inj_on_def)
qed

section \<open>What is registered\<close>

text \<open>The registered operations, a path with a method, in the order of the declared paths.\<close>

definition operations :: "(string \<times> Method list) list \<Rightarrow> (string \<times> Method) list" where
  "operations ts = concat (map (\<lambda>(t, ms). map (Pair t) ms) ts)"

definition registered :: "Table \<Rightarrow> (string \<times> Method list) list" where
  "registered tbl = map (\<lambda>(t, ms). (t, map fst ms)) tbl"

definition route_methods :: "(string \<times> Method list) list" where
  "route_methods =
     [(''/health'', [GET]), (''/ready'', [GET]), (''/diagnostics'', [GET]), (''/metrics'', [GET]),
      (''/openapi.json'', [GET]), (''/api-docs'', [GET]), (''/api-docs/'', [GET]), (''/projects'', [GET, POST]),
      (''/projects/{id}'', [GET, PUT, DELETE]), (''/projects/{id}/duplicate'', [POST]),
      (''/projects/{id}/test_suites'', [GET, POST]), (''/projects/{id}/test_suites/{suite_id}'', [DELETE]),
      (''/projects/{id}/test_cases'', [GET, POST]), (''/projects/{id}/test_cases/{case_id}'', [PUT, DELETE]),
      (''/projects/{id}/test_cases/{case_id}/history'', [GET]),
      (''/projects/{id}/test_cases/{case_id}/history/{version}'', [GET]),
      (''/projects/{id}/test_cases/{case_id}/attachments'', [POST]),
      (''/projects/{id}/test_cases/{case_id}/attachments/{filename}'', [GET, DELETE]),
      (''/projects/{id}/test_cases/{case_id}/steps/{step_index}/attachments'', [GET, POST]),
      (''/projects/{id}/test_cases/{case_id}/steps/{step_index}/attachments/{filename}'', [DELETE]),
      (''/projects/{id}/test_runs'', [GET, POST]), (''/projects/{id}/test_runs/{run_id}'', [DELETE]),
      (''/projects/{id}/milestones'', [GET, POST]), (''/projects/{id}/milestones/{milestone_id}'', [DELETE]),
      (''/projects/{id}/configurations'', [GET, POST]), (''/projects/{id}/configurations/{config_id}'', [DELETE]),
      (''/projects/{id}/workflows'', [GET, POST]), (''/projects/{id}/workflows/{workflow_id}'', [DELETE]),
      (''/projects/{id}/workflows/{workflow_id}/run'', [POST]), (''/test_suites'', [GET, POST]),
      (''/test_suites/{id}'', [GET, PUT, DELETE]), (''/test_suites/{id}/duplicate'', [POST]),
      (''/test_suites/{id}/test_cases'', [GET, POST]), (''/test_suites/{id}/test_cases/{case_id}'', [DELETE, PUT]),
      (''/test_suites/{id}/test_cases/{case_id}/history'', [GET]),
      (''/test_suites/{id}/test_cases/{case_id}/history/{version}'', [GET]),
      (''/test_suites/{id}/test_cases/{case_id}/attachments'', [POST]),
      (''/test_suites/{id}/test_cases/{case_id}/attachments/{filename}'', [GET, DELETE]),
      (''/test_suites/{id}/test_cases/{case_id}/steps/{step_index}/attachments'', [GET, POST]),
      (''/test_suites/{id}/test_cases/{case_id}/steps/{step_index}/attachments/{filename}'', [DELETE]),
      (''/test_runs'', [GET, POST]), (''/test_runs/{id}'', [GET, PUT, DELETE]),
      (''/test_runs/{id}/duplicate'', [POST]), (''/test_runs/{id}/test_suites'', [POST]),
      (''/test_runs/{id}/test_cases'', [POST]), (''/test_runs/{id}/results'', [POST]),
      (''/test_runs/{id}/results/{case_id}'', [PUT, DELETE]),
      (''/test_runs/{id}/results/{case_id}/defects'', [GET, POST]),
      (''/test_runs/{id}/results/{case_id}/defects/{link_id}'', [DELETE]),
      (''/test_runs/{id}/import/junit'', [POST]), (''/test_runs/{id}/import/json'', [POST]),
      (''/test_runs/{id}/configurations'', [POST]), (''/test_runs/{id}/configurations/{config_id}'', [DELETE]),
      (''/test_cases'', [GET, POST]), (''/test_cases/{id}'', [GET, PUT, DELETE]),
      (''/test_cases/{id}/duplicate'', [POST]), (''/test_cases/{id}/attachments'', [POST]),
      (''/test_cases/{id}/attachments/{filename}'', [GET, DELETE]),
      (''/test_cases/{id}/steps/{step_index}/attachments'', [GET, POST]),
      (''/test_cases/{id}/steps/{step_index}/attachments/{filename}'', [GET, DELETE]),
      (''/test_cases/{id}/history'', [GET]), (''/test_cases/{id}/history/{version}'', [GET]),
      (''/milestones'', [GET, POST]), (''/milestones/{id}'', [GET, PUT, DELETE]),
      (''/milestones/{id}/duplicate'', [POST]), (''/milestones/{id}/progress'', [GET]),
      (''/reports/coverage'', [GET]), (''/reports/last-results'', [GET]), (''/reports/summary'', [GET]),
      (''/releases'', [GET]), (''/environments'', [GET]), (''/configurations'', [GET, POST]),
      (''/configurations/{id}'', [GET, PUT, DELETE]), (''/workflows'', [GET, POST]),
      (''/workflows/{id}'', [GET, PUT, DELETE]), (''/workflows/{id}/duplicate'', [POST]), (''/auth/login'', [POST]),
      (''/auth/refresh'', [POST]), (''/auth/logout'', [POST]), (''/auth/me'', [GET])]"

lemmas tables = own_routes_def projects_routes_def suites_routes_def runs_routes_def cases_routes_def
  milestones_routes_def reports_routes_def configurations_routes_def workflows_routes_def auth_routes_def

lemma route_methods_fst: "map fst route_methods = ROUTES"
  unfolding route_methods_def ROUTES_def list.map fst_conv ..

lemma route_methods_distinct: "list_all (\<lambda>(t, ms). distinct ms) route_methods"
  by (simp add: route_methods_def)

lemma registered_router: "mset (operations (registered router)) = mset (operations route_methods)"
  unfolding registered_def router_def tables route_methods_def operations_def list.map append.simps fst_conv
    prod.case concat.simps mset.simps add_mset_add_mset_same_iff
  by (simp only: add_mset_commute)

lemma registered_paths: "set (map fst router) = set ROUTES"
  unfolding router_def tables ROUTES_def list.map append.simps fst_conv list.set
  by (simp only: insert_commute insert_absorb2)

definition undocumented_methods :: "(string \<times> Method list) list" where
  "undocumented_methods = [(''/api-docs/'', [GET]), (''/test_suites'', [GET, POST]), (''/test_cases'', [GET, POST]),
     (''/test_runs'', [GET, POST]), (''/milestones'', [GET, POST]), (''/configurations'', [GET, POST])]"

lemma contract_and_rest:
  "mset (operations route_methods) = mset (operations (contract_operations @ undocumented_methods))"
  unfolding route_methods_def contract_operations_def undocumented_methods_def operations_def list.map append.simps
    prod.case concat.simps mset.simps
  by (simp only: add_mset_commute)

lemma undocumented_paths: "map fst undocumented_methods = UNDOCUMENTED_ROUTES"
  by (simp add: undocumented_methods_def UNDOCUMENTED_ROUTES_def)

lemma contract_documented: "list_all (\<lambda>(t, ms). t \<notin> set UNDOCUMENTED_ROUTES) contract_operations"
  by (simp add: contract_operations_def UNDOCUMENTED_ROUTES_def)

lemma in_operations: "(t, m) \<in> set (operations ts) \<longleftrightarrow> (\<exists>ms. (t, ms) \<in> set ts \<and> m \<in> set ms)"
  by (force simp: operations_def)

lemma operations_append: "operations (ts @ us) = operations ts @ operations us"
  by (simp add: operations_def)

lemma distinct_operations:
  "distinct (map fst ts) \<Longrightarrow> list_all (\<lambda>(t, ms). distinct ms) ts \<Longrightarrow> distinct (operations ts)"
  by (induction ts) (auto simp: operations_def distinct_map inj_on_def, force)

lemma registered_once: "distinct (operations (registered router))"
proof -
  have "distinct (operations route_methods)"
    using distinct_ROUTES route_methods_distinct by (simp add: distinct_operations route_methods_fst)
  then show ?thesis using registered_router by (metis mset_eq_imp_distinct_iff)
qed

lemma undocumented_declared: "set UNDOCUMENTED_ROUTES \<subseteq> set ROUTES"
  by (simp add: UNDOCUMENTED_ROUTES_def ROUTES_def)

lemma contract_exact:
  "set (operations contract_operations) =
     {(t, m). (t, m) \<in> set (operations (registered router)) \<and> t \<notin> set UNDOCUMENTED_ROUTES}"
proof -
  have ops: "set (operations (registered router)) = set (operations contract_operations) \<union> set (operations undocumented_methods)"
    using registered_router contract_and_rest by (metis operations_append set_append set_mset_mset)
  have inside: "t \<in> set UNDOCUMENTED_ROUTES" if "(t, m) \<in> set (operations undocumented_methods)" for t m
    using that unfolding in_operations undocumented_paths [symmetric] by force
  have outside: "t \<notin> set UNDOCUMENTED_ROUTES" if "(t, m) \<in> set (operations contract_operations)" for t m
    using that contract_documented by (auto simp: in_operations list_all_iff)
  show ?thesis unfolding ops using inside outside by blast
qed

end
