(* ===== verification/Dispatch_Laws.thy ===== *)
theory Dispatch_Laws
  imports Route_Laws
begin

text \<open>
  The API as one function of the request (\<^verbatim>\<open>dispatch\<close> of theory \<open>Routes\<close>): which handler answers, that a
  handler always finds the path parameters it asks for, that a request without a valid token reaches
  nothing but the open routes, that reading methods write nothing, and that whatever a request changes
  is the change of one write route in whose projects the caller holds the role it needs. A fact about
  every handler is proved along the tables, one rule per combinator.
\<close>

section \<open>Which handler answers\<close>

definition endpoints :: "Table \<Rightarrow> (string \<times> Method \<times> Handler) list" where
  "endpoints tbl = concat (map (\<lambda>(t, ms). map (\<lambda>(m, h). (t, m, h)) ms) tbl)"

lemma matched_Some:
  "matcher_ok M \<Longrightarrow> matched M router path = Some (t, raw) \<Longrightarrow> t \<in> set ROUTES \<and> fits (segments t) (segments path) = Some raw"
  unfolding matcher_ok_def matched_def registered_paths [symmetric]
  by (drule spec [of _ "map fst router"], drule spec [of _ path]) simp

lemma matched_None:
  "matcher_ok M \<Longrightarrow> matched M router path = None \<Longrightarrow> t \<in> set ROUTES \<Longrightarrow> fits (segments t) (segments path) = None"
  unfolding matcher_ok_def matched_def registered_paths [symmetric]
  by (drule spec [of _ "map fst router"], drule spec [of _ path]) auto

lemma matched_iff:
  assumes "matcher_ok M"
  shows "matched M router path = Some (t, raw) \<longleftrightarrow> t \<in> set ROUTES \<and> fits (segments t) (segments path) = Some raw"
proof
  assume r: "t \<in> set ROUTES \<and> fits (segments t) (segments path) = Some raw"
  then obtain u raw' where u: "matched M router path = Some (u, raw')"
    using matched_None [OF assms] by (cases "matched M router path") force+
  from matched_Some [OF assms u] r have "u = t" by (intro one_template_fits) auto
  with matched_Some [OF assms u] u r show "matched M router path = Some (t, raw)" by simp
qed (rule matched_Some [OF assms])

text \<open>C11. The router registers every declared path and no other, no operation twice (which would stop the
  process when the router is built); outside the paths declared undocumented its operations are exactly
  those of the published contract; and it is unambiguous: under any matcher that answers a path by some
  template that fits it, the router picks a template exactly when that template is declared and fits the
  path, with the values of its parameters, so no path is left to the matcher's precedence.\<close>

theorem router_serves_the_contract:
  assumes "matcher_ok M"
  shows "set (map fst router) = set ROUTES \<and> distinct ROUTES \<and> distinct (operations (registered router))
    \<and> set UNDOCUMENTED_ROUTES \<subseteq> set ROUTES
    \<and> set (operations contract_operations) =
        {(t, m). (t, m) \<in> set (operations (registered router)) \<and> t \<notin> set UNDOCUMENTED_ROUTES}
    \<and> (matched M router path = Some (t, raw) \<longleftrightarrow> t \<in> set ROUTES \<and> fits (segments t) (segments path) = Some raw)"
  by (intro conjI registered_paths distinct_ROUTES registered_once undocumented_declared contract_exact
      matched_iff [OF assms])

lemma fits_length: "fits ts ss = Some raw \<Longrightarrow> length raw = length (filter is_param ts)"
  by (induction ts ss arbitrary: raw rule: fits.induct) (auto split: if_splits)

lemma methods_at_endpoint: "map_of (methods_at tbl t) m = Some h \<Longrightarrow> (t, m, h) \<in> set (endpoints tbl)"
  by (force simp: methods_at_def endpoints_def dest!: map_of_SomeD)

lemma methods_at_registered:
  "(t, m) \<in> set (operations (registered tbl)) \<Longrightarrow> \<exists>h. map_of (methods_at tbl t) m = Some h"
  by (cases "map_of (methods_at tbl t) m")
    (force simp: map_of_eq_None_iff methods_at_def in_operations registered_def)+

text \<open>A request is refused by the framework, or one registered handler answers it.\<close>

lemma dispatch_cases:
  obtains (refused) "snd (dispatch X E q i st) = st"
  | (handled) t m h raw where "matched (en_match E) router (in_path q) = Some (t, raw)" "(t, m, h) \<in> set (endpoints router)"
      "m = in_method q \<or> in_method q = HEAD \<and> m = GET"
      "snd (dispatch X E q i st) = snd (h X E q i raw st)"
proof -
  have snd_answer: "snd (answer i h st) = snd (h st)" for h
    by (auto simp: answer_def split: prod.splits sum.splits)
  have snd_body: "snd (without_body a) = snd a" for a by (simp add: without_body_def split: prod.splits)
  show thesis
  proof (cases "matched (en_match E) router (in_path q)")
    case None
    then show thesis by (intro refused) (simp add: dispatch_def)
  next
    case (Some found)
    obtain t raw where found: "found = (t, raw)" by (cases found)
    show thesis
    proof (cases "map_of (methods_at router t) (in_method q)")
      case (Some h)
      show thesis
        by (rule handled [of t raw "in_method q" h])
          (use Some \<open>matched (en_match E) router (in_path q) = Some found\<close> found in \<open>auto simp: dispatch_def snd_answer methods_at_endpoint\<close>)
    next
      case None
      show thesis
      proof (cases "in_method q = HEAD \<and> map_of (methods_at router t) GET \<noteq> None")
        case True
        then obtain h where h: "map_of (methods_at router t) GET = Some h" by auto
        show thesis
          by (rule handled [of t raw GET h])
            (use True None h \<open>matched (en_match E) router (in_path q) = Some found\<close> found
              in \<open>auto simp: dispatch_def snd_answer snd_body methods_at_endpoint\<close>)
      next
        case False
        with None \<open>matched (en_match E) router (in_path q) = Some found\<close> found show thesis
          by (intro refused) (auto simp: dispatch_def split: Method.splits option.splits)
      qed
    qed
  qed
qed

text \<open>A fact about every handler is proved along the tables.\<close>

lemmas endpoint_lists = router_def tables endpoints_def append.simps list.map prod.case concat.simps list.pred_inject

locale endpoint_law =
  fixes P :: "string \<times> Method \<times> Handler \<Rightarrow> bool"
  assumes everywhere: "list_all P (endpoints router)"
begin

lemma at_endpoint: "(t, m, h) \<in> set (endpoints router) \<Longrightarrow> P (t, m, h)"
  using everywhere by (simp add: list_all_iff)

lemma answering: "map_of (methods_at router t) m = Some h \<Longrightarrow> P (t, m, h)"
  by (rule at_endpoint [OF methods_at_endpoint])

end

section \<open>Path parameters\<close>

lemma path_params_length: "path_params E raw = Inr ps \<Longrightarrow> length ps = length raw"
  by (auto simp: path_params_def rmap_Inr_iff dest: list_all2_lengthD)

lemma path_params_arity: "path_params (E\<lparr>en_path_arity := r\<rparr>) raw = path_params E raw"
  by (simp add: path_params_def)

lemma path_arity:
  "length raw = Suc 0 \<Longrightarrow> path1 (E\<lparr>en_path_arity := r\<rparr>) raw k1 = path1 E raw k1"
  "length raw = Suc (Suc 0) \<Longrightarrow> path2 (E\<lparr>en_path_arity := r\<rparr>) raw k2 = path2 E raw k2"
  "length raw = Suc (Suc (Suc 0)) \<Longrightarrow> path3 (E\<lparr>en_path_arity := r\<rparr>) raw k3 = path3 E raw k3"
  "length raw = Suc (Suc (Suc (Suc 0))) \<Longrightarrow> path4 (E\<lparr>en_path_arity := r\<rparr>) raw k4 = path4 E raw k4"
  by (auto simp: path1_def path2_def path3_def path4_def path_params_arity extracting_def length_Suc_conv
      split: sum.splits dest!: path_params_length)

definition arity_fits :: "string \<times> Method \<times> Handler \<Rightarrow> bool" where
  "arity_fits = (\<lambda>(t, m, h). \<forall>X E q i raw r. length raw = length (filter is_param (segments t)) \<longrightarrow>
     h X (E\<lparr>en_path_arity := r\<rparr>) q i raw = h X E q i raw)"

lemmas route_defs = list_route_def get_route_def create_route_def update_route_def delete_route_def duplicate_route_def
  route0_def route1_def route2_def route3_def route4_def

lemma arity_tables: "list_all arity_fits (endpoints router)"
  unfolding endpoint_lists arity_fits_def
  by (simp_all add: route_defs path_arity segments_def is_param_def)

interpretation arities: endpoint_law arity_fits
  by unfold_locales (rule arity_tables)

lemma handler_arity:
  assumes "matcher_ok M" "matched M router path = Some (t, raw)" "map_of (methods_at router t) m = Some h"
  shows "h X (E\<lparr>en_path_arity := r\<rparr>) q i raw = h X E q i raw"
  using arities.answering [OF assms(3)] fits_length [OF conjunct2 [OF matched_Some [OF assms(1,2)]]]
  by (simp add: arity_fits_def)

text \<open>C21. The framework's refusal of a path whose parameters do not match the handler, which it finds only
  when a request arrives, answers no request: every handler asks for as many parameters as its
  template binds.\<close>

theorem handlers_get_their_parameters:
  assumes "matcher_ok (en_match E)"
  shows "dispatch X (E\<lparr>en_path_arity := r\<rparr>) q i st = dispatch X E q i st"
  by (auto simp: dispatch_def handler_arity [OF assms] split: option.splits prod.splits Method.splits)

section \<open>Who is let in\<close>

definition OPEN_ROUTES :: "string list" where
  "OPEN_ROUTES = [''/health'', ''/ready'', ''/diagnostics'', ''/metrics'', ''/openapi.json'', ''/api-docs'', ''/api-docs/'',
     ''/auth/login'', ''/auth/refresh'']"

definition needs_caller :: "string \<times> Method \<times> Handler \<Rightarrow> bool" where
  "needs_caller = (\<lambda>(t, m, h). t \<notin> set OPEN_ROUTES \<longrightarrow> (\<forall>X E q i raw e.
     from_request_parts X (in_authorization q) (en_now E) = Inl e \<longrightarrow> h X E q i raw = slift (Inl e)))"

lemma needs_caller_open: "t \<in> set OPEN_ROUTES \<Longrightarrow> needs_caller (t, m, h)"
  by (simp add: needs_caller_def)

lemma needs_caller_routes:
  "needs_caller (t, m, route0 f0)" "needs_caller (t, m, route1 f1)" "needs_caller (t, m, route2 f2)"
  "needs_caller (t, m, route3 f3)" "needs_caller (t, m, route4 f4)"
  "needs_caller (t, m, list_route r)" "needs_caller (t, m, get_route r)" "needs_caller (t, m, create_route r)"
  "needs_caller (t, m, update_route r)" "needs_caller (t, m, delete_route r)" "needs_caller (t, m, duplicate_route spec)"
  by (simp_all add: needs_caller_def route_defs with_principal_def)

lemma needs_caller_tables: "list_all needs_caller (endpoints router)"
  unfolding endpoint_lists
  by (simp_all add: needs_caller_routes needs_caller_open OPEN_ROUTES_def)

interpretation callers: endpoint_law needs_caller
  by unfold_locales (rule needs_caller_tables)

text \<open>C5. A request whose token is missing or refused changes nothing and, on every registered operation
  outside the probes, the documentation, sign-in and refresh, gets exactly the refusal of its token.\<close>

theorem unauthenticated_requests_refused:
  assumes "from_request_parts X (in_authorization q) (en_now E) = Inl e"
    "matched (en_match E) router (in_path q) = Some (t, raw)" "t \<notin> set OPEN_ROUTES"
  shows "snd (dispatch X E q i st) = st
    \<and> ((t, in_method q) \<in> set (operations (registered router)) \<longrightarrow> fst (dispatch X E q i st) = into_response i e)"
proof -
  have refuses: "h X E q i raw = slift (Inl e)" if "(t, m, h) \<in> set (endpoints router)" for m h
    using callers.at_endpoint [OF that] assms(1,3) by (simp add: needs_caller_def)
  have "snd (dispatch X E q i st) = st"
    by (rule dispatch_cases [of X E q i st]) (use refuses assms(2) in \<open>auto simp: slift_def\<close>)
  moreover have "fst (dispatch X E q i st) = into_response i e" if op: "(t, in_method q) \<in> set (operations (registered router))"
  proof -
    obtain h where h: "map_of (methods_at router t) (in_method q) = Some h" using methods_at_registered [OF op] by blast
    from refuses [OF methods_at_endpoint [OF h]] h assms(2) show ?thesis
      by (simp add: dispatch_def answer_def slift_def)
  qed
  ultimately show ?thesis by blast
qed

section \<open>Reading methods\<close>

lemma route_methods_known: "list_all (\<lambda>(t, ms). set ms \<subseteq> {GET, POST, PUT, DELETE}) route_methods"
  by (simp add: route_methods_def)

named_theorems keeps_intros \<open>operations that write no file\<close>

definition keeps_files :: "'a sop \<Rightarrow> bool" where
  "keeps_files h \<longleftrightarrow> (\<forall>st. files (snd (h st)) = files st)"

lemma keeps_basic [keeps_intros]:
  "keeps_files (slift x)" "keeps_files (sread g)" "keeps_files (cached S key enc dec f)"
  by (simp_all add: keeps_files_def slift_def sread_def cached_def split: prod.splits)

lemma keeps_sbind [keeps_intros]: "keeps_files h \<Longrightarrow> (\<And>x. keeps_files (f x)) \<Longrightarrow> keeps_files (sbind h f)"
  by (simp add: keeps_files_def sbind_def split: prod.splits sum.splits) (metis snd_conv)

lemma keeps_cases [keeps_intros]:
  "(\<And>x y. keeps_files (f x y)) \<Longrightarrow> keeps_files (case z of (x, y) \<Rightarrow> f x y)"
  "keeps_files a \<Longrightarrow> (\<And>x. keeps_files (g x)) \<Longrightarrow> keeps_files (case o1 of None \<Rightarrow> a | Some x \<Rightarrow> g x)"
  "keeps_files a \<Longrightarrow> keeps_files b \<Longrightarrow> keeps_files (if c then a else b)"
  by (simp_all split: prod.splits option.splits)

lemma keeps_extracted [keeps_intros]:
  "(\<And>x. keeps_files (k x)) \<Longrightarrow> keeps_files (extracting y k)" "(\<And>a. keeps_files (k1 a)) \<Longrightarrow> keeps_files (path1 E raw k1)"
  "(\<And>a b. keeps_files (k2 a b)) \<Longrightarrow> keeps_files (path2 E raw k2)" "(\<And>a b c. keeps_files (k3 a b c)) \<Longrightarrow> keeps_files (path3 E raw k3)"
  "(\<And>a b c d. keeps_files (k4 a b c d)) \<Longrightarrow> keeps_files (path4 E raw k4)" "(\<And>p. keeps_files (f p)) \<Longrightarrow> keeps_files (with_principal X a n f)"
  "keeps_files h \<Longrightarrow> keeps_files (as_json enc h)"
  by (auto simp: extracting_def path1_def path2_def path3_def path4_def with_principal_def as_json_def
      intro!: keeps_intros split: sum.splits list.splits)

lemmas reading_handlers = list_handler_def get_handler_def list_in_project_def list_all_in_project_def
  list_project_suites_def list_project_cases_def list_project_runs_def list_project_milestones_def
  list_project_configurations_def list_suite_cases_def get_milestone_progress_def milestone_progress_def
  list_releases_def release_names_def list_environments_def environment_names_def cached_names_def
  get_coverage_def get_summary_def summary_report_def get_last_results_def last_results_report_def
  download_attachment_def download_project_case_attachment_def download_suite_case_attachment_def
  attachment_response_def list_step_attachments_handler_def list_project_case_step_attachments_def
  list_suite_case_step_attachments_def list_step_files_def download_step_attachment_def download_step_file_def
  list_case_history_handler_def list_project_case_history_def list_suite_case_history_def history_response_def
  read_case_revision_handler_def read_project_case_revision_def read_suite_case_revision_def revision_response_def
  list_result_defects_def

lemma keeps_handlers [keeps_intros]:
  "keeps_files (list_handler X r p query)" "keeps_files (get_handler X r p rid expand)"
  "keeps_files (list_in_project X r p project query)" "keeps_files (list_all_in_project X r p project)"
  "keeps_files (list_project_suites X p project query)" "keeps_files (list_project_cases X p project query)"
  "keeps_files (list_project_runs X p project query)" "keeps_files (list_project_milestones X p project)"
  "keeps_files (list_project_configurations X p project)" "keeps_files (list_suite_cases X p rid)"
  "keeps_files (get_milestone_progress X rnd p rid)" "keeps_files (list_releases X p)"
  "keeps_files (list_environments X p)" "keeps_files (get_coverage X p o1)"
  "keeps_files (get_summary X rnd p filters)" "keeps_files (get_last_results X p o1)"
  "keeps_files (attachment_response X parent c f)" "keeps_files (download_attachment X p rid f)"
  "keeps_files (download_project_case_attachment X p project c f)"
  "keeps_files (download_suite_case_attachment X p suite c f)" "keeps_files (list_step_files X parent c n)"
  "keeps_files (list_step_attachments_handler X p rid n)"
  "keeps_files (list_project_case_step_attachments X p project c n)"
  "keeps_files (list_suite_case_step_attachments X p suite c n)" "keeps_files (download_step_file X parent c n f)"
  "keeps_files (download_step_attachment X p rid n f)" "keeps_files (history_response X parent c)"
  "keeps_files (list_case_history_handler X p rid)" "keeps_files (list_project_case_history X p project c)"
  "keeps_files (list_suite_case_history X p suite c)" "keeps_files (revision_response X parent c v)"
  "keeps_files (read_case_revision_handler X p rid v)" "keeps_files (read_project_case_revision X p project c v)"
  "keeps_files (read_suite_case_revision X p suite c v)" "keeps_files (list_result_defects X p rid c)"
  unfolding reading_handlers by (intro keeps_intros | simp split: option.split)+

definition reads_only :: "string \<times> Method \<times> Handler \<Rightarrow> bool" where
  "reads_only = (\<lambda>(t, m, h). m = GET \<longrightarrow> (\<forall>X E q i raw. keeps_files (h X E q i raw)))"

lemma reads_only_tables: "list_all reads_only (endpoints router)"
  unfolding endpoint_lists reads_only_def
  by (simp_all add: route_defs, (intro conjI allI keeps_intros)+)

interpretation readers: endpoint_law reads_only
  by unfold_locales (rule reads_only_tables)

text \<open>C19. A request whose method does not write leaves every stored file as it was, whatever its path,
  query, body and caller; the two probes, which write and remove a scratch file of their own, apart.\<close>

theorem reading_methods_write_nothing:
  assumes "in_method q \<notin> {POST, PUT, DELETE}"
    "map_option fst (matched (en_match E) router (in_path q)) \<notin> {Some ''/ready'', Some ''/diagnostics''}"
  shows "files (snd (dispatch X E q i st)) = files st"
proof (rule dispatch_cases [of X E q i st])
  fix t m h raw
  assume h: "(t, m, h) \<in> set (endpoints router)" and m: "m = in_method q \<or> in_method q = HEAD \<and> m = GET"
    and same: "snd (dispatch X E q i st) = snd (h X E q i raw st)"
  have "(t, m) \<in> set (operations (registered router))"
    using h by (force simp: endpoints_def registered_def in_operations)
  then have "(t, m) \<in> set (operations route_methods)" using registered_router by (metis set_mset_mset)
  then have "m \<in> {GET, POST, PUT, DELETE}"
    using route_methods_known by (auto simp: in_operations list_all_iff)
  with m assms(1) have "m = GET" by auto
  then have "keeps_files (h X E q i raw)"
    using readers.at_endpoint [OF h] by (simp add: reads_only_def)
  then show "files (snd (dispatch X E q i st)) = files st" unfolding same by (simp add: keeps_files_def)
qed simp

section \<open>Writing methods\<close>

text \<open>The role a change needs: the caller administers the server, or the change is that of a write route
  whose governing projects all grant the role it needs.\<close>

definition granted :: "AppState \<Rightarrow> Principal \<Rightarrow> Svc \<Rightarrow> Svc \<Rightarrow> bool" where
  "granted X p st st' \<longleftrightarrow> pr_system_admin p \<or> (\<exists>rt ps. st' = snd (perform X p rt st)
     \<and> governing X rt (files st) = Inr ps \<and> ps \<noteq> [] \<and> list_all (holds X p (needed_role rt) (files st)) ps)"

definition mediates :: "AppState \<Rightarrow> Principal \<Rightarrow> 'a sop \<Rightarrow> bool" where
  "mediates X p h \<longleftrightarrow> (\<forall>st. snd (h st) \<noteq> st \<longrightarrow> granted X p st (snd (h st)))"

lemma projects_of_not_Nil: "projects_of X r rid fs = Inr ps \<Longrightarrow> ps \<noteq> []"
  by (auto simp: projects_of_def reachable_projects_def with_home_def rbind_Inr_iff split: if_splits)

lemma governing_not_Nil: "governing X rt fs = Inr ps \<Longrightarrow> ps \<noteq> []"
  by (cases rt) (auto simp: rbind_Inr_iff dest: projects_of_not_Nil split: if_splits Address.splits)

lemma perform_mediates: "auth_required X \<Longrightarrow> mediates X p (perform X p rt)"
  unfolding mediates_def granted_def
proof (intro allI impI disjI2)
  fix st assume "auth_required X" "snd (perform X p rt st) \<noteq> st"
  then obtain ps where "governing X rt (files st) = Inr ps" "list_all (holds X p (needed_role rt) (files st)) ps"
    using every_write_is_mediated [of X p rt st "fst (perform X p rt st)" "snd (perform X p rt st)"] by auto
  then show "\<exists>rt' ps. snd (perform X p rt st) = snd (perform X p rt' st) \<and> governing X rt' (files st) = Inr ps \<and> ps \<noteq> []
      \<and> list_all (holds X p (needed_role rt') (files st)) ps"
    using governing_not_Nil by metis
qed

lemma mediates_forget [simp]: "mediates X p (forget h) \<longleftrightarrow> mediates X p h"
proof -
  have "snd (forget h st) = snd (h st)" for st
    by (auto simp: forget_def sbind_def slift_def split: prod.splits sum.splits)
  then show ?thesis by (simp add: mediates_def)
qed

text \<open>Each writing handler is one of the write routes.\<close>

lemmas mediated_handlers =
  perform_mediates [where rt = "UpdateDoc r rid im body" for r rid im body, simplified]
  perform_mediates [where rt = "DeleteDoc r rid" for r rid, simplified]
  perform_mediates [where rt = "DuplicateDoc spec rid body" for spec rid body, simplified]
  perform_mediates [where rt = "CreateInProject r noun project body" for r noun project body, simplified]
  perform_mediates [where rt = "ComposeInProject r noun project body" for r noun project body, simplified]
  perform_mediates [where rt = "DeleteInProject r role noun project rid" for r role noun project rid, simplified]
  perform_mediates [where rt = "AddCaseToSuite rid body" for rid body, simplified]
  perform_mediates [where rt = "RemoveCaseFromSuite rid c" for rid c, simplified]
  perform_mediates [where rt = "Upload ById rid m" for rid m, simplified]
  perform_mediates [where rt = "Upload (OfProject project) rid m" for project rid m, simplified]
  perform_mediates [where rt = "Upload (OfSuite suite) rid m" for suite rid m, simplified]
  perform_mediates [where rt = "RemoveUpload ById rid f" for rid f, simplified]
  perform_mediates [where rt = "RemoveUpload (OfProject project) rid f" for project rid f, simplified]
  perform_mediates [where rt = "RemoveUpload (OfSuite suite) rid f" for suite rid f, simplified]
  perform_mediates [where rt = "UploadStep ById rid n m" for rid n m, simplified]
  perform_mediates [where rt = "UploadStep (OfProject project) rid n m" for project rid n m, simplified]
  perform_mediates [where rt = "UploadStep (OfSuite suite) rid n m" for suite rid n m, simplified]
  perform_mediates [where rt = "RemoveStepUpload ById rid n f" for rid n f, simplified]
  perform_mediates [where rt = "RemoveStepUpload (OfProject project) rid n f" for project rid n f, simplified]
  perform_mediates [where rt = "RemoveStepUpload (OfSuite suite) rid n f" for suite rid n f, simplified]
  perform_mediates [where rt = "UpdateProjectCase project rid im body" for project rid im body, simplified]
  perform_mediates [where rt = "UpdateSuiteCase suite rid im body" for suite rid im body, simplified]
  perform_mediates [where rt = "AddSuiteToRun rid body" for rid body, simplified]
  perform_mediates [where rt = "AddCaseToRun rid body" for rid body, simplified]
  perform_mediates [where rt = "RecordResult rid body" for rid body, simplified]
  perform_mediates [where rt = "ReplaceResult rid c body" for rid c body, simplified]
  perform_mediates [where rt = "DeleteResult rid c" for rid c, simplified]
  perform_mediates [where rt = "LinkDefect rid c body" for rid c body, simplified]
  perform_mediates [where rt = "UnlinkDefect rid c l" for rid c l, simplified]
  perform_mediates [where rt = "ImportJUnit parse_xml rid utf8" for parse_xml rid utf8, simplified]
  perform_mediates [where rt = "ImportJson parse_slice rid bytes" for parse_slice rid bytes, simplified]
  perform_mediates [where rt = "LinkConfiguration rid body" for rid body, simplified]
  perform_mediates [where rt = "UnlinkConfiguration rid c" for rid c, simplified]
  perform_mediates [where rt = "RunFromWorkflow project w body" for project w body, simplified]

lemma mediates_keeps:
  "mediates X p (slift x)" "mediates X p (sread g)"
  by (simp_all add: mediates_def slift_def sread_def)

lemma mediates_extracted:
  "(\<And>x. mediates X p (k x)) \<Longrightarrow> mediates X p (extracting y k)" "(\<And>a. mediates X p (k1 a)) \<Longrightarrow> mediates X p (path1 E raw k1)"
  "(\<And>a b. mediates X p (k2 a b)) \<Longrightarrow> mediates X p (path2 E raw k2)"
  "(\<And>a b c. mediates X p (k3 a b c)) \<Longrightarrow> mediates X p (path3 E raw k3)"
  "(\<And>a b c d. mediates X p (k4 a b c d)) \<Longrightarrow> mediates X p (path4 E raw k4)"
  by (auto simp: extracting_def path1_def path2_def path3_def path4_def mediates_keeps split: sum.splits list.splits)

lemma mediates_as_json: "mediates X p h \<Longrightarrow> mediates X p (as_json enc h)"
proof -
  have "snd (as_json enc h st) = snd (h st)" for st
    by (auto simp: as_json_def sbind_def slift_def split: prod.splits sum.splits)
  then show "mediates X p h \<Longrightarrow> mediates X p (as_json enc h)" by (simp add: mediates_def)
qed

text \<open>Creation at the root is the administrator's for projects, and a mere explanation for everything else.\<close>

lemma mediates_create: "auth_required X \<Longrightarrow> mediates X p (create_handler X r p body)"
  by (cases r) (auto simp: mediates_def granted_def create_handler_def guard_create_def require_admin_def
      service_create_def slift_def sbind_def)

definition SESSION_ROUTES :: "string list" where
  "SESSION_ROUTES = [''/auth/login'', ''/auth/refresh'', ''/auth/logout'']"

definition WORKFLOW_CREATION :: string where
  "WORKFLOW_CREATION = ''/projects/{id}/workflows''"

definition mediated_endpoint :: "string \<times> Method \<times> Handler \<Rightarrow> bool" where
  "mediated_endpoint = (\<lambda>(t, m, h). m = GET \<or> t \<in> set SESSION_ROUTES \<or> t = WORKFLOW_CREATION
     \<or> (\<forall>X E q i raw p. auth_required X \<longrightarrow> from_request_parts X (in_authorization q) (en_now E) = Inr p
          \<longrightarrow> mediates X p (h X E q i raw)))"

definition open_reads :: "string \<times> Method \<times> Handler \<Rightarrow> bool" where
  "open_reads = (\<lambda>(t, m, h). t \<notin> set OPEN_ROUTES \<or> m = GET \<or> t \<in> set SESSION_ROUTES)"

lemma mediated_exempt:
  "mediated_endpoint (t, GET, h)" "t \<in> set SESSION_ROUTES \<Longrightarrow> mediated_endpoint (t, m, h)"
  "mediated_endpoint (WORKFLOW_CREATION, m, h)"
  by (simp_all add: mediated_endpoint_def)

lemmas mediated_rules = mediated_handlers mediates_create mediates_extracted mediates_as_json

lemma mediated_routes:
  "(\<And>X E q p. auth_required X \<Longrightarrow> mediates X p (f0 X E q p)) \<Longrightarrow> mediated_endpoint (t, m, route0 f0)"
  "(\<And>X E q p a. auth_required X \<Longrightarrow> mediates X p (f1 X E q p a)) \<Longrightarrow> mediated_endpoint (t, m, route1 f1)"
  "(\<And>X E q p a b. auth_required X \<Longrightarrow> mediates X p (f2 X E q p a b)) \<Longrightarrow> mediated_endpoint (t, m, route2 f2)"
  "(\<And>X E q p a b c. auth_required X \<Longrightarrow> mediates X p (f3 X E q p a b c)) \<Longrightarrow> mediated_endpoint (t, m, route3 f3)"
  "(\<And>X E q p a b c d. auth_required X \<Longrightarrow> mediates X p (f4 X E q p a b c d)) \<Longrightarrow> mediated_endpoint (t, m, route4 f4)"
  by (simp_all add: mediated_endpoint_def route_defs with_principal_def mediates_extracted)

lemma mediated_shared:
  "mediated_endpoint (t, m, create_route r)" "mediated_endpoint (t, m, update_route r)"
  "mediated_endpoint (t, m, delete_route r)" "mediated_endpoint (t, m, duplicate_route spec)"
  unfolding create_route_def update_route_def delete_route_def duplicate_route_def
  by (intro mediated_routes mediated_rules; assumption)+

lemmas scoped_writes = create_project_suite_def delete_project_suite_def create_project_case_def delete_project_case_def
  create_project_run_def delete_project_run_def create_project_milestone_def delete_project_milestone_def
  create_project_configuration_def delete_project_configuration_def delete_project_workflow_def

lemma mediated_tables: "list_all mediated_endpoint (endpoints router)"
  unfolding endpoint_lists WORKFLOW_CREATION_def [symmetric]
  by (simp_all add: mediated_exempt mediated_shared SESSION_ROUTES_def,
      (intro conjI mediated_routes mediated_rules; (unfold scoped_writes, intro mediated_handlers)?; assumption)+)

interpretation writing: endpoint_law mediated_endpoint
  by unfold_locales (rule mediated_tables)

lemma open_reads_tables: "list_all open_reads (endpoints router)"
  unfolding endpoint_lists open_reads_def by (simp_all add: OPEN_ROUTES_def SESSION_ROUTES_def)

interpretation open_routes: endpoint_law open_reads
  by unfold_locales (rule open_reads_tables)

text \<open>C4. Complete mediation of the API: with authentication enforced, a request that changes a stored file
  comes from an authenticated caller, and its change is that of one write route: the caller administers
  the server or holds, in every project that governs the route, at least the role the route needs. The
  session routes, which write the caller's own account, and the creation of a workflow, whose guard
  asks for no role, are outside the statement.\<close>

theorem every_request_is_mediated:
  assumes "auth_required X" "dispatch X E q i st = (r, st')" "files st' \<noteq> files st"
    "matched (en_match E) router (in_path q) = Some (t, raw)" "t \<notin> set SESSION_ROUTES" "t \<noteq> WORKFLOW_CREATION"
  shows "\<exists>p. from_request_parts X (in_authorization q) (en_now E) = Inr p \<and> granted X p st st'"
proof (rule dispatch_cases [of X E q i st])
  fix t' m h raw'
  assume found: "matched (en_match E) router (in_path q) = Some (t', raw')" and h: "(t', m, h) \<in> set (endpoints router)"
    and same: "snd (dispatch X E q i st) = snd (h X E q i raw' st)"
  have st': "st' = snd (h X E q i raw' st)" using same assms(2) by simp
  have m: "m \<noteq> GET"
    using readers.at_endpoint [OF h] st' assms(3) by (auto simp: reads_only_def keeps_files_def)
  have "t' \<notin> set OPEN_ROUTES"
    using open_routes.at_endpoint [OF h] m found assms(4,5) by (auto simp: open_reads_def)
  moreover have "h X E q i raw' \<noteq> slift (Inl e)" for e using st' assms(3) by (auto simp: slift_def)
  ultimately obtain p where p: "from_request_parts X (in_authorization q) (en_now E) = Inr p"
    using callers.at_endpoint [OF h]
    by (cases "from_request_parts X (in_authorization q) (en_now E)") (auto simp: needs_caller_def)
  have "mediates X p (h X E q i raw')"
    using writing.at_endpoint [OF h] m found p assms by (auto simp: mediated_endpoint_def)
  then have "granted X p st st'" using st' assms(3) unfolding mediates_def by metis
  with p show ?thesis by blast
qed (use assms in auto)

end
