(* ===== verification/Dispatch_Examples.thy ===== *)
theory Dispatch_Examples
  imports Dispatch_Laws Access_Examples
begin

text \<open>
  The theorems about the whole API applied to requests on the server of theory \<open>Access_Examples\<close>: a
  request without a token, a listing, and account \<^verbatim>\<open>u1\<close> deleting a run of its project.
\<close>

definition plain_response :: "nat \<Rightarrow> Response" where
  "plain_response status = \<lparr>rs_status = status, rs_headers = [], rs_body = BytesBody []\<rparr>"

text \<open>A matcher that takes the first template that fits.\<close>

fun first_fit :: Matcher where
  "first_fit [] path = None"
| "first_fit (t # ts) path = (case fits (segments t) (segments path) of
       Some raw \<Rightarrow> Some (t, raw)
     | None \<Rightarrow> first_fit ts path)"

lemma first_fit_Some: "first_fit ts path = Some (t, raw) \<Longrightarrow> t \<in> set ts \<and> fits (segments t) (segments path) = Some raw"
  by (induction ts) (auto split: option.splits)

lemma first_fit_None: "first_fit ts path = None \<longleftrightarrow> (\<forall>t \<in> set ts. fits (segments t) (segments path) = None)"
  by (induction ts) (auto split: option.splits)

lemma first_fit_ok: "matcher_ok first_fit"
  using first_fit_Some by (auto simp: matcher_ok_def first_fit_None split: option.splits)

definition sample_env :: Env where
  "sample_env = \<lparr>en_match = first_fit, en_now = 999, en_draws = \<lparr>dr_jti = ''j'', dr_refresh = ''n'', dr_id = ''i''\<rparr>, en_round = (\<lambda>x. x),
     en_parse_xml = (\<lambda>_. None), en_parse_slice = (\<lambda>_. None), en_from_utf8 = Some, en_probe = None, en_metrics = [],
     en_openapi = [], en_swagger = [], en_decode = Some, en_bad_path = plain_response 400,
     en_path_arity = plain_response 500, en_not_found = plain_response 404,
     en_method_not_allowed = (\<lambda>_. plain_response 405)\<rparr>"

definition request :: "Method \<Rightarrow> string \<Rightarrow> string option \<Rightarrow> Incoming" where
  "request m path authorization = \<lparr>in_method = m, in_path = path, in_authorization = authorization, in_if_match = None,
     in_children = Inr None, in_list_query = Inr \<lparr>lq_filter = None, lq_tags = None, lq_configuration = None\<rparr>,
     in_project_query = Inr None, in_summary_query = Inl (plain_response 400), in_json = Inl (plain_response 400),
     in_session_json = None, in_multipart = Inl (plain_response 400), in_bytes = Inr []\<rparr>"

text \<open>A token of three letters, whose payload reads as the claims of \<^verbatim>\<open>u1\<close>.\<close>

definition letters :: Crypto where
  "letters = \<lparr>b64_encode = id, b64_decode = Some, hmac = (\<lambda>k m. ''s''), sha256 = id, to_vec = (\<lambda>_. []),
     from_slice = (\<lambda>b. if b = ''h'' then Some (Obj [(''alg'', Str ''HS256''), (''typ'', Str ''JWT'')])
       else Some (RawClaims_to_value \<lparr>rc_sub = ''u1'', rc_iat = 100, rc_exp = 1000, rc_jti = ''j'', rc_sys = False\<rparr>))\<rparr>"

definition app :: AppState where
  "app = acc_app\<lparr>auth := (auth acc_app)\<lparr>ae_crypto := letters\<rparr>\<rparr>"

definition bearer :: "string option" where
  "bearer = Some ''Bearer h.p.s''"

lemma app_required: "auth_required app"
  by code_simp

lemma bearer_letters: "bearer_token bearer = Some ''h.p.s''"
proof -
  have "trim ''h.p.s'' = ''h.p.s''" by (rule trim_graphic) (simp add: is_ascii_graphic_def)
  moreover have "split_once (CHR '' '') ''Bearer h.p.s'' = Some (''Bearer'', ''h.p.s'')" by (simp add: split_once_def)
  moreover have "eq_ignore_ascii_case ''Bearer'' ''bearer''" by code_simp
  ultimately show ?thesis by (simp add: bearer_token_def bearer_def)
qed

lemma app_key: "secret (ae_config (auth app)) = Inr ''k''" "ae_crypto (auth app) = letters"
  by (simp_all add: app_def acc_app_def secret_def)

lemma letters_verify: "verify_access_token letters ''k'' ''h.p.s'' 999 =
    Inr \<lparr>cl_subject = ''u1'', cl_issued_at = 100, cl_expires_at = 1000, cl_token_id = ''j'', cl_system_admin = False\<rparr>"
  by (simp add: verify_access_token_def letters_def constant_time_eq_iff sign_def RawClaims_roundtrip
      RawHeader_alg_def struct_view_def ALGORITHM_def)

lemma u1_token: "from_request_parts app bearer 999 = Inr u1"
  by (simp add: from_request_parts_def app_required bearer_letters authenticate_def app_key letters_verify u1_def)

lemma sample_selectors [simp]:
  "en_now sample_env = 999" "in_method (request m path a) = m" "in_path (request m path a) = path"
  "in_authorization (request m path a) = a" "en_decode sample_env = Some" "en_match sample_env = first_fit"
  by (simp_all add: sample_env_def request_def)

lemma matched_paths:
  "matched first_fit router ''/projects'' = Some (''/projects'', [])"
  "matched first_fit router ''/projects/p.json/test_runs/r.json'' =
     Some (''/projects/{id}/test_runs/{run_id}'', [''p.json'', ''r.json''])"
  by (simp_all add: matched_iff [OF first_fit_ok] ROUTES_def segments_def is_param_def)

lemma delete_run_operation: "(''/projects/{id}/test_runs/{run_id}'', DELETE) \<in> set (operations (registered router))"
  unfolding registered_def router_def tables operations_def by simp

lemma no_token: "from_request_parts app None 999 = Inl missing_token"
  by (simp add: from_request_parts_def app_required bearer_token_def)

theorem router_serves_the_contract_witness:
  "matched first_fit router ''/auth/me'' = Some (''/auth/me'', [])"
  using router_serves_the_contract [OF first_fit_ok, of "''/auth/me''" "''/auth/me''" "[]"]
  by (simp add: ROUTES_def segments_def is_param_def)

theorem handlers_get_their_parameters_witness:
  "dispatch app (sample_env\<lparr>en_path_arity := plain_response 400\<rparr>) (request DELETE ''/projects/p.json/test_runs/r.json'' bearer) None acc_state =
     dispatch app sample_env (request DELETE ''/projects/p.json/test_runs/r.json'' bearer) None acc_state"
  by (rule handlers_get_their_parameters) (simp add: first_fit_ok)

theorem unauthenticated_requests_refused_witness:
  "dispatch app sample_env (request DELETE ''/projects/p.json/test_runs/r.json'' None) None acc_state =
     (into_response None missing_token, acc_state)"
proof -
  let ?q = "request DELETE ''/projects/p.json/test_runs/r.json'' None"
  have "from_request_parts app (in_authorization ?q) (en_now sample_env) = Inl missing_token" by (simp add: no_token)
  moreover have "matched (en_match sample_env) router (in_path ?q) = Some (''/projects/{id}/test_runs/{run_id}'', [''p.json'', ''r.json''])"
    by (simp add: matched_paths)
  moreover have "''/projects/{id}/test_runs/{run_id}'' \<notin> set OPEN_ROUTES" by (simp add: OPEN_ROUTES_def)
  ultimately show ?thesis
    using unauthenticated_requests_refused [of app ?q sample_env] delete_run_operation
    by (metis prod.collapse sample_selectors(2))
qed

theorem reading_methods_write_nothing_witness:
  "files (snd (dispatch app sample_env (request GET ''/projects'' bearer) None acc_state)) = acc_fs"
  using reading_methods_write_nothing [where q = "request GET ''/projects'' bearer" and E = sample_env and X = app
      and i = None and st = acc_state]
  by (simp add: matched_paths)

theorem every_request_is_mediated_witness:
  "\<exists>st'. files st' \<noteq> acc_fs \<and> granted app u1 acc_state st'
     \<and> snd (dispatch app sample_env (request DELETE ''/projects/p.json/test_runs/r.json'' bearer) None acc_state) = st'"
proof -
  let ?q = "request DELETE ''/projects/p.json/test_runs/r.json'' bearer"
  let ?t = "''/projects/{id}/test_runs/{run_id}''"
  let ?d = "dispatch app sample_env ?q None acc_state"
  have h: "map_of (methods_at router ?t) DELETE = Some (route2 (\<lambda>X E q. delete_project_run X))"
    unfolding methods_at_def router_def tables by simp
  have "snd ?d = snd (route2 (\<lambda>X E q. delete_project_run X) app sample_env ?q None [''p.json'', ''r.json''] acc_state)"
    by (simp add: dispatch_def matched_paths h answer_def split: prod.splits sum.splits)
  also have "\<dots> = snd (delete_project_run app u1 ''p.json'' ''r.json'' acc_state)"
    by (simp add: route2_def with_principal_def u1_token path2_def path_params_def extracting_def)
  finally have d: "snd ?d = snd (delete_project_run app u1 ''p.json'' ''r.json'' acc_state)" .
  have "length (files (snd (delete_project_run app u1 ''p.json'' ''r.json'' acc_state))) \<noteq> length acc_fs" by code_simp
  then have changed: "files (snd ?d) \<noteq> files acc_state" unfolding d by auto
  have "?t \<notin> set SESSION_ROUTES" "?t \<noteq> WORKFLOW_CREATION" by (simp_all add: SESSION_ROUTES_def WORKFLOW_CREATION_def)
  from every_request_is_mediated [OF app_required prod.collapse [of ?d, symmetric] changed _ this] u1_token changed
  show ?thesis by (auto simp: matched_paths)
qed

end
