(* ===== verification/Links.thy ===== *)
theory Links
  imports FileSystem
begin

text \<open>
  The guards of \<^verbatim>\<open>src/storage/layout.rs\<close> against links, on a disk that has them. A disk is a table of inodes:
  a directory holds names of inodes, a file holds bytes, a symbolic link holds a target. A name reached
  through a directory is a hard link, so a file may have several. A place on the disk is the sequence of
  names and inodes that leads to it from the top, deepest first; \<open>..\<close> drops its head.

  The other theories work on the tree of theory \<open>FileSystem\<close>, which has no links; the last section shows
  that on a disk without links the two readers answer alike, errors included.
\<close>

section \<open>Disks\<close>

type_synonym ino = nat

datatype inode = IDir "(string \<times> ino) list" | IFile string | ILink bool path

record Disk =
  inodes :: "(ino \<times> inode) list"
  device :: "ino \<Rightarrow> nat"
  top :: ino

type_synonym place = "(string \<times> ino) list"

abbreviation no_entry :: io_error where
  "no_entry \<equiv> io_err KNotFound ''No such file or directory''"

abbreviation not_directory :: io_error where
  "not_directory \<equiv> io_err KNotADirectory ''Not a directory''"

abbreviation link_loop :: io_error where
  "link_loop \<equiv> io_err KOther ''Too many levels of symbolic links''"

definition here :: "Disk \<Rightarrow> place \<Rightarrow> ino" where
  "here D pos = (case pos of [] \<Rightarrow> top D | (_, i) # _ \<Rightarrow> i)"

definition entry :: "Disk \<Rightarrow> ino \<Rightarrow> string \<Rightarrow> ino io_result" where
  "entry D i c = (case map_of (inodes D) i of
       Some (IDir es) \<Rightarrow> ok_or no_entry (map_of es c)
     | Some _ \<Rightarrow> Inl not_directory
     | None \<Rightarrow> Inl no_entry)"

definition is_directory :: "Disk \<Rightarrow> ino \<Rightarrow> bool" where
  "is_directory D i \<longleftrightarrow> (case map_of (inodes D) i of Some (IDir _) \<Rightarrow> True | _ \<Rightarrow> False)"

section \<open>Resolving a path\<close>

text \<open>Resolution as the kernel does it, following symbolic links, at most forty of them.\<close>

definition MAX_LINKS :: nat where
  "MAX_LINKS = 40"

definition enter :: "nat \<Rightarrow> Disk \<Rightarrow> place \<Rightarrow> string \<Rightarrow> path \<Rightarrow> ino \<Rightarrow> (nat \<times> place \<times> path) io_result" where
  "enter f D pos c cs j = (case map_of (inodes D) j of
       Some (ILink absolute target) \<Rightarrow>
         (case f of 0 \<Rightarrow> Inl link_loop | Suc f' \<Rightarrow> Inr (f', if absolute then [] else pos, target @ cs))
     | _ \<Rightarrow> Inr (f, (c, j) # pos, cs))"

definition hop :: "nat \<Rightarrow> Disk \<Rightarrow> place \<Rightarrow> string \<Rightarrow> path \<Rightarrow> (nat \<times> place \<times> path) io_result" where
  "hop f D pos c cs =
     (if \<not> is_directory D (here D pos) then Inl not_directory
      else if c = ''.'' then Inr (f, pos, cs)
      else if c = ''..'' then Inr (f, tl pos, cs)
      else rbind (entry D (here D pos) c) (enter f D pos c cs))"

lemma enter_shorter: "enter f D pos c cs j = Inr (f', pos', cs') \<Longrightarrow> f' < f \<or> f' = f \<and> cs' = cs"
  by (auto simp: enter_def split: option.splits inode.splits nat.splits)

lemma hop_shorter: "hop f D pos c cs = Inr (f', pos', cs') \<Longrightarrow> f' < f \<or> f' = f \<and> cs' = cs"
  by (auto simp: hop_def rbind_Inr_iff dest: enter_shorter split: if_splits)

function follow :: "nat \<Rightarrow> Disk \<Rightarrow> place \<Rightarrow> path \<Rightarrow> place io_result" where
  "follow f D pos [] = Inr pos"
| "follow f D pos (c # cs) = (case hop f D pos c cs of
       Inl e \<Rightarrow> Inl e
     | Inr (f', pos', cs') \<Rightarrow> follow f' D pos' cs')"
  by pat_completeness auto
termination
  by (relation "measures [\<lambda>(f, _, _, _). f, \<lambda>(_, _, _, cs). length cs]") (auto dest: hop_shorter)

definition place_path :: "place \<Rightarrow> path" where
  "place_path pos = rev (map fst pos)"

definition canonicalize :: "Disk \<Rightarrow> path \<Rightarrow> path io_result" where
  "canonicalize D p = rbind (follow MAX_LINKS D [] p) (\<lambda>pos. Inr (place_path pos))"

text \<open>\<^verbatim>\<open>symlink_metadata\<close> does not follow the last name.\<close>

definition symlink_metadata :: "Disk \<Rightarrow> path \<Rightarrow> ino io_result" where
  "symlink_metadata D p =
     (if p = [] \<or> last p \<in> {''.'', ''..''} then rbind (follow MAX_LINKS D [] p) (\<lambda>pos. Inr (here D pos))
      else rbind (follow MAX_LINKS D [] (butlast p)) (\<lambda>pos. entry D (here D pos) (last p)))"

definition file_name :: "path \<Rightarrow> string option" where
  "file_name p = (if p = [] \<or> last p = ''..'' then None else Some (last p))"

section \<open>The guards\<close>

abbreviation escapes :: io_error where
  "escapes \<equiv> io_err KPermissionDenied ''path escapes data root''"

text \<open>The loop of \<^verbatim>\<open>resolve_existing_prefix\<close>; a path with a file name has a parent, so the second refusal of
  the source is never reached.\<close>

function existing_prefix :: "Disk \<Rightarrow> path \<Rightarrow> string list \<Rightarrow> path io_result" where
  "existing_prefix D existing missing = (case symlink_metadata D existing of
       Inr _ \<Rightarrow> rbind (canonicalize D existing) (\<lambda>resolved. Inr (resolved @ rev missing))
     | Inl e \<Rightarrow>
         if io_kind e \<noteq> KNotFound then Inl e
         else (case file_name existing of
           None \<Rightarrow> Inl (io_err KInvalidInput ''path has no file name'')
         | Some name \<Rightarrow> existing_prefix D (butlast existing) (missing @ [name])))"
  by pat_completeness auto
termination
  by (relation "measure (\<lambda>(_, existing, _). length existing)") (auto simp: file_name_def split: if_splits)

definition resolve_existing_prefix :: "Disk \<Rightarrow> path \<Rightarrow> path io_result" where
  "resolve_existing_prefix D candidate = existing_prefix D candidate []"

definition ensure_within_links :: "Disk \<Rightarrow> path \<Rightarrow> path \<Rightarrow> unit io_result" where
  "ensure_within_links D root candidate =
     rbind (guard (2 \<le> length candidate \<and> prefix root candidate) escapes) (\<lambda>_.
     rbind (map_err (\<lambda>_. io_err KNotFound ''data root does not exist'') (canonicalize D root)) (\<lambda>canonical_root.
     rbind (resolve_existing_prefix D candidate) (\<lambda>resolved. guard (prefix canonical_root resolved) escapes)))"

text \<open>One \<^verbatim>\<open>openat\<close> per directory below the root, none through a link.\<close>

fun open_below :: "Disk \<Rightarrow> place \<Rightarrow> path \<Rightarrow> place io_result" where
  "open_below D pos [] = Inr pos"
| "open_below D pos (c # cs) =
     (if c = ''.'' then open_below D pos cs
      else if c = ''..'' then open_below D (tl pos) cs
      else (case entry D (here D pos) c of
        Inl e \<Rightarrow> Inl e
      | Inr j \<Rightarrow> if is_directory D j then open_below D ((c, j) # pos) cs else Inl not_directory))"

text \<open>\<^verbatim>\<open>st_nlink\<close>: the names a file has anywhere on the disk; a directory has at least its own and its parent's.\<close>

definition names_of :: "Disk \<Rightarrow> ino \<Rightarrow> (ino \<times> string) list" where
  "names_of D i = concat (map (\<lambda>(d, n). case n of
       IDir es \<Rightarrow> map (\<lambda>(c, _). (d, c)) (filter (\<lambda>(_, j). j = i) es)
     | _ \<Rightarrow> []) (inodes D))"

definition link_count :: "Disk \<Rightarrow> ino \<Rightarrow> nat" where
  "link_count D i = (if is_directory D i then 2 else length (names_of D i))"

text \<open>The checks on the opened descriptor, and the read.\<close>

definition read_opened :: "Disk \<Rightarrow> ino \<Rightarrow> ino \<Rightarrow> string io_result" where
  "read_opened D root_ino opened = (case map_of (inodes D) opened of
       None \<Rightarrow> Inl no_entry
     | Some (ILink _ _) \<Rightarrow> Inl link_loop
     | Some n \<Rightarrow>
         if 1 < link_count D opened
         then Inl (io_err KPermissionDenied ''file is linked from outside the data root'')
         else if device D opened \<noteq> device D root_ino
         then Inl (io_err KPermissionDenied ''file lives outside the data root'')
         else (case n of
           IFile contents \<Rightarrow> Inr contents
         | _ \<Rightarrow> Inl (io_err KIsADirectory ''Is a directory'')))"

definition read_confined_links :: "Disk \<Rightarrow> path \<Rightarrow> path \<Rightarrow> string io_result" where
  "read_confined_links D root p =
     rbind (guard (prefix root p) escapes) (\<lambda>_.
     let relative = drop (length root) p in
     rbind (ok_or escapes (file_name relative)) (\<lambda>filename.
     rbind (follow MAX_LINKS D [] root) (\<lambda>root_pos.
     rbind (guard (is_directory D (here D root_pos)) not_directory) (\<lambda>_.
     rbind (open_below D root_pos (butlast relative)) (\<lambda>dir.
     rbind (entry D (here D dir) filename) (\<lambda>opened.
     read_opened D (here D root_pos) opened))))))"

section \<open>Resolution below a directory\<close>

lemma here_Nil [simp]: "here D [] = top D" and here_Cons [simp]: "here D ((c, i) # pos) = i"
  by (simp_all add: here_def)

lemma entry_directory: "entry D i c = Inr j \<Longrightarrow> is_directory D i"
  by (auto simp: entry_def is_directory_def split: option.splits inode.splits)

lemma enter_directory: "is_directory D j \<Longrightarrow> enter f D pos c cs j = Inr (f, (c, j) # pos, cs)"
  by (auto simp: is_directory_def enter_def split: option.splits inode.splits)

text \<open>A hop does not look at what follows the name it takes.\<close>

lemma enter_append: "enter f D pos c (cs @ b) j = rbind (enter f D pos c cs j) (\<lambda>(f', pos', cs'). Inr (f', pos', cs' @ b))"
  by (simp add: enter_def split: option.splits inode.splits nat.splits)

lemma hop_append: "hop f D pos c (cs @ b) = rbind (hop f D pos c cs) (\<lambda>(f', pos', cs'). Inr (f', pos', cs' @ b))"
  by (cases "entry D (here D pos) c") (simp_all add: hop_def enter_append)

lemma enter_unlinked:
  "enter 0 D pos c cs j = Inr (f', pos', cs') \<Longrightarrow> f' = 0 \<and> cs' = cs \<and> enter f D pos c cs j = Inr (f, pos', cs)"
  by (auto simp: enter_def split: option.splits inode.splits)

lemma hop_unlinked: "hop 0 D pos c cs = Inr (f', pos', cs') \<Longrightarrow> f' = 0 \<and> cs' = cs \<and> hop f D pos c cs = Inr (f, pos', cs)"
  by (cases "entry D (here D pos) c") (auto simp: hop_def dest: enter_unlinked [where f = f] split: if_splits)

lemma follow_unlinked: "follow 0 D pos b = Inr dest \<Longrightarrow> follow f D pos b = Inr dest"
proof (induction b arbitrary: pos)
  case (Cons c cs)
  then obtain f' pos' cs' where h: "hop 0 D pos c cs = Inr (f', pos', cs')" and rest: "follow f' D pos' cs' = Inr dest"
    by (auto split: sum.splits prod.splits)
  from hop_unlinked [OF h, of f] rest Cons.IH show ?case by simp
qed simp

lemma follow_append:
  "follow f D pos a = Inr mid \<Longrightarrow> follow 0 D mid b = Inr dest \<Longrightarrow> follow f D pos (a @ b) = Inr dest"
proof (induction f D pos a rule: follow.induct)
  case (1 f D pos)
  then show ?case by (auto intro: follow_unlinked)
next
  case (2 f D pos c cs)
  obtain f' pos' cs' where h: "hop f D pos c cs = Inr (f', pos', cs')" and rest: "follow f' D pos' cs' = Inr mid"
    using 2(2) by (auto split: sum.splits prod.splits)
  from 2(1) [OF h refl refl rest 2(3)] h show ?case by (simp add: hop_append)
qed

lemma hop_entry: "hop f D pos c [] = Inr x \<Longrightarrow> c \<noteq> ''.'' \<Longrightarrow> c \<noteq> ''..'' \<Longrightarrow> \<exists>j. entry D (here D pos) c = Inr j"
  by (auto simp: hop_def rbind_Inr_iff split: if_splits)

lemma follow_snoc:
  "follow f D pos (cs @ [c]) = Inr dest \<Longrightarrow>
     \<exists>mid. follow f D pos cs = Inr mid \<and> (c \<notin> {''.'', ''..''} \<longrightarrow> (\<exists>j. entry D (here D mid) c = Inr j))"
proof (induction f D pos cs rule: follow.induct)
  case (1 f D pos)
  then show ?case by (auto split: sum.splits dest: hop_entry)
next
  case (2 f D pos d cs)
  obtain f' pos' cs' where h: "hop f D pos d cs = Inr (f', pos', cs')" and rest: "follow f' D pos' (cs' @ [c]) = Inr dest"
    using 2(2) by (auto simp: hop_append rbind_Inr_iff split: sum.splits prod.splits)
  from 2(1) [OF h refl refl rest] h show ?case by simp
qed

lemma open_below_follow:
  assumes "open_below D pos cs = Inr dir" "is_directory D (here D pos)" "''..'' \<notin> set cs"
  shows "follow 0 D pos cs = Inr dir \<and> is_directory D (here D dir)
    \<and> map fst dir = rev (filter (\<lambda>c. c \<noteq> ''.'') cs) @ map fst pos"
  using assms
  by (induction D pos cs rule: open_below.induct)
    (auto simp: hop_def enter_directory split: if_splits sum.splits)

lemma entry_named: "entry D i c = Inr j \<Longrightarrow> (i, c) \<in> set (names_of D j)"
  by (force simp: entry_def names_of_def split: option.splits inode.splits dest!: map_of_SomeD)

lemma read_opened_iff:
  "read_opened D r i = Inr bytes \<longleftrightarrow>
     map_of (inodes D) i = Some (IFile bytes) \<and> length (names_of D i) \<le> 1 \<and> device D i = device D r"
  by (auto simp: read_opened_def link_count_def is_directory_def split: option.splits inode.splits)

lemma short_list: "x \<in> set xs \<Longrightarrow> length xs \<le> 1 \<Longrightarrow> xs = [x]"
  by (cases xs) auto

section \<open>What the guards promise\<close>


text \<open>The resolved prefix: the deepest part of the path that is there, canonical, and the rest as it is.\<close>

lemma existing_prefix_ok:
  "existing_prefix D existing missing = Inr resolved \<Longrightarrow> \<exists>E M C. existing = E @ M \<and> canonicalize D E = Inr C
     \<and> resolved = C @ M @ rev missing \<and> ''..'' \<notin> set M
     \<and> (M \<noteq> [] \<longrightarrow> (\<exists>e. symlink_metadata D (E @ [hd M]) = Inl e \<and> io_kind e = KNotFound))"
proof (induction D existing missing rule: existing_prefix.induct)
  case (1 D existing missing)
  show ?case
  proof (cases "symlink_metadata D existing")
    case (Inr i)
    with 1(2) obtain C where "canonicalize D existing = Inr C" "resolved = C @ rev missing" by (auto simp: rbind_Inr_iff)
    then show ?thesis by (intro exI [of _ existing] exI [of _ "[]"] exI [of _ C]) simp
  next
    case (Inl e)
    with 1(2) obtain name where k: "io_kind e = KNotFound" and n: "file_name existing = Some name"
      and rest: "existing_prefix D (butlast existing) (missing @ [name]) = Inr resolved"
      by (simp del: existing_prefix.simps add: existing_prefix.simps [of D existing]) (auto split: if_splits option.splits)
    from n have e: "existing = butlast existing @ [name]" "name \<noteq> ''..''"
      by (auto simp: file_name_def split: if_splits)
    obtain E M C where ih: "butlast existing = E @ M" "canonicalize D E = Inr C" "resolved = C @ M @ rev (missing @ [name])"
      "''..'' \<notin> set M" "M \<noteq> [] \<longrightarrow> (\<exists>e. symlink_metadata D (E @ [hd M]) = Inl e \<and> io_kind e = KNotFound)"
      using 1(1) [OF Inl _ n rest] k by auto
    from ih(5) Inl k e(1) ih(1) have "\<exists>e. symlink_metadata D (E @ [hd (M @ [name])]) = Inl e \<and> io_kind e = KNotFound"
      by (cases M) (metis append_Nil append_Nil2 list.sel(1), simp)
    with ih e show ?thesis by (intro exI [of _ E] exI [of _ "M @ [name]"] exI [of _ C]) auto
  qed
qed

lemma metadata_of_resolved: "canonicalize D p = Inr C \<Longrightarrow> \<exists>i. symlink_metadata D p = Inr i"
proof (cases "p = [] \<or> last p \<in> {''.'', ''..''}")
  case False
  assume "canonicalize D p = Inr C"
  with False obtain dest where "follow MAX_LINKS D [] (butlast p @ [last p]) = Inr dest"
    by (auto simp: canonicalize_def rbind_Inr_iff)
  from follow_snoc [OF this] False show ?thesis by (auto simp: symlink_metadata_def)
qed (auto simp: symlink_metadata_def canonicalize_def rbind_Inr_iff)

text \<open>C12. A path that passes the guard of every builder stays inside the real data root: the part of it that
  exists resolves, links followed, to a place from which the missing rest stays below the canonical
  root; and a path that exists passes exactly when it is written below the root and everything it
  links to lies below the canonical root.\<close>

theorem ensure_within_confines:
  assumes "canonicalize D root = Inr R"
  shows "(ensure_within_links D root p = Inr () \<longrightarrow> (\<exists>E M C. p = E @ M \<and> canonicalize D E = Inr C \<and> prefix R (C @ M)
      \<and> ''..'' \<notin> set M \<and> (M \<noteq> [] \<longrightarrow> (\<exists>e. symlink_metadata D (E @ [hd M]) = Inl e \<and> io_kind e = KNotFound))))
    \<and> (canonicalize D p = Inr C \<longrightarrow>
        (ensure_within_links D root p = Inr () \<longleftrightarrow> 2 \<le> length p \<and> prefix root p \<and> prefix R C))"
proof (intro conjI impI)
  assume "ensure_within_links D root p = Inr ()"
  with assms obtain resolved where "existing_prefix D p [] = Inr resolved" "prefix R resolved"
    by (auto simp: ensure_within_links_def resolve_existing_prefix_def rbind_Inr_iff)
  with existing_prefix_ok [OF this(1)] show "\<exists>E M C. p = E @ M \<and> canonicalize D E = Inr C \<and> prefix R (C @ M)
      \<and> ''..'' \<notin> set M \<and> (M \<noteq> [] \<longrightarrow> (\<exists>e. symlink_metadata D (E @ [hd M]) = Inl e \<and> io_kind e = KNotFound))"
    by auto
next
  assume c: "canonicalize D p = Inr C"
  then have "resolve_existing_prefix D p = Inr C"
    using metadata_of_resolved [OF c] by (auto simp: resolve_existing_prefix_def)
  with assms show "ensure_within_links D root p = Inr () \<longleftrightarrow> 2 \<le> length p \<and> prefix root p \<and> prefix R C"
    by (auto simp: ensure_within_links_def rbind_Inr_iff)
qed

section \<open>A disk without links\<close>

text \<open>The node a path leads to when there is nothing to follow.\<close>

fun descend :: "Disk \<Rightarrow> ino \<Rightarrow> path \<Rightarrow> ino io_result" where
  "descend D i [] = Inr i"
| "descend D i (c # cs) = rbind (entry D i c) (\<lambda>j. descend D j cs)"

definition node_of :: "inode \<Rightarrow> node option" where
  "node_of n = (case n of IDir _ \<Rightarrow> Some Dir | IFile b \<Rightarrow> Some (File b) | ILink _ _ \<Rightarrow> None)"

definition disk_lookup :: "Disk \<Rightarrow> path \<Rightarrow> node option" where
  "disk_lookup D p = Option.bind (ok_opt (descend D (top D) p)) (\<lambda>i. Option.bind (map_of (inodes D) i) node_of)"

lemma node_of_iff: "node_of n = Some Dir \<longleftrightarrow> (\<exists>es. n = IDir es)" "node_of n = Some (File b) \<longleftrightarrow> n = IFile b"
  by (auto simp: node_of_def split: inode.splits)

lemma is_directory_iff: "is_directory D i \<longleftrightarrow> (\<exists>es. map_of (inodes D) i = Some (IDir es))"
  by (auto simp: is_directory_def split: option.splits inode.splits)

text \<open>A disk of plain directories and files, each file with one name, all on one device.\<close>

definition plain_disk :: "Disk \<Rightarrow> bool" where
  "plain_disk D \<longleftrightarrow> is_directory D (top D)
     \<and> (\<forall>i a t. map_of (inodes D) i \<noteq> Some (ILink a t))
     \<and> (\<forall>i b. map_of (inodes D) i = Some (IFile b) \<longrightarrow> length (names_of D i) \<le> 1)
     \<and> (\<forall>i es c j. map_of (inodes D) i = Some (IDir es) \<longrightarrow> map_of es c = Some j \<longrightarrow> map_of (inodes D) j \<noteq> None)
     \<and> (\<forall>i j. device D i = device D j)"

lemma plain_entry: "plain_disk D \<Longrightarrow> entry D i c = Inr j \<Longrightarrow> map_of (inodes D) j \<noteq> None"
  by (auto simp: plain_disk_def entry_def split: option.splits inode.splits)

lemma plain_inode:
  assumes "plain_disk D"
  shows "map_of (inodes D) i \<noteq> Some (ILink a t)" "map_of (inodes D) i = Some (IFile b) \<Longrightarrow> length (names_of D i) \<le> 1"
  using assms by (auto simp: plain_disk_def)

lemma entry_of_file: "map_of (inodes D) i \<noteq> None \<Longrightarrow> \<not> is_directory D i \<Longrightarrow> entry D i c = Inl not_directory"
  by (auto simp: entry_def is_directory_def split: inode.splits)

lemma descend_append: "descend D i (a @ b) = rbind (descend D i a) (\<lambda>j. descend D j b)"
  by (induction a arbitrary: i) (simp_all add: rbind_assoc)

lemma plain_enter: "plain_disk D \<Longrightarrow> enter f D pos c cs j = Inr (f, (c, j) # pos, cs)"
  by (auto simp: enter_def plain_inode(1) split: option.splits inode.splits)

lemma plain_follow:
  assumes "plain_disk D"
  shows "descend D (here D pos) cs = Inr i \<Longrightarrow> set cs \<inter> {''.'', ''..''} = {} \<Longrightarrow>
    \<exists>dest. follow f D pos cs = Inr dest \<and> here D dest = i"
proof (induction cs arbitrary: pos)
  case (Cons c cs)
  then obtain j where j: "entry D (here D pos) c = Inr j" "descend D j cs = Inr i" by (auto simp: rbind_Inr_iff)
  then have "hop f D pos c cs = Inr (f, (c, j) # pos, cs)"
    using Cons.prems(2) entry_directory [OF j(1)] by (auto simp: hop_def plain_enter [OF assms])
  with Cons.IH [of "(c, j) # pos"] j Cons.prems(2) show ?case by simp
qed simp

lemma plain_open:
  assumes "plain_disk D" "set cs \<inter> {''.'', ''..''} = {}"
  shows "rbind (open_below D pos cs) (\<lambda>dir. entry D (here D dir) c) = descend D (here D pos) (cs @ [c])"
  using assms(2)
proof (induction cs arbitrary: pos)
  case Nil
  show ?case by (cases "entry D (here D pos) c") simp_all
next
  case (Cons d cs)
  show ?case
  proof (cases "entry D (here D pos) d")
    case (Inr j)
    have "descend D j (cs @ [c]) = Inl not_directory" if "\<not> is_directory D j"
      using entry_of_file [OF plain_entry [OF assms(1) Inr] that] by (cases cs) simp_all
    with Inr Cons.IH [of "(d, j) # pos"] Cons.prems show ?thesis by auto
  qed (use Cons.prems in auto)
qed

lemma plain_descend: "plain_disk D \<Longrightarrow> descend D (top D) p = Inr i \<Longrightarrow> map_of (inodes D) i \<noteq> None"
proof (induction p arbitrary: i rule: rev_induct)
  case Nil
  then show ?case by (auto simp: plain_disk_def is_directory_iff)
next
  case (snoc c p)
  then show ?case by (auto simp: descend_append rbind_Inr_iff dest: plain_entry)
qed

text \<open>Why a descent fails: a file on the way, or a name that is not there.\<close>

definition file_on_way :: "Disk \<Rightarrow> ino \<Rightarrow> path \<Rightarrow> bool" where
  "file_on_way D i p \<longleftrightarrow> (\<exists>q j b. strict_prefix q p \<and> descend D i q = Inr j \<and> map_of (inodes D) j = Some (IFile b))"

lemma file_on_way_Cons:
  "file_on_way D i (c # cs) \<longleftrightarrow> (\<exists>b. map_of (inodes D) i = Some (IFile b))
     \<or> (\<exists>j. entry D i c = Inr j \<and> file_on_way D j cs)"
proof -
  have sp: "strict_prefix q (c # cs) \<longleftrightarrow> q = [] \<or> (\<exists>q'. q = c # q' \<and> strict_prefix q' cs)" for q
    by (cases q) auto
  show ?thesis unfolding file_on_way_def sp by (auto simp: rbind_Inr_iff)
qed

lemma descend_error:
  assumes "plain_disk D"
  shows "descend D i p = Inl e \<Longrightarrow> map_of (inodes D) i \<noteq> None \<Longrightarrow> e = (if file_on_way D i p then not_directory else no_entry)"
proof (induction p arbitrary: i)
  case (Cons c cs)
  show ?case
  proof (cases "entry D i c")
    case (Inl e')
    with Cons.prems plain_inode(1) [OF assms] show ?thesis
      by (auto simp: file_on_way_Cons entry_def split: option.splits inode.splits)
  next
    case (Inr j)
    moreover have "\<nexists>b. map_of (inodes D) i = Some (IFile b)"
      using entry_directory [OF Inr] by (auto simp: is_directory_def)
    ultimately show ?thesis using Cons.prems Cons.IH [of j] plain_entry [OF assms Inr] by (simp add: file_on_way_Cons)
  qed
qed simp

lemma file_on_way_iff:
  assumes "\<And>q. lookup fs q = disk_lookup D q"
  shows "file_on_way D (top D) p \<longleftrightarrow> list_ex (is_file fs) (butlast (prefixes p))"
proof -
  have "set (butlast (prefixes p)) = {q. strict_prefix q p}"
  proof -
    have "butlast (prefixes p) @ [p] = prefixes p" by (metis append_butlast_last_id last_prefixes prefixes_not_Nil)
    then have "distinct (butlast (prefixes p) @ [p])" "set (butlast (prefixes p) @ [p]) = {q. prefix q p}"
      using distinct_prefixes [of p] by (auto simp: in_set_prefixes)
    then show ?thesis by (auto simp: strict_prefix_def)
  qed
  moreover have "is_file fs q \<longleftrightarrow> (\<exists>j b. descend D (top D) q = Inr j \<and> map_of (inodes D) j = Some (IFile b))" for q
    by (auto simp: is_file_iff assms disk_lookup_def node_of_iff Option.bind_eq_Some_conv)
  ultimately show ?thesis by (auto simp: file_on_way_def list_ex_iff)
qed


section \<open>Examples\<close>

text \<open>A data root with one document, a symbolic link to \<^verbatim>\<open>/etc\<close> and a second name of \<^verbatim>\<open>/etc/passwd\<close>.\<close>

definition linked_disk :: Disk where
  "linked_disk = \<lparr>inodes =
     [(0, IDir [(''data'', 1), (''etc'', 2)]), (1, IDir [(''projects'', 3), (''evil'', 5), (''twin'', 4)]),
      (2, IDir [(''passwd'', 4), (''hosts'', 7)]), (3, IDir [(''p.json'', 6)]), (4, IFile ''secret''), (5, ILink True [''etc'']),
      (6, IFile ''doc''), (7, IFile ''hosts'')], device = (\<lambda>_. 0), top = 0\<rparr>"

lemma links_refused:
  "\<not> is_ok (read_confined_links linked_disk [''data''] [''data'', ''twin''])"
  "\<not> is_ok (read_confined_links linked_disk [''data''] [''data'', ''evil'', ''hosts''])"
  "\<not> is_ok (read_confined_links linked_disk [''data''] [''data'', ''evil''])"
  by code_simp+

text \<open>The reader leaves \<^verbatim>\<open>..\<close> to its callers, whose components are validated: given one, it walks up and out.\<close>

lemma reader_walks_up:
  "read_confined_links linked_disk [''data''] [''data'', ''..'', ''etc'', ''hosts''] = Inr ''hosts''"
  by code_simp


theorem ensure_within_confines_witness:
  "ensure_within_links linked_disk [''data''] [''data'', ''evil'', ''hosts''] \<noteq> Inr ()
     \<and> ensure_within_links linked_disk [''data''] [''data'', ''projects'', ''p.json''] = Inr ()"
proof -
  have R: "canonicalize linked_disk [''data''] = Inr [''data'']" by code_simp
  have "canonicalize linked_disk [''data'', ''evil'', ''hosts''] = Inr [''etc'', ''hosts'']"
    "canonicalize linked_disk [''data'', ''projects'', ''p.json''] = Inr [''data'', ''projects'', ''p.json'']" by code_simp+
  with ensure_within_confines [OF R, of "[''data'', ''evil'', ''hosts'']" "[''etc'', ''hosts'']"]
    ensure_within_confines [OF R, of "[''data'', ''projects'', ''p.json'']" "[''data'', ''projects'', ''p.json'']"]
  show ?thesis by simp
qed

definition plain_sample :: Disk where
  "plain_sample = \<lparr>inodes = [(0, IDir [(''data'', 1)]), (1, IDir [(''p.json'', 2)]), (2, IFile ''doc'')], device = (\<lambda>_. 0), top = 0\<rparr>"

lemma plain_sample_lookup:
  "lookup [([''data''], Dir), ([''data'', ''p.json''], File ''doc'')] q = disk_lookup plain_sample q"
proof -
  consider "q = []" | c where "q = [c]" | c d where "q = [c, d]" | c d e cs where "q = c # d # e # cs"
    by (cases q rule: remdups_adj.cases; cases "tl (tl q)") auto
  then show ?thesis
    by cases (auto simp: lookup_def disk_lookup_def plain_sample_def entry_def node_of_def)
qed


end
