(* ===== verification/Wire.thy ===== *)
theory Wire
  imports Middleware_Laws
begin

text \<open>
  Two values that go over the wire or into the log. The entity tag of a document (\<^verbatim>\<open>compute_etag\<close> of
  \<^verbatim>\<open>src/storage/mod.rs\<close>, the \<open>compute_etag\<close> of a repository in the other theories): the first half of the
  SHA-256 digest of the stored bytes in hexadecimal, the digest being a parameter. And the span of a
  request (\<^verbatim>\<open>request_span\<close> of \<^verbatim>\<open>src/api/request_id.rs\<close>, \<^verbatim>\<open>record_outcome\<close> of \<^verbatim>\<open>src/api/metrics.rs\<close>), the one line
  the log has of it.
\<close>

section \<open>Entity tags\<close>

definition content_etag :: "(string \<Rightarrow> string) \<Rightarrow> string \<Rightarrow> string" where
  "content_etag sha bytes = concat (map hex_byte (take 16 (sha bytes)))"

lemma hex_digit_inj: "i < 16 \<Longrightarrow> j < 16 \<Longrightarrow> ''0123456789abcdef'' ! i = ''0123456789abcdef'' ! j \<Longrightarrow> i = j"
  by (rule nth_eq_iff_index_eq [THEN iffD1, of "''0123456789abcdef''"]) simp_all

lemma byte_split: "byte c = 16 * (byte c div 16) + byte c mod 16" "byte c div 16 < 16"
proof -
  show "byte c div 16 < 16" using nat_of_char_less_256 [of c] by (simp add: less_mult_imp_div_less)
qed simp

lemma hex_byte_inj: "hex_byte a = hex_byte b \<Longrightarrow> a = b"
proof -
  assume "hex_byte a = hex_byte b"
  then have "byte a div 16 = byte b div 16" "byte a mod 16 = byte b mod 16"
    using byte_split(2) by (auto simp: hex_byte_def intro: hex_digit_inj)
  then have "byte a = byte b" using byte_split(1) [of a] byte_split(1) [of b] by simp
  then show "a = b" by simp
qed

lemma hex_text_inj: "concat (map hex_byte xs) = concat (map hex_byte ys) \<longleftrightarrow> xs = ys"
proof (induction xs arbitrary: ys)
  case Nil
  then show ?case by (cases ys) (simp_all add: hex_byte_def)
next
  case (Cons x xs)
  show ?case
  proof (cases ys)
    case (Cons y ys')
    have "hex_byte x @ concat (map hex_byte xs) = hex_byte y @ concat (map hex_byte ys') \<longleftrightarrow>
        hex_byte x = hex_byte y \<and> concat (map hex_byte xs) = concat (map hex_byte ys')"
      by (simp add: hex_byte_def)
    with Cons Cons.IH hex_byte_inj show ?thesis by auto
  qed (simp add: hex_byte_def)
qed

lemma hex_digits: "c \<in> set (concat (map hex_byte xs)) \<Longrightarrow> c \<in> set ''0123456789abcdef''"
proof -
  have two: "set [a, b] \<subseteq> S \<longleftrightarrow> a \<in> S \<and> b \<in> S" for a b :: char and S by simp
  have digit: "''0123456789abcdef'' ! i \<in> set ''0123456789abcdef''" if "i < 16" for i
    using that by (intro nth_mem) simp
  have "set (hex_byte x) \<subseteq> set ''0123456789abcdef''" for x
    unfolding hex_byte_def two
    by (intro conjI digit byte_split(2)) simp
  then show "c \<in> set (concat (map hex_byte xs)) \<Longrightarrow> c \<in> set ''0123456789abcdef''"
    unfolding set_concat set_map by blast
qed

lemma digit_visible: "c \<in> set ''0123456789abcdef'' \<Longrightarrow> 32 \<le> byte c \<and> byte c \<noteq> 127 \<and> c \<noteq> CHR 0x22"
  by auto

lemma strip_quotes:
  assumes "CHR 0x22 \<notin> set s"
  shows "if_match_header (Some (quoted s)) = s"
proof -
  have drop: "dropWhile (\<lambda>c. c = CHR 0x22) t = t" if "CHR 0x22 \<notin> set t" for t :: string
    using that by (cases t) auto
  have "dropWhile (\<lambda>c. c = CHR 0x22) (quoted s) = dropWhile (\<lambda>c. c = CHR 0x22) (s @ [CHR 0x22])"
    by (simp add: quoted_def)
  also have "rev (dropWhile (\<lambda>c. c = CHR 0x22) (rev \<dots>)) = s"
    using assms drop [of "rev s"] by (cases s) auto
  finally show ?thesis by (simp add: if_match_header_def)
qed

text \<open>A served entity tag comes back: the tag is thirty-two hexadecimal digits, two documents share it
  exactly when the first sixteen bytes of their digests agree, the header that carries it is always
  there, and a client that sends the header's value back as \<^verbatim>\<open>If-Match\<close> asks for exactly that tag.\<close>

theorem entity_tag_returns:
  assumes "\<And>b. length (sha b) = 32"
  shows "length (content_etag sha a) = 32
    \<and> (content_etag sha a = content_etag sha b \<longleftrightarrow> take 16 (sha a) = take 16 (sha b))
    \<and> (\<exists>v. etag_header (content_etag sha a) = [(''etag'', v)]
         \<and> expected_etag (if_match_header (Some v)) = Some (content_etag sha a))"
proof -
  let ?t = "content_etag sha a"
  have len: "length ?t = 32"
  proof -
    have "length (concat (map hex_byte xs)) = 2 * length xs" for xs by (induction xs) (simp_all add: hex_byte_def)
    then show ?thesis using assms [of a] by (simp add: content_etag_def)
  qed
  have digit: "c \<in> set ''0123456789abcdef''" if "c \<in> set ?t" for c using that unfolding content_etag_def by (rule hex_digits)
  have "list_all (\<lambda>c. byte c = 9 \<or> 32 \<le> byte c \<and> byte c \<noteq> 127) (quoted ?t)"
    using digit_visible [OF digit] by (auto simp: quoted_def list_all_iff)
  then have "etag_header ?t = [(''etag'', quoted ?t)]" by (simp add: etag_header_def header_value_def)
  moreover have "CHR 0x22 \<notin> set ?t" using digit_visible [OF digit] by blast
  moreover have "?t \<noteq> []" using len by auto
  ultimately show ?thesis using len by (simp add: strip_quotes expected_etag_def) (simp add: content_etag_def hex_text_inj)
qed

theorem entity_tag_returns_witness:
  "\<exists>v. etag_header (content_etag (\<lambda>b. replicate 32 (CHR ''x'')) ''doc'') = [(''etag'', v)]"
  using entity_tag_returns [of "\<lambda>b. replicate 32 (CHR ''x'')" "''doc''" "''doc''"] by auto

section \<open>Spans\<close>

record Span =
  sp_method :: string
  sp_path :: string
  sp_query :: "string option"
  sp_request_id :: string
  sp_user :: "string option"
  sp_status :: "nat option"
  sp_duration_ms :: "64 word option"

definition request_span :: "string \<Rightarrow> string \<Rightarrow> string option \<Rightarrow> string option \<Rightarrow> Span" where
  "request_span method path query request_id =
     \<lparr>sp_method = method, sp_path = path, sp_query = map_option redact_query query,
      sp_request_id = (case request_id of Some i \<Rightarrow> i | None \<Rightarrow> ''-''), sp_user = None, sp_status = None,
      sp_duration_ms = None\<rparr>"

definition record_outcome :: "Response \<Rightarrow> string option \<Rightarrow> nat \<Rightarrow> Span \<Rightarrow> Span" where
  "record_outcome response actor latency_ms sp =
     sp\<lparr>sp_status := Some (rs_status response), sp_duration_ms := Some (word_of_nat latency_ms),
       sp_user := (case actor of Some subject \<Rightarrow> Some subject | None \<Rightarrow> sp_user sp)\<rparr>"

text \<open>The log line of a request does not depend on the values of its credentials: two requests that differ
  only there leave the same line.\<close>

theorem span_hides_credentials:
  assumes "list_all pair_ok kvs" "list_all pair_ok kvs'" "kvs \<noteq> []" "map hide kvs' = map hide kvs"
  shows "record_outcome r actor ms (request_span m p (Some (join_with ''&'' (map pair_text kvs'))) i) =
    record_outcome r actor ms (request_span m p (Some (join_with ''&'' (map pair_text kvs))) i)"
  using redact_query_exact [OF assms(1,3)] assms by (auto simp: request_span_def)

end
