(* ===== verification/Spec2Isabelle.thy ===== *)
theory Spec2Isabelle
  imports Documents Repository_Examples Calendar Names Composition Reports Defect Import
    Cache Service_Examples Run_Laws Case_Laws Report_Laws Codec Auth_Examples Access_Examples
    Publish Writers Settings_Laws Middleware_Laws Probes Cli_Laws Dispatch_Examples Links Wire
begin

text \<open>
  A verification development for the TucanoTest API, a test-management server in Rust that keeps its
  documents as JSON files in a directory tree. The sources are under \<^verbatim>\<open>src/src\<close>; paths below are relative to
  it. This theory imports the whole development.

  \<^bold>\<open>The program.\<close> A request passes the middleware (\<^verbatim>\<open>api/request_id.rs\<close>, \<^verbatim>\<open>metrics.rs\<close>, \<^verbatim>\<open>guardrails.rs\<close>),
  reaches a handler (\<^verbatim>\<open>api/*.rs\<close>) that resolves the caller and asks a guard (\<^verbatim>\<open>api/access.rs\<close>, \<^verbatim>\<open>auth/*\<close>), and
  calls the service (\<^verbatim>\<open>domain/service/*\<close>). The service validates bodies against the models (\<^verbatim>\<open>models.rs\<close>,
  \<^verbatim>\<open>domain/validation.rs\<close>), applies the rules of composition, execution and reporting (\<^verbatim>\<open>domain/*.rs\<close>), and
  reads and writes documents through the repository (\<^verbatim>\<open>storage/*\<close>), which holds one writer lock for the data
  directory and shares it with the account store (\<^verbatim>\<open>auth/store.rs\<close>). The process (\<^verbatim>\<open>main.rs\<close>) resolves its
  settings (\<^verbatim>\<open>config/*\<close>, \<^verbatim>\<open>auth/config.rs\<close>) once, creates the first account and serves.

  \<^bold>\<open>State.\<close> A file system is an association list from paths to nodes, a path being the list of its
  components (\<open>FileSystem\<close>); a storage operation \<open>'a op\<close> maps it to a result and a file system. The service
  adds the cache of derived answers: an operation \<open>'a sop\<close> works on the record \<open>Svc\<close> of both. Errors are the
  left values of a sum: \<open>io_error\<close> below the service, \<open>DomainError\<close> above it, and types of their own for the
  settings, the secrets and the command line. Rust strings are UTF-8 byte strings. Integers are words where
  the source can wrap or saturate (versions, lifetimes, counters, generations), natural numbers where the
  code checks the range first.

  \<^bold>\<open>Theories and sources.\<close>
  \<^item> \<open>Prelude\<close>: results, strings, numerals and the locale \<open>machine\<close> of state machines with an invariant.
    \<open>Json\<close>, \<open>Models\<close>: \<^verbatim>\<open>serde_json::Value\<close> and the structs of \<^verbatim>\<open>models.rs\<close> with their derived encoders and
    decoders; every model reads back what it writes.
  \<^item> \<open>Errors\<close> (\<^verbatim>\<open>domain/error.rs\<close>), \<open>Layout\<close> (\<^verbatim>\<open>storage/layout.rs\<close>), \<open>Validation\<close> (\<^verbatim>\<open>domain/validation.rs\<close>,
    \<^verbatim>\<open>resources.rs\<close>), \<open>Documents\<close> (the pure part of \<^verbatim>\<open>domain/service/mod.rs\<close>): an accepted body is exactly one
    the model reads; merging, normalising and versioning keep a document in its model.
  \<^item> \<open>FileSystem\<close>, \<open>Repository\<close> (\<^verbatim>\<open>storage/fs/*\<close>): every operation of the \<^verbatim>\<open>Repository\<close> trait.
    \<open>Repository_Laws\<close> states the contract of a document store as the locale \<open>document_store\<close>, interprets it
    on the repository and determines when two addresses share a file; \<open>Repository_Trees\<close> shows that every
    operation keeps the tree well formed and that placement moves whole folders; \<open>Repository_Locate\<close> shows
    that resolution finds exactly the holders and that an upload is all or nothing.
  \<^item> \<open>Writers\<close> (\<^verbatim>\<open>acquire_lock\<close> of both stores): the polling loop ends, and any interleaving of writers amounts
    to some sequential run, which is what lets every other theory run an operation as one step.
  \<^item> \<open>Publish\<close> (\<^verbatim>\<open>write_json\<close> and \<^verbatim>\<open>write_json_atomically\<close>): the protocol of temporary file, sync and rename on
    a disk that keeps names and contents apart; whatever fails and wherever power is lost, a document is the
    old one or the new one, and a successful run leaves the files the one-step write leaves.
  \<^item> \<open>Calendar\<close>, \<open>Names\<close> (\<^verbatim>\<open>domain/mod.rs\<close>), \<open>Composition\<close> (\<^verbatim>\<open>domain/composition.rs\<close>), \<open>Reports\<close>
    (\<^verbatim>\<open>domain/progress.rs\<close>, \<^verbatim>\<open>reports.rs\<close>), \<open>Defect\<close>, \<open>Import\<close>: date arithmetic against a count of days, the
    results of a run as a partial map, progress as a count of held cases, tracker hosts, and the nesting
    scan against the depth of a document. The locales \<open>membership\<close> and \<open>detachable\<close> state what adding and
    removing a member means and are interpreted for cases, suites and configurations.
  \<^item> \<open>Cache\<close> (\<^verbatim>\<open>domain/service/cache.rs\<close>), \<open>Service\<close>, \<open>Run_Service\<close>, \<open>Case_Service\<close>, \<open>Report_Service\<close> (the rest of
    \<^verbatim>\<open>domain/service\<close>, \<^verbatim>\<open>domain/duplicate.rs\<close>) with \<open>Service_Laws\<close>, \<open>Run_Laws\<close>, \<open>Case_Laws\<close>, \<open>Report_Laws\<close>: a
    write reads back or leaves every file alone, an entity tag prevents a lost update, history keeps the
    replaced version, reports stay in the caller's reach and cached answers are fresh.
  \<^item> \<open>Accounts\<close>, \<open>Token\<close>, \<open>Session\<close>, \<open>Provision\<close> (\<^verbatim>\<open>auth/*\<close>) with \<open>Account_Laws\<close>, \<open>Session_Laws\<close> and
    \<open>Provision_Laws\<close>: distinct accounts, refresh tokens spent at most once (the locale \<open>token_ledger\<close>),
    sign-in, rotation and replay, the first account and idempotent seeding.
  \<^item> \<open>Access\<close> (\<^verbatim>\<open>api/auth.rs\<close>, \<^verbatim>\<open>api/access.rs\<close>), \<open>Responses\<close> (\<^verbatim>\<open>api/error.rs\<close>, \<^verbatim>\<open>api/crud.rs\<close>), \<open>Handlers\<close>,
    \<open>Case_Handlers\<close>, \<open>Run_Handlers\<close> (the handlers of \<^verbatim>\<open>api\<close>) with \<open>Access_Laws\<close> and \<open>Reach_Laws\<close>: every route
    that writes is mediated by the role the policy asks for in every project that governs it (the locale
    \<open>mediated\<close>), reads and listings show what is in reach; where the guards fall short, that is proved too.
  \<^item> \<open>Middleware\<close> (\<^verbatim>\<open>api/redact.rs\<close>, \<^verbatim>\<open>request_id.rs\<close>, \<^verbatim>\<open>metrics.rs\<close>, \<^verbatim>\<open>guardrails.rs\<close>, the layers of \<^verbatim>\<open>api/mod.rs\<close>,
    \<^verbatim>\<open>domain/service/audit.rs\<close>) with \<open>Middleware_Laws\<close>: redaction, one identifier and one count per answer,
    the bound on requests in flight. \<open>Probes\<close> (\<^verbatim>\<open>storage/fs/probe.rs\<close>, the probe endpoints).
  \<^item> \<open>Routes\<close> (the router of \<^verbatim>\<open>api/mod.rs\<close>, the tables of the modules of \<^verbatim>\<open>api\<close>, and the operations of
    \<^verbatim>\<open>openapi.json\<close>): the routing table as data, each route with its method, its template and the handler it
    runs on the values extracted from the request. \<open>Route_Laws\<close> shows that at most one template fits a path
    and that the declared, the registered and the documented routes agree. \<open>Dispatch_Laws\<close> runs over the
    whole table with the locale \<open>endpoint_law\<close>, a law of every handler of a group of routes: who must be
    signed in, which methods write nothing, which role every write asks for. \<open>Dispatch_Examples\<close> sends
    concrete requests.
  \<^item> \<open>Links\<close> (the guards of \<^verbatim>\<open>storage/layout.rs\<close>): the same tree on a disk of inodes with symbolic and hard
    links; what the guards let through lies below the data root, a confined read serves only a file with a
    single name there, and on a disk without links it is the read of \<open>Repository\<close>.
  \<^item> \<open>Wire\<close> (\<^verbatim>\<open>compute_etag\<close> of \<^verbatim>\<open>storage/mod.rs\<close> with the headers that carry it, the request span of
    \<^verbatim>\<open>api/request_id.rs\<close>): a tag a response carries comes back as the tag the storage compares, and the
    recorded path shows no credential.
  \<^item> \<open>Settings\<close> (\<^verbatim>\<open>config/*\<close>, \<^verbatim>\<open>auth/config.rs\<close>) and \<open>Cli\<close> (\<^verbatim>\<open>main.rs\<close>) with \<open>Settings_Laws\<close> and \<open>Cli_Laws\<close>:
    settings that resolve are usable, refusals of the file do not depend on its values, sealed values
    survive key rotation, a server that comes up can be signed in to, teardown touches what it was told to.
  \<^item> \<open>Codec\<close> gives a JSON writer and reader with the round trip the theorems assume; \<open>Repository_Examples\<close>,
    \<open>Service_Examples\<close>, \<open>Auth_Examples\<close> and \<open>Access_Examples\<close> apply the theorems to concrete stores.

  \<^bold>\<open>Parameters.\<close> Code outside the repository is an argument with named hypotheses: the JSON text codec
  (\<open>codec_ok\<close>: what is written reads back), the matcher of paths (\<open>matcher_ok\<close>: a template that fits), the digest behind entity tags, HMAC, base64 and SHA-256
  (\<open>Crypto\<close>), Argon2, AES-GCM (\<open>aead_ok\<close>), the XML reader of imports, rounding of quotients (monotone and
  exact on 0, 1 and 100), the clock and every random draw. \<open>Codec\<close> and the example theories show the
  hypotheses can hold.

  \<^bold>\<open>Loops and bounds.\<close> Every definition terminates by structure or by a measure, except the lock loop, a
  partial function proved to return within one attempt per poll interval of its timeout and two more.
  Only the sample reader of \<open>Codec\<close> counts down a depth, the length of its text, proved enough there.

  \<^bold>\<open>Not modelled.\<close> File modes, and the random suffix of a name, which is a drawn argument; crashes between
  the writes of one operation (an upload and its entry, the folders of a copy); what axum does before a
  handler runs: percent-decoding, the multipart reader and the body extractors, whose outcomes are values of
  the incoming request (\<open>Incoming\<close>); the sinks the spans and log lines go to; sockets and signals. Readers take no lock and see one state of the tree. The audit
  line is a function of an operation and is not threaded through the service.

  \<^bold>\<open>What could follow.\<close> A step-wise reader against concurrent writers, and operations of several writes
  under crashes.
\<close>

end
